(* ===== verification/Prelude.thy ===== *)
theory Prelude
  imports Complex_Main
begin

text \<open>
  Prelude of the development: exceptions and results, guard chains, Python values,
  Python strings and dictionaries, with the generic lemmas and the fact collections the
  component theories share.
\<close>

section \<open>Fact collections\<close>

named_theorems guards \<open>unfolding of the guard combinators: a chain succeeds iff every guard does\<close>
named_theorems pystr \<open>facts about Python strings (strip, casefold, truth)\<close>
named_theorems pydict \<open>facts about reading and writing dictionaries\<close>

section \<open>Exceptions, results and guard chains\<close>

text \<open>
  The exception classes the modelled code raises, and an exception as its class with its
  machine-readable \<open>code\<close> attribute. Classes of the standard library have no code; there
  the string is a short tag that tells the raising places of one function apart. The
  rendered message texts are not modelled.
\<close>

datatype exc_class =
    ValueError | TypeError | KeyError | RuntimeError | OverflowError | FileNotFoundError
  | OSError | FileTooLargeError
  | BundleSignatureError | ExecutionScopeError | ApprovalVerificationError | ReplayGuardError
  | ReceiptError | DelegationVerificationError | FanOutError | MessageVerificationError
  | ScopedStoreError | CircuitBreakerError | CircuitOpenError | RuntimeLimitError
  | KillSwitchActiveError | RateLimitExceededError | ConcurrencyLimitError
  | OutcomeGateError | RuntimeBindingError | ContractBindingError | ArgumentValidationError
  | GovernanceDeniedError | CorrelationValidationError | ToolException
  | MCPToolsCallValidationError | ToolContractExportError | SystemExit

datatype exn = Exc (exc_of: exc_class) (code_of: string)

type_synonym 'a result = "exn + 'a"

text \<open>
  A validator either passes (\<open>None\<close>) or raises. The code's long verification routines
  are sequences of such validators; \<open>first_error\<close> runs them in order and stops at the
  first one that raises, and \<open>guarded\<close> returns a value after all of them have passed.
\<close>

type_synonym check = "exn option"

fun first_error :: "check list \<Rightarrow> check" where
  "first_error [] = None"
| "first_error (None # cs) = first_error cs"
| "first_error (Some e # cs) = Some e"

definition require :: "bool \<Rightarrow> exn \<Rightarrow> check" where
  "require ok e = (if ok then None else Some e)"

definition guarded :: "check list \<Rightarrow> 'a \<Rightarrow> 'a result" where
  "guarded cs x = (case first_error cs of None \<Rightarrow> Inr x | Some e \<Rightarrow> Inl e)"

definition after :: "check \<Rightarrow> 'a result \<Rightarrow> 'a result" where
  "after c r = (case c of None \<Rightarrow> r | Some e \<Rightarrow> Inl e)"

definition bindE :: "'a result \<Rightarrow> ('a \<Rightarrow> 'b result) \<Rightarrow> 'b result" where
  "bindE r f = (case r of Inl e \<Rightarrow> Inl e | Inr x \<Rightarrow> f x)"

definition check_of :: "'a result \<Rightarrow> check" where
  "check_of r = (case r of Inl e \<Rightarrow> Some e | Inr _ \<Rightarrow> None)"

lemma first_error_None [guards]: "first_error cs = None \<longleftrightarrow> (\<forall>c \<in> set cs. c = None)"
  by (induction cs rule: first_error.induct) auto

lemma first_error_append [guards]:
  "first_error (cs @ ds) = (case first_error cs of None \<Rightarrow> first_error ds | Some e \<Rightarrow> Some e)"
  by (induction cs rule: first_error.induct) auto

lemma first_error_Cons:
  "first_error (c # cs) = (case c of None \<Rightarrow> first_error cs | Some e \<Rightarrow> Some e)"
  by (cases c) auto

lemma first_error_Some_in: "first_error cs = Some e \<Longrightarrow> Some e \<in> set cs"
  by (induction cs rule: first_error.induct) auto

lemma require_None [simp, guards]: "require ok e = None \<longleftrightarrow> ok"
  by (simp add: require_def)

lemma require_Some [simp, guards]: "require ok e = Some e' \<longleftrightarrow> \<not> ok \<and> e' = e"
  by (auto simp: require_def)

lemma require_True [simp]: "require True e = None"
  by (simp add: require_def)

lemma require_False [simp]: "require False e = Some e"
  by (simp add: require_def)

lemma guarded_Inr [simp, guards]: "guarded cs x = Inr y \<longleftrightarrow> (\<forall>c \<in> set cs. c = None) \<and> y = x"
  by (auto simp: guarded_def first_error_None [symmetric] split: option.splits)

lemma guarded_Inl [guards]: "guarded cs x = Inl e \<longleftrightarrow> first_error cs = Some e"
  by (auto simp: guarded_def split: option.splits)

lemma after_Inr [simp, guards]: "after c r = Inr x \<longleftrightarrow> c = None \<and> r = Inr x"
  by (auto simp: after_def split: option.splits)

lemma after_None [simp]: "after None r = r"
  by (simp add: after_def)

lemma after_Some [simp]: "after (Some e) r = Inl e"
  by (simp add: after_def)

lemma bindE_Inr [simp, guards]: "bindE r f = Inr y \<longleftrightarrow> (\<exists>x. r = Inr x \<and> f x = Inr y)"
  by (auto simp: bindE_def split: sum.splits)

lemma bindE_simps [simp]: "bindE (Inl e) f = Inl e" "bindE (Inr x) f = f x"
  by (simp_all add: bindE_def)

lemma check_of_None: "check_of r = None \<longleftrightarrow> (\<exists>x. r = Inr x)"
  by (auto simp: check_of_def split: sum.splits)

lemma check_of_simps [simp]: "check_of (Inr x) = None" "check_of (Inl e) = Some e"
  by (simp_all add: check_of_def)

lemma check_of_guarded [simp]: "check_of (guarded cs x) = first_error cs"
  by (simp add: guarded_def split: option.splits)

lemma check_of_bindE [simp]:
  "check_of (bindE r f) = (case r of Inl e \<Rightarrow> Some e | Inr x \<Rightarrow> check_of (f x))"
  by (simp split: sum.splits)

definition result_of_check :: "check \<Rightarrow> unit result" where
  "result_of_check c = (case c of None \<Rightarrow> Inr () | Some e \<Rightarrow> Inl e)"

lemma result_of_check_Inr [simp, guards]: "result_of_check c = Inr u \<longleftrightarrow> c = None"
  by (simp add: result_of_check_def split: option.splits)

text \<open>A result known to be a value with a property, as the evaluation of a witness states it.\<close>

lemma case_InrD: "(case r of Inl _ \<Rightarrow> False | Inr x \<Rightarrow> P x) \<Longrightarrow> \<exists>x. r = Inr x \<and> P x"
  by (cases r) simp_all

lemma not_isl_ex: "\<not> isl r \<Longrightarrow> \<exists>x. r = Inr x"
  by (cases r) auto

section \<open>Python strings\<close>

text \<open>
  A \<open>str\<close> is a list of characters; the model covers the code points U+0000 to U+00FF, one
  \<open>char\<close> each. \<open>py_space\<close> is \<open>str.isspace\<close> on them, \<open>strip\<close> is \<open>str.strip()\<close>,
  and \<open>casefold\<close> is \<open>str.casefold()\<close> (the micro sign, which folds to a code point outside
  the range that no other character of the range folds to, is kept).
\<close>

definition py_space :: "char \<Rightarrow> bool" where
  "py_space c = (let n = (of_char c :: nat)
     in (9 \<le> n \<and> n \<le> 13) \<or> (28 \<le> n \<and> n \<le> 32) \<or> n = 133 \<or> n = 160)"

definition lstrip :: "string \<Rightarrow> string" where
  "lstrip s = dropWhile py_space s"

definition strip :: "string \<Rightarrow> string" where
  "strip s = rev (lstrip (rev (lstrip s)))"

definition blank :: "string \<Rightarrow> bool" where
  "blank s = list_all py_space s"

text \<open>\<open>sub in s\<close>.\<close>

fun contains :: "string \<Rightarrow> string \<Rightarrow> bool" where
  "contains sub [] = (sub = [])"
| "contains sub (c # s) = (take (length sub) (c # s) = sub \<or> contains sub s)"

definition casefold_char :: "char \<Rightarrow> string" where
  "casefold_char c = (let n = (of_char c :: nat) in
     if 65 \<le> n \<and> n \<le> 90 then [char_of (n + 32)]
     else if 192 \<le> n \<and> n \<le> 222 \<and> n \<noteq> 215 then [char_of (n + 32)]
     else if n = 223 then ''ss'' else [c])"

definition casefold :: "string \<Rightarrow> string" where
  "casefold s = concat (map casefold_char s)"

lemma dropWhile_all_iff: "dropWhile P xs = [] \<longleftrightarrow> list_all P xs"
  by (induction xs) auto

lemma strip_empty_iff [pystr]: "strip s = [] \<longleftrightarrow> blank s"
proof -
  have "(\<forall>c \<in> set (dropWhile py_space s). py_space c) \<longleftrightarrow> (\<forall>c \<in> set s. py_space c)"
    by (induction s) auto
  then show ?thesis
    by (simp add: strip_def lstrip_def blank_def dropWhile_all_iff list_all_iff)
qed

lemma blank_Nil [simp, pystr]: "blank []"
  by (simp add: blank_def)

lemma casefold_append [simp, pystr]: "casefold (s @ t) = casefold s @ casefold t"
  by (simp add: casefold_def)

lemma casefold_Nil [simp, pystr]: "casefold [] = []"
  by (simp add: casefold_def)

lemma casefold_Cons [pystr]: "casefold (c # s) = casefold_char c @ casefold s"
  by (simp add: casefold_def)

lemma contains_single [simp]: "contains [c] s \<longleftrightarrow> c \<in> set s"
  by (induction s) auto

text \<open>Folding twice is folding once: the check is finite, over the 256 characters.\<close>

lemma casefold_char_twice: "concat (map casefold_char (casefold_char c)) = casefold_char c"
proof -
  have "of_char c < (256 :: nat)" by simp
  then show ?thesis
    by (auto simp: casefold_char_def Let_def)
qed

lemma casefold_idem [simp, pystr]: "casefold (casefold s) = casefold s"
  by (induction s) (auto simp: casefold_Cons casefold_char_twice [unfolded casefold_def [symmetric]])

section \<open>Python values\<close>

text \<open>
  The values JSON, YAML and the callers' Python code pass around. \<open>PTuple\<close> is a tuple (the
  frozen form of a list), \<open>PDict\<close> any \<open>Mapping\<close> (a dict or its frozen proxy) as an
  association list in insertion order with distinct keys, \<open>POther\<close> any object of another
  class, named by its type. A float is an exact rational or one of the three special values;
  the rounding of binary64 arithmetic is not modelled.
\<close>

datatype pyfloat = Fin rat | PosInf | NegInf | NaN

datatype pykey = KStr string | KInt int

datatype pyval =
    PNone
  | PBool bool
  | PInt int
  | PFloat pyfloat
  | PStr string
  | PBytes "string"
  | PList "pyval list"
  | PTuple "pyval list"
  | PDict "(pykey \<times> pyval) list"
  | POther string

type_synonym pydict = "(pykey \<times> pyval) list"

abbreviation obj :: "(string \<times> pyval) list \<Rightarrow> pydict" where
  "obj kvs \<equiv> map (\<lambda>(k, v). (KStr k, v)) kvs"

fun fl_less :: "pyfloat \<Rightarrow> pyfloat \<Rightarrow> bool" where
  "fl_less NaN _ = False"
| "fl_less _ NaN = False"
| "fl_less (Fin a) (Fin b) = (a < b)"
| "fl_less NegInf b = (b \<noteq> NegInf)"
| "fl_less PosInf b = False"
| "fl_less (Fin a) b = (b = PosInf)"

definition fl_eq :: "pyfloat \<Rightarrow> pyfloat \<Rightarrow> bool" where
  "fl_eq a b = (a = b \<and> a \<noteq> NaN)"

fun py_num :: "pyval \<Rightarrow> pyfloat option" where
  "py_num (PBool b) = Some (Fin (if b then 1 else 0))"
| "py_num (PInt n) = Some (Fin (of_int n))"
| "py_num (PFloat x) = Some x"
| "py_num _ = None"

text \<open>
  Python's \<open>==\<close>: numbers compare across \<open>bool\<close>, \<open>int\<close> and \<open>float\<close>; a list never
  equals a tuple; dictionaries compare without regard to order.
\<close>

fun py_eq :: "pyval \<Rightarrow> pyval \<Rightarrow> bool"
  and py_eqs :: "pyval list \<Rightarrow> pyval list \<Rightarrow> bool"
  and py_sub :: "pydict \<Rightarrow> pydict \<Rightarrow> bool" where
  "py_eq PNone y = (y = PNone)"
| "py_eq (PBool b) y = (case py_num y of None \<Rightarrow> False | Some f \<Rightarrow> fl_eq (Fin (if b then 1 else 0)) f)"
| "py_eq (PInt n) y = (case py_num y of None \<Rightarrow> False | Some f \<Rightarrow> fl_eq (Fin (of_int n)) f)"
| "py_eq (PFloat x) y = (case py_num y of None \<Rightarrow> False | Some f \<Rightarrow> fl_eq x f)"
| "py_eq (PStr s) y = (y = PStr s)"
| "py_eq (PBytes s) y = (y = PBytes s)"
| "py_eq (PList xs) y = (case y of PList ys \<Rightarrow> py_eqs xs ys | _ \<Rightarrow> False)"
| "py_eq (PTuple xs) y = (case y of PTuple ys \<Rightarrow> py_eqs xs ys | _ \<Rightarrow> False)"
| "py_eq (PDict d) y = (case y of PDict e \<Rightarrow> length d = length e \<and> py_sub d e | _ \<Rightarrow> False)"
| "py_eq (POther s) y = (y = POther s)"
| "py_eqs [] ys = (ys = [])"
| "py_eqs (x # xs) ys = (case ys of [] \<Rightarrow> False | y # ys' \<Rightarrow> py_eq x y \<and> py_eqs xs ys')"
| "py_sub [] e = True"
| "py_sub ((k, v) # d) e = ((case map_of e k of None \<Rightarrow> False | Some w \<Rightarrow> py_eq v w) \<and> py_sub d e)"

lemma py_eq_PStr [simp]: "py_eq x (PStr s) \<longleftrightarrow> x = PStr s"
  by (cases x) auto

lemma py_eq_PNone [simp]: "py_eq x PNone \<longleftrightarrow> x = PNone"
  by (cases x) auto

fun truthy :: "pyval \<Rightarrow> bool" where
  "truthy PNone = False"
| "truthy (PBool b) = b"
| "truthy (PInt n) = (n \<noteq> 0)"
| "truthy (PFloat x) = (x \<noteq> Fin 0)"
| "truthy (PStr s) = (s \<noteq> [])"
| "truthy (PBytes s) = (s \<noteq> [])"
| "truthy (PList xs) = (xs \<noteq> [])"
| "truthy (PTuple xs) = (xs \<noteq> [])"
| "truthy (PDict d) = (d \<noteq> [])"
| "truthy (POther s) = True"

fun is_str :: "pyval \<Rightarrow> bool" where
  "is_str (PStr _) = True" | "is_str _ = False"

fun is_bool :: "pyval \<Rightarrow> bool" where
  "is_bool (PBool _) = True" | "is_bool _ = False"

fun is_mapping :: "pyval \<Rightarrow> bool" where
  "is_mapping (PDict _) = True" | "is_mapping _ = False"

fun is_list :: "pyval \<Rightarrow> bool" where
  "is_list (PList _) = True" | "is_list _ = False"

fun str_of :: "pyval \<Rightarrow> string" where
  "str_of (PStr s) = s" | "str_of _ = []"

text \<open>\<open>isinstance(v, int) and not isinstance(v, bool)\<close>, the test the code uses for counts.\<close>

fun plain_int :: "pyval \<Rightarrow> int option" where
  "plain_int (PInt n) = Some n" | "plain_int _ = None"

fun opt_str :: "string option \<Rightarrow> pyval" where
  "opt_str None = PNone" | "opt_str (Some s) = PStr s"

text \<open>\<open>isinstance(v, str) and v.strip()\<close>, and the same with no outer whitespace.\<close>

definition nonblank_str :: "pyval \<Rightarrow> bool" where
  "nonblank_str v = (case v of PStr s \<Rightarrow> \<not> blank s | _ \<Rightarrow> False)"

definition trimmed_str :: "pyval \<Rightarrow> bool" where
  "trimmed_str v = (case v of PStr s \<Rightarrow> \<not> blank s \<and> strip s = s | _ \<Rightarrow> False)"

lemma trimmed_strD [dest]: "trimmed_str v \<Longrightarrow> \<exists>s. v = PStr s \<and> \<not> blank s \<and> strip s = s"
  by (auto simp: trimmed_str_def split: pyval.splits)

lemma nonblank_strD [dest]: "nonblank_str v \<Longrightarrow> \<exists>s. v = PStr s \<and> \<not> blank s"
  by (auto simp: nonblank_str_def split: pyval.splits)

lemma trimmed_str_PStr [simp]: "trimmed_str (PStr s) \<longleftrightarrow> \<not> blank s \<and> strip s = s"
  by (simp add: trimmed_str_def)

lemma trimmed_str_PNone [simp]: "\<not> trimmed_str PNone"
  by (simp add: trimmed_str_def)

lemma nonblank_str_PStr [simp]: "nonblank_str (PStr s) \<longleftrightarrow> \<not> blank s"
  by (simp add: nonblank_str_def)

lemma opt_str_inj [simp]: "opt_str a = opt_str b \<longleftrightarrow> a = b"
  by (cases a; cases b) auto

lemma opt_str_PStr [simp]: "opt_str a = PStr s \<longleftrightarrow> a = Some s"
  by (cases a) auto

lemma opt_str_PNone [simp]: "opt_str a = PNone \<longleftrightarrow> a = None"
  by (cases a) auto

section \<open>Dictionaries\<close>

text \<open>
  \<open>dget d k\<close> is \<open>d.get(k)\<close> (\<open>None\<close> when absent), \<open>dget_or d k v\<close> is
  \<open>d.get(k, v)\<close>, \<open>dhas\<close> is \<open>k in d\<close>, and \<open>dset\<close> is \<open>d[k] = v\<close>: it keeps the
  position of an existing key and appends a new one.
\<close>

definition dget_or :: "pydict \<Rightarrow> string \<Rightarrow> pyval \<Rightarrow> pyval" where
  "dget_or d k v = (case map_of d (KStr k) of None \<Rightarrow> v | Some x \<Rightarrow> x)"

definition dget :: "pydict \<Rightarrow> string \<Rightarrow> pyval" where
  "dget d k = dget_or d k PNone"

definition dhas :: "pydict \<Rightarrow> string \<Rightarrow> bool" where
  "dhas d k = (map_of d (KStr k) \<noteq> None)"

fun dset_key :: "pydict \<Rightarrow> pykey \<Rightarrow> pyval \<Rightarrow> pydict" where
  "dset_key [] k v = [(k, v)]"
| "dset_key ((k', v') # d) k v = (if k' = k then (k, v) # d else (k', v') # dset_key d k v)"

definition dset :: "pydict \<Rightarrow> string \<Rightarrow> pyval \<Rightarrow> pydict" where
  "dset d k v = dset_key d (KStr k) v"

definition dpop :: "pydict \<Rightarrow> string \<Rightarrow> pydict" where
  "dpop d k = filter (\<lambda>(k', _). k' \<noteq> KStr k) d"

definition only_keys :: "pydict \<Rightarrow> string list \<Rightarrow> bool" where
  "only_keys d ks = list_all (\<lambda>(k, _). k \<in> set (map KStr ks)) d"

definition has_keys :: "pydict \<Rightarrow> string list \<Rightarrow> bool" where
  "has_keys d ks = list_all (\<lambda>k. dhas d k) ks"

text \<open>The mapping a value is, or the empty one.\<close>

fun mapping_or_empty :: "pyval \<Rightarrow> pydict" where
  "mapping_or_empty (PDict d) = d" | "mapping_or_empty _ = []"

lemma map_of_dset_key: "map_of (dset_key d k v) = (map_of d)(k \<mapsto> v)"
  by (induction d k v rule: dset_key.induct) auto

lemma map_of_dset [pydict]: "map_of (dset d k v) = (map_of d)(KStr k \<mapsto> v)"
  by (simp add: dset_def map_of_dset_key)

lemma dget_dset [simp, pydict]: "dget (dset d k v) j = (if j = k then v else dget d j)"
  by (simp add: dget_def dget_or_def map_of_dset)

lemma dhas_dset [simp, pydict]: "dhas (dset d k v) j \<longleftrightarrow> j = k \<or> dhas d j"
  by (auto simp: dhas_def map_of_dset)

lemma dset_key_twice [simp]: "dset_key (dset_key d k v) k w = dset_key d k w"
  by (induction d k v rule: dset_key.induct) auto

lemma dset_twice [simp, pydict]: "dset (dset d k v) k w = dset d k w"
  by (simp add: dset_def)

lemma dset_key_present: "map_of d k = Some v \<Longrightarrow> dset_key d k v = d"
  by (induction d k v rule: dset_key.induct) (auto split: if_splits)

lemma dset_present: "dget d k = v \<Longrightarrow> v \<noteq> PNone \<Longrightarrow> dset d k v = d"
  by (auto simp: dset_def dget_def dget_or_def split: option.splits intro: dset_key_present)

lemma dset_key_commute:
  "k \<noteq> j \<Longrightarrow> map_of d k \<noteq> None \<Longrightarrow> dset_key (dset_key d j w) k v = dset_key (dset_key d k v) j w"
  by (induction d) auto

lemma dset_commute:
  "k \<noteq> j \<Longrightarrow> dhas d k \<Longrightarrow> dset (dset d j w) k v = dset (dset d k v) j w"
  unfolding dset_def dhas_def by (rule dset_key_commute) auto

lemma dget_absent [pydict]: "\<not> dhas d k \<Longrightarrow> dget d k = PNone"
  by (simp add: dhas_def dget_def dget_or_def)

lemma dget_present: "dget d k \<noteq> PNone \<Longrightarrow> dhas d k"
  by (auto simp: dhas_def dget_def dget_or_def split: option.splits)

lemma map_of_dpop: "map_of (dpop d k) = (map_of d)(KStr k := None)"
  by (induction d) (auto simp: dpop_def fun_eq_iff)

lemma dget_dpop [simp, pydict]: "dget (dpop d k) j = (if j = k then PNone else dget d j)"
  by (simp add: dget_def dget_or_def map_of_dpop)

section \<open>Transactions of the SQLite stores\<close>

text \<open>
  A store operation runs in one transaction: it returns a result with the new state, and a raised
  exception rolls back. The database can fail before the commit, which rolls back too, or in the
  read after the commit, when the change stays. Either is reported with the store's own error; an
  exception the operation raises itself is not replaced.
\<close>

datatype db_fault = NoFault | FailBefore | FailAfter

definition transact :: "db_fault \<Rightarrow> exn \<Rightarrow> ('s \<Rightarrow> ('a \<times> 's) result) \<Rightarrow> 's \<Rightarrow> 'a result \<times> 's" where
  "transact fault unavailable body s = (case fault of
       FailBefore \<Rightarrow> (Inl unavailable, s)
     | _ \<Rightarrow> (case body s of
         Inl e \<Rightarrow> (Inl e, s)
       | Inr (x, s') \<Rightarrow> (if fault = FailAfter then Inl unavailable else Inr x, s')))"

lemma transact_Inr:
  "transact fault u body s = (Inr x, s') \<longleftrightarrow> fault = NoFault \<and> body s = Inr (x, s')"
  by (auto simp: transact_def split: db_fault.splits sum.splits prod.splits)

lemma transact_state: "snd (transact fault u body s) = s \<or> (\<exists>x. body s = Inr (x, snd (transact fault u body s)))"
  by (auto simp: transact_def split: db_fault.splits sum.splits prod.splits)

lemma transact_NoFault [simp]:
  "transact NoFault u body s = (case body s of Inl e \<Rightarrow> (Inl e, s) | Inr (x, s') \<Rightarrow> (Inr x, s'))"
  by (simp add: transact_def split: sum.splits prod.splits)

text \<open>Argument checks come before the transaction.\<close>

definition guarded_op :: "check list \<Rightarrow> db_fault \<Rightarrow> ('s \<Rightarrow> ('a \<times> 's) result) \<Rightarrow> exn \<Rightarrow> 's \<Rightarrow> 'a result \<times> 's" where
  "guarded_op cs fault body unavailable s = (case first_error cs of
       Some e \<Rightarrow> (Inl e, s) | None \<Rightarrow> transact fault unavailable body s)"

lemma guarded_op_state:
  "snd (guarded_op cs fault body u s) = s \<or>
   (first_error cs = None \<and> (\<exists>x. body s = Inr (x, snd (guarded_op cs fault body u s))))"
  using transact_state [of fault u body s] by (auto simp: guarded_op_def split: option.splits)

lemma guarded_op_inv:
  assumes "P s" "\<And>x s'. first_error cs = None \<Longrightarrow> body s = Inr (x, s') \<Longrightarrow> P s'"
  shows "P (snd (guarded_op cs fault body u s))"
  using guarded_op_state [of cs fault body u s] assms by auto

lemma guarded_op_Inr:
  "fst (guarded_op cs fault body u s) = Inr x \<Longrightarrow> first_error cs = None \<and> fault = NoFault \<and>
   body s = Inr (x, snd (guarded_op cs fault body u s))"
  by (auto simp: guarded_op_def transact_def split: option.splits db_fault.splits sum.splits prod.splits)

lemma guarded_op_isl:
  "isl (fst (guarded_op cs fault body u s)) \<longleftrightarrow> first_error cs \<noteq> None \<or> fault \<noteq> NoFault \<or> isl (body s)"
  by (auto simp: guarded_op_def transact_def split: option.splits db_fault.splits sum.splits prod.splits)

section \<open>Lists\<close>

text \<open>\<open>list(dict.fromkeys(xs))\<close>: the first occurrence of each element, in order.\<close>

fun dedup_from :: "'a list \<Rightarrow> 'a list \<Rightarrow> 'a list" where
  "dedup_from seen [] = []"
| "dedup_from seen (x # xs) =
     (if List.member seen x then dedup_from seen xs else x # dedup_from (x # seen) xs)"

definition dedup :: "'a list \<Rightarrow> 'a list" where
  "dedup xs = dedup_from [] xs"

lemma set_dedup_from: "set (dedup_from seen xs) = set xs - set seen"
  by (induction seen xs rule: dedup_from.induct) auto

lemma distinct_dedup_from: "distinct (dedup_from seen xs)"
  by (induction seen xs rule: dedup_from.induct) (auto simp: set_dedup_from)

lemma set_dedup [simp]: "set (dedup xs) = set xs"
  by (simp add: dedup_def set_dedup_from)

lemma distinct_dedup [simp]: "distinct (dedup xs)"
  by (simp add: dedup_def distinct_dedup_from)

lemma dedup_eq_Nil [simp]: "dedup xs = [] \<longleftrightarrow> xs = []"
  by (metis set_dedup set_empty)

end
