(* ===== verification/Json.thy ===== *)
theory Json
  imports Prelude "HOL-Library.Char_ord" "HOL-Library.List_Lexorder"
begin

text \<open>
  The standard library's serialisers the digests rest on: \<open>json.dumps\<close> with sorted keys and
  compact separators, \<open>base64.b64encode\<close>, and the cryptographic functions as parameters: the
  SHA-256 hex digest, the Ed25519 signature check and signing, the RFC 8785 serialiser and the
  shortest decimal text of a float are not code of this repository.
\<close>

record crypto =
  sha256_hex :: "string \<Rightarrow> string"
  ed25519_verify :: "string \<Rightarrow> string \<Rightarrow> string \<Rightarrow> bool"
  ed25519_sign :: "string \<Rightarrow> string \<Rightarrow> string"
  ed25519_public :: "string \<Rightarrow> string"
  rfc8785 :: "pyval \<Rightarrow> string option"
  float_repr :: "rat \<Rightarrow> string"

text \<open>\<open>ed25519_verify cr public message signature\<close>, \<open>ed25519_sign cr secret message\<close>: the
  documented contract is that a key verifies what its secret signed, and that a signature is not empty (it
  has 64 bytes).\<close>

definition signature_scheme :: "crypto \<Rightarrow> bool" where
  "signature_scheme cr \<longleftrightarrow>
     (\<forall>secret message. ed25519_sign cr secret message \<noteq> [] \<and>
        ed25519_verify cr (ed25519_public cr secret) message (ed25519_sign cr secret message))"

definition digest_of :: "crypto \<Rightarrow> string \<Rightarrow> string" where
  "digest_of cr payload = ''sha256:'' @ sha256_hex cr payload"

section \<open>json.dumps(sort_keys=True, separators=(",", ":"), allow_nan=False)\<close>

definition hex_digit :: "nat \<Rightarrow> char" where
  "hex_digit n = (if n < 10 then char_of (48 + n) else char_of (87 + n))"

definition json_char :: "bool \<Rightarrow> char \<Rightarrow> string" where
  "json_char ascii c = (let n = (of_char c :: nat) in
     if n = 34 then [CHR 0x5C, CHR 0x22]
     else if n = 92 then [CHR 0x5C, CHR 0x5C]
     else if n = 10 then [CHR 0x5C, CHR ''n'']
     else if n = 13 then [CHR 0x5C, CHR ''r'']
     else if n = 9 then [CHR 0x5C, CHR ''t'']
     else if n = 8 then [CHR 0x5C, CHR ''b'']
     else if n = 12 then [CHR 0x5C, CHR ''f'']
     else if n < 32 \<or> (ascii \<and> 127 < n)
       then CHR 0x5C # ''u00'' @ [hex_digit (n div 16), hex_digit (n mod 16)]
     else [c])"

definition json_string :: "bool \<Rightarrow> string \<Rightarrow> string" where
  "json_string ascii s = CHR 0x22 # concat (map (json_char ascii) s) @ [CHR 0x22]"

function nat_text :: "int \<Rightarrow> string" where
  "nat_text n = (if n < 10 then [hex_digit (nat n)] else nat_text (n div 10) @ [hex_digit (nat (n mod 10))])"
  by pat_completeness auto
termination by (relation "measure nat") auto

declare nat_text.simps [simp del]

definition int_text :: "int \<Rightarrow> string" where
  "int_text n = (if n < 0 then ''-'' @ nat_text (- n) else nat_text n)"

fun join :: "string \<Rightarrow> string list \<Rightarrow> string" where
  "join sep [] = []"
| "join sep [s] = s"
| "join sep (s # t # ss) = s @ sep @ join sep (t # ss)"

text \<open>
  \<open>None\<close> is the raised exception: an object or bytes (\<open>TypeError\<close>), a float that is not
  finite (\<open>ValueError\<close>), or texts and numbers as keys of one object, which \<open>sort_keys\<close> cannot
  compare (\<open>TypeError\<close>). Numeric keys are sorted by value before they are written as texts.
\<close>

fun json_key :: "bool \<Rightarrow> pykey \<Rightarrow> string" where
  "json_key ascii (KStr k) = json_string ascii k"
| "json_key ascii (KInt n) = CHR 0x22 # int_text n @ [CHR 0x22]"

fun text_key :: "pykey \<Rightarrow> bool" where
  "text_key (KStr k) = True" | "text_key (KInt n) = False"

fun key_string :: "pykey \<Rightarrow> string" where
  "key_string (KStr k) = k" | "key_string (KInt n) = []"

fun key_number :: "pykey \<Rightarrow> int" where
  "key_number (KStr k) = 0" | "key_number (KInt n) = n"

definition sorted_pairs :: "(pykey \<times> 'a) list \<Rightarrow> (pykey \<times> 'a) list option" where
  "sorted_pairs kts =
     (if list_all (\<lambda>kt. text_key (fst kt)) kts then Some (sort_key (\<lambda>kt. key_string (fst kt)) kts)
      else if list_ex (\<lambda>kt. text_key (fst kt)) kts then None
      else Some (sort_key (\<lambda>kt. key_number (fst kt)) kts))"

fun json_pairs :: "bool \<Rightarrow> string \<Rightarrow> (pykey \<times> string option) list \<Rightarrow> (pykey \<times> string) list option" where
  "json_pairs ascii colon [] = Some []"
| "json_pairs ascii colon ((k, Some t) # kvs) = map_option (\<lambda>rest. (k, json_key ascii k @ colon @ t) # rest) (json_pairs ascii colon kvs)"
| "json_pairs ascii colon ((k, None) # kvs) = None"

fun all_some :: "'a option list \<Rightarrow> 'a list option" where
  "all_some [] = Some []"
| "all_some (None # xs) = None"
| "all_some (Some x # xs) = map_option (\<lambda>ys. x # ys) (all_some xs)"

lemma all_some_Some: "all_some xs = Some ys \<longleftrightarrow> xs = map Some ys"
  by (induction xs arbitrary: ys rule: all_some.induct) auto

lemma all_some_map: "\<forall>x \<in> set xs. f x = Some (g x) \<Longrightarrow> all_some (map f xs) = Some (map g xs)"
  by (induction xs) auto

lemma all_some_total: "\<forall>x \<in> set xs. \<exists>y. f x = Some y \<and> P y \<Longrightarrow> \<exists>ys. all_some (map f xs) = Some ys \<and> (\<forall>y \<in> set ys. P y)"
  by (induction xs) auto

fun json_dumps :: "crypto \<Rightarrow> bool \<Rightarrow> pyval \<Rightarrow> string option" where
  "json_dumps cr ascii PNone = Some ''null''"
| "json_dumps cr ascii (PBool b) = Some (if b then ''true'' else ''false'')"
| "json_dumps cr ascii (PInt n) = Some (int_text n)"
| "json_dumps cr ascii (PFloat x) = (case x of Fin r \<Rightarrow> Some (float_repr cr r) | _ \<Rightarrow> None)"
| "json_dumps cr ascii (PStr s) = Some (json_string ascii s)"
| "json_dumps cr ascii (PList vs) =
     map_option (\<lambda>ts. ''['' @ join '','' ts @ '']'') (all_some (map (json_dumps cr ascii) vs))"
| "json_dumps cr ascii (PTuple vs) =
     map_option (\<lambda>ts. ''['' @ join '','' ts @ '']'') (all_some (map (json_dumps cr ascii) vs))"
| "json_dumps cr ascii (PDict d) =
     map_option (\<lambda>kts. ''{'' @ join '','' (map snd kts) @ ''}'')
       (Option.bind (json_pairs ascii '':'' (map (map_prod id (json_dumps cr ascii)) d)) sorted_pairs)"
| "json_dumps cr ascii _ = None"

section \<open>base64.b64encode\<close>

definition b64_char :: "int \<Rightarrow> char" where
  "b64_char n = (if n < 26 then char_of (65 + n) else if n < 52 then char_of (71 + n)
     else if n < 62 then char_of (n - 4) else if n = 62 then CHR ''+'' else CHR ''/'')"

fun b64encode :: "string \<Rightarrow> string" where
  "b64encode [] = []"
| "b64encode [a] = (let n = of_char a * 16 in [b64_char (n div 64), b64_char (n mod 64)] @ ''=='')"
| "b64encode [a, b] = (let n = (of_char a * 256 + of_char b) * 4
     in [b64_char (n div 4096), b64_char (n div 64 mod 64), b64_char (n mod 64)] @ ''='')"
| "b64encode (a # b # c # s) = (let n = of_char a * 65536 + of_char b * 256 + of_char c
     in [b64_char (n div 262144), b64_char (n div 4096 mod 64), b64_char (n div 64 mod 64), b64_char (n mod 64)]
        @ b64encode s)"

text \<open>
  \<open>base64.b64decode(s, validate=True)\<close>: only alphabet characters and at most two trailing
  equals signs; then the decoder accepts a multiple of four characters, two left over with both
  pads or three left over with at least one. Superfluous pads and unused low bits are ignored.
\<close>

definition b64_value :: "char \<Rightarrow> int option" where
  "b64_value c = (let n = of_char c :: int in
     if 65 \<le> n \<and> n \<le> 90 then Some (n - 65) else if 97 \<le> n \<and> n \<le> 122 then Some (n - 71)
     else if 48 \<le> n \<and> n \<le> 57 then Some (n + 4)
     else if n = 43 then Some 62 else if n = 47 then Some 63 else None)"

fun b64_bytes :: "int list \<Rightarrow> nat \<Rightarrow> string option" where
  "b64_bytes [] pads = (if pads \<le> 2 then Some [] else None)"
| "b64_bytes [p, q] pads = (if pads = 2 then Some [char_of ((p * 64 + q) div 16)] else None)"
| "b64_bytes [p, q, r] pads = (let n = ((p * 64 + q) * 64 + r) div 4 in
     if pads = 1 \<or> pads = 2 then Some [char_of (n div 256), char_of (n mod 256)] else None)"
| "b64_bytes (p # q # r # t # vs) pads = (let n = ((p * 64 + q) * 64 + r) * 64 + t in
     map_option (\<lambda>cs. [char_of (n div 65536), char_of (n div 256 mod 256), char_of (n mod 256)] @ cs)
       (b64_bytes vs pads))"
| "b64_bytes [p] pads = None"

definition b64decode :: "string \<Rightarrow> string option" where
  "b64decode s =
     (let body = takeWhile (\<lambda>c. c \<noteq> CHR ''='') s; pads = drop (length body) s
      in if list_all (\<lambda>c. c = CHR ''='') pads
         then (case all_some (map b64_value body) of None \<Rightarrow> None | Some vs \<Rightarrow> b64_bytes vs (length pads))
         else None)"

definition sextet :: "int \<Rightarrow> bool" where
  "sextet n \<longleftrightarrow> 0 \<le> n \<and> n < 64"

lemma char_int: "0 \<le> (of_char (c :: char) :: int)" "of_char (c :: char) < (256 :: int)"
proof -
  have e: "int (of_char c) = of_char c" by (rule of_nat_of_char)
  have "0 \<le> int (of_char c)" by (rule of_nat_0_le_iff)
  with e show "0 \<le> (of_char (c :: char) :: int)" by (simp only:)
  have "int (of_char c) < int 256" by (simp only: of_nat_less_iff nat_of_char_less_256)
  with e show "of_char (c :: char) < (256 :: int)" by (simp only: of_nat_numeral)
qed

lemma b64_value_char: "sextet n \<Longrightarrow> b64_value (b64_char n) = Some n"
  by (auto simp: b64_value_def b64_char_def sextet_def Let_def)

lemma b64_char_pad: "sextet n \<Longrightarrow> b64_char n \<noteq> CHR ''=''"
proof
  assume n: "sextet n" and "b64_char n = CHR ''=''"
  then have "b64_value CHR ''='' = Some n" by (metis b64_value_char)
  then show False by (simp add: b64_value_def)
qed

lemma div_div: "0 \<le> c \<Longrightarrow> n div b div c = n div (b * c :: int)"
  by (simp add: zdiv_zmult2_eq)

lemma sextets3: "(n div 4096 * 64 + n div 64 mod 64) * 64 + n mod 64 = (n :: int)"
proof -
  have "n div 4096 = n div 64 div 64" by (simp add: div_div)
  then have "n div 4096 * 64 + n div 64 mod 64 = n div 64" by (simp only: div_mult_mod_eq)
  then show ?thesis by (simp only: div_mult_mod_eq)
qed

lemma sextets4:
  "((n div 262144 * 64 + n div 4096 mod 64) * 64 + n div 64 mod 64) * 64 + n mod 64 = (n :: int)"
proof -
  have "n div 262144 = n div 64 div 4096" "n div 4096 = n div 64 div 64" by (simp_all add: div_div)
  then have "(n div 262144 * 64 + n div 4096 mod 64) * 64 + n div 64 mod 64 = n div 64"
    using sextets3 [of "n div 64"] by simp
  then show ?thesis by (simp only: div_mult_mod_eq)
qed

lemma bytes3:
  assumes "0 \<le> b" "b < 256" "0 \<le> c" "c < (256 :: int)" and n: "n = a * 65536 + b * 256 + c"
  shows "n div 65536 = a" "n div 256 mod 256 = b" "n mod 256 = c"
proof -
  have n': "n = c + (a * 256 + b) * 256" using n by simp
  have "n mod 256 = c" using assms(3,4) by (subst n') (simp only: mod_mult_self1 mod_pos_pos_trivial)
  moreover have "n div 256 = a * 256 + b" using assms(3,4) by (simp add: n')
  moreover have "n div 65536 = n div 256 div 256" by (simp add: div_div)
  ultimately show "n div 65536 = a" "n div 256 mod 256 = b" "n mod 256 = c"
    using assms(1,2) by simp_all
qed

lemma b64_bytes_4:
  assumes "b64_bytes vs k = Some s" and n: "n = of_char a * 65536 + of_char b * 256 + of_char c"
  shows "b64_bytes (n div 262144 # n div 4096 mod 64 # n div 64 mod 64 # n mod 64 # vs) k = Some (a # b # c # s)"
proof -
  have "n div 65536 = of_char a" "n div 256 mod 256 = of_char b" "n mod 256 = of_char c"
    using bytes3 [OF char_int char_int n] by simp_all
  with assms(1) show ?thesis
    by (simp only: b64_bytes.simps Let_def sextets4 option.map append_Cons append_Nil char_of_char)
qed

lemma sextet_div:
  assumes "0 \<le> n" "n < 64 * b" "0 < b"
  shows "sextet (n div b)"
proof -
  have "n div b * b + n mod b = n" "0 \<le> n mod b" using assms by (simp_all add: pos_mod_sign)
  moreover have "64 * b \<le> n div b * b" if "64 \<le> n div b"
    using that assms(3) by (intro mult_right_mono) simp_all
  ultimately have "n div b < 64" using assms(2) by linarith
  moreover have "0 \<le> n div b" using assms by (simp add: pos_imp_zdiv_nonneg_iff)
  ultimately show ?thesis by (simp add: sextet_def)
qed

lemma sextet_mod [simp]: "sextet (n mod 64)"
  by (simp add: sextet_def)

lemma byte_bound2: "a < 256 \<Longrightarrow> b < 256 \<Longrightarrow> (a * 256 + b) * 4 < (64 * 4096 :: int)"
  by simp

lemma byte_bound3: "a < 256 \<Longrightarrow> b < 256 \<Longrightarrow> c < 256 \<Longrightarrow> a * 65536 + b * 256 + c < (64 * 262144 :: int)"
  by simp

text \<open>Every encoding is sextets followed by the pads, and its bytes are the input.\<close>

lemma b64encode_sextets:
  "\<exists>vs k. b64encode s = map b64_char vs @ replicate k CHR ''='' \<and> (\<forall>v \<in> set vs. sextet v) \<and>
          b64_bytes vs k = Some s"
proof (induction s rule: b64encode.induct)
  case 1
  have "b64encode [] = map b64_char [] @ replicate 0 CHR ''=''" "b64_bytes [] 0 = Some []" by simp_all
  then show ?case by fastforce
next
  case (2 a)
  let ?n = "of_char a * 16 :: int"
  let ?vs = "[?n div 64, ?n mod 64]"
  have "b64encode [a] = map b64_char ?vs @ replicate (Suc (Suc 0)) CHR ''=''"
    by (simp only: b64encode.simps Let_def) simp
  moreover have "sextet (?n div 64)"
    using char_int [of a] by (intro sextet_div) simp_all
  moreover have "b64_bytes ?vs (Suc (Suc 0)) = Some [a]"
    by (simp only: b64_bytes.simps div_mult_mod_eq) simp
  ultimately show ?case by (intro exI [of _ ?vs] exI [of _ "Suc (Suc 0)"]) auto
next
  case (3 a b)
  let ?n = "(of_char a * 256 + of_char b) * 4 :: int"
  let ?vs = "[?n div 4096, ?n div 64 mod 64, ?n mod 64]"
  have "of_char a * 256 + of_char b = (?n div 4 :: int)" by simp
  moreover have "?n div 4 div 256 = of_char a" "?n div 4 mod 256 = of_char b"
    using char_int [of b] by simp_all
  ultimately have "b64_bytes ?vs 1 = Some [a, b]"
    by (simp only: b64_bytes.simps Let_def sextets3) simp
  moreover have "b64encode [a, b] = map b64_char ?vs @ replicate 1 CHR ''=''"
    by (simp only: b64encode.simps Let_def) simp
  moreover have "sextet (?n div 4096)"
    using byte_bound2 [OF char_int(2) char_int(2)] char_int(1) by (intro sextet_div) simp_all
  then have "\<forall>v \<in> set ?vs. sextet v" by (simp only: list.set ball_simps sextet_mod simp_thms)
  ultimately show ?case by (intro exI [of _ ?vs] exI [of _ 1] conjI)
next
  case (4 a b c s)
  then obtain vs k where IH: "b64encode s = map b64_char vs @ replicate k CHR ''=''"
    "\<forall>v \<in> set vs. sextet v" "b64_bytes vs k = Some s" by blast
  let ?n = "of_char a * 65536 + of_char b * 256 + of_char c :: int"
  let ?vs = "[?n div 262144, ?n div 4096 mod 64, ?n div 64 mod 64, ?n mod 64]"
  have "b64_bytes (?vs @ vs) k = Some (a # b # c # s)"
    using b64_bytes_4 [OF IH(3) refl] by (simp only: append_Cons append_Nil)
  moreover have "b64encode (a # b # c # s) = map b64_char (?vs @ vs) @ replicate k CHR ''=''"
    using IH(1) by (simp only: b64encode.simps Let_def list.map append_Cons append_Nil)
  moreover have "sextet (?n div 262144)"
    using byte_bound3 [OF char_int(2) char_int(2) char_int(2)] char_int(1) by (intro sextet_div) simp_all
  then have "\<forall>v \<in> set (?vs @ vs). sextet v" using IH(2) by auto
  ultimately show ?case by blast
qed

lemma b64_values: "\<forall>v \<in> set vs. sextet v \<Longrightarrow> all_some (map b64_value (map b64_char vs)) = Some vs"
  by (induction vs) (auto simp: b64_value_char)

lemma b64decode_encode: "b64decode (b64encode s) = Some s"
proof -
  obtain vs k where e: "b64encode s = map b64_char vs @ replicate k CHR ''=''"
    and lt: "\<forall>v \<in> set vs. sextet v" and b: "b64_bytes vs k = Some s"
    using b64encode_sextets by blast
  have "\<forall>c \<in> set (map b64_char vs). c \<noteq> CHR ''=''" using lt b64_char_pad by auto
  then have t: "takeWhile (\<lambda>c. c \<noteq> CHR ''='') (b64encode s) = map b64_char vs"
    by (cases k) (simp_all add: e takeWhile_append2 takeWhile_tail)
  then show ?thesis
    using b b64_values [OF lt] by (simp add: b64decode_def Let_def) (simp add: e list_all_iff)
qed

lemma b64encode_Nil [simp]: "b64encode s = [] \<longleftrightarrow> s = []"
  by (induction s rule: b64encode.induct) (simp_all add: Let_def)

section \<open>A sample instance of the parameters\<close>

text \<open>Not cryptography: a toy signature scheme the witnesses evaluate.\<close>

definition sample_base :: crypto where
  "sample_base = \<lparr>sha256_hex = (\<lambda>s. ''h'' @ s), ed25519_verify = (\<lambda>public message s. s = CHR ''s'' # public),
     ed25519_sign = (\<lambda>secret message. CHR ''s'' # secret), ed25519_public = (\<lambda>secret. secret),
     rfc8785 = (\<lambda>v. None), float_repr = (\<lambda>r. ''0.5'')\<rparr>"

definition sample_crypto :: crypto where
  "sample_crypto = sample_base\<lparr>rfc8785 := json_dumps sample_base False\<rparr>"

lemma sample_crypto_scheme: "signature_scheme sample_crypto"
  by (simp add: signature_scheme_def sample_crypto_def sample_base_def)

text \<open>The same scheme with one canonical text for every value, which is cheap to evaluate.\<close>

definition sample_flat :: crypto where
  "sample_flat = sample_base\<lparr>rfc8785 := (\<lambda>v. Some ''j'')\<rparr>"

lemma sample_flat_scheme: "signature_scheme sample_flat"
  by (simp add: signature_scheme_def sample_flat_def sample_base_def)

end
