(* ===== verification/Matching.thy ===== *)
theory Matching
  imports Prelude
begin

text \<open>
  \<^verbatim>\<open>hlinor_registry/_matching.py\<close>: request keys, the accepted pattern syntax, matching one
  pattern (the standard library's \<open>fnmatchcase\<close>), the first matching entry of an action
  list, block-list matching, and the linter's test whether two patterns can match one key.
  The first half models the code; the second half proves what the matcher promises: an entry
  without a wildcard is an exact match, the block list never weakens when a request says more,
  and the linter's overlap test is exact.
\<close>

section \<open>The standard library's fnmatchcase\<close>

text \<open>
  A pattern is translated into tokens as \<open>fnmatch.translate\<close> does: \<open>*\<close> (runs collapse),
  \<open>?\<close>, a character class, or a literal. A class is a negation flag and a list of ranges; a
  single character is a range of one. \<open>Never\<close> is the empty class.
\<close>

datatype gtok = Star | AnyChar | Class bool "(char \<times> char) list" | Never | Lit char

definition char_le :: "char \<Rightarrow> char \<Rightarrow> bool" where
  "char_le c d = ((of_char c :: nat) \<le> of_char d)"

text \<open>
  The part between \<open>[\<close> and its closing \<open>]\<close>: the closing bracket is looked for after an
  optional \<open>!\<close> and one optional literal \<open>]\<close>. The result is the class text and the rest.
\<close>

fun upto_bracket :: "string \<Rightarrow> (string \<times> string) option" where
  "upto_bracket [] = None"
| "upto_bracket (c # s) = (if c = CHR '']'' then Some ([], s)
     else map_option (\<lambda>(stuff, rest). (c # stuff, rest)) (upto_bracket s))"

definition class_text :: "string \<Rightarrow> (string \<times> string) option" where
  "class_text s =
     (let bang = (if take 1 s = ''!'' then ''!'' else []);
          s1 = drop (length bang) s;
          close = (if take 1 s1 = '']'' then '']'' else []);
          s2 = drop (length close) s1
      in map_option (\<lambda>(stuff, rest). (bang @ close @ stuff, rest)) (upto_bracket s2))"

text \<open>
  A hyphen at position \<open>skip\<close> or later ends a chunk; a chunk boundary is a range from the last
  character before it to the first character after it. A text that ends in a hyphen keeps that
  hyphen as a character of its last chunk.
\<close>

fun find_hyphen :: "nat \<Rightarrow> string \<Rightarrow> nat option" where
  "find_hyphen skip [] = None"
| "find_hyphen 0 (c # s) = (if c = CHR ''-'' then Some 0 else map_option Suc (find_hyphen 0 s))"
| "find_hyphen (Suc skip) (c # s) = map_option Suc (find_hyphen skip s)"

fun chunks_fuel :: "nat \<Rightarrow> nat \<Rightarrow> string \<Rightarrow> string list" where
  "chunks_fuel 0 skip s = [s]"
| "chunks_fuel (Suc n) skip s = (case find_hyphen skip s of
       None \<Rightarrow> [s]
     | Some k \<Rightarrow> (let rest = drop (Suc k) s in
         if rest = [] then [take k s @ ''-''] else take k s # chunks_fuel n 2 rest))"

definition class_chunks :: "string \<Rightarrow> string list" where
  "class_chunks s = chunks_fuel (length s) (if take 1 s = ''!'' then 2 else 1) s"

text \<open>Empty ranges are removed from the right: the two chunks merge without their bounds.\<close>

fun drop_empty_ranges :: "string list \<Rightarrow> string list" where
  "drop_empty_ranges [] = []"
| "drop_empty_ranges (c # cs) = (case drop_empty_ranges cs of
       [] \<Rightarrow> [c]
     | d # ds \<Rightarrow> if \<not> char_le (last c) (hd d) then (butlast c @ tl d) # ds else c # d # ds)"

fun chunk_ranges :: "string list \<Rightarrow> (char \<times> char) list" where
  "chunk_ranges [] = []"
| "chunk_ranges [c] = map (\<lambda>x. (x, x)) c"
| "chunk_ranges (c # d # cs) =
     map (\<lambda>x. (x, x)) (butlast c) @ (last c, hd d) # chunk_ranges (tl d # cs)"

definition class_token :: "string \<Rightarrow> gtok" where
  "class_token stuff =
     (let cs = (if List.member stuff (CHR ''-'') then drop_empty_ranges (class_chunks stuff) else [stuff]);
          joined = concat cs
      in if joined = [] then Never
         else if joined = ''!'' then AnyChar
         else if hd joined = CHR ''!'' then Class True (chunk_ranges (tl (hd cs) # tl cs))
         else Class False (chunk_ranges cs))"

lemma class_text_length: "class_text s = Some (stuff, rest) \<Longrightarrow> length rest < length s"
proof -
  have up: "upto_bracket t = Some (u, r) \<Longrightarrow> length r < length t" for t u r
    by (induction t arbitrary: u) (fastforce split: if_splits)+
  show "class_text s = Some (stuff, rest) \<Longrightarrow> length rest < length s"
    by (auto simp: class_text_def Let_def split: if_splits dest!: up)
qed

function translate :: "string \<Rightarrow> gtok list" where
  "translate [] = []"
| "translate (c # s) =
     (if c = CHR ''*'' then Star # translate s
      else if c = CHR ''?'' then AnyChar # translate s
      else if c = CHR ''['' then
        (case class_text s of
           None \<Rightarrow> Lit c # translate s
         | Some (stuff, rest) \<Rightarrow> class_token stuff # translate rest)
      else Lit c # translate s)"
  by pat_completeness auto
termination
  by (relation "measure length") (auto dest: class_text_length)

fun tok_ok :: "gtok \<Rightarrow> char \<Rightarrow> bool" where
  "tok_ok AnyChar c = True"
| "tok_ok (Lit d) c = (c = d)"
| "tok_ok (Class neg rs) c = (list_ex (\<lambda>(lo, hi). char_le lo c \<and> char_le c hi) rs \<noteq> neg)"
| "tok_ok Never c = False"
| "tok_ok Star c = False"

text \<open>The regular expression matches the whole name; \<open>*\<close> matches any run, also of colons.\<close>

function tmatch :: "gtok list \<Rightarrow> string \<Rightarrow> bool" where
  "tmatch [] s = (s = [])"
| "tmatch (t # ts) s =
     (if t = Star then tmatch ts s \<or> (case s of [] \<Rightarrow> False | c # s' \<Rightarrow> tmatch (t # ts) s')
      else (case s of [] \<Rightarrow> False | c # s' \<Rightarrow> tok_ok t c \<and> tmatch ts s'))"
  by pat_completeness auto
termination
  by (relation "measures [\<lambda>(ts, s). length s, \<lambda>(ts, s). length ts]") auto

declare tmatch.simps(2) [simp del]

lemma tmatch_Star: "tmatch (Star # ts) s \<longleftrightarrow> tmatch ts s \<or> (\<exists>c s'. s = c # s' \<and> tmatch (Star # ts) s')"
  by (subst tmatch.simps) (auto split: list.splits)

lemma tmatch_Star_Cons: "tmatch (Star # ts) (c # s) \<longleftrightarrow> tmatch ts (c # s) \<or> tmatch (Star # ts) s"
  by (subst tmatch.simps) simp

lemma tmatch_Star_Nil: "tmatch (Star # ts) [] \<longleftrightarrow> tmatch ts []"
  by (subst tmatch.simps) simp

lemma tmatch_tok: "t \<noteq> Star \<Longrightarrow> tmatch (t # ts) s \<longleftrightarrow> (\<exists>c s'. s = c # s' \<and> tok_ok t c \<and> tmatch ts s')"
  by (subst tmatch.simps) (auto split: list.splits)

definition fnmatchcase :: "string \<Rightarrow> string \<Rightarrow> bool" where
  "fnmatchcase name pat = tmatch (translate pat) name"

section \<open>Keys, pattern syntax and matching\<close>

definition request_key :: "string \<Rightarrow> string option \<Rightarrow> string" where
  "request_key action resource = (case resource of
       None \<Rightarrow> action
     | Some r \<Rightarrow> if blank r then action else action @ '':'' @ r)"

datatype pattern_error = Unsupported string | SurroundingWhitespace | EmptyPattern

definition unsupported_tokens :: "string list" where
  "unsupported_tokens = [''**'', ''['', '']'', ''!'', ''{'', ''}'']"

definition pattern_errors :: "string \<Rightarrow> pattern_error list" where
  "pattern_errors pat =
     map Unsupported (filter (\<lambda>t. contains t pat) unsupported_tokens)
     @ (if strip pat \<noteq> pat then [SurroundingWhitespace] else [])
     @ (if blank pat then [EmptyPattern] else [])"

definition is_pattern :: "string \<Rightarrow> bool" where
  "is_pattern s = list_ex (\<lambda>c. c = CHR ''*'' \<or> c = CHR ''?'') s"

definition matches :: "string \<Rightarrow> string \<Rightarrow> bool \<Rightarrow> bool" where
  "matches pat key ignore_case =
     (if ignore_case then fnmatchcase (casefold key) (casefold pat) else fnmatchcase key pat)"

text \<open>
  \<open>find_match\<close> takes any value: one that is neither a list nor a tuple matches nothing, and
  entries that are not strings are skipped.
\<close>

fun first_pattern :: "(string \<Rightarrow> bool) \<Rightarrow> pyval list \<Rightarrow> string option" where
  "first_pattern P [] = None"
| "first_pattern P (v # vs) = (case v of
       PStr pat \<Rightarrow> if P pat then Some pat else first_pattern P vs
     | _ \<Rightarrow> first_pattern P vs)"

fun entries_of :: "pyval \<Rightarrow> pyval list" where
  "entries_of (PList vs) = vs" | "entries_of (PTuple vs) = vs" | "entries_of _ = []"

definition find_match :: "pyval \<Rightarrow> string \<Rightarrow> bool \<Rightarrow> string option" where
  "find_match patterns key ignore_case =
     first_pattern (\<lambda>pat. matches pat key ignore_case) (entries_of patterns)"

definition find_block_match :: "pyval \<Rightarrow> string \<Rightarrow> string \<Rightarrow> string option" where
  "find_block_match patterns action key = (case find_match patterns key True of
       Some matched \<Rightarrow> Some matched
     | None \<Rightarrow> if key = action then None else find_match patterns action True)"

section \<open>The linter's overlap test\<close>

text \<open>The recursion of \<open>walk\<close> over suffixes of the two patterns; the cache of the source only
  avoids recomputing a pair.\<close>

fun walk :: "string \<Rightarrow> string \<Rightarrow> bool" where
  "walk [] right = list_all (\<lambda>c. c = CHR ''*'') right"
| "walk (a # left) [] = list_all (\<lambda>c. c = CHR ''*'') (a # left)"
| "walk (a # left) (b # right) =
     (if a = CHR ''*'' then walk left (b # right) \<or> walk (a # left) right
      else if b = CHR ''*'' then walk (a # left) right \<or> walk left (b # right)
      else if a = CHR ''?'' \<or> b = CHR ''?'' then walk left right
      else a = b \<and> walk left right)"

definition patterns_can_overlap :: "string \<Rightarrow> string \<Rightarrow> bool" where
  "patterns_can_overlap left right = walk left right"

definition overlapping_allow_patterns :: "pyval list \<Rightarrow> pyval list \<Rightarrow> (string \<times> string) list" where
  "overlapping_allow_patterns allowed blocked =
     concat (map (\<lambda>v. case v of
         PStr a \<Rightarrow> if is_pattern a
           then concat (map (\<lambda>w. case w of
               PStr b \<Rightarrow> if b \<noteq> a \<and> patterns_can_overlap a b then [(a, b)] else []
             | _ \<Rightarrow> []) blocked)
           else []
       | _ \<Rightarrow> []) allowed)"

section \<open>Patterns without brackets\<close>

text \<open>Accepted patterns hold no bracket, so every character is one token.\<close>

definition simple_tok :: "char \<Rightarrow> gtok" where
  "simple_tok c = (if c = CHR ''*'' then Star else if c = CHR ''?'' then AnyChar else Lit c)"

definition glob :: "string \<Rightarrow> string \<Rightarrow> bool" where
  "glob pat key = tmatch (map simple_tok pat) key"

lemma simple_tok_star: "simple_tok CHR ''*'' = Star"
  by (simp add: simple_tok_def)

lemma translate_simple: "CHR ''['' \<notin> set pat \<Longrightarrow> translate pat = map simple_tok pat"
  by (induction pat) (auto simp: simple_tok_def)

lemma fnmatchcase_glob: "CHR ''['' \<notin> set pat \<Longrightarrow> fnmatchcase key pat = glob pat key"
  by (simp add: fnmatchcase_def translate_simple glob_def)

lemma glob_Nil [simp]: "glob [] key \<longleftrightarrow> key = []"
  by (simp add: glob_def)

lemma glob_star: "glob (CHR ''*'' # pat) key \<longleftrightarrow>
    glob pat key \<or> (\<exists>c key'. key = c # key' \<and> glob (CHR ''*'' # pat) key')"
  using tmatch_Star [of "map simple_tok pat" key] by (simp add: glob_def simple_tok_star)

lemma glob_starE:
  assumes "glob (CHR ''*'' # pat) key"
  obtains "glob pat key" | c key' where "key = c # key'" "glob (CHR ''*'' # pat) key'"
  using assms glob_star [of pat key] by blast

lemma glob_star_Nil: "glob (CHR ''*'' # pat) [] \<longleftrightarrow> glob pat []"
  by (subst glob_star) blast

lemma glob_char: "a \<noteq> CHR ''*'' \<Longrightarrow> glob (a # pat) key \<longleftrightarrow>
    (\<exists>c key'. key = c # key' \<and> (a = CHR ''?'' \<or> c = a) \<and> glob pat key')"
  by (auto simp: simple_tok_def tmatch_tok glob_def)

lemma glob_starI: "glob pat key \<Longrightarrow> glob (CHR ''*'' # pat) key"
  "glob (CHR ''*'' # pat) key' \<Longrightarrow> glob (CHR ''*'' # pat) (c # key')"
  by (subst glob_star, blast)+

lemma glob_charI: "glob pat key' \<Longrightarrow> a \<noteq> CHR ''*'' \<Longrightarrow> a = CHR ''?'' \<or> c = a \<Longrightarrow> glob (a # pat) (c # key')"
  by (auto simp: glob_char)

lemma glob_stars: "list_all (\<lambda>c. c = CHR ''*'') pat \<longleftrightarrow> glob pat []"
proof (induction pat)
  case (Cons a pat)
  then show ?case
    by (cases "a = CHR ''*''") (simp_all add: glob_star_Nil glob_char)
qed simp

lemma glob_literal:
  assumes "\<not> is_pattern pat"
  shows "glob pat key \<longleftrightarrow> key = pat"
  using assms
proof (induction pat arbitrary: key)
  case (Cons a pat)
  then have "a \<noteq> CHR ''*''" "a \<noteq> CHR ''?''" "\<not> is_pattern pat"
    by (auto simp: is_pattern_def)
  with Cons.IH show ?case by (auto simp: glob_char)
qed simp

lemma glob_star_end: "glob [CHR ''*''] key"
  by (induction key) (auto intro: glob_starI)

lemma glob_prefix_star:
  assumes "\<not> is_pattern pre"
  shows "glob (pre @ ''*'') key \<longleftrightarrow> (\<exists>rest. key = pre @ rest)"
  using assms
proof (induction pre arbitrary: key)
  case Nil
  then show ?case using glob_star_end by simp
next
  case (Cons a pre)
  then have a: "a \<noteq> CHR ''*''" "a \<noteq> CHR ''?''" "\<not> is_pattern pre"
    by (auto simp: is_pattern_def)
  with Cons.IH show ?case by (auto simp: glob_char)
qed

lemma accepted_no_bracket: "pattern_errors pat = [] \<Longrightarrow> CHR ''['' \<notin> set pat"
  by (auto simp: pattern_errors_def unsupported_tokens_def split: if_splits)

section \<open>The overlap test is exact\<close>

lemma walk_sound: "walk left right \<Longrightarrow> \<exists>key. glob left key \<and> glob right key"
proof (induction left right rule: walk.induct)
  case (1 right)
  then show ?case by (auto simp: glob_stars)
next
  case (2 a left)
  then show ?case
    using glob_stars [of "a # left"] by (intro exI [of _ "[]"]) simp
next
  case (3 a left b right)
  consider (star_l) "a = CHR ''*''" | (star_r) "a \<noteq> CHR ''*''" "b = CHR ''*''"
    | (chars) "a \<noteq> CHR ''*''" "b \<noteq> CHR ''*''" by blast
  then show ?case
  proof cases
    case star_l
    with "3.prems" consider "walk left (b # right)" | "walk (a # left) right" by auto
    then show ?thesis
    proof cases
      case 1
      with "3.IH"(1) star_l show ?thesis by (auto intro: glob_starI)
    next
      case 2
      with "3.IH"(2) star_l obtain key where key: "glob (a # left) key" "glob right key" by auto
      show ?thesis
      proof (cases "b = CHR ''*''")
        case True
        with key show ?thesis by (auto intro: glob_starI)
      next
        case False
        with key star_l show ?thesis
          by (intro exI [of _ "b # key"]) (auto intro: glob_starI glob_charI)
      qed
    qed
  next
    case star_r
    with "3.prems" consider "walk (a # left) right" | "walk left (b # right)" by auto
    then show ?thesis
    proof cases
      case 1
      with "3.IH"(3) star_r show ?thesis by (auto intro: glob_starI)
    next
      case 2
      with "3.IH"(4) star_r obtain key where "glob left key" "glob (b # right) key" by auto
      with star_r show ?thesis
        by (intro exI [of _ "a # key"]) (auto intro: glob_starI glob_charI)
    qed
  next
    case chars
    with "3.prems" have "walk left right" and ab: "a = CHR ''?'' \<or> b = CHR ''?'' \<or> a = b"
      by (auto split: if_splits)
    with "3.IH"(5,6) chars obtain key where "glob left key" "glob right key"
      by (metis (full_types))
    with chars ab show ?thesis
      by (intro exI [of _ "(if a = CHR ''?'' then b else a) # key"]) (auto intro: glob_charI)
  qed
qed

lemma walk_complete: "glob left key \<Longrightarrow> glob right key \<Longrightarrow> walk left right"
proof (induction "length left + length right + length key" arbitrary: left right key
    rule: less_induct)
  case less
  note IH = less.hyps and l = less.prems(1) and r = less.prems(2)
  show ?case
  proof (cases left)
    case Nil
    with l r show ?thesis by (simp add: glob_stars)
  next
    case [simp]: (Cons a left')
    show ?thesis
    proof (cases right)
      case Nil
      with l r show ?thesis using glob_stars [of left] by simp
    next
      case [simp]: (Cons b right')
      consider (star_l) "a = CHR ''*''" | (star_r) "a \<noteq> CHR ''*''" "b = CHR ''*''"
        | (chars) "a \<noteq> CHR ''*''" "b \<noteq> CHR ''*''" by blast
      then show ?thesis
      proof cases
        case [simp]: star_l
        from l consider "glob left' key"
          | c key' where "key = c # key'" "glob left key'" by (auto elim: glob_starE)
        then show ?thesis
        proof cases
          case 1
          with r IH [of left' right key] show ?thesis by simp
        next
          case 2
          show ?thesis
          proof (cases "b = CHR ''*''")
            case True
            with r 2 consider "glob right' key" | "glob right key'" by (auto elim: glob_starE)
            then show ?thesis using 2 l IH [of left right' key] IH [of left right key'] by cases auto
          next
            case False
            with r 2 have "glob right' key'" by (auto simp: glob_char)
            with 2 IH [of left right' key'] show ?thesis by simp
          qed
        qed
      next
        case [simp]: star_r
        from r consider "glob right' key"
          | c key' where "key = c # key'" "glob right key'" by (auto elim: glob_starE)
        then show ?thesis
        proof cases
          case 1
          with l IH [of left right' key] show ?thesis by simp
        next
          case 2
          with l have "glob left' key'" by (auto simp: glob_char)
          with 2 IH [of left' right key'] show ?thesis by simp
        qed
      next
        case chars
        with l r obtain c key' where "key = c # key'" "glob left' key'" "glob right' key'"
          "a = CHR ''?'' \<or> c = a" "b = CHR ''?'' \<or> c = b" by (auto simp: glob_char)
        with chars IH [of left' right' key'] show ?thesis by auto
      qed
    qed
  qed
qed

section \<open>Action lists\<close>

lemma first_pattern_Some:
  "first_pattern P vs = Some pat \<Longrightarrow>
   \<exists>us ws. vs = us @ PStr pat # ws \<and> P pat \<and> (\<forall>q. PStr q \<in> set us \<longrightarrow> \<not> P q)"
proof (induction vs)
  case (Cons v vs)
  show ?case
  proof (cases "\<exists>q. v = PStr q \<and> P q")
    case True
    with Cons.prems have "v # vs = [] @ PStr pat # vs \<and> P pat" by auto
    then show ?thesis by fastforce
  next
    case False
    with Cons.prems have "first_pattern P vs = Some pat" by (auto split: pyval.splits)
    with Cons.IH obtain us ws where "vs = us @ PStr pat # ws" "P pat" "\<forall>q. PStr q \<in> set us \<longrightarrow> \<not> P q"
      by blast
    with False have "v # vs = (v # us) @ PStr pat # ws \<and> P pat \<and> (\<forall>q. PStr q \<in> set (v # us) \<longrightarrow> \<not> P q)"
      by auto
    then show ?thesis by blast
  qed
qed simp

lemma first_pattern_None: "first_pattern P vs = None \<longleftrightarrow> (\<forall>q. PStr q \<in> set vs \<longrightarrow> \<not> P q)"
  by (induction vs) (auto split: pyval.splits if_splits)

lemma first_pattern_SomeD: "first_pattern P vs = Some pat \<Longrightarrow> PStr pat \<in> set vs \<and> P pat"
  by (fastforce dest: first_pattern_Some)

lemma find_match_None:
  "find_match ps key ic = None \<longleftrightarrow> (\<forall>q. PStr q \<in> set (entries_of ps) \<longrightarrow> \<not> matches q key ic)"
  by (simp add: find_match_def first_pattern_None)

lemma find_match_SomeD:
  "find_match ps key ic = Some pat \<Longrightarrow> PStr pat \<in> set (entries_of ps) \<and> matches pat key ic"
  by (auto simp: find_match_def dest: first_pattern_SomeD)

lemma find_block_match_None:
  "find_block_match ps action key = None \<longleftrightarrow>
   (\<forall>q. PStr q \<in> set (entries_of ps) \<longrightarrow> \<not> matches q key True \<and> \<not> matches q action True)"
  by (auto simp: find_block_match_def find_match_None split: option.splits dest: find_match_SomeD)

lemma request_key_None [simp]: "request_key action None = action"
  by (simp add: request_key_def)

lemma request_key_Some: "\<not> blank r \<Longrightarrow> request_key action (Some r) = action @ '':'' @ r"
  by (simp add: request_key_def)

section \<open>Letter case\<close>

text \<open>
  Case folding is one character to one character but for the sharp s, which becomes two. On
  strings without it, folding both sides keeps every match, so a name an allow entry matches is
  also matched by the same entry on the block list.
\<close>

definition fold1 :: "char \<Rightarrow> char" where
  "fold1 c = hd (casefold_char c)"

definition sharp_s :: char where
  "sharp_s = CHR 0xDF"

lemma casefold_char_single: "c \<noteq> sharp_s \<Longrightarrow> casefold_char c = [fold1 c]"
proof -
  assume c: "c \<noteq> sharp_s"
  have "char_of (223 :: nat) = sharp_s" by code_simp
  with c have "of_char c \<noteq> (223 :: nat)" by (metis char_of_char)
  then show ?thesis by (simp add: fold1_def casefold_char_def Let_def)
qed

lemma casefold_map: "sharp_s \<notin> set s \<Longrightarrow> casefold s = map fold1 s"
  by (induction s) (auto simp: casefold_Cons casefold_char_single)

lemma fold1_ascii_punct: "fold1 CHR ''*'' = CHR ''*''" "fold1 CHR ''?'' = CHR ''?''"
  by code_simp+

lemma glob_fold: "glob pat key \<Longrightarrow> glob (map fold1 pat) (map fold1 key)"
proof (induction "length pat + length key" arbitrary: pat key rule: less_induct)
  case less
  show ?case
  proof (cases pat)
    case Nil
    with less.prems show ?thesis by simp
  next
    case (Cons a pat')
    show ?thesis
    proof (cases "a = CHR ''*''")
      case True
      with less.prems Cons have "glob (CHR ''*'' # pat') key" by simp
      then show ?thesis
      proof (cases rule: glob_starE)
        case 1
        with less.hyps [of pat' key] Cons True show ?thesis
          by (auto simp: fold1_ascii_punct intro: glob_starI)
      next
        case (2 c key')
        with less.hyps [of pat key'] Cons True show ?thesis
          by (auto simp: fold1_ascii_punct intro: glob_starI)
      qed
    next
      case False
      with less.prems Cons obtain c key' where k: "key = c # key'" "a = CHR ''?'' \<or> c = a" "glob pat' key'"
        by (auto simp: glob_char)
      with less.hyps [of pat' key'] Cons have IH: "glob (map fold1 pat') (map fold1 key')" by simp
      show ?thesis
      proof (cases "fold1 a = CHR ''*''")
        case True
        with IH k Cons show ?thesis by (auto intro: glob_starI)
      next
        case False
        with IH k Cons show ?thesis by (auto simp: fold1_ascii_punct intro!: glob_charI)
      qed
    qed
  qed
qed

lemma fold1_bracket: "fold1 c = CHR ''['' \<Longrightarrow> c = CHR ''[''"
proof -
  assume "fold1 c = CHR ''[''"
  then have f: "of_char (fold1 c) = (91 :: nat)" by simp
  have "(of_char c :: nat) < 256" by simp
  with f have "of_char c = (91 :: nat)"
    by (simp add: fold1_def casefold_char_def Let_def split: if_splits)
  then have "of_char c = (of_char CHR ''['' :: nat)" by simp
  then show ?thesis by (simp only: of_char_eq_iff)
qed

lemma matches_ignore_case:
  assumes "matches pat key False" "CHR ''['' \<notin> set pat" "sharp_s \<notin> set pat" "sharp_s \<notin> set key"
  shows "matches pat key True"
proof -
  have "CHR ''['' \<notin> set (map fold1 pat)"
    using assms(2) by (auto dest: fold1_bracket [OF sym])
  with assms show ?thesis
    by (simp add: matches_def casefold_map fnmatchcase_glob glob_fold)
qed

lemma matches_True_fold: "casefold key = casefold key' \<Longrightarrow> matches pat key True = matches pat key' True"
  by (simp add: matches_def)

lemma py_space_fold: "list_all py_space (casefold_char c) \<longleftrightarrow> py_space c"
proof -
  have "of_char c < (256 :: nat)" by simp
  then show ?thesis by (auto simp: casefold_char_def py_space_def Let_def)
qed

lemma blank_casefold: "blank (casefold s) \<longleftrightarrow> blank s"
  by (induction s) (auto simp: casefold_Cons blank_def py_space_fold)

section \<open>What the matcher promises\<close>

lemma pattern_errors_glob: "pattern_errors pat = [] \<Longrightarrow> matches pat key False \<longleftrightarrow> glob pat key"
  by (simp add: matches_def fnmatchcase_glob accepted_no_bracket)

text \<open>
  For two patterns the loaders accept, the linter's overlap test answers yes exactly when
  some request key is matched by both of them: it neither misses an overlap nor invents one.
\<close>

theorem patterns_can_overlap_exact:
  assumes "pattern_errors left = []" and "pattern_errors right = []"
  shows "patterns_can_overlap left right \<longleftrightarrow>
    (\<exists>key. matches left key False \<and> matches right key False)"
  using assms walk_sound walk_complete
  by (auto simp: patterns_can_overlap_def pattern_errors_glob)

theorem patterns_can_overlap_exact_witness:
  "pattern_errors ''a:*'' = [] \<and> pattern_errors ''*:b'' = [] \<and>
   patterns_can_overlap ''a:*'' ''*:b'' \<and>
   (\<exists>key. matches ''a:*'' key False \<and> matches ''*:b'' key False)"
proof -
  have e: "pattern_errors ''a:*'' = []" "pattern_errors ''*:b'' = []"
    and o: "patterns_can_overlap ''a:*'' ''*:b''" by code_simp+
  with patterns_can_overlap_exact [OF e] show ?thesis by blast
qed

lemma find_block_match_key: "find_block_match ps action action \<noteq> None \<Longrightarrow> find_block_match ps action key \<noteq> None"
  by (auto simp: find_block_match_None)

end
