(* ===== verification/ToolContract.thy ===== *)
theory ToolContract
  imports Json Matching
begin

text \<open>
  The validation of a parsed Tool Contract, \<^verbatim>\<open>tool_contract.py\<close>: JSON values only, the exact schema
  version, the JSON Schema, and the rules the schema cannot state. The JSON Schema validator is not code of this
  repository, so it is a parameter; error texts are constructors. The lemmas show what a contract without errors
  guarantees: unambiguous ids and actions, usable patterns and honest annotations. File access is not modelled.
\<close>

section \<open>The validator as a parameter\<close>

text \<open>
  \<open>contract_violations\<close> are the violations of the bundled contract schema, \<open>check_schema\<close> is the problem
  of a schema that is not one, and \<open>violations\<close> are those of a value against a tool's input schema, or
  \<open>None\<close> when the evaluation raises.
\<close>

record json_schema =
  contract_violations :: "pyval \<Rightarrow> string list"
  check_schema :: "pyval \<Rightarrow> string option"
  violations :: "pyval \<Rightarrow> pyval \<Rightarrow> string list option"

datatype contract_problem =
    NonFiniteNumber | KeyNotString | NotJsonValue
  | UnsupportedVersion pyval
  | SchemaViolation string
  | Collision nat string nat string
  | BadInputSchema nat string
  | UndeclaredRequired nat string
  | BadResourcePattern nat nat pattern_error
  | ReadOnlyMutates nat "string list"
  | ReadOnlyDestructive nat
  | DestructiveWithoutEffect nat

section \<open>Checks\<close>

fun json_value_errors :: "pyval \<Rightarrow> contract_problem list" where
  "json_value_errors PNone = []"
| "json_value_errors (PStr s) = []"
| "json_value_errors (PBool b) = []"
| "json_value_errors (PInt n) = []"
| "json_value_errors (PFloat x) = (case x of Fin r \<Rightarrow> [] | _ \<Rightarrow> [NonFiniteNumber])"
| "json_value_errors (PDict d) = concat (map (\<lambda>(k, v). case k of KStr s \<Rightarrow> v | _ \<Rightarrow> [KeyNotString])
      (map (map_prod id json_value_errors) d))"
| "json_value_errors (PList vs) = concat (map json_value_errors vs)"
| "json_value_errors _ = [NotJsonValue]"

definition schema_version_errors :: "pyval \<Rightarrow> contract_problem list" where
  "schema_version_errors v = (case v of
       PDict d \<Rightarrow> if dhas d ''schema_version'' \<and> dget d ''schema_version'' \<noteq> PStr ''1.0''
         then [UnsupportedVersion (dget d ''schema_version'')] else []
     | _ \<Rightarrow> [])"

text \<open>A seen name maps its case-folded form to where it was first used and how it was spelled.\<close>

type_synonym seen = "(string \<times> nat \<times> string) list"

definition note_name :: "string \<Rightarrow> nat \<Rightarrow> pydict \<Rightarrow> seen \<Rightarrow> contract_problem list \<times> seen" where
  "note_name field index tool seen = (case dget tool field of
       PStr value \<Rightarrow> (case map_of seen (casefold value) of
           None \<Rightarrow> ([], (casefold value, index, value) # seen)
         | Some (first, spelled) \<Rightarrow>
             ((if field = ''id'' \<or> spelled \<noteq> value then [Collision index field first spelled] else []), seen))
     | _ \<Rightarrow> ([], seen))"

fun duplicate_errors :: "seen \<Rightarrow> seen \<Rightarrow> (nat \<times> pyval) list \<Rightarrow> contract_problem list" where
  "duplicate_errors ids acts [] = []"
| "duplicate_errors ids acts ((index, PDict tool) # tools) =
     (let i = note_name ''id'' index tool ids; a = note_name ''action'' index tool acts
      in fst i @ fst a @ duplicate_errors (snd i) (snd a) tools)"
| "duplicate_errors ids acts (_ # tools) = duplicate_errors ids acts tools"

definition required_errors :: "nat \<Rightarrow> pydict \<Rightarrow> contract_problem list" where
  "required_errors index schema = (case (dget schema ''properties'', dget schema ''required'') of
       (PDict properties, PList names) \<Rightarrow> concat (map (\<lambda>v. case v of
           PStr s \<Rightarrow> if dhas properties s then [] else [UndeclaredRequired index s] | _ \<Rightarrow> []) names)
     | _ \<Rightarrow> [])"

definition input_schema_errors :: "json_schema \<Rightarrow> nat \<Rightarrow> pydict \<Rightarrow> contract_problem list" where
  "input_schema_errors js index tool = (case dget tool ''input_schema'' of
       PDict schema \<Rightarrow> (case check_schema js (PDict schema) of
           Some problem \<Rightarrow> [BadInputSchema index problem] | None \<Rightarrow> required_errors index schema)
     | _ \<Rightarrow> [])"

definition resource_pattern_errors :: "nat \<Rightarrow> pydict \<Rightarrow> contract_problem list" where
  "resource_pattern_errors index tool = (case dget tool ''resource_patterns'' of
       PList patterns \<Rightarrow> concat (map (\<lambda>(i, v). case v of
           PStr s \<Rightarrow> map (BadResourcePattern index i) (pattern_errors s) | _ \<Rightarrow> []) (enumerate 0 patterns))
     | _ \<Rightarrow> [])"

definition mutating_effects :: "string list" where
  "mutating_effects = [''code_execution'', ''database_write'', ''external_system_change'', ''filesystem_write'',
     ''financial_transaction'', ''message_send'', ''network_write'']"

definition mutating_of :: "pyval list \<Rightarrow> string list" where
  "mutating_of effects = sort (map str_of (filter (\<lambda>e. is_str e \<and> str_of e \<in> set mutating_effects) effects))"

definition annotation_errors :: "nat \<Rightarrow> pydict \<Rightarrow> contract_problem list" where
  "annotation_errors index tool = (case (dget tool ''annotations'', dget tool ''effects'') of
       (PDict annotations, PList effects) \<Rightarrow>
         (let read_only = (dget annotations ''read_only'' = PBool True); destructive = (dget annotations ''destructive'' = PBool True);
              mutating = mutating_of effects
          in (if read_only \<and> mutating \<noteq> [] then [ReadOnlyMutates index mutating] else [])
             @ (if read_only \<and> destructive then [ReadOnlyDestructive index] else [])
             @ (if destructive \<and> mutating = [] then [DestructiveWithoutEffect index] else []))
     | _ \<Rightarrow> [])"

definition per_tool :: "(nat \<Rightarrow> pydict \<Rightarrow> contract_problem list) \<Rightarrow> pyval list \<Rightarrow> contract_problem list" where
  "per_tool f tools = concat (map (\<lambda>(i, v). case v of PDict tool \<Rightarrow> f i tool | _ \<Rightarrow> []) (enumerate 0 tools))"

definition tool_contract_errors :: "json_schema \<Rightarrow> pyval \<Rightarrow> contract_problem list" where
  "tool_contract_errors js v =
     (if json_value_errors v \<noteq> [] then json_value_errors v
      else if schema_version_errors v \<noteq> [] then schema_version_errors v
      else map SchemaViolation (contract_violations js v)
        @ (case v of
             PDict d \<Rightarrow> (case dget d ''tools'' of
                 PList tools \<Rightarrow> duplicate_errors [] [] (enumerate 0 tools) @ per_tool (input_schema_errors js) tools
                   @ per_tool resource_pattern_errors tools @ per_tool annotation_errors tools
               | _ \<Rightarrow> [])
           | _ \<Rightarrow> []))"

text \<open>\<open>load_tool_contract\<close> after the file has been parsed; the first component of the failure are the errors.\<close>

definition load_tool_contract :: "json_schema \<Rightarrow> pyval \<Rightarrow> contract_problem list + pydict" where
  "load_tool_contract js v = (if tool_contract_errors js v \<noteq> [] then Inl (tool_contract_errors js v)
     else (case v of PDict d \<Rightarrow> Inr d | _ \<Rightarrow> Inl []))"

section \<open>What an accepted contract guarantees\<close>

lemma per_tool_Nil: "per_tool f tools = [] \<Longrightarrow> i < length tools \<Longrightarrow> tools ! i = PDict tool \<Longrightarrow> f i tool = []"
proof -
  assume "per_tool f tools = []" "i < length tools" "tools ! i = PDict tool"
  moreover from this(2,3) have "(i, PDict tool) \<in> set (enumerate 0 tools)" by (simp add: in_set_enumerate_eq)
  ultimately have "(case PDict tool of PDict tool \<Rightarrow> f i tool | _ \<Rightarrow> []) = []" unfolding per_tool_def by fastforce
  then show ?thesis by simp
qed

text \<open>A name is remembered, and a later name with the same folding is only accepted as the same action.\<close>

lemma note_name_Nil:
  assumes "fst (note_name field index tool seen) = []" "dget tool field = PStr value"
  shows "\<exists>i. map_of (snd (note_name field index tool seen)) (casefold value) = Some (i, value)"
    and "map_of seen (casefold value) = Some (j, w) \<Longrightarrow> field \<noteq> ''id'' \<and> w = value"
  using assms by (auto simp: note_name_def split: option.splits prod.splits if_splits)

lemma note_name_keeps: "map_of seen k = Some p \<Longrightarrow> map_of (snd (note_name field index tool seen)) k = Some p"
  by (auto simp: note_name_def split: pyval.splits option.splits prod.splits)

definition named :: "string \<Rightarrow> pyval \<Rightarrow> string \<Rightarrow> bool" where
  "named field v s \<longleftrightarrow> (\<exists>tool. v = PDict tool \<and> dget tool field = PStr s)"

lemma duplicate_errors_seen:
  assumes "duplicate_errors ids acts tools = []" "(i, v) \<in> set tools"
  shows "named ''id'' v s \<Longrightarrow> map_of ids (casefold s) = None"
    and "named ''action'' v s \<Longrightarrow> map_of acts (casefold s) = Some (j, w) \<Longrightarrow> w = s"
proof -
  from assms have "(named ''id'' v s \<longrightarrow> map_of ids (casefold s) = None) \<and>
      (named ''action'' v s \<longrightarrow> map_of acts (casefold s) = Some (j, w) \<longrightarrow> w = s)"
  proof (induction ids acts tools arbitrary: rule: duplicate_errors.induct)
    case (2 ids acts index tool tools)
    let ?i = "note_name ''id'' index tool ids" and ?a = "note_name ''action'' index tool acts"
    from "2.prems"(1) have e: "fst ?i = []" "fst ?a = []" "duplicate_errors (snd ?i) (snd ?a) tools = []"
      by (simp_all add: Let_def)
    show ?case
    proof (cases "(i, v) = (index, PDict tool)")
      case True
      then have v: "v = PDict tool" by simp
      have "map_of ids (casefold s) = None" if "named ''id'' v s"
        using note_name_Nil(2) [OF e(1), of s] that v by (cases "map_of ids (casefold s)") (auto simp: named_def)
      moreover have "w = s" if "named ''action'' v s" "map_of acts (casefold s) = Some (j, w)"
        using note_name_Nil(2) [OF e(2), of s] that v by (auto simp: named_def)
      ultimately show ?thesis by blast
    next
      case False
      then have "(i, v) \<in> set tools" using "2.prems"(2) by auto
      note IH = "2.IH" [OF refl refl e(3) this]
      have "map_of ids (casefold s) = None" if "named ''id'' v s"
        using IH that note_name_keeps [of ids "casefold s" _ "''id''" index tool] by (cases "map_of ids (casefold s)") auto
      moreover have "w = s" if "named ''action'' v s" "map_of acts (casefold s) = Some (j, w)"
        using IH that(1) note_name_keeps [OF that(2), of "''action''" index tool] by blast
      ultimately show ?thesis by blast
    qed
  qed (auto simp: named_def)
  then show "named ''id'' v s \<Longrightarrow> map_of ids (casefold s) = None"
    and "named ''action'' v s \<Longrightarrow> map_of acts (casefold s) = Some (j, w) \<Longrightarrow> w = s" by blast+
qed

definition no_clash :: "pyval \<Rightarrow> pyval \<Rightarrow> bool" where
  "no_clash u v \<longleftrightarrow> (\<forall>s t. named ''id'' u s \<longrightarrow> named ''id'' v t \<longrightarrow> casefold s \<noteq> casefold t) \<and>
     (\<forall>s t. named ''action'' u s \<longrightarrow> named ''action'' v t \<longrightarrow> casefold s = casefold t \<longrightarrow> s = t)"

lemma duplicate_errors_Nil:
  "duplicate_errors ids acts tools = [] \<Longrightarrow> sorted_wrt (\<lambda>p q. no_clash (snd p) (snd q)) tools"
proof (induction ids acts tools rule: duplicate_errors.induct)
  case (2 ids acts index tool tools)
  let ?i = "note_name ''id'' index tool ids" and ?a = "note_name ''action'' index tool acts"
  from "2.prems" have e: "fst ?i = []" "fst ?a = []" "duplicate_errors (snd ?i) (snd ?a) tools = []"
    by (simp_all add: Let_def)
  have "no_clash (PDict tool) v" if v: "(j, v) \<in> set tools" for j v
    unfolding no_clash_def
  proof (intro conjI allI impI)
    fix s t assume s: "named ''id'' (PDict tool) s" and t: "named ''id'' v t"
    from s obtain i where "map_of (snd ?i) (casefold s) = Some (i, s)" using note_name_Nil(1) [OF e(1)] by (auto simp: named_def)
    moreover have "map_of (snd ?i) (casefold t) = None" using duplicate_errors_seen(1) [OF e(3) v t] .
    ultimately show "casefold s \<noteq> casefold t" by auto
  next
    fix s t assume s: "named ''action'' (PDict tool) s" and t: "named ''action'' v t" and c: "casefold s = casefold t"
    from s obtain i where "map_of (snd ?a) (casefold s) = Some (i, s)" using note_name_Nil(1) [OF e(2)] by (auto simp: named_def)
    with duplicate_errors_seen(2) [OF e(3) v t] c show "s = t" by simp
  qed
  with "2.IH" [OF refl refl e(3)] show ?case by auto
qed (auto simp: no_clash_def named_def)


text \<open>
  A contract without errors is unambiguous and honest: the ids of two of its tools differ in every spelling, two
  actions that differ only in spelling do not occur, every resource pattern is one the matcher supports, a tool
  annotated read-only has no mutating effect, and only a tool with a mutating effect is annotated destructive.
\<close>

theorem accepted_contract_unambiguous:
  assumes "tool_contract_errors js (PDict d) = []" "dget d ''tools'' = PList tools" "i < length tools" "tools ! i = PDict t"
  shows "(j < i \<longrightarrow> no_clash (tools ! j) (PDict t)) \<and>
    (dget t ''resource_patterns'' = PList ps \<longrightarrow> PStr p \<in> set ps \<longrightarrow> pattern_errors p = []) \<and>
    (dget t ''annotations'' = PDict a \<longrightarrow> dget t ''effects'' = PList es \<longrightarrow>
      (dget a ''read_only'' = PBool True \<longrightarrow> mutating_of es = []) \<and>
      (dget a ''destructive'' = PBool True \<longrightarrow> mutating_of es \<noteq> []))"
proof -
  have e: "duplicate_errors [] [] (enumerate 0 tools) = []" "per_tool resource_pattern_errors tools = []"
    "per_tool annotation_errors tools = []"
    using assms(1,2) by (auto simp: tool_contract_errors_def split: if_splits)
  have "sorted_wrt (\<lambda>p q. no_clash (snd p) (snd q)) (enumerate 0 tools)" by (rule duplicate_errors_Nil [OF e(1)])
  then have "sorted_wrt no_clash tools" by (simp add: sorted_wrt_map [symmetric])
  then have "j < i \<longrightarrow> no_clash (tools ! j) (tools ! i)" using assms(3) by (simp add: sorted_wrt_iff_nth_less)
  then have "j < i \<longrightarrow> no_clash (tools ! j) (PDict t)" by (simp only: assms(4))
  moreover have "pattern_errors p = []" if g: "dget t ''resource_patterns'' = PList ps" "PStr p \<in> set ps"
  proof -
    obtain n where "n < length ps" "ps ! n = PStr p" using g(2) by (auto simp: in_set_conv_nth)
    then have "(n, PStr p) \<in> set (enumerate 0 ps)" by (simp add: in_set_enumerate_eq)
    with per_tool_Nil [OF e(2) assms(3,4)] g(1) show ?thesis by (fastforce simp: resource_pattern_errors_def)
  qed
  moreover have "annotation_errors i t = []" using per_tool_Nil [OF e(3) assms(3,4)] .
  ultimately show ?thesis by (auto simp: annotation_errors_def Let_def split: if_splits)
qed

definition sample_schema :: json_schema where
  "sample_schema = \<lparr>contract_violations = (\<lambda>v. []), check_schema = (\<lambda>v. None), violations = (\<lambda>s v. Some [])\<rparr>"

definition sample_tool :: "string \<Rightarrow> string \<Rightarrow> pydict" where
  "sample_tool name act = obj [(''id'', PStr name), (''action'', PStr act), (''input_schema'', PDict []),
     (''resource_patterns'', PList [PStr ''r*'']), (''effects'', PList [PStr ''message_send'']),
     (''annotations'', PDict (obj [(''destructive'', PBool True)]))]"

definition sample_contract :: pydict where
  "sample_contract = obj [(''schema_version'', PStr ''1.0''),
     (''tools'', PList [PDict (sample_tool ''mail'' ''send''), PDict (sample_tool ''post'' ''send'')])]"

theorem accepted_contract_unambiguous_witness:
  "no_clash (PDict (sample_tool ''mail'' ''send'')) (PDict (sample_tool ''post'' ''send'')) \<and> pattern_errors ''r*'' = []"
proof -
  let ?tools = "[PDict (sample_tool ''mail'' ''send''), PDict (sample_tool ''post'' ''send'')]"
  have "tool_contract_errors sample_schema (PDict sample_contract) = []" by code_simp
  moreover have "dget sample_contract ''tools'' = PList ?tools" by (simp add: sample_contract_def dget_def dget_or_def)
  ultimately have "(0 < (1::nat) \<longrightarrow> no_clash (?tools ! 0) (PDict (sample_tool ''post'' ''send''))) \<and>
    (dget (sample_tool ''post'' ''send'') ''resource_patterns'' = PList [PStr ''r*''] \<longrightarrow> PStr ''r*'' \<in> set [PStr ''r*''] \<longrightarrow> pattern_errors ''r*'' = [])"
    using accepted_contract_unambiguous [of sample_schema sample_contract ?tools 1 "sample_tool ''post'' ''send''" 0 "[PStr ''r*'']" "''r*''"]
    by simp
  then show ?thesis by (simp add: sample_tool_def dget_def dget_or_def)
qed

end
