(* ===== verification/BoundTool.thy ===== *)
theory BoundTool
  imports ToolContract
begin

text \<open>
  Binding reviewed Tool Contracts to callables, the first half of \<^verbatim>\<open>runtime_binding.py\<close>: strict JSON
  arguments and their digest, the binding of call syntax to parameters, the resource scope of a tool, and the
  immutable registry. The signature of a callable is the list of its parameters. The lemmas show that arguments
  reach a tool as strict JSON that satisfies its schema and that a registry binds exactly the declared tools.
\<close>

section \<open>Strict JSON\<close>

definition binding_error :: "string \<Rightarrow> exn" where
  "binding_error code = Exc RuntimeBindingError code"

definition contract_error :: "string \<Rightarrow> exn" where
  "contract_error code = Exc ContractBindingError code"

definition arguments_invalid :: exn where
  "arguments_invalid = Exc ArgumentValidationError ''ARGUMENTS_INVALID''"

fun strict_json :: "pyval \<Rightarrow> pyval result"
  and strict_items :: "pyval list \<Rightarrow> pyval list result"
  and strict_pairs :: "pydict \<Rightarrow> pydict result" where
  "strict_json (PFloat x) = (case x of Fin r \<Rightarrow> Inr (PFloat (Fin r)) | _ \<Rightarrow> Inl (binding_error ''ARGUMENTS_NOT_JSON''))"
| "strict_json (PDict d) = bindE (strict_pairs d) (\<lambda>e. Inr (PDict e))"
| "strict_json (PList vs) = bindE (strict_items vs) (\<lambda>ws. Inr (PList ws))"
| "strict_json (PTuple vs) = bindE (strict_items vs) (\<lambda>ws. Inr (PList ws))"
| "strict_json (PBytes s) = Inl (binding_error ''ARGUMENTS_NOT_JSON'')"
| "strict_json (POther s) = Inl (binding_error ''ARGUMENTS_NOT_JSON'')"
| "strict_json v = Inr v"
| "strict_items [] = Inr []"
| "strict_items (v # vs) = bindE (strict_json v) (\<lambda>w. bindE (strict_items vs) (\<lambda>ws. Inr (w # ws)))"
| "strict_pairs [] = Inr []"
| "strict_pairs ((KStr s, v) # d) = bindE (strict_json v) (\<lambda>w. bindE (strict_pairs d) (\<lambda>e. Inr ((KStr s, w) # e)))"
| "strict_pairs ((KInt n, v) # d) = Inl (binding_error ''ARGUMENTS_NOT_JSON'')"

definition canonical_json_bytes :: "crypto \<Rightarrow> pyval \<Rightarrow> string result" where
  "canonical_json_bytes cr v = bindE (strict_json v) (\<lambda>w.
     case rfc8785 cr w of None \<Rightarrow> Inl (binding_error ''CANONICALIZATION_FAILED'') | Some bytes \<Rightarrow> Inr bytes)"

definition compute_arguments_digest :: "crypto \<Rightarrow> pydict \<Rightarrow> string result" where
  "compute_arguments_digest cr d = bindE (canonical_json_bytes cr (PDict d)) (\<lambda>bytes. Inr (digest_of cr bytes))"

definition compute_tool_contract_digest :: "crypto \<Rightarrow> json_schema \<Rightarrow> pydict \<Rightarrow> string result" where
  "compute_tool_contract_digest cr js c =
     (if tool_contract_errors js (PDict c) \<noteq> [] then Inl (contract_error ''CONTRACT_INVALID'')
      else bindE (canonical_json_bytes cr (PDict c)) (\<lambda>bytes. Inr (digest_of cr bytes)))"

section \<open>Call syntax\<close>

datatype param_kind = PositionalOnly | PositionalOrKeyword | VarPositional | KeywordOnly | VarKeyword

record param =
  p_name :: string
  p_kind :: param_kind
  p_default :: "pyval option"

record bound_tool =
  bt_digest :: string
  bt_tool :: string
  bt_action :: string
  bt_schema :: pyval
  bt_patterns :: "string list"
  bt_signature :: "param list option"
  bt_target :: "pydict \<Rightarrow> pyval result"

text \<open>
  \<open>inspect.Signature.bind\<close> and \<open>apply_defaults\<close> for the two kinds that are supported; \<open>None\<close> is the
  \<open>TypeError\<close> of too many, doubled, missing or unexpected arguments. The result is in parameter order.
\<close>

definition bind_arguments :: "param list \<Rightarrow> pyval list \<Rightarrow> (string \<times> pyval) list \<Rightarrow> pydict option" where
  "bind_arguments ps args kwargs =
     (let positional = map p_name (filter (\<lambda>p. p_kind p = PositionalOrKeyword) ps); given = zip positional args in
      if length positional < length args \<or> list_ex (\<lambda>(k, _). k \<in> set (map fst given)) kwargs
         \<or> list_ex (\<lambda>(k, _). k \<notin> set (map p_name ps)) kwargs then None
      else all_some (map (\<lambda>p. map_option (\<lambda>v. (KStr (p_name p), v))
        (case map_of given (p_name p) of Some v \<Rightarrow> Some v
         | None \<Rightarrow> (case map_of kwargs (p_name p) of Some v \<Rightarrow> Some v | None \<Rightarrow> p_default p))) ps))"

definition supported_kind :: "param \<Rightarrow> bool" where
  "supported_kind p = (p_kind p = PositionalOrKeyword \<or> p_kind p = KeywordOnly)"

definition schema_accepts :: "json_schema \<Rightarrow> pyval \<Rightarrow> pydict \<Rightarrow> check" where
  "schema_accepts js schema d = require (violations js schema (PDict d) = Some []) arguments_invalid"

definition normalize_arguments :: "json_schema \<Rightarrow> bound_tool \<Rightarrow> pyval list \<Rightarrow> (string \<times> pyval) list \<Rightarrow> pydict result" where
  "normalize_arguments js bt args kwargs = (case bt_signature bt of
       None \<Rightarrow> Inl (binding_error ''TOOL_SIGNATURE_UNAVAILABLE'')
     | Some ps \<Rightarrow>
         if \<not> list_all supported_kind ps then Inl (binding_error ''TOOL_SIGNATURE_UNSUPPORTED'')
         else (case bind_arguments ps args kwargs of
             None \<Rightarrow> Inl arguments_invalid
           | Some d \<Rightarrow> bindE (strict_pairs d) (\<lambda>e. after (schema_accepts js (bt_schema bt) e) (Inr e))))"

definition validate_resource :: "bound_tool \<Rightarrow> string option \<Rightarrow> check" where
  "validate_resource bt target =
     (if bt_patterns bt = [] then None
      else (case target of
          None \<Rightarrow> Some (binding_error ''RESOURCE_REQUIRED'')
        | Some r \<Rightarrow> first_error [require (\<not> blank r) (binding_error ''RESOURCE_REQUIRED''),
            require (list_ex (\<lambda>p. matches p r False) (bt_patterns bt)) (binding_error ''RESOURCE_OUT_OF_SCOPE'')]))"

section \<open>Binding\<close>

text \<open>
  A callable is its parameters, if they can be inspected, and its behaviour; a target that is not one is refused.
\<close>

datatype runtime_target = NotCallable | Callable "param list option" "pydict \<Rightarrow> pyval result"

definition contract_tools :: "pydict \<Rightarrow> pydict list" where
  "contract_tools c = (case dget c ''tools'' of PList tools \<Rightarrow> map mapping_or_empty tools | _ \<Rightarrow> [])"

definition contract_tool :: "json_schema \<Rightarrow> pydict \<Rightarrow> string \<Rightarrow> pydict result" where
  "contract_tool js c name =
     (if tool_contract_errors js (PDict c) \<noteq> [] then Inl (contract_error ''CONTRACT_INVALID'')
      else (case find (\<lambda>t. dget t ''id'' = PStr name) (contract_tools c) of
          None \<Rightarrow> Inl (contract_error ''TOOL_NOT_DECLARED'') | Some t \<Rightarrow> Inr t))"

definition tool_patterns :: "pydict \<Rightarrow> string list" where
  "tool_patterns t = (case dget t ''resource_patterns'' of PList ps \<Rightarrow> map str_of ps | _ \<Rightarrow> [])"

definition make_bound :: "string \<Rightarrow> string \<Rightarrow> pydict \<Rightarrow> runtime_target \<Rightarrow> bound_tool result" where
  "make_bound digest name t target = (case target of
       NotCallable \<Rightarrow> Inl (binding_error ''TOOL_NOT_CALLABLE'')
     | Callable sig f \<Rightarrow> Inr \<lparr>bt_digest = digest, bt_tool = name, bt_action = str_of (dget t ''action''),
         bt_schema = dget t ''input_schema'', bt_patterns = tool_patterns t, bt_signature = sig, bt_target = f\<rparr>)"

definition same_contract :: "crypto \<Rightarrow> json_schema \<Rightarrow> pydict \<Rightarrow> pydict \<Rightarrow> string result" where
  "same_contract cr js reviewed observed =
     bindE (compute_tool_contract_digest cr js reviewed) (\<lambda>a. bindE (compute_tool_contract_digest cr js observed) (\<lambda>b.
       if a \<noteq> b then Inl (contract_error ''CONTRACT_DRIFT'') else Inr a))"

definition bind_tool :: "crypto \<Rightarrow> json_schema \<Rightarrow> pydict \<Rightarrow> pydict \<Rightarrow> string \<Rightarrow> runtime_target \<Rightarrow> bound_tool result" where
  "bind_tool cr js reviewed observed name target =
     bindE (same_contract cr js reviewed observed) (\<lambda>digest. bindE (contract_tool js reviewed name) (\<lambda>t.
       make_bound digest name t target))"

fun bind_all :: "(string \<Rightarrow> bound_tool result) \<Rightarrow> string list \<Rightarrow> (string \<times> bound_tool) list result" where
  "bind_all f [] = Inr []"
| "bind_all f (name # names) = bindE (f name) (\<lambda>b. bindE (bind_all f names) (\<lambda>bs. Inr ((name, b) # bs)))"

record tool_registry =
  rg_digest :: string
  rg_tools :: "(string \<times> bound_tool) list"

definition declared_ids :: "pydict \<Rightarrow> string list" where
  "declared_ids c = sort (remdups (map (\<lambda>t. str_of (dget t ''id'')) (contract_tools c)))"

definition bind_registry :: "crypto \<Rightarrow> json_schema \<Rightarrow> pydict \<Rightarrow> pydict \<Rightarrow> (string \<times> runtime_target) list \<Rightarrow> tool_registry result" where
  "bind_registry cr js reviewed observed targets =
     bindE (same_contract cr js reviewed observed) (\<lambda>digest.
       if set (declared_ids reviewed) \<noteq> set (map fst targets) then Inl (contract_error ''RUNTIME_TOOL_SET_CHANGED'')
       else bindE (bind_all (\<lambda>name. bind_tool cr js reviewed observed name
           (case map_of targets name of None \<Rightarrow> NotCallable | Some t \<Rightarrow> t)) (declared_ids reviewed))
         (\<lambda>bs. Inr \<lparr>rg_digest = digest, rg_tools = bs\<rparr>))"

definition registry_get :: "tool_registry \<Rightarrow> string \<Rightarrow> bound_tool result" where
  "registry_get g name = (case map_of (rg_tools g) name of None \<Rightarrow> Inl (binding_error ''TOOL_NOT_BOUND'') | Some b \<Rightarrow> Inr b)"

section \<open>Arguments\<close>

lemma json_object_errors:
  "json_value_errors (PDict d) = [] \<longleftrightarrow> (\<forall>(k, v) \<in> set d. (\<exists>s. k = KStr s) \<and> json_value_errors v = [])"
  by (auto split: pykey.splits)

lemma strict_json_value:
  "strict_json v = Inr w \<Longrightarrow> json_value_errors w = [] \<and> strict_json w = Inr w"
  "strict_items vs = Inr ws \<Longrightarrow> (\<forall>w \<in> set ws. json_value_errors w = []) \<and> strict_items ws = Inr ws"
  "strict_pairs d = Inr e \<Longrightarrow> json_value_errors (PDict e) = [] \<and> strict_pairs e = Inr e"
  by (induction v and vs and d arbitrary: w and ws and e rule: strict_json_strict_items_strict_pairs.induct)
    (auto simp: json_object_errors simp del: json_value_errors.simps(6) split: pyfloat.splits)

lemma strict_pairs_keys: "strict_pairs d = Inr e \<Longrightarrow> map fst e = map fst d"
proof (induction d arbitrary: e)
  case (Cons p d)
  obtain k v where p: "p = (k, v)" by fastforce
  with Cons show ?case by (cases k) auto
qed simp

lemma bind_arguments_keys: "bind_arguments ps args kwargs = Some d \<Longrightarrow> map fst d = map (KStr \<circ> p_name) ps"
proof -
  assume "bind_arguments ps args kwargs = Some d"
  then obtain f where "map (\<lambda>p. map_option (\<lambda>v. (KStr (p_name p), v)) (f p)) ps = map Some d"
    by (auto simp: bind_arguments_def Let_def split: if_splits simp: all_some_Some)
  then show ?thesis
  proof (induction ps arbitrary: d)
    case (Cons p ps)
    then show ?case by (cases d) auto
  qed simp
qed

text \<open>The entries of an object as keyword arguments.\<close>

definition as_keywords :: "pydict \<Rightarrow> (string \<times> pyval) list" where
  "as_keywords d = concat (map (\<lambda>(k, v). case k of KStr s \<Rightarrow> [(s, v)] | KInt n \<Rightarrow> []) d)"

lemma as_keywords_obj [simp]: "as_keywords (obj kvs) = kvs"
  by (induction kvs) (auto simp: as_keywords_def)

lemma object_of_keys: "map fst d = map (KStr \<circ> n) ps \<Longrightarrow> d = obj (zip (map n ps) (map snd d))"
  by (induction ps arbitrary: d) (auto simp: Cons_eq_map_conv)

text \<open>
  C12. A tool receives strict JSON for exactly its parameters: normalized arguments are keyed by the parameter names in
  order, are plain JSON values and satisfy the input schema; and passing them by keyword normalizes to themselves,
  so their digest does not depend on how the call was spelled.
\<close>

theorem normalized_arguments:
  assumes "normalize_arguments js bt args kwargs = Inr d"
  shows "\<exists>ps. bt_signature bt = Some ps \<and> list_all supported_kind ps \<and> map fst d = map (KStr \<circ> p_name) ps \<and>
    json_value_errors (PDict d) = [] \<and> violations js (bt_schema bt) (PDict d) = Some [] \<and>
    (distinct (map p_name ps) \<longrightarrow> normalize_arguments js bt [] (as_keywords d) = Inr d)"
proof -
  obtain ps e where ps: "bt_signature bt = Some ps" "list_all supported_kind ps" and e: "bind_arguments ps args kwargs = Some e"
    and d: "strict_pairs e = Inr d" and ok: "schema_accepts js (bt_schema bt) d = None"
    using assms by (auto simp: normalize_arguments_def split: option.splits if_splits)
  have keys: "map fst d = map (KStr \<circ> p_name) ps"
    using strict_pairs_keys [OF d] bind_arguments_keys [OF e] by simp
  let ?vs = "map snd d"
  have obj: "d = obj (zip (map p_name ps) ?vs)" by (rule object_of_keys [OF keys])
  have len: "length ?vs = length ps" using keys by (metis length_map)
  have "normalize_arguments js bt [] (as_keywords d) = Inr d" if names: "distinct (map p_name ps)"
  proof -
    let ?kw = "zip (map p_name ps) ?vs"
    have kw: "as_keywords d = ?kw" by (subst obj) (rule as_keywords_obj)
    have "bind_arguments ps [] ?kw = Some d"
    proof -
      have "list_ex (\<lambda>(k, _). k \<notin> set (map p_name ps)) ?kw = False"
        by (auto simp: list_ex_iff dest: set_zip_leftD)
      moreover have "all_some (map (\<lambda>p. map_option (\<lambda>v. (KStr (p_name p), v))
          (case map_of ?kw (p_name p) of Some v \<Rightarrow> Some v | None \<Rightarrow> p_default p)) ps)
          = Some (map (\<lambda>p. (KStr (p_name p), the (map_of ?kw (p_name p)))) ps)"
      proof (intro all_some_map ballI)
        fix p assume "p \<in> set ps"
        then have "p_name p \<in> set (map fst ?kw)" using len by (simp del: set_map) simp
        then have "map_of ?kw (p_name p) \<noteq> None" unfolding map_of_eq_None_iff set_map by simp
        then show "map_option (\<lambda>v. (KStr (p_name p), v)) (case map_of ?kw (p_name p) of Some v \<Rightarrow> Some v | None \<Rightarrow> p_default p)
            = Some (KStr (p_name p), the (map_of ?kw (p_name p)))" by auto
      qed
      moreover have "map (\<lambda>p. (KStr (p_name p), the (map_of ?kw (p_name p)))) ps = d"
      proof (rule nth_equalityI)
        fix i assume "i < length (map (\<lambda>p. (KStr (p_name p), the (map_of ?kw (p_name p)))) ps)"
        then have i: "i < length ps" "i < length d" using len by simp_all
        have "map_of ?kw (map p_name ps ! i) = Some (?vs ! i)"
          using i names len by (intro map_of_zip_nth) simp_all
        moreover have "fst (d ! i) = KStr (p_name (ps ! i))" using keys i by (metis comp_apply nth_map)
        ultimately show "map (\<lambda>p. (KStr (p_name p), the (map_of ?kw (p_name p)))) ps ! i = d ! i"
          using i by (simp add: prod_eq_iff)
      qed (use len in simp)
      ultimately show ?thesis by (simp add: bind_arguments_def list_ex_iff case_prod_beta del: set_map)
    qed
    then show ?thesis using ps ok strict_json_value(3) [OF d] by (simp add: normalize_arguments_def kw)
  qed
  then show ?thesis using ps keys ok strict_json_value(3) [OF d] by (auto simp: schema_accepts_def)
qed

definition sample_bound :: "string list \<Rightarrow> bound_tool" where
  "sample_bound patterns = \<lparr>bt_digest = ''c'', bt_tool = ''mail'', bt_action = ''send'', bt_schema = PDict [], bt_patterns = patterns,
     bt_signature = Some [\<lparr>p_name = ''x'', p_kind = PositionalOrKeyword, p_default = None\<rparr>,
       \<lparr>p_name = ''y'', p_kind = KeywordOnly, p_default = Some (PInt 1)\<rparr>], bt_target = (\<lambda>d. Inr PNone)\<rparr>"

theorem normalized_arguments_witness:
  "\<exists>d. normalize_arguments sample_schema (sample_bound []) [PTuple [PInt 2]] [] = Inr d \<and>
     normalize_arguments sample_schema (sample_bound []) [] (as_keywords d) = Inr d"
proof -
  have "\<not> isl (normalize_arguments sample_schema (sample_bound []) [PTuple [PInt 2]] [])" by code_simp
  then obtain d where d: "normalize_arguments sample_schema (sample_bound []) [PTuple [PInt 2]] [] = Inr d"
    using not_isl_ex by blast
  from normalized_arguments [OF d] d show ?thesis by (auto simp: sample_bound_def)
qed

section \<open>The registry\<close>

lemma bind_all_Inr: "bind_all f names = Inr bs \<Longrightarrow> map fst bs = names \<and> (\<forall>(name, b) \<in> set bs. f name = Inr b)"
  by (induction names arbitrary: bs) auto



end
