(* ===== verification/PyTime.thy ===== *)
theory PyTime
  imports Prelude "HOL-Library.Monad_Syntax"
begin

text \<open>
  Time as the modules use it: \<open>datetime.fromisoformat\<close> on the grammar documented for the
  oldest supported interpreter (Python 3.10), aware and naive values, \<open>astimezone(utc)\<close> with
  its overflow, and the validity window every signed object is checked against. A time is an
  integer of microseconds since 0001-01-01T00:00.
\<close>

section \<open>Dates and times\<close>

record datetime =
  local_us :: int
  utc_offset :: "int option"

definition max_us :: int where
  "max_us = 3652059 * 86400000000"

definition in_range :: "int \<Rightarrow> bool" where
  "in_range t \<longleftrightarrow> 0 \<le> t \<and> t < max_us"

definition aware :: "datetime \<Rightarrow> bool" where
  "aware d \<longleftrightarrow> utc_offset d \<noteq> None"

definition instant :: "datetime \<Rightarrow> int" where
  "instant d = local_us d - (case utc_offset d of None \<Rightarrow> 0 | Some off \<Rightarrow> off)"

text \<open>\<open>d.astimezone(timezone.utc)\<close> of an aware value raises when the instant leaves the years
  1 to 9999.\<close>

definition astimezone_utc :: "datetime \<Rightarrow> int result" where
  "astimezone_utc d = (if in_range (instant d) then Inr (instant d) else Inl (Exc OverflowError ''astimezone''))"

definition is_leap :: "int \<Rightarrow> bool" where
  "is_leap y \<longleftrightarrow> y mod 4 = 0 \<and> (y mod 100 \<noteq> 0 \<or> y mod 400 = 0)"

definition month_lengths :: "int \<Rightarrow> int list" where
  "month_lengths y = [31, if is_leap y then 29 else 28, 31, 30, 31, 30, 31, 31, 30, 31, 30, 31]"

definition day_number :: "int \<Rightarrow> int \<Rightarrow> int \<Rightarrow> int option" where
  "day_number y m d =
     (if 1 \<le> y \<and> 1 \<le> m \<and> m \<le> 12 \<and> 1 \<le> d \<and> d \<le> month_lengths y ! nat (m - 1)
      then Some ((y - 1) * 365 + (y - 1) div 4 - (y - 1) div 100 + (y - 1) div 400
                 + sum_list (take (nat (m - 1)) (month_lengths y)) + (d - 1))
      else None)"

section \<open>datetime.fromisoformat\<close>

definition is_digit :: "char \<Rightarrow> bool" where
  "is_digit c = (let n = (of_char c :: nat) in 48 \<le> n \<and> n \<le> 57)"

definition number_of :: "string \<Rightarrow> int" where
  "number_of s = foldl (\<lambda>acc c. 10 * acc + (of_char c - 48)) 0 s"

definition digits :: "nat \<Rightarrow> string \<Rightarrow> (int \<times> string) option" where
  "digits n s = (if n \<le> length s \<and> list_all is_digit (take n s)
     then Some (number_of (take n s), drop n s) else None)"

definition expect :: "char \<Rightarrow> string \<Rightarrow> string option" where
  "expect c s = (case s of [] \<Rightarrow> None | x # rest \<Rightarrow> if x = c then Some rest else None)"

definition starts :: "char \<Rightarrow> string \<Rightarrow> bool" where
  "starts c s \<longleftrightarrow> (case s of [] \<Rightarrow> False | x # _ \<Rightarrow> x = c)"

definition parse_date :: "string \<Rightarrow> (int \<times> string) option" where
  "parse_date s = do {
     (y, s) \<leftarrow> digits 4 s;
     s \<leftarrow> expect CHR ''-'' s;
     (m, s) \<leftarrow> digits 2 s;
     s \<leftarrow> expect CHR ''-'' s;
     (d, s) \<leftarrow> digits 2 s;
     n \<leftarrow> day_number y m d;
     Some (n, s) }"

text \<open>\<open>SS[.fff[fff]]\<close> as microseconds, then \<open>HH[:MM[:SS[.fff[fff]]]]\<close>.\<close>

definition parse_fraction :: "bool \<Rightarrow> string \<Rightarrow> (int \<times> string) option" where
  "parse_fraction three s =
     (if starts CHR ''.'' s then
        (case digits 6 (tl s) of
           Some r \<Rightarrow> Some r
         | None \<Rightarrow> if three then map_option (\<lambda>(n, r). (1000 * n, r)) (digits 3 (tl s)) else None)
      else Some (0, s))"

definition parse_seconds :: "bool \<Rightarrow> string \<Rightarrow> (int \<times> string) option" where
  "parse_seconds three s =
     (if starts CHR '':'' s then do {
        (sec, s) \<leftarrow> digits 2 (tl s);
        (us, s) \<leftarrow> parse_fraction three s;
        if sec < 60 then Some (1000000 * sec + us, s) else None }
      else Some (0, s))"

definition parse_clock :: "string \<Rightarrow> (int \<times> string) option" where
  "parse_clock s = do {
     (h, s) \<leftarrow> digits 2 s;
     if 24 \<le> h then None
     else if starts CHR '':'' s then do {
       (m, s) \<leftarrow> digits 2 (tl s);
       (us, s) \<leftarrow> parse_seconds True s;
       if m < 60 then Some (3600000000 * h + 60000000 * m + us, s) else None }
     else Some (3600000000 * h, s) }"

text \<open>The offset: absent, or a sign and \<open>HH:MM[:SS[.ffffff]]\<close>, smaller than a day.\<close>

definition parse_offset :: "string \<Rightarrow> int option option" where
  "parse_offset s =
     (if s = [] then Some None
      else if starts CHR ''+'' s \<or> starts CHR ''-'' s then do {
        (h, r) \<leftarrow> digits 2 (tl s);
        r \<leftarrow> expect CHR '':'' r;
        (m, r) \<leftarrow> digits 2 r;
        (us, r) \<leftarrow> parse_seconds False r;
        let n = 3600000000 * h + 60000000 * m + us;
        if r = [] \<and> n < 86400000000
        then Some (Some (if starts CHR ''-'' s then - n else n)) else None }
      else None)"

definition fromisoformat :: "string \<Rightarrow> datetime option" where
  "fromisoformat s = do {
     (day, s) \<leftarrow> parse_date s;
     if s = [] then Some \<lparr>local_us = day * 86400000000, utc_offset = None\<rparr>
     else do {
       (us, s) \<leftarrow> parse_clock (tl s);
       off \<leftarrow> parse_offset s;
       Some \<lparr>local_us = day * 86400000000 + us, utc_offset = off\<rparr> } }"

text \<open>A trailing \<open>Z\<close> (with some callers also \<open>z\<close>) is rewritten before parsing.\<close>

definition normalize_zulu :: "string \<Rightarrow> string \<Rightarrow> string" where
  "normalize_zulu zs s = (if s \<noteq> [] \<and> last s \<in> set zs then butlast s @ ''+00:00'' else s)"

section \<open>Parsing an aware instant, and the validity window\<close>

text \<open>
  \<open>parse_utc zs e s\<close>: \<open>e\<close> when the text is not ISO-8601 or has no offset, otherwise the UTC
  instant. \<open>zs\<close> are the accepted zulu suffixes.
\<close>

definition parse_utc :: "string \<Rightarrow> exn \<Rightarrow> string \<Rightarrow> int result" where
  "parse_utc zs e s = (case fromisoformat (normalize_zulu zs s) of
       None \<Rightarrow> Inl e
     | Some d \<Rightarrow> if aware d then astimezone_utc d else Inl e)"

definition parse_trimmed_utc :: "string \<Rightarrow> exn \<Rightarrow> pyval \<Rightarrow> int result" where
  "parse_trimmed_utc zs e v = (if trimmed_str v then parse_utc zs e (str_of v) else Inl e)"

definition us :: "int \<Rightarrow> int" where
  "us seconds = seconds * 1000000"

text \<open>
  The clock value used by a verifier: \<open>current_time\<close> when given, else the system's reading. A
  naive one is a \<open>ValueError\<close>.
\<close>

definition utc_now :: "datetime \<Rightarrow> int result" where
  "utc_now clock = (if aware clock then astimezone_utc clock else Inl (Exc ValueError ''current_time''))"

text \<open>\<open>issued > now + skew\<close> and \<open>expires < now - skew\<close>, in this order.\<close>

definition within_skew :: "exn \<Rightarrow> exn \<Rightarrow> int \<Rightarrow> int \<Rightarrow> int \<Rightarrow> int \<Rightarrow> check list" where
  "within_skew early late issued expires now skew =
     [require (in_range (now + us skew)) (Exc OverflowError ''now+skew''),
      require (issued \<le> now + us skew) early,
      require (in_range (now - us skew)) (Exc OverflowError ''now-skew''),
      require (now - us skew \<le> expires) late]"

definition window_check ::
    "exn \<Rightarrow> exn \<Rightarrow> exn \<Rightarrow> int result \<Rightarrow> int result \<Rightarrow> datetime \<Rightarrow> int \<Rightarrow> check" where
  "window_check reversed_window early late issued expires clock skew =
     (if skew < 0 then Some (Exc ValueError ''clock_skew_seconds'')
      else check_of (bindE issued (\<lambda>i. bindE expires (\<lambda>x.
        if x \<le> i then Inl reversed_window
        else bindE (utc_now clock) (\<lambda>now. guarded (within_skew early late i x now skew) ())))))"

lemma within_skew_None:
  "first_error (within_skew early late i x now skew) = None \<longleftrightarrow>
   in_range (now + us skew) \<and> in_range (now - us skew) \<and> i \<le> now + us skew \<and> now - us skew \<le> x"
  by (simp add: within_skew_def guards) blast

lemma window_check_None:
  "window_check rw early late issued expires clock skew = None \<longleftrightarrow>
   (\<exists>i x now. 0 \<le> skew \<and> issued = Inr i \<and> expires = Inr x \<and> i < x \<and> utc_now clock = Inr now \<and>
      in_range (now + us skew) \<and> in_range (now - us skew) \<and>
      i \<le> now + us skew \<and> now - us skew \<le> x)"
  by (auto simp: window_check_def within_skew_None split: sum.splits)

text \<open>A clock reading for the witnesses: 2026-01-10T00:00:00+00:00.\<close>

definition sample_clock :: datetime where
  "sample_clock = \<lparr>local_us = 63903600000000000, utc_offset = Some 0\<rparr>"

end
