(* ===== verification/ActionRequest.thy ===== *)
theory ActionRequest
  imports Json
begin

text \<open>
  \<^verbatim>\<open>action_request.py\<close>, \<^verbatim>\<open>execution_scope.py\<close>, \<^verbatim>\<open>enums.py\<close> and
  \<^verbatim>\<open>decision.py\<close>: the immutable request with its validation, freezing and digest, the
  project scope, the reason codes and the recorded decision. The lemmas show that freezing is
  lossless and immutable, and that a request that was built is well formed.
\<close>

section \<open>enums.py\<close>

datatype decision_result = ALLOWED | DENIED

datatype reason_code =
    EXPLICITLY_ALLOWED | ALLOWED_NOT_BLOCKLISTED | ACTION_BLOCKLISTED | ACTION_NOT_ALLOWLISTED
  | UNKNOWN_AGENT | POLICY_SIGNAL_MISSING | APPROVAL_REQUIRED | EVIDENCE_REQUIRED
  | FAILURE_THRESHOLD_REACHED | BUNDLE_INTEGRITY_FAILED | SIGNATURE_INVALID | POLICY_EVALUATION_ERROR

section \<open>execution_scope.py\<close>

record execution_scope =
  project_id :: string
  workspace_id :: string

definition scope_invalid :: exn where
  "scope_invalid = Exc ExecutionScopeError ''EXECUTION_SCOPE_INVALID''"

definition ExecutionScope :: "pyval \<Rightarrow> pyval \<Rightarrow> execution_scope result" where
  "ExecutionScope project workspace = guarded
     (concat (map (\<lambda>v. [require (nonblank_str v) scope_invalid,
                         require (strip (str_of v) = str_of v) scope_invalid])
        [project, workspace]))
     \<lparr>project_id = str_of project, workspace_id = str_of workspace\<rparr>"

definition scope_signal :: "execution_scope \<Rightarrow> pyval" where
  "scope_signal s = PDict (obj [(''project_id'', PStr (project_id s)),
     (''workspace_id'', PStr (workspace_id s)), (''verified'', PBool True)])"

definition wf_scope :: "execution_scope \<Rightarrow> bool" where
  "wf_scope s \<longleftrightarrow> trimmed_str (PStr (project_id s)) \<and> trimmed_str (PStr (workspace_id s))"

lemma ExecutionScope_Inr [simp]:
  "ExecutionScope p w = Inr s \<longleftrightarrow>
   trimmed_str p \<and> trimmed_str w \<and> s = \<lparr>project_id = str_of p, workspace_id = str_of w\<rparr>"
  by (cases "trimmed_str p"; cases "trimmed_str w") (auto simp: ExecutionScope_def)

lemma ExecutionScope_Inl: "ExecutionScope p w = Inl e \<Longrightarrow> e = scope_invalid"
  by (auto simp: ExecutionScope_def guards require_def dest!: first_error_Some_in split: if_splits)

lemma ExecutionScope_wf: "ExecutionScope p w = Inr s \<Longrightarrow> wf_scope s"
  by (auto simp: wf_scope_def)

section \<open>Freezing JSON values\<close>

fun freeze_json :: "pyval \<Rightarrow> pyval result"
  and freeze_items :: "pyval list \<Rightarrow> pyval list result"
  and freeze_pairs :: "pydict \<Rightarrow> pydict result" where
  "freeze_json (PDict d) = bindE (freeze_pairs d) (\<lambda>e. Inr (PDict e))"
| "freeze_json (PList vs) = bindE (freeze_items vs) (\<lambda>ws. Inr (PTuple ws))"
| "freeze_json (PTuple vs) = bindE (freeze_items vs) (\<lambda>ws. Inr (PTuple ws))"
| "freeze_json (PFloat x) = (case x of Fin r \<Rightarrow> Inr (PFloat x) | _ \<Rightarrow> Inl (Exc ValueError ''non-finite''))"
| "freeze_json PNone = Inr PNone"
| "freeze_json (PBool b) = Inr (PBool b)"
| "freeze_json (PInt n) = Inr (PInt n)"
| "freeze_json (PStr s) = Inr (PStr s)"
| "freeze_json (PBytes s) = Inl (Exc TypeError ''attribute'')"
| "freeze_json (POther s) = Inl (Exc TypeError ''attribute'')"
| "freeze_items [] = Inr []"
| "freeze_items (v # vs) = bindE (freeze_json v) (\<lambda>w. bindE (freeze_items vs) (\<lambda>ws. Inr (w # ws)))"
| "freeze_pairs [] = Inr []"
| "freeze_pairs ((k, v) # d) = (case k of
       KInt _ \<Rightarrow> Inl (Exc TypeError ''attribute key'')
     | KStr _ \<Rightarrow> bindE (freeze_json v) (\<lambda>w. bindE (freeze_pairs d) (\<lambda>e. Inr ((k, w) # e))))"

fun thaw_json :: "pyval \<Rightarrow> pyval"
  and thaw_items :: "pyval list \<Rightarrow> pyval list"
  and thaw_pairs :: "pydict \<Rightarrow> pydict" where
  "thaw_json (PDict d) = PDict (thaw_pairs d)"
| "thaw_json (PTuple vs) = PList (thaw_items vs)"
| "thaw_json v = v"
| "thaw_items [] = []"
| "thaw_items (v # vs) = thaw_json v # thaw_items vs"
| "thaw_pairs [] = []"
| "thaw_pairs ((k, v) # d) = (k, thaw_json v) # thaw_pairs d"

text \<open>A value JSON can express, as a parser builds it (lists, no tuples), and a frozen value.\<close>

fun json_value :: "pyval \<Rightarrow> bool"
  and json_values :: "pyval list \<Rightarrow> bool"
  and json_entries :: "pydict \<Rightarrow> bool" where
  "json_value (PDict d) = json_entries d"
| "json_value (PList vs) = json_values vs"
| "json_value (PTuple vs) = False"
| "json_value (PFloat x) = (case x of Fin r \<Rightarrow> True | _ \<Rightarrow> False)"
| "json_value PNone = True"
| "json_value (PBool b) = True"
| "json_value (PInt n) = True"
| "json_value (PStr s) = True"
| "json_value (PBytes s) = False"
| "json_value (POther s) = False"
| "json_values [] = True"
| "json_values (v # vs) = (json_value v \<and> json_values vs)"
| "json_entries [] = True"
| "json_entries ((k, v) # d) = ((case k of KStr _ \<Rightarrow> True | KInt _ \<Rightarrow> False) \<and> json_value v \<and> json_entries d)"

fun frozen :: "pyval \<Rightarrow> bool"
  and frozen_items :: "pyval list \<Rightarrow> bool"
  and frozen_pairs :: "pydict \<Rightarrow> bool" where
  "frozen (PList vs) = False"
| "frozen (PTuple vs) = frozen_items vs"
| "frozen (PDict d) = frozen_pairs d"
| "frozen _ = True"
| "frozen_items [] = True"
| "frozen_items (v # vs) = (frozen v \<and> frozen_items vs)"
| "frozen_pairs [] = True"
| "frozen_pairs ((k, v) # d) = (frozen v \<and> frozen_pairs d)"

lemma freeze_total:
  "json_value v \<Longrightarrow> \<exists>w. freeze_json v = Inr w \<and> frozen w \<and> thaw_json w = v"
  "json_values vs \<Longrightarrow> \<exists>ws. freeze_items vs = Inr ws \<and> frozen_items ws \<and> thaw_items ws = vs"
  "json_entries d \<Longrightarrow> \<exists>e. freeze_pairs d = Inr e \<and> frozen_pairs e \<and> thaw_pairs e = d"
  by (induction v and vs and d rule: freeze_json_freeze_items_freeze_pairs.induct)
    (fastforce split: pyfloat.splits pykey.splits)+

lemma freeze_frozen:
  "freeze_json v = Inr w \<Longrightarrow> frozen w"
  "freeze_items vs = Inr ws \<Longrightarrow> frozen_items ws"
  "freeze_pairs d = Inr e \<Longrightarrow> frozen_pairs e"
  by (induction v and vs and d arbitrary: w and ws and e rule: freeze_json_freeze_items_freeze_pairs.induct)
    (auto split: pyfloat.splits pykey.splits)

text \<open>Freezing a frozen value again changes nothing, so a request can be rebuilt from its own
  fields.\<close>

lemma freeze_again:
  "freeze_json v = Inr w \<Longrightarrow> freeze_json w = Inr w"
  "freeze_items vs = Inr ws \<Longrightarrow> freeze_items ws = Inr ws"
  "freeze_pairs d = Inr e \<Longrightarrow> freeze_pairs e = Inr e"
  by (induction v and vs and d arbitrary: w and ws and e rule: freeze_json_freeze_items_freeze_pairs.induct)
    (auto split: pyfloat.splits pykey.splits)

lemma freeze_thaw:
  "freeze_json v = Inr w \<Longrightarrow> freeze_json (thaw_json w) = Inr w"
  "freeze_items vs = Inr ws \<Longrightarrow> freeze_items (thaw_items ws) = Inr ws"
  "freeze_pairs d = Inr e \<Longrightarrow> freeze_pairs (thaw_pairs e) = Inr e"
  by (induction v and vs and d arbitrary: w and ws and e rule: freeze_json_freeze_items_freeze_pairs.induct)
    (auto split: pyfloat.splits pykey.splits)

section \<open>ActionRequest\<close>

record action_request =
  agent_id :: string
  action :: string
  request_id :: string
  actor_id :: "string option"
  tool_id :: "string option"
  resource :: "string option"
  arguments_digest :: "string option"
  attributes :: pyval
  signals :: pyval
  approval_id :: "string option"
  session_id :: "string option"
  tenant_id :: "string option"
  req_project :: "string option"
  req_workspace :: "string option"
  environment :: "string option"
  requested_at :: string

fun str_option :: "pyval \<Rightarrow> string option" where
  "str_option (PStr s) = Some s" | "str_option _ = None"

definition required_text :: "pyval \<Rightarrow> check list" where
  "required_text v = [require (nonblank_str v) (Exc ValueError ''non-empty''),
                      require (strip (str_of v) = str_of v) (Exc ValueError ''outer whitespace'')]"

definition optional_text :: "pyval \<Rightarrow> check list" where
  "optional_text v = [require (v = PNone \<or> nonblank_str v) (Exc ValueError ''non-empty when set''),
                      require (\<not> is_str v \<or> strip (str_of v) = str_of v) (Exc ValueError ''outer whitespace'')]"

definition optional_fields :: "string list" where
  "optional_fields = [''actor_id'', ''tool_id'', ''resource'', ''arguments_digest'', ''approval_id'',
     ''session_id'', ''tenant_id'', ''project_id'', ''workspace_id'', ''environment'']"

definition post_init_checks :: "pydict \<Rightarrow> check list" where
  "post_init_checks kw =
     concat (map (\<lambda>f. required_text (dget kw f)) [''request_id'', ''agent_id'', ''action'', ''requested_at''])
     @ concat (map (\<lambda>f. optional_text (dget kw f)) optional_fields)
     @ [require ((dget kw ''project_id'' = PNone) = (dget kw ''workspace_id'' = PNone))
          (Exc ValueError ''project_id and workspace_id'')]"

definition request_fields :: "pydict \<Rightarrow> pyval \<Rightarrow> pyval \<Rightarrow> action_request" where
  "request_fields kw attrs sigs =
     \<lparr>agent_id = str_of (dget kw ''agent_id''), action = str_of (dget kw ''action''),
      request_id = str_of (dget kw ''request_id''),
      actor_id = str_option (dget kw ''actor_id''), tool_id = str_option (dget kw ''tool_id''),
      resource = str_option (dget kw ''resource''),
      arguments_digest = str_option (dget kw ''arguments_digest''), attributes = attrs, signals = sigs,
      approval_id = str_option (dget kw ''approval_id''), session_id = str_option (dget kw ''session_id''),
      tenant_id = str_option (dget kw ''tenant_id''), req_project = str_option (dget kw ''project_id''),
      req_workspace = str_option (dget kw ''workspace_id''), environment = str_option (dget kw ''environment''),
      requested_at = str_of (dget kw ''requested_at'')\<rparr>"

text \<open>
  \<open>ActionRequest(**kw)\<close>: \<open>request_id\<close> and \<open>requested_at\<close> default to a fresh UUID and to
  the clock, \<open>attributes\<close> and \<open>signals\<close> to an empty object; then \<open>__post_init__\<close>.
\<close>

definition with_default :: "string \<Rightarrow> pyval \<Rightarrow> pydict \<Rightarrow> pydict" where
  "with_default k v kw = (if dhas kw k then kw else dset kw k v)"

definition post_init :: "pydict \<Rightarrow> action_request result" where
  "post_init kw = after (first_error (post_init_checks kw))
     (bindE (freeze_json (dget_or kw ''attributes'' (PDict []))) (\<lambda>attrs.
      bindE (freeze_json (dget_or kw ''signals'' (PDict []))) (\<lambda>sigs.
        Inr (request_fields kw attrs sigs))))"

definition ActionRequest :: "string \<Rightarrow> string \<Rightarrow> pydict \<Rightarrow> action_request result" where
  "ActionRequest fresh_id utc_now_text kw =
     (if has_keys kw [''agent_id'', ''action''] then
        post_init (with_default ''requested_at'' (PStr utc_now_text)
                    (with_default ''request_id'' (PStr fresh_id) kw))
      else Inl (Exc TypeError ''missing argument''))"

definition to_dict :: "action_request \<Rightarrow> pydict" where
  "to_dict r = obj
     [(''request_id'', PStr (request_id r)), (''agent_id'', PStr (agent_id r)),
      (''action'', PStr (action r)), (''actor_id'', opt_str (actor_id r)),
      (''tool_id'', opt_str (tool_id r)), (''resource'', opt_str (resource r)),
      (''arguments_digest'', opt_str (arguments_digest r)),
      (''attributes'', thaw_json (attributes r)), (''signals'', thaw_json (signals r)),
      (''approval_id'', opt_str (approval_id r)), (''session_id'', opt_str (session_id r)),
      (''tenant_id'', opt_str (tenant_id r)), (''environment'', opt_str (environment r)),
      (''requested_at'', PStr (requested_at r))]
     @ (case (req_project r, req_workspace r) of
          (Some p, Some w) \<Rightarrow> obj [(''project_id'', PStr p), (''workspace_id'', PStr w)]
        | _ \<Rightarrow> [])"

definition request_digest :: "crypto \<Rightarrow> action_request \<Rightarrow> string option" where
  "request_digest cr r = map_option (digest_of cr) (json_dumps cr True (PDict (to_dict r)))"

section \<open>Well-formed requests\<close>

definition wf_text :: "string \<Rightarrow> bool" where
  "wf_text s \<longleftrightarrow> \<not> blank s \<and> strip s = s"

definition wf_opt :: "string option \<Rightarrow> bool" where
  "wf_opt v \<longleftrightarrow> (case v of None \<Rightarrow> True | Some s \<Rightarrow> wf_text s)"

definition wf_request :: "action_request \<Rightarrow> bool" where
  "wf_request r \<longleftrightarrow>
     list_all wf_text [request_id r, agent_id r, action r, requested_at r] \<and>
     list_all wf_opt [actor_id r, tool_id r, resource r, arguments_digest r, approval_id r, session_id r,
       tenant_id r, req_project r, req_workspace r, environment r] \<and>
     (req_project r = None) = (req_workspace r = None) \<and>
     frozen (attributes r) \<and> frozen (signals r)"

lemma required_text_None: "(\<forall>c \<in> set (required_text v). c = None) \<Longrightarrow> wf_text (str_of v)"
  by (cases v) (auto simp: required_text_def wf_text_def)

lemma optional_text_None:
  "(\<forall>c \<in> set (optional_text v). c = None) \<Longrightarrow> wf_opt (str_option v) \<and> (str_option v = None \<longleftrightarrow> v = PNone)"
  by (cases v) (auto simp: optional_text_def wf_opt_def wf_text_def)

lemma str_option_opt_str [simp]: "str_option (opt_str v) = v"
  by (cases v) auto

lemma required_text_wf: "wf_text s \<Longrightarrow> c \<in> set (required_text (PStr s)) \<Longrightarrow> c = None"
  by (auto simp: required_text_def wf_text_def)

lemma optional_text_wf: "wf_opt v \<Longrightarrow> c \<in> set (optional_text (opt_str v)) \<Longrightarrow> c = None"
  by (cases v) (auto simp: optional_text_def wf_opt_def wf_text_def)

lemmas dict_read = dget_def dget_or_def dhas_def has_keys_def

lemma to_dict_reads:
  "dget (to_dict r) ''request_id'' = PStr (request_id r)" "dget (to_dict r) ''agent_id'' = PStr (agent_id r)"
  "dget (to_dict r) ''action'' = PStr (action r)" "dget (to_dict r) ''requested_at'' = PStr (requested_at r)"
  "dget (to_dict r) ''actor_id'' = opt_str (actor_id r)" "dget (to_dict r) ''tool_id'' = opt_str (tool_id r)"
  "dget (to_dict r) ''resource'' = opt_str (resource r)"
  "dget (to_dict r) ''arguments_digest'' = opt_str (arguments_digest r)"
  "dget (to_dict r) ''approval_id'' = opt_str (approval_id r)"
  "dget (to_dict r) ''session_id'' = opt_str (session_id r)" "dget (to_dict r) ''tenant_id'' = opt_str (tenant_id r)"
  "dget (to_dict r) ''environment'' = opt_str (environment r)"
  "dget_or (to_dict r) ''attributes'' x = thaw_json (attributes r)"
  "dget_or (to_dict r) ''signals'' x = thaw_json (signals r)"
  "dhas (to_dict r) ''request_id''" "dhas (to_dict r) ''requested_at''"
  "has_keys (to_dict r) [''agent_id'', ''action'']"
  by (simp_all add: to_dict_def dict_read)

lemma to_dict_scope:
  "(req_project r = None) = (req_workspace r = None) \<Longrightarrow>
   dget (to_dict r) ''project_id'' = opt_str (req_project r) \<and>
   dget (to_dict r) ''workspace_id'' = opt_str (req_workspace r)"
  by (cases "req_project r"; cases "req_workspace r") (simp_all add: to_dict_def dict_read)

lemma post_init_wf: "post_init kw = Inr r \<Longrightarrow> wf_request r"
proof -
  assume "post_init kw = Inr r"
  then obtain attrs sigs where c: "\<forall>c \<in> set (post_init_checks kw). c = None"
    and r: "r = request_fields kw attrs sigs" and f: "frozen attrs" "frozen sigs"
    by (auto simp: post_init_def guards dest: freeze_frozen)
  have "wf_text (str_of (dget kw k))" if "k \<in> set [''request_id'', ''agent_id'', ''action'', ''requested_at'']" for k
    using c that by (intro required_text_None) (auto simp: post_init_checks_def)
  moreover have o: "wf_opt (str_option (dget kw k)) \<and> (str_option (dget kw k) = None \<longleftrightarrow> dget kw k = PNone)"
    if "k \<in> set optional_fields" for k
    using c that by (intro optional_text_None) (auto simp: post_init_checks_def)
  moreover have "(dget kw ''project_id'' = PNone) = (dget kw ''workspace_id'' = PNone)"
    using c by (auto simp: post_init_checks_def)
  ultimately show ?thesis
    using f by (simp add: r request_fields_def wf_request_def optional_fields_def)
qed

lemma post_init_frozen:
  "post_init kw = Inr r \<Longrightarrow>
   freeze_json (thaw_json (attributes r)) = Inr (attributes r) \<and> freeze_json (thaw_json (signals r)) = Inr (signals r)"
  by (auto simp: post_init_def request_fields_def dest: freeze_thaw)

lemma post_init_to_dict:
  assumes wf: "wf_request r"
    and "freeze_json (thaw_json (attributes r)) = Inr (attributes r)"
    and "freeze_json (thaw_json (signals r)) = Inr (signals r)"
  shows "post_init (to_dict r) = Inr r"
proof -
  note reads = to_dict_reads to_dict_scope
  have scope: "dget (to_dict r) ''project_id'' = opt_str (req_project r)"
    "dget (to_dict r) ''workspace_id'' = opt_str (req_workspace r)"
    using wf to_dict_scope by (simp_all add: wf_request_def)
  have "\<forall>c \<in> set (post_init_checks (to_dict r)). c = None"
    using wf by (auto simp: post_init_checks_def optional_fields_def to_dict_reads scope wf_request_def
        dest: required_text_wf optional_text_wf)
  moreover have "request_fields (to_dict r) (attributes r) (signals r) = r"
    by (simp add: request_fields_def to_dict_reads scope)
  ultimately show ?thesis
    using assms(2,3) by (simp add: post_init_def to_dict_reads first_error_None [THEN iffD2])
qed

lemma ActionRequest_post_init: "ActionRequest fresh now kw = Inr r \<Longrightarrow> \<exists>kw'. post_init kw' = Inr r"
  by (auto simp: ActionRequest_def split: if_splits)

lemma ActionRequest_to_dict: "ActionRequest fresh now (to_dict r) = post_init (to_dict r)"
  by (simp add: ActionRequest_def with_default_def to_dict_reads)

text \<open>
  Every request that was built is well formed (trimmed non-empty identifiers, scope given as a
  pair, immutable attributes and signals), and \<^verbatim>\<open>to_dict\<close> loses nothing: building a request
  from its dictionary, whatever the default identifier and clock are, gives the same request.
\<close>

theorem action_request_roundtrip:
  assumes "ActionRequest fresh now kw = Inr r"
  shows "wf_request r \<and> ActionRequest fresh' now' (to_dict r) = Inr r"
  using assms ActionRequest_post_init post_init_wf post_init_frozen
  by (metis ActionRequest_to_dict post_init_to_dict)

theorem action_request_roundtrip_witness:
  "\<exists>r. ActionRequest ''id'' ''2026-01-01'' (obj [(''agent_id'', PStr ''a''), (''action'', PStr ''read''),
          (''attributes'', PDict (obj [(''k'', PList [PInt 1])]))]) = Inr r \<and>
       attributes r = PDict (obj [(''k'', PTuple [PInt 1])]) \<and>
       wf_request r \<and> ActionRequest ''x'' ''y'' (to_dict r) = Inr r"
proof -
  let ?kw = "obj [(''agent_id'', PStr ''a''), (''action'', PStr ''read''),
                  (''attributes'', PDict (obj [(''k'', PList [PInt 1])]))]"
  have "ActionRequest ''id'' ''2026-01-01'' ?kw = Inr (request_fields
      (?kw @ obj [(''request_id'', PStr ''id''), (''requested_at'', PStr ''2026-01-01'')])
      (PDict (obj [(''k'', PTuple [PInt 1])])) (PDict []))"
    by code_simp
  from this action_request_roundtrip [OF this, of "''x''" "''y''"] show ?thesis
    by (intro exI conjI) (auto simp: request_fields_def)
qed

section \<open>A sample request\<close>

definition sample_request :: action_request where
  "sample_request = \<lparr>agent_id = ''a1'', action = ''read'', request_id = ''r1'', actor_id = None, tool_id = None,
     resource = None, arguments_digest = None, attributes = PDict [], signals = PDict [], approval_id = None,
     session_id = None, tenant_id = None, req_project = None, req_workspace = None, environment = None,
     requested_at = ''2026-01-10T00:00:00+00:00''\<rparr>"

end
