(* ===== verification/Policies.thy ===== *)
theory Policies
  imports Matching PyTime ActionRequest
begin

text \<open>
  \<^verbatim>\<open>hlinor_registry/policies.py\<close>: the typed policies an agent's rules are made of. The
  definitions follow the file: signal timestamps and freshness, the rule with its trigger, the
  three handlers, the authoring validation and the loader of compiled policies. Messages are
  represented by what they report. The clock is the aware instant the checker passes.
\<close>

section \<open>Outcomes\<close>

datatype policy_kind = requires_approval | requires_evidence | failure_threshold

datatype freshness = InFuture rat | TooOld rat pyfloat

datatype policy_detail =
    NoDetail | RequiresSignal string | MustBeObject string | MustBeList string
  | WrongRole pyval pyval | NoGrantedFor | GrantedFor string string | NoGrantedAt | Stale freshness
  | NoResource | NoClaimOfType pyval | ClaimOtherResource pyval | NoFreshClaim pyval
  | CounterNotReported pyval | ThresholdReached pyval int pyval

record policy_outcome =
  outcome_policy :: string
  satisfied :: bool
  reason :: "reason_code option"
  detail :: policy_detail

record policy_rule =
  policy_id :: string
  kind :: policy_kind
  trigger :: "pyval list"
  spec :: pydict

definition pass :: "policy_rule \<Rightarrow> policy_outcome" where
  "pass rule = \<lparr>outcome_policy = policy_id rule, satisfied = True, reason = None, detail = NoDetail\<rparr>"

definition refuse :: "policy_rule \<Rightarrow> reason_code \<Rightarrow> policy_detail \<Rightarrow> policy_outcome" where
  "refuse rule code why =
     \<lparr>outcome_policy = policy_id rule, satisfied = False, reason = Some code, detail = why\<rparr>"

lemma pass_refuse [simp]:
  "satisfied (pass rule)" "\<not> satisfied (refuse rule code why)"
  "reason (refuse rule code why) = Some code" "outcome_policy (refuse rule code why) = policy_id rule"
  "outcome_policy (pass rule) = policy_id rule" "detail (refuse rule code why) = why"
  by (simp_all add: pass_def refuse_def)

section \<open>Timestamps and freshness\<close>

definition parse_timestamp :: "pyval \<Rightarrow> int option" where
  "parse_timestamp v = (case v of
       PStr s \<Rightarrow> if blank s then None
         else (case fromisoformat (normalize_zulu ''Zz'' (strip s)) of
             None \<Rightarrow> None
           | Some d \<Rightarrow> if aware d then Some (instant d) else None)
     | _ \<Rightarrow> None)"

definition allowed_clock_skew_seconds :: rat where
  "allowed_clock_skew_seconds = 30"

definition seconds_between :: "int \<Rightarrow> int \<Rightarrow> rat" where
  "seconds_between later earlier = of_int (later - earlier) / 1000000"

definition freshness_error :: "int \<Rightarrow> pyfloat \<Rightarrow> int \<Rightarrow> freshness option" where
  "freshness_error timestamp max_age now =
     (let age = seconds_between now timestamp in
      if age < - allowed_clock_skew_seconds then Some (InFuture (- age))
      else if fl_less max_age (Fin age) then Some (TooOld age max_age)
      else None)"

text \<open>
  \<open>float(max_age)\<close>: a loaded rule holds an int or a float. Other numbers a caller may put into a
  rule by hand convert as \<open>float\<close> does; a text or another object raises (texts that spell a
  number are not modelled).
\<close>

definition as_float :: "pyval \<Rightarrow> pyfloat result" where
  "as_float v = (case py_num v of
       Some x \<Rightarrow> Inr x
     | None \<Rightarrow> Inl (Exc (if is_str v then ValueError else TypeError) ''float''))"

definition require_bool :: "pydict \<Rightarrow> string \<Rightarrow> bool result" where
  "require_bool d field = (case dget_or d field (PBool True) of
       PBool b \<Rightarrow> Inr b | _ \<Rightarrow> Inl (Exc TypeError field))"

section \<open>The three handlers\<close>

definition check_approval_binding ::
    "policy_rule \<Rightarrow> action_request \<Rightarrow> pydict \<Rightarrow> policy_outcome option result" where
  "check_approval_binding rule request approval =
     bindE (require_bool (spec rule) ''bind_to_request'') (\<lambda>bind.
       let key = request_key (action request) (resource request);
           no = (\<lambda>why. Inr (Some (refuse rule APPROVAL_REQUIRED why)))
       in if \<not> bind then Inr None
          else (case dget approval ''granted_for'' of
              PStr g \<Rightarrow> if blank g then no NoGrantedFor
                else if matches g key False then Inr None else no (GrantedFor g key)
            | _ \<Rightarrow> no NoGrantedFor))"

definition check_approval_age :: "policy_rule \<Rightarrow> pydict \<Rightarrow> int \<Rightarrow> policy_outcome result" where
  "check_approval_age rule approval now =
     (let max_age = dget (spec rule) ''max_age_seconds'';
          no = (\<lambda>why. Inr (refuse rule APPROVAL_REQUIRED why))
      in if max_age = PNone then Inr (pass rule)
         else (case parse_timestamp (dget approval ''granted_at'') of
             None \<Rightarrow> no NoGrantedAt
           | Some granted_at \<Rightarrow> bindE (as_float max_age) (\<lambda>m.
               case freshness_error granted_at m now of
                 Some problem \<Rightarrow> no (Stale problem)
               | None \<Rightarrow> Inr (pass rule))))"

definition check_approval :: "policy_rule \<Rightarrow> action_request \<Rightarrow> pyval \<Rightarrow> int \<Rightarrow> policy_outcome result" where
  "check_approval rule request signal now = (case signal of
       PDict approval \<Rightarrow>
         (let required_role = dget (spec rule) ''approver_role'' in
          if required_role \<noteq> PNone \<and> \<not> py_eq (dget approval ''approver_role'') required_role
          then Inr (refuse rule APPROVAL_REQUIRED (WrongRole required_role (dget approval ''approver_role'')))
          else bindE (check_approval_binding rule request approval) (\<lambda>refused. case refused of
              Some out \<Rightarrow> Inr out
            | None \<Rightarrow> check_approval_age rule approval now))
     | _ \<Rightarrow> Inr (refuse rule POLICY_SIGNAL_MISSING (MustBeObject ''approval'')))"

fun mappings_of :: "pyval list \<Rightarrow> pydict list" where
  "mappings_of [] = []"
| "mappings_of (PDict d # vs) = d # mappings_of vs"
| "mappings_of (v # vs) = mappings_of vs"

definition fresh_claim :: "pyfloat \<Rightarrow> int \<Rightarrow> pydict \<Rightarrow> bool" where
  "fresh_claim max_age now claim = (case parse_timestamp (dget claim ''observed_at'') of
       None \<Rightarrow> False
     | Some observed_at \<Rightarrow> freshness_error observed_at max_age now = None)"

text \<open>
  One required type. \<open>float(max_age)\<close> is evaluated only for a candidate that carries a
  timestamp, and raises there.
\<close>

definition missing_evidence ::
    "pydict list \<Rightarrow> bool \<Rightarrow> pyval \<Rightarrow> pyval \<Rightarrow> int \<Rightarrow> pyval \<Rightarrow> policy_detail option result" where
  "missing_evidence claims same_resource res max_age now required_type =
     (let typed = filter (\<lambda>c. py_eq (dget c ''type'') required_type) claims;
          candidates = (if same_resource then filter (\<lambda>c. py_eq (dget c ''resource'') res) typed else typed);
          timed = filter (\<lambda>c. parse_timestamp (dget c ''observed_at'') \<noteq> None) candidates
      in if typed = [] then Inr (Some (NoClaimOfType required_type))
         else if candidates = [] then Inr (Some (ClaimOtherResource required_type))
         else if max_age = PNone then Inr None
         else if timed = [] then Inr (Some (NoFreshClaim required_type))
         else bindE (as_float max_age) (\<lambda>m.
           Inr (if list_ex (fresh_claim m now) timed then None else Some (NoFreshClaim required_type))))"

fun first_missing :: "(pyval \<Rightarrow> policy_detail option result) \<Rightarrow> pyval list \<Rightarrow> policy_detail option result" where
  "first_missing f [] = Inr None"
| "first_missing f (t # ts) = bindE (f t) (\<lambda>m. case m of None \<Rightarrow> first_missing f ts | Some why \<Rightarrow> Inr (Some why))"

text \<open>
  \<open>rule.spec.get("evidence_types") or []\<close>: the loader accepts a list of texts or null. A
  hand-made rule with another iterable is out of the model and iterates over nothing.
\<close>

definition check_evidence :: "policy_rule \<Rightarrow> action_request \<Rightarrow> pyval \<Rightarrow> int \<Rightarrow> policy_outcome result" where
  "check_evidence rule request signal now =
     (if is_list signal \<or> (case signal of PTuple _ \<Rightarrow> True | _ \<Rightarrow> False) then
        bindE (require_bool (spec rule) ''same_resource'') (\<lambda>same_resource.
          if same_resource \<and> \<not> nonblank_str (opt_str (resource request))
          then Inr (refuse rule EVIDENCE_REQUIRED NoResource)
          else bindE (first_missing
              (missing_evidence (mappings_of (entries_of signal)) same_resource (opt_str (resource request))
                 (dget (spec rule) ''max_age_seconds'') now)
              (entries_of (dget (spec rule) ''evidence_types'')))
            (\<lambda>missing. case missing of
                None \<Rightarrow> Inr (pass rule)
              | Some why \<Rightarrow> Inr (refuse rule EVIDENCE_REQUIRED why)))
      else Inr (refuse rule POLICY_SIGNAL_MISSING (MustBeList ''evidence'')))"

definition at_least :: "int \<Rightarrow> pyval \<Rightarrow> bool result" where
  "at_least observed limit = (case py_num limit of
       None \<Rightarrow> Inl (Exc TypeError ''>='')
     | Some l \<Rightarrow> Inr (fl_less l (Fin (of_int observed)) \<or> fl_eq l (Fin (of_int observed))))"

definition check_failure_threshold ::
    "policy_rule \<Rightarrow> action_request \<Rightarrow> pyval \<Rightarrow> int \<Rightarrow> policy_outcome result" where
  "check_failure_threshold rule request signal now = (case signal of
       PDict counts \<Rightarrow>
         if \<not> has_keys (spec rule) [''counter'', ''max_consecutive_failures''] then Inl (Exc KeyError ''spec'')
         else (let counter = dget (spec rule) ''counter'';
                   limit = dget (spec rule) ''max_consecutive_failures'';
                   missing = Inr (refuse rule POLICY_SIGNAL_MISSING (CounterNotReported counter))
           in (case plain_int (if is_str counter then dget counts (str_of counter) else PNone) of
               None \<Rightarrow> missing
             | Some observed \<Rightarrow>
                 if observed < 0 then missing
                 else bindE (at_least observed limit) (\<lambda>reached.
                   if reached
                   then Inr (refuse rule FAILURE_THRESHOLD_REACHED (ThresholdReached counter observed limit))
                   else Inr (pass rule))))
     | _ \<Rightarrow> Inr (refuse rule POLICY_SIGNAL_MISSING (MustBeObject ''failure_counts'')))"

section \<open>PolicyRule\<close>

fun signal_name :: "policy_kind \<Rightarrow> string" where
  "signal_name requires_approval = ''approval''"
| "signal_name requires_evidence = ''evidence''"
| "signal_name failure_threshold = ''failure_counts''"

definition applies_to :: "policy_rule \<Rightarrow> string \<Rightarrow> bool" where
  "applies_to rule key = (find_match (PTuple (trigger rule)) key False \<noteq> None)"

definition signal_of :: "action_request \<Rightarrow> string \<Rightarrow> pyval" where
  "signal_of request name = (case signals request of PDict d \<Rightarrow> dget d name | _ \<Rightarrow> PNone)"

fun handler :: "policy_kind \<Rightarrow> policy_rule \<Rightarrow> action_request \<Rightarrow> pyval \<Rightarrow> int \<Rightarrow> policy_outcome result" where
  "handler requires_approval = check_approval"
| "handler requires_evidence = check_evidence"
| "handler failure_threshold = check_failure_threshold"

definition rule_check :: "policy_rule \<Rightarrow> action_request \<Rightarrow> int \<Rightarrow> policy_outcome result" where
  "rule_check rule request now =
     (let signal = signal_of request (signal_name (kind rule)) in
      if signal = PNone
      then Inr (refuse rule POLICY_SIGNAL_MISSING (RequiresSignal (signal_name (kind rule))))
      else handler (kind rule) rule request signal now)"

section \<open>Authoring validation and loading\<close>

datatype definition_error =
    UnsupportedKind pyval | TriggerNotList | TriggerNotText nat | TriggerPattern nat pattern_error
  | SectionNotObject string | MissingField string | BadMaxAge | BadEvidenceTypes | NotBoolean string
  | BadCounter | BadLimit

definition kind_of :: "pyval \<Rightarrow> policy_kind option" where
  "kind_of v = (if v = PStr ''requires_approval'' then Some requires_approval
     else if v = PStr ''requires_evidence'' then Some requires_evidence
     else if v = PStr ''failure_threshold'' then Some failure_threshold else None)"

fun boolean_fields :: "policy_kind \<Rightarrow> string list" where
  "boolean_fields requires_approval = [''bind_to_request'']"
| "boolean_fields requires_evidence = [''same_resource'']"
| "boolean_fields failure_threshold = []"

fun required_fields :: "policy_kind \<Rightarrow> string list" where
  "required_fields requires_approval = []"
| "required_fields requires_evidence = [''evidence_types'']"
| "required_fields failure_threshold = [''counter'', ''max_consecutive_failures'']"

fun spec_section :: "policy_kind \<Rightarrow> string" where
  "spec_section requires_approval = ''requires''"
| "spec_section requires_evidence = ''requires''"
| "spec_section failure_threshold = ''threshold''"

definition is_finite_positive :: "pyval \<Rightarrow> bool" where
  "is_finite_positive v = (case v of
       PInt n \<Rightarrow> 0 < n
     | PFloat (Fin r) \<Rightarrow> 0 < r
     | _ \<Rightarrow> False)"

definition spec_field_errors :: "policy_kind \<Rightarrow> pydict \<Rightarrow> definition_error list" where
  "spec_field_errors k d =
     (if dhas d ''max_age_seconds'' \<and> \<not> is_finite_positive (dget d ''max_age_seconds'') then [BadMaxAge] else [])
     @ (if k = requires_evidence \<and> dget d ''evidence_types'' \<noteq> PNone
           \<and> \<not> (is_list (dget d ''evidence_types'') \<and> entries_of (dget d ''evidence_types'') \<noteq> []
                \<and> list_all nonblank_str (entries_of (dget d ''evidence_types'')))
        then [BadEvidenceTypes] else [])
     @ map NotBoolean (filter (\<lambda>f. dhas d f \<and> \<not> is_bool (dget d f)) (boolean_fields k))
     @ (if k = failure_threshold \<and> dget d ''counter'' \<noteq> PNone \<and> \<not> nonblank_str (dget d ''counter'')
        then [BadCounter] else [])
     @ (if k = failure_threshold \<and> dget d ''max_consecutive_failures'' \<noteq> PNone
           \<and> \<not> (case plain_int (dget d ''max_consecutive_failures'') of None \<Rightarrow> False | Some n \<Rightarrow> 1 \<le> n)
        then [BadLimit] else [])"

definition trigger_errors :: "pyval \<Rightarrow> definition_error list" where
  "trigger_errors v = (case v of
       PList ps \<Rightarrow> if ps = [] then [TriggerNotList]
         else concat (map (\<lambda>(i, p). if nonblank_str p then map (TriggerPattern i) (pattern_errors (str_of p))
                                   else [TriggerNotText i]) (enumerate 0 ps))
     | _ \<Rightarrow> [TriggerNotList])"

definition policy_definition_errors :: "pydict \<Rightarrow> definition_error list" where
  "policy_definition_errors data =
     (if dget data ''kind'' = PNone then []
      else (case kind_of (dget data ''kind'') of
          None \<Rightarrow> [UnsupportedKind (dget data ''kind'')]
        | Some k \<Rightarrow>
            (let section = dget data (spec_section k); d = mapping_or_empty section in
               trigger_errors (dget data ''trigger'')
               @ (if section \<noteq> PNone \<and> \<not> is_mapping section then [SectionNotObject (spec_section k)] else [])
               @ map MissingField (filter (\<lambda>f. \<not> dhas d f) (required_fields k))
               @ spec_field_errors k d)))"

definition load_rule :: "string \<Rightarrow> pyval \<Rightarrow> policy_rule option result" where
  "load_rule pid entry = (case entry of
       PDict bundle_entry \<Rightarrow> (case dget bundle_entry ''config'' of
           PDict config \<Rightarrow>
             if dget config ''kind'' = PNone then Inr None
             else (case kind_of (dget config ''kind'') of
                 None \<Rightarrow> Inl (Exc ValueError ''Invalid compiled policy'')
               | Some k \<Rightarrow>
                   if policy_definition_errors config \<noteq> [] then Inl (Exc ValueError ''Invalid compiled policy'')
                   else Inr (Some \<lparr>policy_id = pid, kind = k, trigger = entries_of (dget config ''trigger''),
                                   spec = mapping_or_empty (dget config (spec_section k))\<rparr>))
         | _ \<Rightarrow> Inl (Exc TypeError ''config must be an object''))
     | _ \<Rightarrow> Inl (Exc TypeError ''bundle entry must be an object''))"

fun load_rules :: "pydict \<Rightarrow> (string \<times> policy_rule) list result" where
  "load_rules [] = Inr []"
| "load_rules ((k, entry) # rest) = (case k of
       KStr pid \<Rightarrow>
         if blank pid then Inl (Exc ValueError ''invalid policy ID'')
         else bindE (load_rule pid entry) (\<lambda>r. bindE (load_rules rest) (\<lambda>rs.
           Inr ((case r of None \<Rightarrow> [] | Some rule \<Rightarrow> [(pid, rule)]) @ rs)))
     | KInt _ \<Rightarrow> Inl (Exc ValueError ''invalid policy ID''))"

definition load_policy_rules :: "pyval \<Rightarrow> (string \<times> policy_rule) list result" where
  "load_policy_rules policies = (case policies of PDict d \<Rightarrow> load_rules d | _ \<Rightarrow> Inr [])"

section \<open>What a loaded rule is\<close>

definition wf_rule :: "policy_rule \<Rightarrow> bool" where
  "wf_rule rule \<longleftrightarrow> trigger rule \<noteq> [] \<and>
     list_all (\<lambda>p. nonblank_str p \<and> pattern_errors (str_of p) = []) (trigger rule) \<and>
     has_keys (spec rule) (required_fields (kind rule)) \<and> spec_field_errors (kind rule) (spec rule) = []"

lemma trigger_entry_errors:
  "concat (map (\<lambda>(i, p). if nonblank_str p then map (TriggerPattern i) (pattern_errors (str_of p))
                          else [TriggerNotText i]) (enumerate n ps)) = []
   \<longleftrightarrow> list_all (\<lambda>p. nonblank_str p \<and> pattern_errors (str_of p) = []) ps"
  by (induction ps arbitrary: n) auto

lemma trigger_errors_Nil:
  "trigger_errors v = [] \<longleftrightarrow> is_list v \<and> entries_of v \<noteq> [] \<and>
   list_all (\<lambda>p. nonblank_str p \<and> pattern_errors (str_of p) = []) (entries_of v)"
  by (cases v) (simp_all add: trigger_errors_def trigger_entry_errors del: concat_eq_Nil_conv)

lemma load_rule_Some:
  "load_rule pid entry = Inr (Some rule) \<Longrightarrow> policy_id rule = pid \<and> wf_rule rule"
  by (auto simp: load_rule_def wf_rule_def policy_definition_errors_def Let_def trigger_errors_Nil
      has_keys_def list_all_iff filter_empty_conv split: pyval.splits if_splits option.splits)

lemma load_rules_Cons:
  "load_rules ((k, entry) # rest) = Inr rules \<Longrightarrow> \<exists>pid r rs. k = KStr pid \<and> \<not> blank pid \<and>
     load_rule pid entry = Inr r \<and> load_rules rest = Inr rs \<and>
     rules = (case r of None \<Rightarrow> [] | Some rule \<Rightarrow> [(pid, rule)]) @ rs"
  by (auto split: pykey.splits if_splits)

lemma load_rules_wf:
  "load_rules d = Inr rules \<Longrightarrow> (pid, rule) \<in> set rules \<Longrightarrow> policy_id rule = pid \<and> \<not> blank pid \<and> wf_rule rule"
proof (induction d arbitrary: rules)
  case (Cons kv d)
  obtain k entry where kv: "kv = (k, entry)" by (cases kv)
  with Cons.prems(1) load_rules_Cons [of k entry d rules] obtain p r rs
    where "\<not> blank p" "load_rule p entry = Inr r" "load_rules d = Inr rs"
      "rules = (case r of None \<Rightarrow> [] | Some rule \<Rightarrow> [(p, rule)]) @ rs" by blast
  with Cons.IH Cons.prems(2) load_rule_Some show ?case by (auto split: option.splits)
qed simp

section \<open>The obligations, as the policy language promises them\<close>

definition window_met :: "pydict \<Rightarrow> pyval \<Rightarrow> int \<Rightarrow> bool" where
  "window_met d timestamp now \<longleftrightarrow> dget d ''max_age_seconds'' = PNone \<or>
     (\<exists>t m. parse_timestamp timestamp = Some t \<and> py_num (dget d ''max_age_seconds'') = Some (Fin m) \<and>
        - 30 \<le> seconds_between now t \<and> seconds_between now t \<le> m)"

definition approval_met :: "policy_rule \<Rightarrow> action_request \<Rightarrow> int \<Rightarrow> bool" where
  "approval_met rule request now \<longleftrightarrow> (\<exists>a. signal_of request ''approval'' = PDict a \<and>
     (dget (spec rule) ''approver_role'' \<noteq> PNone \<longrightarrow>
        py_eq (dget a ''approver_role'') (dget (spec rule) ''approver_role'')) \<and>
     (dget_or (spec rule) ''bind_to_request'' (PBool True) \<noteq> PBool False \<longrightarrow>
        (\<exists>g. dget a ''granted_for'' = PStr g \<and> \<not> blank g \<and>
             matches g (request_key (action request) (resource request)) False)) \<and>
     window_met (spec rule) (dget a ''granted_at'') now)"

definition evidence_met :: "policy_rule \<Rightarrow> action_request \<Rightarrow> int \<Rightarrow> bool" where
  "evidence_met rule request now \<longleftrightarrow>
     (\<exists>vs. (signal_of request ''evidence'' = PList vs \<or> signal_of request ''evidence'' = PTuple vs) \<and>
        (\<forall>type \<in> set (entries_of (dget (spec rule) ''evidence_types'')). \<exists>claim. PDict claim \<in> set vs \<and>
           py_eq (dget claim ''type'') type \<and>
           (dget_or (spec rule) ''same_resource'' (PBool True) \<noteq> PBool False \<longrightarrow>
              py_eq (dget claim ''resource'') (opt_str (resource request))) \<and>
           window_met (spec rule) (dget claim ''observed_at'') now)) \<and>
     (dget_or (spec rule) ''same_resource'' (PBool True) \<noteq> PBool False \<longrightarrow>
        nonblank_str (opt_str (resource request)))"

definition below_threshold :: "policy_rule \<Rightarrow> action_request \<Rightarrow> bool" where
  "below_threshold rule request \<longleftrightarrow>
     (\<exists>counts c n limit. signal_of request ''failure_counts'' = PDict counts \<and>
        dget (spec rule) ''counter'' = PStr c \<and> dget counts c = PInt n \<and>
        dget (spec rule) ''max_consecutive_failures'' = PInt limit \<and> 0 \<le> n \<and> n < limit)"

fun obligation_met :: "policy_rule \<Rightarrow> action_request \<Rightarrow> int \<Rightarrow> policy_kind \<Rightarrow> bool" where
  "obligation_met rule request now requires_approval = approval_met rule request now"
| "obligation_met rule request now requires_evidence = evidence_met rule request now"
| "obligation_met rule request now failure_threshold = below_threshold rule request"

fun refusal_code :: "policy_kind \<Rightarrow> reason_code" where
  "refusal_code requires_approval = APPROVAL_REQUIRED"
| "refusal_code requires_evidence = EVIDENCE_REQUIRED"
| "refusal_code failure_threshold = FAILURE_THRESHOLD_REACHED"

lemma freshness_ok: "freshness_error t (Fin m) now = None \<longleftrightarrow>
    - 30 \<le> seconds_between now t \<and> seconds_between now t \<le> m"
  by (auto simp: freshness_error_def allowed_clock_skew_seconds_def Let_def not_less)

text \<open>A rule's window, when present, is a finite number.\<close>

definition windowed :: "pydict \<Rightarrow> bool" where
  "windowed d \<longleftrightarrow> dget d ''max_age_seconds'' = PNone \<or> (\<exists>m. py_num (dget d ''max_age_seconds'') = Some (Fin m))"

lemma is_finite_positive_num: "is_finite_positive v \<Longrightarrow> \<exists>m. py_num v = Some (Fin m) \<and> 0 < m"
  by (auto simp: is_finite_positive_def split: pyval.splits pyfloat.splits)

lemma wf_rule_windowed: "wf_rule rule \<Longrightarrow> windowed (spec rule)"
  by (auto simp: wf_rule_def spec_field_errors_def windowed_def split: if_splits
      dest: is_finite_positive_num dget_absent)

lemma window_met_iff:
  assumes "dget d ''max_age_seconds'' \<noteq> PNone" "py_num (dget d ''max_age_seconds'') = Some (Fin m)"
  shows "window_met d v now \<longleftrightarrow> (\<exists>t. parse_timestamp v = Some t \<and> freshness_error t (Fin m) now = None)"
  using assms by (auto simp: window_met_def freshness_ok)

lemma wf_rule_bool:
  assumes "wf_rule rule" "f \<in> set (boolean_fields (kind rule))"
  shows "\<exists>b. require_bool (spec rule) f = Inr b \<and> dget_or (spec rule) f (PBool True) = PBool b"
proof -
  have "\<not> dhas (spec rule) f \<or> is_bool (dget (spec rule) f)"
    using assms by (auto simp: wf_rule_def spec_field_errors_def filter_empty_conv)
  then show ?thesis
    by (auto simp: require_bool_def dget_def dget_or_def dhas_def split: option.splits pyval.splits)
qed

section \<open>The handlers decide the obligations\<close>

definition decides :: "policy_outcome result \<Rightarrow> policy_rule \<Rightarrow> bool \<Rightarrow> bool" where
  "decides r rule met \<longleftrightarrow> (\<exists>out. r = Inr out \<and> outcome_policy out = policy_id rule \<and>
     satisfied out = met \<and>
     (\<not> met \<longrightarrow> reason out \<in> {Some POLICY_SIGNAL_MISSING, Some (refusal_code (kind rule))}))"

lemma decides_refuse:
  "code \<in> {POLICY_SIGNAL_MISSING, refusal_code (kind rule)} \<Longrightarrow> decides (Inr (refuse rule code why)) rule met \<longleftrightarrow> \<not> met"
  by (auto simp: decides_def)

lemma decides_pass: "decides (Inr (pass rule)) rule met \<longleftrightarrow> met"
  by (auto simp: decides_def)

lemma check_approval_decides:
  assumes "wf_rule rule" and k: "kind rule = requires_approval"
  shows "decides (check_approval rule request (signal_of request ''approval'') now) rule (approval_met rule request now)"
proof -
  from assms obtain b where b: "require_bool (spec rule) ''bind_to_request'' = Inr b"
    "dget_or (spec rule) ''bind_to_request'' (PBool True) = PBool b"
    using wf_rule_bool [of rule "''bind_to_request''"] by auto
  have w: "windowed (spec rule)" using assms(1) by (rule wf_rule_windowed)
  have age: "decides (check_approval_age rule a now) rule (window_met (spec rule) (dget a ''granted_at'') now)" for a
  proof (cases "dget (spec rule) ''max_age_seconds'' = PNone")
    case True
    then show ?thesis by (simp add: check_approval_age_def decides_pass window_met_def)
  next
    case False
    with w obtain m where m: "py_num (dget (spec rule) ''max_age_seconds'') = Some (Fin m)"
      by (auto simp: windowed_def)
    show ?thesis
      using False by (auto simp: check_approval_age_def window_met_iff [OF False m] as_float_def m k
          decides_pass decides_refuse split: option.splits)
  qed
  show ?thesis
    using age by (auto simp: check_approval_def check_approval_binding_def approval_met_def b k Let_def
        decides_refuse split: pyval.splits)
qed

lemma mappings_of_set: "d \<in> set (mappings_of vs) \<longleftrightarrow> PDict d \<in> set vs"
  by (induction vs rule: mappings_of.induct) auto

lemma mappings_of_ex: "(\<exists>c \<in> set (mappings_of vs). Q c) \<longleftrightarrow> (\<exists>c. PDict c \<in> set vs \<and> Q c)"
  by (auto simp: mappings_of_set)

lemma first_missing_total:
  "\<forall>t \<in> set ts. \<exists>m. f t = Inr m \<and> (m = None \<longleftrightarrow> P t) \<Longrightarrow>
   \<exists>m. first_missing f ts = Inr m \<and> (m = None \<longleftrightarrow> (\<forall>t \<in> set ts. P t))"
proof (induction ts)
  case (Cons t ts)
  then obtain m where m: "f t = Inr m" "m = None \<longleftrightarrow> P t" by (meson list.set_intros(1))
  from Cons obtain m' where "first_missing f ts = Inr m'" "m' = None \<longleftrightarrow> (\<forall>t \<in> set ts. P t)"
    by (meson list.set_intros(2))
  with m show ?case by (cases m) simp_all
qed simp

lemma fresh_claim_timed:
  "fresh_claim m now c \<longleftrightarrow>
   (\<exists>t. parse_timestamp (dget c ''observed_at'') = Some t \<and> freshness_error t m now = None)"
  by (auto simp: fresh_claim_def split: option.splits)

lemma missing_evidence_total:
  assumes "windowed d"
  shows "\<exists>m. missing_evidence claims same res (dget d ''max_age_seconds'') now type = Inr m \<and>
    (m = None \<longleftrightarrow> (\<exists>c \<in> set claims. py_eq (dget c ''type'') type \<and>
        (same \<longrightarrow> py_eq (dget c ''resource'') res) \<and> window_met d (dget c ''observed_at'') now))"
proof (cases "dget d ''max_age_seconds'' = PNone")
  case True
  then show ?thesis
    by (auto simp: missing_evidence_def window_met_def Let_def filter_empty_conv)
next
  case False
  with assms obtain m where m: "py_num (dget d ''max_age_seconds'') = Some (Fin m)"
    by (auto simp: windowed_def)
  show ?thesis
    using False by (auto simp: missing_evidence_def window_met_iff [OF False m] as_float_def m Let_def
        filter_empty_conv list_ex_iff fresh_claim_timed)
qed

lemma check_evidence_decides:
  assumes "wf_rule rule" and k: "kind rule = requires_evidence"
  shows "decides (check_evidence rule request (signal_of request ''evidence'') now) rule (evidence_met rule request now)"
proof -
  from assms obtain same where b: "require_bool (spec rule) ''same_resource'' = Inr same"
    "dget_or (spec rule) ''same_resource'' (PBool True) = PBool same"
    using wf_rule_bool [of rule "''same_resource''"] by auto
  have w: "windowed (spec rule)" using assms(1) by (rule wf_rule_windowed)
  let ?s = "signal_of request ''evidence''" and ?types = "set (entries_of (dget (spec rule) ''evidence_types''))"
  let ?P = "\<lambda>vs t. \<exists>c \<in> set (mappings_of vs). py_eq (dget c ''type'') t \<and>
      (same \<longrightarrow> py_eq (dget c ''resource'') (opt_str (resource request))) \<and>
      window_met (spec rule) (dget c ''observed_at'') now"
  have "\<forall>t \<in> ?types. \<exists>m. missing_evidence (mappings_of (entries_of ?s)) same (opt_str (resource request))
      (dget (spec rule) ''max_age_seconds'') now t = Inr m \<and> (m = None \<longleftrightarrow> ?P (entries_of ?s) t)"
    by (intro ballI missing_evidence_total [OF w])
  from first_missing_total [OF this] obtain m where
    m: "first_missing (missing_evidence (mappings_of (entries_of ?s)) same (opt_str (resource request))
      (dget (spec rule) ''max_age_seconds'') now) (entries_of (dget (spec rule) ''evidence_types'')) = Inr m"
    "m = None \<longleftrightarrow> (\<forall>t \<in> ?types. ?P (entries_of ?s) t)" by (elim exE conjE)
  let ?L = "is_list ?s \<or> (case ?s of PTuple _ \<Rightarrow> True | _ \<Rightarrow> False)"
  have met: "evidence_met rule request now \<longleftrightarrow> ?L \<and> m = None \<and> (same \<longrightarrow> nonblank_str (opt_str (resource request)))"
    unfolding m(2) mappings_of_ex by (cases ?s) (simp_all add: evidence_met_def b)
  show ?thesis
    unfolding met check_evidence_def b m(1) bindE_simps
    by (simp add: k m(1) decides_refuse decides_pass split: option.splits)
qed

lemma check_failure_threshold_decides:
  assumes "wf_rule rule" and k: "kind rule = failure_threshold"
    and "dget (spec rule) ''max_consecutive_failures'' \<noteq> PNone"
  shows "decides (check_failure_threshold rule request (signal_of request ''failure_counts'') now) rule
    (below_threshold rule request)"
proof -
  from assms obtain limit where l: "dget (spec rule) ''max_consecutive_failures'' = PInt limit"
    by (auto simp: wf_rule_def spec_field_errors_def split: if_splits option.splits elim!: plain_int.elims)
  from assms have h: "has_keys (spec rule) [''counter'', ''max_consecutive_failures'']"
    by (simp add: wf_rule_def)
  have t: "at_least n (PInt limit) = Inr (limit \<le> n)" for n
    by (auto simp: at_least_def fl_eq_def)
  show ?thesis
  proof (cases "signal_of request ''failure_counts''")
    case (PDict counts)
    show ?thesis
    proof (cases "dget (spec rule) ''counter''")
      case (PStr c)
      with PDict show ?thesis
        by (cases "dget counts c")
          (auto simp: check_failure_threshold_def below_threshold_def h l k t Let_def decides_refuse decides_pass)
    qed (use PDict in \<open>auto simp: check_failure_threshold_def below_threshold_def h l k Let_def decides_refuse\<close>)
  qed (auto simp: check_failure_threshold_def below_threshold_def decides_refuse)
qed

lemma absent_signal_unmet:
  "signal_of request (signal_name (kind rule)) = PNone \<Longrightarrow> \<not> obligation_met rule request now (kind rule)"
  by (cases "kind rule") (auto simp: approval_met_def evidence_met_def below_threshold_def)

lemma rule_check_decides_aux:
  assumes "wf_rule rule" "kind rule = failure_threshold \<longrightarrow> dget (spec rule) ''max_consecutive_failures'' \<noteq> PNone"
  shows "decides (rule_check rule request now) rule (obligation_met rule request now (kind rule))"
proof (cases "signal_of request (signal_name (kind rule)) = PNone")
  case True
  with absent_signal_unmet [OF this] show ?thesis by (simp add: rule_check_def decides_refuse)
next
  case False
  then show ?thesis
    using assms check_approval_decides check_evidence_decides check_failure_threshold_decides
    by (cases "kind rule") (simp_all add: rule_check_def)
qed

lemma load_policy_rules_wf:
  "load_policy_rules ps = Inr rules \<Longrightarrow> (pid, rule) \<in> set rules \<Longrightarrow> policy_id rule = pid \<and> wf_rule rule"
  by (auto simp: load_policy_rules_def split: pyval.splits dest: load_rules_wf)

section \<open>Properties\<close>

text \<open>
  Every rule the loader accepts decides its obligation: the check returns (it does not
  raise), and it is satisfied exactly when the request discharges what the policy asks for: an
  approval of the right role, granted for this request, inside the window from 30 seconds ahead
  to the maximal age; for every evidence type one claim that is of the type, about the same
  resource and fresh, all at once; a reported failure count below the limit. A refusal carries
  the code of the policy's kind or says that the signal is missing. The one exception is a
  failure threshold whose limit is null, see the finding below.
\<close>

theorem loaded_rule_decides:
  assumes "load_policy_rules policies = Inr rules" and "(pid, rule) \<in> set rules"
    and "kind rule = failure_threshold \<longrightarrow> dget (spec rule) ''max_consecutive_failures'' \<noteq> PNone"
  shows "\<exists>out. rule_check rule request now = Inr out \<and> outcome_policy out = pid \<and>
     (satisfied out \<longleftrightarrow> obligation_met rule request now (kind rule)) \<and>
     (satisfied out \<or> reason out \<in> {Some POLICY_SIGNAL_MISSING, Some (refusal_code (kind rule))})"
  using rule_check_decides_aux [of rule request now] load_policy_rules_wf [OF assms(1,2)] assms(3)
  by (auto simp: decides_def)

definition sample_policies :: pyval where
  "sample_policies = PDict (obj [(''p1'', PDict (obj [(''config'', PDict (obj
      [(''kind'', PStr ''requires_approval''), (''trigger'', PList [PStr ''pay:*'']),
       (''requires'', PDict (obj [(''max_age_seconds'', PInt 60)]))]))]))])"

definition sample_rule :: policy_rule where
  "sample_rule = \<lparr>policy_id = ''p1'', kind = requires_approval, trigger = [PStr ''pay:*''],
     spec = obj [(''max_age_seconds'', PInt 60)]\<rparr>"

theorem loaded_rule_decides_witness:
  "load_policy_rules sample_policies = Inr [(''p1'', sample_rule)] \<and>
   (\<forall>request. \<exists>out. rule_check sample_rule request 0 = Inr out \<and> outcome_policy out = ''p1'' \<and>
        (satisfied out \<longleftrightarrow> obligation_met sample_rule request 0 requires_approval))"
proof -
  have l: "load_policy_rules sample_policies = Inr [(''p1'', sample_rule)]" by code_simp
  then show ?thesis
    using loaded_rule_decides [OF l, of "''p1''" sample_rule _ 0] by (auto simp: sample_rule_def)
qed

text \<open>
  A policy that lists no evidence types by writing null instead of a list is accepted by the
  loader, and without the resource binding it is then satisfied by every request that carries any
  list as evidence, the empty one included.
\<close>

theorem null_evidence_types_disable_policy:
  "\<exists>rule. load_policy_rules (PDict (obj [(''p1'', PDict (obj [(''config'', PDict (obj
        [(''kind'', PStr ''requires_evidence''), (''trigger'', PList [PStr ''*'']),
         (''requires'', PDict (obj [(''evidence_types'', PNone), (''same_resource'', PBool False)]))]))]))])) =
      Inr [(''p1'', rule)] \<and>
    (\<forall>request claims now. rule_check rule (request\<lparr>signals := PDict (obj [(''evidence'', PTuple claims)])\<rparr>) now =
      Inr (pass rule))"
proof (intro exI conjI allI)
  let ?rule = "\<lparr>policy_id = ''p1'', kind = requires_evidence, trigger = [PStr ''*''],
      spec = obj [(''evidence_types'', PNone), (''same_resource'', PBool False)]\<rparr>"
  show "load_policy_rules (PDict (obj [(''p1'', PDict (obj [(''config'', PDict (obj
        [(''kind'', PStr ''requires_evidence''), (''trigger'', PList [PStr ''*'']),
         (''requires'', PDict (obj [(''evidence_types'', PNone), (''same_resource'', PBool False)]))]))]))])) =
      Inr [(''p1'', ?rule)]" by code_simp
  show "rule_check ?rule (request\<lparr>signals := PDict (obj [(''evidence'', PTuple claims)])\<rparr>) now =
      Inr (pass ?rule)" for request claims now
    by (simp add: rule_check_def signal_of_def check_evidence_def require_bool_def dict_read)
qed

text \<open>
  A failure threshold whose limit is null is accepted by the loader too; its check raises a
  \<^verbatim>\<open>TypeError\<close> for every request that reports the counter, so evaluation ends in an exception
  and not in a decision.
\<close>

theorem null_limit_raises:
  "\<exists>rule. load_policy_rules (PDict (obj [(''p1'', PDict (obj [(''config'', PDict (obj
        [(''kind'', PStr ''failure_threshold''), (''trigger'', PList [PStr ''*'']),
         (''threshold'', PDict (obj [(''counter'', PStr ''c''), (''max_consecutive_failures'', PNone)]))]))]))])) =
      Inr [(''p1'', rule)] \<and>
    (\<forall>request n now. rule_check rule
        (request\<lparr>signals := PDict (obj [(''failure_counts'', PDict (obj [(''c'', PInt (int n))]))])\<rparr>) now =
      Inl (Exc TypeError ''>=''))"
proof (intro exI conjI allI)
  let ?rule = "\<lparr>policy_id = ''p1'', kind = failure_threshold, trigger = [PStr ''*''],
      spec = obj [(''counter'', PStr ''c''), (''max_consecutive_failures'', PNone)]\<rparr>"
  show "load_policy_rules (PDict (obj [(''p1'', PDict (obj [(''config'', PDict (obj
        [(''kind'', PStr ''failure_threshold''), (''trigger'', PList [PStr ''*'']),
         (''threshold'', PDict (obj [(''counter'', PStr ''c''), (''max_consecutive_failures'', PNone)]))]))]))])) =
      Inr [(''p1'', ?rule)]" by code_simp
  show "rule_check ?rule
      (request\<lparr>signals := PDict (obj [(''failure_counts'', PDict (obj [(''c'', PInt (int n))]))])\<rparr>) now =
      Inl (Exc TypeError ''>='')" for request n now
    by (simp add: rule_check_def signal_of_def check_failure_threshold_def at_least_def dict_read Let_def)
qed

end
