(* ===== verification/Signing.thy ===== *)
theory Signing
  imports PyTime ActionRequest
begin

text \<open>
  \<^verbatim>\<open>hlinor_registry/signing.py\<close>: the digest of a policy bundle, signing, verification against
  the trust roots, the validity window and the trust store. PEM parsing, files and path
  resolution are parameters. The lemmas show that a signed bundle verifies, and what a verified
  signature guarantees.
\<close>

section \<open>Digest and signed payload\<close>

definition bse :: "string \<Rightarrow> exn" where
  "bse tag = Exc BundleSignatureError tag"

definition without_signature_value :: "pydict \<Rightarrow> pydict result" where
  "without_signature_value bundle = (case dget bundle ''signature'' of
       PNone \<Rightarrow> Inr bundle
     | PDict sig \<Rightarrow> Inr (dset bundle ''signature'' (PDict (dset sig ''value'' (PStr []))))
     | _ \<Rightarrow> Inl (bse ''signature must be an object''))"

definition canonical_json :: "crypto \<Rightarrow> pyval \<Rightarrow> string result" where
  "canonical_json cr v = (case json_dumps cr False v of
       None \<Rightarrow> Inl (Exc ValueError ''json'') | Some s \<Rightarrow> Inr s)"

definition canonical_digest_payload :: "crypto \<Rightarrow> pydict \<Rightarrow> string result" where
  "canonical_digest_payload cr bundle = bindE (without_signature_value bundle) (\<lambda>b.
     canonical_json cr (PDict (dset b ''digest'' (PStr []))))"

definition compute_bundle_digest :: "crypto \<Rightarrow> pydict \<Rightarrow> string result" where
  "compute_bundle_digest cr bundle =
     bindE (canonical_digest_payload cr bundle) (\<lambda>payload. Inr (sha256_hex cr payload))"

definition canonical_signature_payload :: "crypto \<Rightarrow> pydict \<Rightarrow> string result" where
  "canonical_signature_payload cr bundle = bindE (without_signature_value bundle) (\<lambda>b.
     if is_str (dget b ''digest'') \<and> truthy (dget b ''digest'') then canonical_json cr (PDict b)
     else Inl (bse ''missing a digest''))"

section \<open>Trust roots, verified metadata and the window\<close>

record trusted_key =
  tk_id :: string
  tk_public :: string
  tk_issuer :: "string option"
  tk_source :: "string option"

record verified_signature =
  vs_algorithm :: string
  vs_key_id :: string
  vs_fingerprint :: string
  vs_issuer :: string
  vs_issued_at :: string
  vs_expires_at :: string

definition parse_signature_time :: "pyval \<Rightarrow> int result" where
  "parse_signature_time v = parse_trimmed_utc ''Z'' (bse ''timestamp'') v"

definition verification_time :: "datetime \<Rightarrow> int \<Rightarrow> int result" where
  "verification_time clock skew =
     (if skew < 0 then Inl (Exc ValueError ''clock_skew_seconds'') else utc_now clock)"

definition validate_signature_window :: "verified_signature \<Rightarrow> int \<Rightarrow> datetime \<Rightarrow> check" where
  "validate_signature_window signature skew clock = check_of
     (bindE (parse_signature_time (PStr (vs_issued_at signature))) (\<lambda>issued.
      bindE (parse_signature_time (PStr (vs_expires_at signature))) (\<lambda>expires.
      bindE (verification_time clock skew) (\<lambda>now.
        guarded (within_skew (bse ''issued in the future'') (bse ''expired'') issued expires now skew) ()))))"

section \<open>Signing\<close>

definition maximum_signature_validity :: int where
  "maximum_signature_validity = us (366 * 86400)"

definition signing_times :: "pyval \<Rightarrow> pyval \<Rightarrow> check" where
  "signing_times issued_at expires_at = check_of
     (bindE (parse_signature_time issued_at) (\<lambda>issued.
      bindE (parse_signature_time expires_at) (\<lambda>expires.
        guarded [require (issued < expires) (bse ''expires_at must be after issued_at''),
                 require (expires - issued \<le> maximum_signature_validity) (bse ''validity exceeds the maximum'')] ())))"

definition signature_object :: "pyval \<Rightarrow> pyval \<Rightarrow> pyval \<Rightarrow> pyval \<Rightarrow> string \<Rightarrow> pydict" where
  "signature_object key issuer issued_at expires_at v = obj
     [(''algorithm'', PStr ''Ed25519''), (''key_id'', key), (''issuer'', issuer),
      (''issued_at'', issued_at), (''expires_at'', expires_at), (''value'', PStr v)]"

definition sign_bundle ::
    "crypto \<Rightarrow> pydict \<Rightarrow> string result \<Rightarrow> pyval \<Rightarrow> pyval \<Rightarrow> pyval \<Rightarrow> pyval \<Rightarrow> pydict result" where
  "sign_bundle cr bundle private_key key issuer issued_at expires_at =
     after (first_error [require (trimmed_str key) (bse ''key_id''), require (trimmed_str issuer) (bse ''issuer''),
                         signing_times issued_at expires_at])
     (let unsigned = dset bundle ''signature'' (PDict (signature_object key issuer issued_at expires_at [])) in
      bindE (compute_bundle_digest cr unsigned) (\<lambda>digest.
      bindE private_key (\<lambda>secret.
      bindE (canonical_signature_payload cr (dset unsigned ''digest'' (PStr digest))) (\<lambda>payload.
        let signature = ed25519_sign cr secret payload;
            signed = dset (dset unsigned ''digest'' (PStr digest)) ''signature''
                       (PDict (signature_object key issuer issued_at expires_at (b64encode signature)))
        in bindE (canonical_signature_payload cr signed) (\<lambda>again.
          if ed25519_verify cr (ed25519_public cr secret) again signature then Inr signed
          else Inl (bse ''generated signature failed''))))))"

section \<open>Verification\<close>

definition signature_fields :: "string list" where
  "signature_fields = [''algorithm'', ''key_id'', ''issuer'', ''issued_at'', ''expires_at'', ''value'']"

definition validate_signature_object :: "pydict \<Rightarrow> pydict result" where
  "validate_signature_object bundle = (case dget bundle ''signature'' of
       PDict sig \<Rightarrow> guarded [require (only_keys sig signature_fields) (bse ''unknown fields''),
                             require (has_keys sig signature_fields) (bse ''missing fields'')] sig
     | _ \<Rightarrow> Inl (bse ''missing a signature''))"

definition verify_times :: "pydict \<Rightarrow> check" where
  "verify_times sig = check_of
     (bindE (parse_signature_time (dget sig ''issued_at'')) (\<lambda>issued.
      bindE (parse_signature_time (dget sig ''expires_at'')) (\<lambda>expires.
        if issued < expires then Inr () else Inl (bse ''expires_at must be after issued_at''))))"

definition verified_metadata :: "crypto \<Rightarrow> pydict \<Rightarrow> trusted_key \<Rightarrow> verified_signature" where
  "verified_metadata cr sig key =
     \<lparr>vs_algorithm = str_of (dget sig ''algorithm''), vs_key_id = str_of (dget sig ''key_id''),
      vs_fingerprint = digest_of cr (tk_public key), vs_issuer = str_of (dget sig ''issuer''),
      vs_issued_at = str_of (dget sig ''issued_at''), vs_expires_at = str_of (dget sig ''expires_at'')\<rparr>"

definition verify_signature_value :: "crypto \<Rightarrow> pydict \<Rightarrow> pydict \<Rightarrow> trusted_key \<Rightarrow> check" where
  "verify_signature_value cr bundle sig key = check_of
     (if is_str (dget sig ''value'') \<and> truthy (dget sig ''value'') then
        (case b64decode (str_of (dget sig ''value'')) of
           None \<Rightarrow> Inl (bse ''not valid base64'')
         | Some signature \<Rightarrow> bindE (canonical_signature_payload cr bundle) (\<lambda>payload.
             if ed25519_verify cr (tk_public key) payload signature then Inr ()
             else Inl (bse ''signature verification failed'')))
      else Inl (bse ''signature value is missing''))"

definition verify_bundle_signature ::
    "crypto \<Rightarrow> pydict \<Rightarrow> (string \<times> trusted_key) list \<Rightarrow> string option \<Rightarrow> int \<Rightarrow> datetime \<Rightarrow> verified_signature result" where
  "verify_bundle_signature cr bundle trusted_keys required_issuer skew clock =
     bindE (validate_signature_object bundle) (\<lambda>sig.
       after (first_error [require (dget sig ''algorithm'' = PStr ''Ed25519'') (bse ''algorithm''),
                           require (trimmed_str (dget sig ''key_id'')) (bse ''key_id''),
                           require (trimmed_str (dget sig ''issuer'')) (bse ''issuer'')])
       (case map_of trusted_keys (str_of (dget sig ''key_id'')) of
          None \<Rightarrow> Inl (bse ''unknown signing key'')
        | Some key \<Rightarrow>
            let issuer = str_of (dget sig ''issuer'') in
            guarded [require (tk_issuer key = None \<or> tk_issuer key = Some issuer) (bse ''issuer of the trusted key''),
                     require (required_issuer = None \<or> required_issuer = Some issuer) (bse ''required issuer''),
                     verify_times sig,
                     verify_signature_value cr bundle sig key,
                     validate_signature_window (verified_metadata cr sig key) skew clock]
              (verified_metadata cr sig key)))"

section \<open>Keys and the trust store\<close>

datatype key_source = KeyPath string | KeyText string | KeyBytes string | KeyOther

datatype pem_key = Ed25519Key string | OtherKey

text \<open>\<open>read_capped path\<close> is the size-limited file read, \<open>pem\<close> the parser of PEM public keys,
  \<open>resolve\<close> is \<open>Path.resolve\<close>.\<close>

record key_files =
  read_capped :: "string \<Rightarrow> string result"
  pem :: "string \<Rightarrow> pem_key option"
  resolve :: "string \<Rightarrow> string"
  is_absolute :: "string \<Rightarrow> bool"
  in_store :: "string \<Rightarrow> bool"
  joined :: "string \<Rightarrow> string"

definition load_public_key :: "key_files \<Rightarrow> key_source \<Rightarrow> string result" where
  "load_public_key fs v =
     bindE (case v of
         KeyPath p \<Rightarrow> read_capped fs (resolve fs p)
       | KeyText t \<Rightarrow>
           if contains ''-----BEGIN PUBLIC KEY-----'' t then Inr t
           else if list_ex (\<lambda>c. c = CHR 0x0A \<or> c = CHR 0x0D \<or> c = CHR 0x00) t
             then Inl (bse ''neither PEM text nor a usable path'')
           else read_capped fs (resolve fs t)
       | KeyBytes b \<Rightarrow> Inr b
       | KeyOther \<Rightarrow> Inl (Exc TypeError ''public key''))
     (\<lambda>bytes. case pem fs bytes of
         None \<Rightarrow> Inl (bse ''not a valid PEM public key'')
       | Some OtherKey \<Rightarrow> Inl (bse ''must use Ed25519'')
       | Some (Ed25519Key k) \<Rightarrow> Inr k)"

text \<open>The trust store after \<open>json.loads\<close>; each entry names a PEM file inside the store's
  directory, or an absolute path.\<close>

definition trust_entry :: "key_files \<Rightarrow> pykey \<Rightarrow> pyval \<Rightarrow> (string \<times> trusted_key) result" where
  "trust_entry fs k entry = (case (k, entry) of
       (KStr kid, PDict config) \<Rightarrow>
         let path = dget config ''public_key_path'';
             resolved = (if is_absolute fs (str_of path) then resolve fs (str_of path) else joined fs (str_of path));
             issuer = dget config ''issuer''
         in after (first_error
              [require (trimmed_str (PStr kid)) (bse ''key IDs''),
               require (only_keys config [''algorithm'', ''public_key_path'', ''issuer'']) (bse ''unknown fields''),
               require (dget config ''algorithm'' = PStr ''Ed25519'') (bse ''algorithm''),
               require (nonblank_str path) (bse ''public_key_path''),
               require (issuer = PNone \<or> trimmed_str issuer) (bse ''issuer''),
               require (is_absolute fs (str_of path) \<or> in_store fs resolved) (bse ''outside the trust store'')])
            (case load_public_key fs (KeyPath resolved) of
               Inl e \<Rightarrow> Inl (if exc_of e \<in> {OSError, FileNotFoundError, TypeError, BundleSignatureError}
                            then bse ''unable to load trusted key'' else e)
             | Inr public \<Rightarrow> Inr (kid, \<lparr>tk_id = kid, tk_public = public, tk_issuer = str_option issuer,
                                       tk_source = Some resolved\<rparr>))
     | (KStr kid, _) \<Rightarrow> Inl (if trimmed_str (PStr kid) then bse ''must be an object'' else bse ''key IDs'')
     | (KInt _, _) \<Rightarrow> Inl (bse ''key IDs''))"

fun trust_entries :: "key_files \<Rightarrow> pydict \<Rightarrow> (string \<times> trusted_key) list result" where
  "trust_entries fs [] = Inr []"
| "trust_entries fs ((k, v) # rest) =
     bindE (trust_entry fs k v) (\<lambda>e. bindE (trust_entries fs rest) (\<lambda>es. Inr (e # es)))"

definition load_trust_store :: "key_files \<Rightarrow> pyval \<Rightarrow> (string \<times> trusted_key) list result" where
  "load_trust_store fs data = (case data of
       PDict d \<Rightarrow>
         after (first_error
            [require (dget d ''schema_version'' = PStr ''1.0'') (bse ''schema''),
             require (only_keys d [''schema_version'', ''keys'']) (bse ''unknown top-level fields''),
             require (is_mapping (dget d ''keys'') \<and> truthy (dget d ''keys'')) (bse ''keys object'')])
         (case dget d ''keys'' of PDict keys \<Rightarrow> trust_entries fs keys | _ \<Rightarrow> Inl (bse ''keys object''))
     | _ \<Rightarrow> Inl (bse ''root must be an object''))"

datatype key_value = IsTrustedKey trusted_key | Source key_source

fun normalize_trusted_keys :: "key_files \<Rightarrow> (string \<times> key_value) list \<Rightarrow> (string \<times> trusted_key) list result" where
  "normalize_trusted_keys fs [] = Inr []"
| "normalize_trusted_keys fs ((kid, v) # rest) =
     after (require (trimmed_str (PStr kid)) (bse ''key IDs''))
     (bindE (case v of
          IsTrustedKey key \<Rightarrow> if tk_id key = kid then Inr key else Inl (bse ''mapping ID'')
        | Source src \<Rightarrow> bindE (load_public_key fs src) (\<lambda>public.
            Inr \<lparr>tk_id = kid, tk_public = public, tk_issuer = None, tk_source = None\<rparr>))
      (\<lambda>key. bindE (normalize_trusted_keys fs rest) (\<lambda>keys. Inr ((kid, key) # keys))))"

section \<open>A signed bundle verifies\<close>

lemma signature_object_value:
  "dset (signature_object key issuer i x v) ''value'' (PStr w) = signature_object key issuer i x w"
  by (simp add: signature_object_def dset_def)

lemma signature_object_reads:
  "dget (signature_object key issuer i x v) ''algorithm'' = PStr ''Ed25519''"
  "dget (signature_object key issuer i x v) ''key_id'' = key" "dget (signature_object key issuer i x v) ''issuer'' = issuer"
  "dget (signature_object key issuer i x v) ''issued_at'' = i" "dget (signature_object key issuer i x v) ''expires_at'' = x"
  "dget (signature_object key issuer i x v) ''value'' = PStr v"
  "only_keys (signature_object key issuer i x v) signature_fields"
  "has_keys (signature_object key issuer i x v) signature_fields"
  by (simp_all add: signature_object_def dict_read only_keys_def signature_fields_def)

text \<open>Blanking the value of the signature object gives back what was signed.\<close>

lemma without_value_signed:
  assumes "dget d ''signature'' = PDict (signature_object key issuer i x [])"
  shows "without_signature_value (dset d ''signature'' (PDict (signature_object key issuer i x v))) = Inr d"
    and "without_signature_value d = Inr d"
  using assms by (simp_all add: without_signature_value_def signature_object_value dset_present)

lemma sign_bundle_Inr:
  assumes "sign_bundle cr bundle private_key key issuer i x = Inr signed"
  defines "unsigned \<equiv> dset bundle ''signature'' (PDict (signature_object key issuer i x []))"
  obtains secret digest payload where "private_key = Inr secret" "compute_bundle_digest cr unsigned = Inr digest"
    "canonical_signature_payload cr (dset unsigned ''digest'' (PStr digest)) = Inr payload"
    "signed = dset (dset unsigned ''digest'' (PStr digest)) ''signature''
       (PDict (signature_object key issuer i x (b64encode (ed25519_sign cr secret payload))))"
    "trimmed_str key" "trimmed_str issuer" "signing_times i x = None"
  using assms by (auto simp: sign_bundle_def Let_def guards split: if_splits)

lemma signed_payload_same:
  fixes d :: pydict
  assumes "dget d ''signature'' = PDict (signature_object key issuer i x [])"
  shows "canonical_signature_payload cr (dset d ''signature'' (PDict (signature_object key issuer i x v))) =
    canonical_signature_payload cr d"
  using without_value_signed [OF assms] by (simp add: canonical_signature_payload_def)

lemma signed_digest_same:
  fixes d :: pydict
  assumes "dget d ''signature'' = PDict (signature_object key issuer i x [])"
  shows "compute_bundle_digest cr (dset (dset d ''digest'' g) ''signature'' (PDict (signature_object key issuer i x v))) =
    compute_bundle_digest cr d"
  using without_value_signed(1) [of "dset d ''digest'' g" key issuer i x v] without_value_signed [OF assms] assms
  by (simp add: compute_bundle_digest_def canonical_digest_payload_def)

lemma signing_times_verify:
  "signing_times i x = None \<Longrightarrow> dget sig ''issued_at'' = i \<Longrightarrow> dget sig ''expires_at'' = x \<Longrightarrow> verify_times sig = None"
  by (auto simp: signing_times_def verify_times_def guards split: sum.splits)

text \<open>
  C40. What is signed is verified: a bundle that \<^verbatim>\<open>sign_bundle\<close> returned carries the digest the loader
  recomputes, and verification under a trust root with the signer's public key, a matching issuer and
  a clock inside the window returns the metadata that was signed.
\<close>

theorem sign_then_verify:
  assumes "signature_scheme cr"
    and signed: "sign_bundle cr bundle (Inr secret) (PStr kid) (PStr issuer) i x = Inr signed"
    and key: "map_of keys kid = Some key" "tk_public key = ed25519_public cr secret"
    and issuer: "tk_issuer key \<in> {None, Some issuer}" "required_issuer \<in> {None, Some issuer}"
    and window: "validate_signature_window
      (verified_metadata cr (signature_object (PStr kid) (PStr issuer) i x []) key) skew clock = None"
  shows "verify_bundle_signature cr signed keys required_issuer skew clock =
      Inr (verified_metadata cr (signature_object (PStr kid) (PStr issuer) i x []) key) \<and>
    (\<exists>digest. dget signed ''digest'' = PStr digest \<and> compute_bundle_digest cr signed = Inr digest)"
proof -
  let ?so = "signature_object (PStr kid) (PStr issuer) i x"
  obtain digest payload where digest: "compute_bundle_digest cr (dset bundle ''signature'' (PDict (?so []))) = Inr digest"
    and payload: "canonical_signature_payload cr (dset (dset bundle ''signature'' (PDict (?so []))) ''digest'' (PStr digest)) = Inr payload"
    and s: "signed = dset (dset (dset bundle ''signature'' (PDict (?so []))) ''digest'' (PStr digest)) ''signature''
       (PDict (?so (b64encode (ed25519_sign cr secret payload))))"
    and t: "trimmed_str (PStr kid)" "trimmed_str (PStr issuer)" "signing_times i x = None"
    using signed by (rule sign_bundle_Inr) auto
  have "canonical_signature_payload cr signed = Inr payload"
    unfolding s using payload by (subst signed_payload_same) simp_all
  moreover have "compute_bundle_digest cr signed = Inr digest"
    unfolding s using digest by (subst signed_digest_same) simp_all
  moreover have "dget signed ''signature'' = PDict (?so (b64encode (ed25519_sign cr secret payload)))"
    "dget signed ''digest'' = PStr digest" by (simp_all add: s)
  moreover define meta where "meta = verified_metadata cr (?so []) key"
  moreover have "verified_metadata cr (?so v) key = meta" for v
    by (simp add: meta_def verified_metadata_def signature_object_reads)
  moreover have "verify_times (?so v) = None" for v
    using t(3) by (rule signing_times_verify) (simp_all add: signature_object_reads)
  ultimately show ?thesis
    using assms(1) key issuer window t
    by (simp add: verify_bundle_signature_def validate_signature_object_def signature_object_reads
        verify_signature_value_def b64decode_encode signature_scheme_def first_error_None)
qed

definition sample_key :: trusted_key where
  "sample_key = \<lparr>tk_id = ''key'', tk_public = ''k'', tk_issuer = Some ''me'', tk_source = None\<rparr>"

theorem sign_then_verify_witness:
  "\<exists>signed. sign_bundle sample_crypto [] (Inr ''k'') (PStr ''key'') (PStr ''me'')
       (PStr ''2026-01-01T00:00:00Z'') (PStr ''2026-02-01T00:00:00Z'') = Inr signed \<and>
     verify_bundle_signature sample_crypto signed [(''key'', sample_key)] None 60 sample_clock =
       Inr (verified_metadata sample_crypto (signature_object (PStr ''key'') (PStr ''me'')
         (PStr ''2026-01-01T00:00:00Z'') (PStr ''2026-02-01T00:00:00Z'') []) sample_key)"
proof -
  have "\<not> isl (sign_bundle sample_crypto [] (Inr ''k'') (PStr ''key'') (PStr ''me'')
      (PStr ''2026-01-01T00:00:00Z'') (PStr ''2026-02-01T00:00:00Z''))" by code_simp
  from not_isl_ex [OF this] obtain signed where s: "sign_bundle sample_crypto [] (Inr ''k'') (PStr ''key'') (PStr ''me'')
      (PStr ''2026-01-01T00:00:00Z'') (PStr ''2026-02-01T00:00:00Z'') = Inr signed"
    by blast
  moreover have "verify_bundle_signature sample_crypto signed [(''key'', sample_key)] None 60 sample_clock =
      Inr (verified_metadata sample_crypto (signature_object (PStr ''key'') (PStr ''me'')
        (PStr ''2026-01-01T00:00:00Z'') (PStr ''2026-02-01T00:00:00Z'') []) sample_key)"
    by (rule conjunct1, rule sign_then_verify [OF sample_crypto_scheme s])
      (simp_all add: sample_key_def sample_crypto_def sample_base_def, code_simp)
  ultimately show ?thesis by blast
qed

end
