(* ===== verification/PolicyChecker.thy ===== *)
theory PolicyChecker
  imports Policies Signing
begin

text \<open>
  \<^verbatim>\<open>policy_checker.py\<close>, \<^verbatim>\<open>bundle_cache.py\<close> and \<^verbatim>\<open>decision.py\<close>: loading and checking
  a compiled bundle, the trust recheck before every evaluation, the evaluation itself, reloading
  and the cache of verified bundles. The disk, the JSON parser and the system clock are the
  record \<open>bundle_io\<close> of observations an operation makes; the checker's state is a record that
  is returned updated.
\<close>

section \<open>State\<close>

record agent_entry =
  ae_config :: pydict
  ae_mode :: string
  ae_source_path :: pyval
  ae_digest :: pyval
  ae_rules :: "policy_rule list"
  ae_declarative :: "string list"

record bundle_state =
  agents :: "(string \<times> agent_entry) list"
  capabilities :: "(string \<times> pydict) list"
  policy_rules :: "(string \<times> policy_rule) list"
  bundle_digest :: string
  schema_version :: string
  compiler_version :: pyval
  bundle_revision :: int
  policy_revision :: pyval
  bundle_environment :: string
  verified :: "verified_signature option"
  snapshot :: pydict

datatype signature_policy = Auto | Required | Optional

record settings =
  sig_policy :: signature_policy
  required_issuer :: "string option"
  minimum_revision :: int
  skew_seconds :: int
  bundle_path :: string
  store_configured :: bool
  programmatic_keys :: "(string \<times> trusted_key) list"

type_synonym fingerprint = "int list"

record checker =
  conf :: settings
  trusted_keys :: "(string \<times> trusted_key) list"
  active :: "bundle_state option"
  file_fp :: "fingerprint option"
  source_digest :: string
  trust_fp :: "string option"

text \<open>
  What the operations observe: whether the bundle is a file, the stat-read-stat triples, the
  final stat, \<open>json.loads\<close> (\<open>None\<close> is its decode error), the trust store, the digest of the
  trust files and the system clock.
\<close>

record bundle_io =
  io_is_file :: bool
  io_reads :: "(fingerprint \<times> string result \<times> fingerprint) list"
  io_stat :: fingerprint
  io_json :: "string \<Rightarrow> pyval option"
  io_trust_store :: "(string \<times> trusted_key) list result"
  io_trust_material :: "(string \<times> trusted_key) list \<Rightarrow> string result"
  io_clock :: datetime

section \<open>bundle_cache.py\<close>

type_synonym cache_key = "string \<times> string \<times> string"

record bundle_cache =
  max_entries :: nat
  entries :: "(cache_key \<times> bundle_state) list"
  hits :: nat
  misses :: nat

definition new_cache :: "pyval \<Rightarrow> bundle_cache result" where
  "new_cache v = (case plain_int v of
       Some n \<Rightarrow> if n < 1 then Inl (Exc ValueError ''max_entries'')
         else Inr \<lparr>max_entries = nat n, entries = [], hits = 0, misses = 0\<rparr>
     | None \<Rightarrow> Inl (Exc ValueError ''max_entries''))"

definition cache_clear :: "bundle_cache \<Rightarrow> bundle_cache" where
  "cache_clear c = c\<lparr>entries := []\<rparr>"

definition cache_invalidate :: "string \<Rightarrow> bundle_cache \<Rightarrow> nat \<times> bundle_cache" where
  "cache_invalidate path c =
     (length (filter (\<lambda>((p, _, _), _). p = path) (entries c)),
      c\<lparr>entries := filter (\<lambda>((p, _, _), _). p \<noteq> path) (entries c)\<rparr>)"

definition without_key :: "cache_key \<Rightarrow> (cache_key \<times> bundle_state) list \<Rightarrow> (cache_key \<times> bundle_state) list" where
  "without_key k es = filter (\<lambda>(k', _). k' \<noteq> k) es"

text \<open>The list is the order of the \<open>OrderedDict\<close>: least recently used first.\<close>

definition cache_get :: "cache_key \<Rightarrow> bundle_cache \<Rightarrow> bundle_state option \<times> bundle_cache" where
  "cache_get k c = (case map_of (entries c) k of
       None \<Rightarrow> (None, c\<lparr>misses := Suc (misses c)\<rparr>)
     | Some st \<Rightarrow> (Some st, c\<lparr>entries := without_key k (entries c) @ [(k, st)], hits := Suc (hits c)\<rparr>))"

definition cache_put :: "cache_key \<Rightarrow> bundle_state \<Rightarrow> bundle_cache \<Rightarrow> bundle_cache" where
  "cache_put k st c =
     (let es = without_key k (entries c) @ [(k, st)]
      in c\<lparr>entries := drop (length es - max_entries c) es\<rparr>)"

definition cache_info :: "bundle_cache \<Rightarrow> nat \<times> nat \<times> nat \<times> nat" where
  "cache_info c = (hits c, misses c, max_entries c, length (entries c))"

section \<open>Configuration and keys\<close>

definition make_settings ::
    "string \<Rightarrow> string \<Rightarrow> string option \<Rightarrow> pyval \<Rightarrow> pyval \<Rightarrow> bool \<Rightarrow> (string \<times> trusted_key) list \<Rightarrow> settings result" where
  "make_settings path policy issuer minimum skew store keys =
     (case (if policy = ''auto'' then Some Auto else if policy = ''required'' then Some Required
            else if policy = ''optional'' then Some Optional else None) of
        None \<Rightarrow> Inl (Exc ValueError ''signature_policy'')
      | Some sp \<Rightarrow> (case plain_int minimum of
            None \<Rightarrow> Inl (Exc ValueError ''minimum_bundle_revision'')
          | Some m \<Rightarrow> if m < 0 then Inl (Exc ValueError ''minimum_bundle_revision'')
              else (case plain_int skew of
                  None \<Rightarrow> Inl (Exc ValueError ''clock_skew_seconds'')
                | Some k \<Rightarrow> if k < 0 then Inl (Exc ValueError ''clock_skew_seconds'')
                    else Inr \<lparr>sig_policy = sp, required_issuer = issuer, minimum_revision = m, skew_seconds = k,
                           bundle_path = path, store_configured = store, programmatic_keys = keys\<rparr>)))"

definition load_configured_keys :: "bundle_io \<Rightarrow> settings \<Rightarrow> (string \<times> trusted_key) list result" where
  "load_configured_keys io s =
     (if store_configured s then bindE (io_trust_store io) (\<lambda>ks.
        if list_ex (\<lambda>(k, _). map_of ks k \<noteq> None) (programmatic_keys s) then Inl (Exc ValueError ''Duplicate trusted key IDs'')
        else Inr (programmatic_keys s @ ks))
      else Inr (programmatic_keys s))"

text \<open>Configured trust roots turn the automatic policy into a required signature.\<close>

definition effective_policy :: "settings \<Rightarrow> (string \<times> trusted_key) list \<Rightarrow> settings" where
  "effective_policy s keys = (if sig_policy s = Auto \<and> keys \<noteq> [] then s\<lparr>sig_policy := Required\<rparr> else s)"

fun policy_text :: "signature_policy \<Rightarrow> string" where
  "policy_text Auto = ''auto''" | "policy_text Required = ''required''" | "policy_text Optional = ''optional''"

definition verification_context :: "crypto \<Rightarrow> bundle_io \<Rightarrow> checker \<Rightarrow> string result" where
  "verification_context cr io ck =
     (let s = conf ck; nul = [CHR 0x00];
          fields = PDict (obj [(''signature_policy'', PStr (policy_text (sig_policy s))),
            (''required_issuer'', opt_str (required_issuer s)), (''minimum_bundle_revision'', PInt (minimum_revision s)),
            (''clock_skew_seconds'', PInt (skew_seconds s))]);
          key_text = (\<lambda>(kid, key). nul @ kid @ nul @ (case tk_issuer key of None \<Rightarrow> [] | Some i \<Rightarrow> i) @ nul @ tk_public key);
          text = (case json_dumps cr True fields of None \<Rightarrow> [] | Some t \<Rightarrow> t)
                 @ concat (map key_text (sort_key fst (trusted_keys ck)))
      in if store_configured s
         then bindE (io_trust_material io (trusted_keys ck)) (\<lambda>fp.
           Inr (sha256_hex cr (text @ nul @ ''trust-material'' @ nul @ fp)))
         else Inr (sha256_hex cr text))"

section \<open>Reading and parsing a bundle\<close>

fun read_stable :: "nat \<Rightarrow> (fingerprint \<times> string result \<times> fingerprint) list \<Rightarrow> (string \<times> fingerprint) result" where
  "read_stable (Suc n) ((before, bytes, after_fp) # obs) =
     (case bytes of
        Inl e \<Rightarrow> Inl e
      | Inr text \<Rightarrow> if before = after_fp then Inr (text, after_fp) else read_stable n obs)"
| "read_stable _ _ = Inl (Exc RuntimeError ''changed while it was being loaded'')"

definition before_dot :: "string \<Rightarrow> string" where
  "before_dot s = takeWhile (\<lambda>c. c \<noteq> CHR ''.'') s"

text \<open>\<open>schema_major.isdigit() and int(schema_major) == 1\<close>; the digits outside ASCII that
  \<open>isdigit\<close> admits make \<open>int\<close> raise a \<open>ValueError\<close> as well.\<close>

definition schema_checks :: "pydict \<Rightarrow> check list" where
  "schema_checks bundle =
     (let v = dget_or bundle ''schema_version'' (dget bundle ''version''); major = before_dot (str_of v)
      in [require (nonblank_str v) (Exc ValueError ''missing a schema version''),
          require (major \<noteq> [] \<and> list_all is_digit major \<and> number_of major = 1) (Exc ValueError ''unsupported schema'')])"

definition digest_checks :: "crypto \<Rightarrow> pydict \<Rightarrow> check list" where
  "digest_checks cr bundle =
     [require (is_str (dget bundle ''digest'') \<and> truthy (dget bundle ''digest'')) (Exc ValueError ''missing a digest''),
      (case compute_bundle_digest cr bundle of
         Inl e \<Rightarrow> Some e
       | Inr d \<Rightarrow> require (dget bundle ''digest'' = PStr d) (Exc ValueError ''digest mismatch''))]"

definition bundle_env :: "pydict \<Rightarrow> pyval" where
  "bundle_env bundle = (case dget_or bundle ''metadata'' (PDict []) of
       PDict m \<Rightarrow> dget_or m ''environment'' (PStr ''development'') | _ \<Rightarrow> PNone)"

definition metadata_checks :: "settings \<Rightarrow> pydict \<Rightarrow> check list" where
  "metadata_checks s bundle =
     (let revision = dget_or bundle ''bundle_revision'' (PInt 0);
          n = (case plain_int revision of None \<Rightarrow> 0 | Some n \<Rightarrow> n)
      in [require (is_mapping (dget_or bundle ''metadata'' (PDict []))) (Exc TypeError ''metadata''),
          require (nonblank_str (bundle_env bundle)) (Exc ValueError ''environment''),
          require (1 \<le> n) (Exc ValueError ''revision''),
          require (minimum_revision s \<le> n) (Exc ValueError ''revision below the trusted minimum'')])"

definition check_signature ::
    "crypto \<Rightarrow> bundle_io \<Rightarrow> settings \<Rightarrow> (string \<times> trusted_key) list \<Rightarrow> pydict \<Rightarrow> verified_signature option result" where
  "check_signature cr io s keys bundle =
     (if dget bundle ''signature'' \<noteq> PNone
      then bindE (verify_bundle_signature cr bundle keys (required_issuer s) (skew_seconds s) (io_clock io)) (\<lambda>v. Inr (Some v))
      else if sig_policy s = Required then Inl (Exc ValueError ''signature is required'')
      else if sig_policy s = Auto \<and>
          casefold (str_of (bundle_env bundle)) \<notin> {''development'', ''test'', ''local''}
        then Inl (Exc ValueError ''unsigned bundle'')
      else Inr None)"

definition load_agent :: "pykey \<Rightarrow> pyval \<Rightarrow> (string \<times> agent_entry) result" where
  "load_agent k data = (case (k, data) of
       (KStr aid, PDict d) \<Rightarrow>
         (case dget d ''config'' of
            PDict config \<Rightarrow>
              let mode = dget_or config ''enforcement_mode'' (PStr ''strict'');
                  listed = (\<lambda>f. let v = dget_or config f (PList []) in v = PNone \<or> is_list v)
              in guarded [require (aid \<noteq> []) (Exc ValueError ''agent ID''),
                          require (mode \<in> {PStr ''strict'', PStr ''permissive''}) (Exc ValueError ''enforcement_mode''),
                          require (listed ''allowed_actions'') (Exc ValueError ''allowed_actions''),
                          require (listed ''blocked_actions'') (Exc ValueError ''blocked_actions'')]
                   (aid, \<lparr>ae_config = config, ae_mode = str_of mode,
                          ae_source_path = dget_or d ''source_path'' (PStr ''unknown''),
                          ae_digest = dget_or d ''digest'' (PStr []), ae_rules = [], ae_declarative = []\<rparr>)
          | _ \<Rightarrow> if aid = [] then Inl (Exc ValueError ''agent ID'') else Inl (Exc TypeError ''missing config''))
     | (KStr aid, _) \<Rightarrow> if aid = [] then Inl (Exc ValueError ''agent ID'') else Inl (Exc TypeError ''agent entry'')
     | (KInt _, _) \<Rightarrow> Inl (Exc ValueError ''agent ID''))"

fun load_agents :: "pydict \<Rightarrow> (string \<times> agent_entry) list result" where
  "load_agents [] = Inr []"
| "load_agents ((k, d) # rest) =
     bindE (load_agent k d) (\<lambda>a. bindE (load_agents rest) (\<lambda>as. Inr (a # as)))"

fun load_capabilities :: "pydict \<Rightarrow> (string \<times> pydict) list result" where
  "load_capabilities [] = Inr []"
| "load_capabilities ((k, v) # rest) = (case (k, v) of
       (KStr cid, PDict d) \<Rightarrow> if cid = [] then Inl (Exc ValueError ''capability ID'')
         else bindE (load_capabilities rest) (\<lambda>cs. Inr ((cid, d) # cs))
     | (KStr cid, _) \<Rightarrow> if cid = [] then Inl (Exc ValueError ''capability ID'') else Inl (Exc TypeError ''capability'')
     | (KInt _, _) \<Rightarrow> Inl (Exc ValueError ''capability ID''))"

text \<open>\<open>data.get("policies") or []\<close>: every falsy value counts as the empty list.\<close>

definition bind_rules ::
    "(string \<times> policy_rule) list \<Rightarrow> string \<times> agent_entry \<Rightarrow> (string \<times> agent_entry) result" where
  "bind_rules rules a =
     (let declared = dget (ae_config (snd a)) ''policies'';
          names = map str_of (entries_of declared)
      in if \<not> truthy declared then Inr a
         else if \<not> is_list declared then Inl (Exc TypeError ''policies'')
         else if \<not> list_all nonblank_str (entries_of declared) then Inl (Exc TypeError ''policies entry'')
         else Inr (fst a, (snd a)\<lparr>
           ae_rules := map (\<lambda>p. the (map_of rules p)) (filter (\<lambda>p. map_of rules p \<noteq> None) names),
           ae_declarative := filter (\<lambda>p. map_of rules p = None) names\<rparr>))"

fun bind_agents ::
    "(string \<times> policy_rule) list \<Rightarrow> (string \<times> agent_entry) list \<Rightarrow> (string \<times> agent_entry) list result" where
  "bind_agents rules [] = Inr []"
| "bind_agents rules (a # as) =
     bindE (bind_rules rules a) (\<lambda>b. bindE (bind_agents rules as) (\<lambda>bs. Inr (b # bs)))"

definition object_or :: "pyval \<Rightarrow> exn \<Rightarrow> pydict result" where
  "object_or v e = (case v of PDict d \<Rightarrow> Inr d | _ \<Rightarrow> Inl e)"

text \<open>Lines 274 to 446: from the text to the verified state.\<close>

definition parse_bundle ::
    "crypto \<Rightarrow> bundle_io \<Rightarrow> settings \<Rightarrow> (string \<times> trusted_key) list \<Rightarrow> string \<Rightarrow> bundle_state result" where
  "parse_bundle cr io s keys text = (case io_json io text of
       None \<Rightarrow> Inl (Exc ValueError ''Invalid JSON'')
     | Some v \<Rightarrow>
        bindE (object_or v (Exc TypeError ''root'')) (\<lambda>bundle.
        after (first_error (schema_checks bundle @ digest_checks cr bundle @ metadata_checks s bundle))
        (bindE (check_signature cr io s keys bundle) (\<lambda>sig.
         bindE (object_or (dget bundle ''agents'') (Exc TypeError ''agents'')) (\<lambda>raw_agents.
         bindE (load_agents raw_agents) (\<lambda>loaded.
         bindE (object_or (dget_or bundle ''capabilities'' (PDict [])) (Exc TypeError ''capabilities'')) (\<lambda>raw_caps.
         bindE (load_capabilities raw_caps) (\<lambda>caps.
         bindE (object_or (dget_or bundle ''policies'' (PDict [])) (Exc TypeError ''policies'')) (\<lambda>raw_policies.
         bindE (load_policy_rules (PDict raw_policies)) (\<lambda>rules.
         bindE (bind_agents rules loaded) (\<lambda>bound.
           Inr \<lparr>agents = bound, capabilities = caps, policy_rules = rules,
                bundle_digest = str_of (dget bundle ''digest''),
                schema_version = str_of (dget_or bundle ''schema_version'' (dget bundle ''version'')),
                compiler_version = dget_or bundle ''compiler_version'' (PStr ''unknown''),
                bundle_revision = (case plain_int (dget bundle ''bundle_revision'') of None \<Rightarrow> 0 | Some n \<Rightarrow> n),
                policy_revision = dget_or bundle ''policy_revision'' (PStr ''unknown''),
                bundle_environment = str_of (bundle_env bundle), verified = sig, snapshot = bundle\<rparr>)))))))))))"

section \<open>Loading and reloading\<close>

text \<open>
  \<open>_install_state\<close>: the new snapshot replaces the old one; the digest of the trust files is
  taken when the bundle is signed and a trust store is configured. Reading them can raise, after
  the snapshot was replaced.
\<close>

definition install_state ::
    "bundle_io \<Rightarrow> bundle_state \<Rightarrow> fingerprint \<Rightarrow> string \<Rightarrow> checker \<Rightarrow> unit result \<times> checker" where
  "install_state io st fp digest ck =
     (let ck' = ck\<lparr>active := Some st, file_fp := Some fp, source_digest := digest\<rparr> in
      if verified st \<noteq> None \<and> store_configured (conf ck) then
        (case io_trust_material io (trusted_keys ck) of
           Inl e \<Rightarrow> (Inl e, ck')
         | Inr m \<Rightarrow> (Inr (), ck'\<lparr>trust_fp := Some m\<rparr>))
      else (Inr (), ck'\<lparr>trust_fp := None\<rparr>))"

text \<open>
  \<open>_assert_runtime_trust\<close>: unsigned snapshots pass; without a trust store, or when the trust
  files are unchanged, only the window is checked again; otherwise the signature is verified
  under the current keys.
\<close>

definition verify_again :: "crypto \<Rightarrow> bundle_io \<Rightarrow> bundle_state \<Rightarrow> checker \<Rightarrow> unit result \<times> checker" where
  "verify_again cr io st ck =
     (case bindE (load_configured_keys io (conf ck)) (\<lambda>keys.
           bindE (verify_bundle_signature cr (snapshot st) keys (required_issuer (conf ck))
                    (skew_seconds (conf ck)) (io_clock io)) (\<lambda>v. Inr (keys, v))) of
        Inl e \<Rightarrow> (Inl e, ck)
      | Inr (keys, v) \<Rightarrow>
          let ck' = ck\<lparr>trusted_keys := keys, active := Some (st\<lparr>verified := Some v\<rparr>)\<rparr>
          in (case io_trust_material io keys of
              Inl e \<Rightarrow> (Inl e, ck')
            | Inr fp \<Rightarrow> (Inr (), ck'\<lparr>trust_fp := Some fp\<rparr>)))"

definition assert_runtime_trust :: "crypto \<Rightarrow> bundle_io \<Rightarrow> checker \<Rightarrow> unit result \<times> checker" where
  "assert_runtime_trust cr io ck = (case active ck of
       None \<Rightarrow> (Inr (), ck)
     | Some st \<Rightarrow> (case verified st of
         None \<Rightarrow> (Inr (), ck)
       | Some sig \<Rightarrow>
           let window = (result_of_check (validate_signature_window sig (skew_seconds (conf ck)) (io_clock io)), ck)
           in if \<not> store_configured (conf ck) then window
              else (case io_trust_material io (trusted_keys ck) of
                  Inl e \<Rightarrow> (Inl e, ck)
                | Inr fp \<Rightarrow> if trust_fp ck = Some fp then window else verify_again cr io st ck)))"

definition changed_while_loading :: exn where
  "changed_while_loading = Exc RuntimeError ''changed while it was being loaded''"

definition finish_load ::
    "crypto \<Rightarrow> bundle_io \<Rightarrow> string \<Rightarrow> fingerprint \<Rightarrow> string \<Rightarrow> cache_key \<Rightarrow> checker \<Rightarrow> bundle_cache option
     \<Rightarrow> unit result \<times> checker \<times> bundle_cache option" where
  "finish_load cr io text fp digest key ck cache =
     (case parse_bundle cr io (conf ck) (trusted_keys ck) text of
        Inl e \<Rightarrow> (Inl e, ck, cache)
      | Inr st \<Rightarrow>
          if io_stat io \<noteq> fp then (Inl changed_while_loading, ck, cache)
          else (let installed = install_state io st fp digest ck
                in (fst installed, snd installed,
                    if isl (fst installed) then cache else map_option (cache_put key st) cache)))"

definition use_cached ::
    "crypto \<Rightarrow> bundle_io \<Rightarrow> bundle_state \<Rightarrow> fingerprint \<Rightarrow> string \<Rightarrow> checker \<Rightarrow> unit result \<times> checker" where
  "use_cached cr io st fp digest ck =
     (if io_stat io \<noteq> fp then (Inl changed_while_loading, ck)
      else (let installed = install_state io st fp digest ck
            in if isl (fst installed) then installed else assert_runtime_trust cr io (snd installed)))"

definition load_read ::
    "crypto \<Rightarrow> bundle_io \<Rightarrow> string \<Rightarrow> fingerprint \<Rightarrow> checker \<Rightarrow> bundle_cache option
     \<Rightarrow> unit result \<times> checker \<times> bundle_cache option" where
  "load_read cr io text fp ck cache = (case verification_context cr io ck of
       Inl e \<Rightarrow> (Inl e, ck, cache)
     | Inr context \<Rightarrow>
         let digest = sha256_hex cr text; key = (bundle_path (conf ck), digest, context) in
         (case cache of
            None \<Rightarrow> finish_load cr io text fp digest key ck None
          | Some c \<Rightarrow>
              let found = cache_get key c in
              (case fst found of
                 None \<Rightarrow> finish_load cr io text fp digest key ck (Some (snd found))
               | Some st \<Rightarrow>
                   let used = use_cached cr io st fp digest ck in (fst used, snd used, Some (snd found)))))"

definition load_bundle ::
    "crypto \<Rightarrow> bundle_io \<Rightarrow> checker \<Rightarrow> bundle_cache option \<Rightarrow> unit result \<times> checker \<times> bundle_cache option" where
  "load_bundle cr io ck cache =
     (if \<not> io_is_file io then (Inl (Exc FileNotFoundError ''bundle''), ck, cache)
      else (case (if store_configured (conf ck) then load_configured_keys io (conf ck) else Inr (trusted_keys ck)) of
          Inl e \<Rightarrow> (Inl e, ck, cache)
        | Inr keys \<Rightarrow>
            (case read_stable 2 (io_reads io) of
               Inl e \<Rightarrow> (Inl e, ck\<lparr>trusted_keys := keys\<rparr>, cache)
             | Inr (text, fp) \<Rightarrow> load_read cr io text fp (ck\<lparr>trusted_keys := keys\<rparr>) cache)))"

definition fresh_checker :: "settings \<Rightarrow> (string \<times> trusted_key) list \<Rightarrow> checker" where
  "fresh_checker s keys = \<lparr>conf = effective_policy s keys, trusted_keys = keys, active = None,
     file_fp = None, source_digest = [], trust_fp = None\<rparr>"

definition new_checker ::
    "crypto \<Rightarrow> bundle_io \<Rightarrow> settings \<Rightarrow> bundle_cache option \<Rightarrow> checker result \<times> bundle_cache option" where
  "new_checker cr io s cache = (case load_configured_keys io s of
       Inl e \<Rightarrow> (Inl e, cache)
     | Inr keys \<Rightarrow>
         let loaded = load_bundle cr io (fresh_checker s keys) cache
         in (map_sum id (\<lambda>u. fst (snd loaded)) (fst loaded), snd (snd loaded)))"

definition reload_if_changed ::
    "crypto \<Rightarrow> bundle_io \<Rightarrow> checker \<Rightarrow> bundle_cache option \<Rightarrow> bool result \<times> checker \<times> bundle_cache option" where
  "reload_if_changed cr io ck cache =
     (if \<not> io_is_file io then (Inl (Exc FileNotFoundError ''bundle''), ck, cache)
      else if file_fp ck = Some (io_stat io) then
        (let trust = assert_runtime_trust cr io ck
         in (map_sum id (\<lambda>u. False) (fst trust), snd trust, cache))
      else (let loaded = load_bundle cr io ck cache in (map_sum id (\<lambda>u. True) (fst loaded), snd loaded)))"

section \<open>Evaluation\<close>

record policy_decision =
  decision_id :: string
  dec_agent_id :: string
  dec_action :: string
  dec_result :: decision_result
  dec_reason :: reason_code
  dec_request_id :: string
  dec_bundle_digest :: string
  dec_request_digest :: string
  matched_pattern :: "string option"
  matched_policy_ids :: "string list"
  dec_detail :: policy_detail
  enforcement_mode :: string
  dec_environment :: "string option"
  dec_actor_id :: "string option"
  dec_bundle_revision :: int
  dec_signature :: "verified_signature option"

text \<open>What an evaluation finds: result, reason, matching entry, consulted policies and detail.\<close>

record verdict =
  v_result :: decision_result
  v_reason :: reason_code
  v_mode :: string
  v_pattern :: "string option"
  v_policies :: "string list"
  v_detail :: policy_detail

definition denied :: "reason_code \<Rightarrow> string \<Rightarrow> string option \<Rightarrow> string list \<Rightarrow> policy_detail \<Rightarrow> verdict" where
  "denied r mode pat ids d = \<lparr>v_result = DENIED, v_reason = r, v_mode = mode, v_pattern = pat, v_policies = ids, v_detail = d\<rparr>"

fun first_refusal :: "action_request \<Rightarrow> int \<Rightarrow> policy_rule list \<Rightarrow> policy_outcome option result" where
  "first_refusal request now [] = Inr None"
| "first_refusal request now (rule # rules) = bindE (rule_check rule request now) (\<lambda>out.
     if satisfied out then first_refusal request now rules else Inr (Some out))"

definition decide :: "(string \<times> agent_entry) list \<Rightarrow> action_request \<Rightarrow> int \<Rightarrow> verdict result" where
  "decide known request now = (case map_of known (agent_id request) of
       None \<Rightarrow> Inr (denied UNKNOWN_AGENT ''strict'' None [] NoDetail)
     | Some a \<Rightarrow>
         let mode = ae_mode a;
             key = request_key (action request) (resource request)
         in (case find_block_match (dget (ae_config a) ''blocked_actions'') (action request) key of
               Some pat \<Rightarrow> Inr (denied ACTION_BLOCKLISTED mode (Some pat) [] NoDetail)
             | None \<Rightarrow>
                 let allowed_by = find_match (dget (ae_config a) ''allowed_actions'') key False;
                     applicable = filter (\<lambda>r. applies_to r key) (ae_rules a);
                     consulted = map policy_id applicable
                 in if mode = ''strict'' \<and> allowed_by = None
                    then Inr (denied ACTION_NOT_ALLOWLISTED mode None [] NoDetail)
                    else bindE (first_refusal request now applicable) (\<lambda>refused. case refused of
                        Some out \<Rightarrow> Inr (denied (case reason out of None \<Rightarrow> POLICY_EVALUATION_ERROR | Some c \<Rightarrow> c)
                                         mode allowed_by consulted (detail out))
                      | None \<Rightarrow> Inr \<lparr>v_result = ALLOWED,
                            v_reason = (if allowed_by = None then ALLOWED_NOT_BLOCKLISTED else EXPLICITLY_ALLOWED),
                            v_mode = mode, v_pattern = allowed_by, v_policies = consulted, v_detail = NoDetail\<rparr>)))"

definition decision_of ::
    "crypto \<Rightarrow> string \<Rightarrow> bundle_state \<Rightarrow> action_request \<Rightarrow> verdict \<Rightarrow> policy_decision result" where
  "decision_of cr fresh_id st request v = (case request_digest cr request of
       None \<Rightarrow> Inl (Exc ValueError ''request digest'')
     | Some digest \<Rightarrow> Inr \<lparr>decision_id = fresh_id, dec_agent_id = agent_id request, dec_action = action request,
         dec_result = v_result v, dec_reason = v_reason v, dec_request_id = request_id request,
         dec_bundle_digest = bundle_digest st, dec_request_digest = digest, matched_pattern = v_pattern v,
         matched_policy_ids = v_policies v, dec_detail = v_detail v, enforcement_mode = v_mode v,
         dec_environment = (case environment request of None \<Rightarrow> Some (bundle_environment st) | Some e \<Rightarrow> Some e),
         dec_actor_id = actor_id request, dec_bundle_revision = bundle_revision st, dec_signature = verified st\<rparr>)"

text \<open>The injected clock may be naive, which raises; its reading is the policies' reference time.\<close>

definition evaluate ::
    "crypto \<Rightarrow> bundle_io \<Rightarrow> datetime \<Rightarrow> string \<Rightarrow> action_request \<Rightarrow> checker \<Rightarrow> policy_decision result \<times> checker" where
  "evaluate cr io clock fresh_id request ck =
     (let trust = assert_runtime_trust cr io ck
      in (bindE (fst trust) (\<lambda>u.
            if \<not> aware clock then Inl (Exc ValueError ''clock'')
            else (case active (snd trust) of
                None \<Rightarrow> Inl (Exc RuntimeError ''no bundle'')
              | Some st \<Rightarrow> bindE (decide (agents st) request (instant clock)) (decision_of cr fresh_id st request))),
          snd trust))"

definition check_action ::
    "crypto \<Rightarrow> bundle_io \<Rightarrow> datetime \<Rightarrow> string \<Rightarrow> string \<Rightarrow> string \<Rightarrow> pyval \<Rightarrow> pyval \<Rightarrow> checker
     \<Rightarrow> policy_decision result \<times> checker" where
  "check_action cr io clock fresh_id request_uuid utc_text agent act ck =
     (case active ck of
        None \<Rightarrow> (Inl (Exc RuntimeError ''no bundle''), ck)
      | Some st \<Rightarrow> (case ActionRequest request_uuid utc_text
            (obj [(''agent_id'', agent), (''action'', act), (''environment'', PStr (bundle_environment st))]) of
          Inl e \<Rightarrow> (Inl e, ck)
        | Inr request \<Rightarrow> evaluate cr io clock fresh_id request ck))"

section \<open>What a loaded bundle holds\<close>

lemma load_agents_plain:
  "load_agents d = Inr as \<Longrightarrow> a \<in> set as \<Longrightarrow> ae_rules (snd a) = []"
proof (induction d arbitrary: as)
  case (Cons kv d)
  obtain k v where "kv = (k, v)" by (cases kv)
  with Cons.prems obtain b bs where b: "load_agent k v = Inr b" and bs: "load_agents d = Inr bs" "as = b # bs"
    by auto
  from b have "ae_rules (snd b) = []"
    by (auto simp: load_agent_def Let_def split: pykey.splits pyval.splits if_splits)
  with bs Cons show ?case by auto
qed simp

lemma bind_rules_loaded:
  assumes "bind_rules rules a = Inr b" "ae_rules (snd a) = []"
  shows "set (ae_rules (snd b)) \<subseteq> snd ` set rules"
proof -
  from assms have "ae_rules (snd b) = [] \<or> (\<exists>ps. ae_rules (snd b) =
      map (\<lambda>p. the (map_of rules p)) (filter (\<lambda>p. map_of rules p \<noteq> None) ps))"
    by (auto simp: bind_rules_def Let_def split: if_splits)
  then show ?thesis by (force dest: map_of_SomeD)
qed

lemma bind_agents_loaded:
  "bind_agents rules as = Inr bs \<Longrightarrow> \<forall>a \<in> set as. ae_rules (snd a) = [] \<Longrightarrow> b \<in> set bs \<Longrightarrow>
   set (ae_rules (snd b)) \<subseteq> snd ` set rules"
proof (induction as arbitrary: bs)
  case (Cons a as)
  then obtain c cs where "bind_rules rules a = Inr c" "bind_agents rules as = Inr cs" "bs = c # cs" by auto
  with Cons bind_rules_loaded [of rules a c] show ?case by auto
qed simp

lemma parse_bundle_Inr:
  assumes "parse_bundle cr io s keys text = Inr st"
  shows "\<exists>raw_agents loaded raw_policies. load_agents raw_agents = Inr loaded \<and>
    load_policy_rules raw_policies = Inr (policy_rules st) \<and> bind_agents (policy_rules st) loaded = Inr (agents st)"
  using assms by (auto simp: parse_bundle_def split: option.splits) blast+

lemma parse_bundle_rules:
  assumes "parse_bundle cr io s keys text = Inr st"
  shows "\<exists>raw. load_policy_rules raw = Inr (policy_rules st)"
    and "a \<in> set (agents st) \<Longrightarrow> set (ae_rules (snd a)) \<subseteq> snd ` set (policy_rules st)"
proof -
  obtain raw_agents loaded raw_policies where l: "load_agents raw_agents = Inr loaded"
    "load_policy_rules raw_policies = Inr (policy_rules st)" "bind_agents (policy_rules st) loaded = Inr (agents st)"
    using parse_bundle_Inr [OF assms] by blast
  from l(2) show "\<exists>raw. load_policy_rules raw = Inr (policy_rules st)" by blast
  show "set (ae_rules (snd a)) \<subseteq> snd ` set (policy_rules st)" if "a \<in> set (agents st)"
    using bind_agents_loaded [OF l(3) _ that] load_agents_plain [OF l(1)] by blast
qed

lemma parse_bundle_signed:
  assumes "parse_bundle cr io s keys text = Inr st" "sig_policy s = Required"
  shows "verified st \<noteq> None"
  using assms by (auto simp: parse_bundle_def check_signature_def split: option.splits if_splits)

section \<open>Decisions\<close>

lemma first_refusal_total:
  "\<forall>rule \<in> set rules. decides (rule_check rule request now) rule (P rule) \<Longrightarrow>
   \<exists>r. first_refusal request now rules = Inr r \<and> (r = None \<longleftrightarrow> (\<forall>rule \<in> set rules. P rule)) \<and>
       (\<forall>out. r = Some out \<longrightarrow> \<not> satisfied out)"
  by (induction rules) (auto simp: decides_def)

text \<open>When a request is authorised, said without the order of the checks.\<close>

definition authorised :: "bundle_state \<Rightarrow> action_request \<Rightarrow> int \<Rightarrow> bool" where
  "authorised st request now \<longleftrightarrow> (\<exists>a. map_of (agents st) (agent_id request) = Some a \<and>
     (let key = request_key (action request) (resource request) in
      (\<forall>pat. PStr pat \<in> set (entries_of (dget (ae_config a) ''blocked_actions'')) \<longrightarrow>
         \<not> matches pat key True \<and> \<not> matches pat (action request) True) \<and>
      (ae_mode a = ''strict'' \<longrightarrow>
         (\<exists>pat. PStr pat \<in> set (entries_of (dget (ae_config a) ''allowed_actions'')) \<and> matches pat key False)) \<and>
      (\<forall>rule \<in> set (ae_rules a). applies_to rule key \<longrightarrow> obligation_met rule request now (kind rule))))"

definition limits_given :: "bundle_state \<Rightarrow> bool" where
  "limits_given st \<longleftrightarrow> list_all (\<lambda>(pid, rule). kind rule = failure_threshold \<longrightarrow>
     dget (spec rule) ''max_consecutive_failures'' \<noteq> PNone) (policy_rules st)"

lemma state_rule_decides:
  assumes "parse_bundle cr io s keys text = Inr st" "limits_given st" "(aid, a) \<in> set (agents st)" "rule \<in> set (ae_rules a)"
  shows "decides (rule_check rule request now) rule (obligation_met rule request now (kind rule))"
proof -
  obtain raw where raw: "load_policy_rules raw = Inr (policy_rules st)"
    using parse_bundle_rules(1) [OF assms(1)] by blast
  obtain pid where pid: "(pid, rule) \<in> set (policy_rules st)"
    using parse_bundle_rules(2) [OF assms(1,3)] assms(4) by auto
  with assms(2) have "kind rule = failure_threshold \<longrightarrow> dget (spec rule) ''max_consecutive_failures'' \<noteq> PNone"
    by (auto simp: limits_given_def list_all_iff)
  with load_policy_rules_wf [OF raw pid] show ?thesis by (intro rule_check_decides_aux) auto
qed

lemma decide_authorised:
  assumes "parse_bundle cr io s keys text = Inr st" "limits_given st"
  shows "\<exists>v. decide (agents st) request now = Inr v \<and> (v_result v = ALLOWED \<longleftrightarrow> authorised st request now)"
proof (cases "map_of (agents st) (agent_id request)")
  case None
  then show ?thesis by (simp add: decide_def denied_def authorised_def)
next
  case (Some a)
  let ?key = "request_key (action request) (resource request)"
  let ?rules = "filter (\<lambda>r. applies_to r ?key) (ae_rules a)"
  have "\<forall>rule \<in> set ?rules. decides (rule_check rule request now) rule (obligation_met rule request now (kind rule))"
    using state_rule_decides [OF assms map_of_SomeD [OF Some]] by simp
  from first_refusal_total [OF this] obtain r where r: "first_refusal request now ?rules = Inr r"
    "r = None \<longleftrightarrow> (\<forall>rule \<in> set ?rules. obligation_met rule request now (kind rule))" by blast
  show ?thesis
  proof (cases "find_block_match (dget (ae_config a) ''blocked_actions'') (action request) ?key")
    case None
    note blocked = this [unfolded find_block_match_None]
    show ?thesis
      using None Some r(2) find_match_None [of "dget (ae_config a) ''allowed_actions''" ?key False] blocked
      by (cases r) (auto simp: decide_def authorised_def denied_def r(1) Let_def)
  next
    case (Some pat)
    with find_block_match_None [of "dget (ae_config a) ''blocked_actions''" "action request" ?key]
      \<open>map_of _ _ = Some a\<close> show ?thesis by (auto simp: decide_def authorised_def denied_def Let_def)
  qed
qed

section \<open>Loading and the trust recheck\<close>

lemma install_state_keeps:
  "install_state io st fp d ck = (r, ck') \<Longrightarrow>
   active ck' = Some st \<and> conf ck' = conf ck \<and> trusted_keys ck' = trusted_keys ck"
  by (auto simp: install_state_def Let_def split: if_splits sum.splits)

definition good_active :: "crypto \<Rightarrow> bundle_io \<Rightarrow> checker \<Rightarrow> unit result \<Rightarrow> checker \<Rightarrow> bool" where
  "good_active cr io ck r ck' \<longleftrightarrow> conf ck' = conf ck \<and> ((active ck' = active ck \<and> isl r) \<or>
     (\<exists>st text. active ck' = Some st \<and> parse_bundle cr io (conf ck) (trusted_keys ck') text = Inr st))"

lemma install_state_active:
  "active (snd (install_state io st fp d ck)) = Some st"
  "conf (snd (install_state io st fp d ck)) = conf ck"
  "trusted_keys (snd (install_state io st fp d ck)) = trusted_keys ck"
  by (simp_all add: install_state_def Let_def split: sum.splits)

lemma finish_load_active:
  "good_active cr io ck (fst (finish_load cr io text fp digest key ck cache))
     (fst (snd (finish_load cr io text fp digest key ck cache)))"
  by (auto simp: finish_load_def good_active_def Let_def install_state_active split: sum.splits)

lemma good_active_keys: "good_active cr io (ck\<lparr>trusted_keys := keys\<rparr>) r ck' \<Longrightarrow> good_active cr io ck r ck'"
  by (simp add: good_active_def)

lemma good_active_refl: "good_active cr io ck (Inl e) ck"
  by (simp add: good_active_def)

lemma load_read_active:
  "good_active cr io ck (fst (load_read cr io text fp ck None)) (fst (snd (load_read cr io text fp ck None)))"
  by (simp add: load_read_def finish_load_active good_active_refl Let_def split: sum.splits)

lemma load_bundle_active:
  "good_active cr io ck (fst (load_bundle cr io ck None)) (fst (snd (load_bundle cr io ck None)))"
proof (cases "io_is_file io")
  case True
  then show ?thesis
    by (auto simp: load_bundle_def load_read_active good_active_refl good_active_keys [OF load_read_active]
        good_active_keys [OF good_active_refl] split: sum.splits prod.splits)
qed (simp add: load_bundle_def good_active_refl)

lemma verify_Inr_window:
  "verify_bundle_signature cr bundle keys ri skew clock = Inr v \<Longrightarrow> validate_signature_window v skew clock = None"
  by (auto simp: verify_bundle_signature_def Let_def split: option.splits)

definition verified_now :: "crypto \<Rightarrow> bundle_io \<Rightarrow> checker \<Rightarrow> bundle_state \<Rightarrow> verified_signature \<Rightarrow> bool" where
  "verified_now cr io ck st v \<longleftrightarrow> (\<exists>keys. load_configured_keys io (conf ck) = Inr keys \<and>
     verify_bundle_signature cr (snapshot st) keys (required_issuer (conf ck)) (skew_seconds (conf ck)) (io_clock io) = Inr v)"

lemma verify_again_cases:
  "(isl (fst (verify_again cr io st ck)) \<and> snd (verify_again cr io st ck) = ck) \<or>
   (\<exists>v. verified_now cr io ck st v \<and> active (snd (verify_again cr io st ck)) = Some (st\<lparr>verified := Some v\<rparr>))"
proof (cases "load_configured_keys io (conf ck)")
  case (Inr keys)
  show ?thesis
  proof (cases "verify_bundle_signature cr (snapshot st) keys (required_issuer (conf ck)) (skew_seconds (conf ck)) (io_clock io)")
    case (Inr v)
    with \<open>load_configured_keys io (conf ck) = Inr keys\<close> show ?thesis
      by (intro disjI2 exI [of _ v]) (simp add: verify_again_def verified_now_def Let_def split: sum.splits)
  qed (simp add: verify_again_def \<open>load_configured_keys io (conf ck) = Inr keys\<close>)
qed (simp add: verify_again_def)

text \<open>What the recheck leaves active, and what a passed recheck of a signed bundle means.\<close>

lemma assert_runtime_trust_active:
  assumes "active ck = Some st"
  shows "\<exists>v. active (snd (assert_runtime_trust cr io ck)) = Some (st\<lparr>verified := v\<rparr>)"
proof -
  have "\<exists>v. st = st\<lparr>verified := v\<rparr>" by (intro exI [of _ "verified st"]) simp
  then show ?thesis
    using verify_again_cases [of cr io st ck]
    by (auto simp: assert_runtime_trust_def Let_def assms split: option.splits sum.splits)
qed

lemma assert_runtime_trust_signed:
  assumes "active ck = Some st" "verified st = Some sig0" "fst (assert_runtime_trust cr io ck) = Inr u"
    and "active (snd (assert_runtime_trust cr io ck)) = Some st'" "verified st' = Some sig"
  shows "validate_signature_window sig (skew_seconds (conf ck)) (io_clock io) = None \<and>
    (\<not> store_configured (conf ck) \<or> (\<exists>fp. io_trust_material io (trusted_keys ck) = Inr fp \<and> trust_fp ck = Some fp) \<or>
     verified_now cr io ck st sig)"
proof -
  have w: "validate_signature_window v (skew_seconds (conf ck)) (io_clock io) = None" if "verified_now cr io ck st v" for v
    using that verify_Inr_window by (auto simp: verified_now_def)
  show ?thesis
    using assms verify_again_cases [of cr io st ck] w
    by (auto simp: assert_runtime_trust_def Let_def split: if_splits sum.splits)
qed

section \<open>Samples for the witnesses\<close>

definition sample_unsigned :: pydict where
  "sample_unsigned =
     (let b = obj [(''schema_version'', PStr ''1.0''), (''digest'', PStr []), (''bundle_revision'', PInt 1),
        (''agents'', PDict (obj [(''a1'', PDict (obj [(''config'', PDict (obj
          [(''allowed_actions'', PList [PStr ''read'']), (''blocked_actions'', PList [PStr ''drop''])]))]))]))]
      in dset b ''digest'' (PStr (case compute_bundle_digest sample_crypto b of Inl e \<Rightarrow> [] | Inr d \<Rightarrow> d)))"

definition sample_signed :: pydict where
  "sample_signed = (case sign_bundle sample_crypto sample_unsigned (Inr ''k'') (PStr ''key'') (PStr ''me'')
      (PStr ''2026-01-01T00:00:00Z'') (PStr ''2026-02-01T00:00:00Z'') of Inl e \<Rightarrow> [] | Inr b \<Rightarrow> b)"

definition sample_io :: "pydict \<Rightarrow> bundle_io" where
  "sample_io b = \<lparr>io_is_file = True, io_reads = [([1], Inr ''t'', [1])], io_stat = [1], io_json = (\<lambda>s. Some (PDict b)),
     io_trust_store = Inr [], io_trust_material = (\<lambda>ks. Inr ''m''), io_clock = sample_clock\<rparr>"

definition sample_settings :: "(string \<times> trusted_key) list \<Rightarrow> settings" where
  "sample_settings keys = \<lparr>sig_policy = Auto, required_issuer = None, minimum_revision = 0, skew_seconds = 60,
     bundle_path = ''/b'', store_configured = False, programmatic_keys = keys\<rparr>"

definition sample_signature :: verified_signature where
  "sample_signature = \<lparr>vs_algorithm = ''Ed25519'', vs_key_id = ''key'', vs_fingerprint = ''f'', vs_issuer = ''me'',
     vs_issued_at = ''2026-01-01T00:00:00Z'', vs_expires_at = ''2026-02-01T00:00:00Z''\<rparr>"

definition sample_state :: bundle_state where
  "sample_state = \<lparr>agents = [], capabilities = [], policy_rules = [], bundle_digest = ''d'', schema_version = ''1.0'',
     compiler_version = PNone, bundle_revision = 1, policy_revision = PNone, bundle_environment = ''production'',
     verified = Some sample_signature, snapshot = []\<rparr>"

definition sample_checker :: checker where
  "sample_checker = (fresh_checker (sample_settings []) [])\<lparr>active := Some sample_state\<rparr>"

section \<open>Properties\<close>

text \<open>
  C2. For every bundle the loader accepted whose failure thresholds name their limit, evaluation
  decides every request (no exception), and it allows exactly the authorised ones: the agent is
  known, no entry of its block list matches the request key or the bare action in any spelling,
  under strict mode some entry of its allow list matches the key as written, and every typed policy
  bound to the agent whose trigger matches is discharged.
\<close>

theorem evaluation_allows_exactly_authorised:
  assumes "parse_bundle cr io s keys text = Inr st" and "limits_given st"
  shows "\<exists>v. decide (agents st) request now = Inr v \<and> (v_result v = ALLOWED \<longleftrightarrow> authorised st request now)"
  using assms by (rule decide_authorised)

theorem evaluation_allows_exactly_authorised_witness:
  "\<exists>st v. parse_bundle sample_crypto (sample_io sample_unsigned) (sample_settings []) [] ''t'' = Inr st \<and>
     limits_given st \<and> decide (agents st) sample_request 0 = Inr v \<and>
     (v_result v = ALLOWED \<longleftrightarrow> authorised st sample_request 0)"
proof -
  have "(case parse_bundle sample_crypto (sample_io sample_unsigned) (sample_settings []) [] ''t'' of
      Inl e \<Rightarrow> False | Inr st \<Rightarrow> limits_given st)" by code_simp
  then obtain st where "parse_bundle sample_crypto (sample_io sample_unsigned) (sample_settings []) [] ''t'' = Inr st"
    "limits_given st" by (auto split: sum.splits)
  with evaluation_allows_exactly_authorised [OF this] show ?thesis by blast
qed

text \<open>
  C19. The block list cannot be talked around: when a bare action is blocked for an agent, a request
  that spells the action in another letter case and names any resource is denied as blocked too,
  whatever the allow list and the policies say.
\<close>

theorem blocked_in_every_spelling:
  assumes "map_of known (agent_id request) = Some a"
    and "find_block_match (dget (ae_config a) ''blocked_actions'') act act \<noteq> None"
    and "casefold (action request) = casefold act"
  shows "\<exists>v. decide known request now = Inr v \<and> v_result v = DENIED \<and> v_reason v = ACTION_BLOCKLISTED"
proof -
  obtain pat where "PStr pat \<in> set (entries_of (dget (ae_config a) ''blocked_actions''))" "matches pat act True"
    using assms(2) by (auto simp: find_block_match_None)
  with assms(3) have "find_block_match (dget (ae_config a) ''blocked_actions'') (action request)
      (request_key (action request) (resource request)) \<noteq> None"
    by (auto simp: find_block_match_None dest: matches_True_fold)
  with assms(1) show ?thesis by (auto simp: decide_def denied_def Let_def)
qed

theorem blocked_in_every_spelling_witness:
  "\<exists>v. decide [(''a1'', \<lparr>ae_config = obj [(''blocked_actions'', PList [PStr ''drop''])], ae_mode = ''permissive'',
        ae_source_path = PNone, ae_digest = PNone, ae_rules = [], ae_declarative = []\<rparr>)]
      (sample_request\<lparr>action := ''DROP'', resource := Some ''t1''\<rparr>) 0 = Inr v \<and>
     v_result v = DENIED \<and> v_reason v = ACTION_BLOCKLISTED"
proof (rule blocked_in_every_spelling [where act = "''drop''"])
  show "casefold (action (sample_request\<lparr>action := ''DROP'', resource := Some ''t1''\<rparr>)) = casefold ''drop''"
    by code_simp
  show "find_block_match (dget (ae_config \<lparr>ae_config = obj [(''blocked_actions'', PList [PStr ''drop''])],
        ae_mode = ''permissive'', ae_source_path = PNone, ae_digest = PNone, ae_rules = [], ae_declarative = []\<rparr>)
      ''blocked_actions'') ''drop'' ''drop'' \<noteq> None" by code_simp
qed (simp add: sample_request_def)





text \<open>
  C22. Every decision is made under trust that holds at that moment: when evaluation returns one, the
  signature it reports is inside its validity window by the system clock, and with a configured trust
  store either the trust files are the ones the bundle was verified under or the bundle was verified
  again under the keys read now.
\<close>

theorem decisions_under_current_trust:
  assumes "evaluate cr io clock fresh_id request ck = (Inr d, ck')" and "dec_signature d = Some sig"
  shows "validate_signature_window sig (skew_seconds (conf ck)) (io_clock io) = None \<and>
    (\<not> store_configured (conf ck) \<or>
     (\<exists>fp. io_trust_material io (trusted_keys ck) = Inr fp \<and> trust_fp ck = Some fp) \<or>
     (\<exists>st. active ck = Some st \<and> verified_now cr io ck st sig))"
proof -
  let ?t = "assert_runtime_trust cr io ck"
  obtain u st' where t: "fst ?t = Inr u" and st': "active (snd ?t) = Some st'" and v: "verified st' = Some sig"
    using assms by (auto simp: evaluate_def decision_of_def Let_def split: if_splits option.splits)
  obtain st where st: "active ck = Some st"
    using st' by (cases "active ck") (auto simp: assert_runtime_trust_def)
  obtain sig0 where "verified st = Some sig0"
    using st st' v by (cases "verified st") (auto simp: assert_runtime_trust_def)
  from assert_runtime_trust_signed [OF st this t st' v] st show ?thesis by auto
qed

theorem decisions_under_current_trust_witness:
  "\<exists>d ck'. evaluate sample_crypto (sample_io []) sample_clock ''i'' sample_request sample_checker = (Inr d, ck') \<and>
     dec_signature d = Some sample_signature \<and> validate_signature_window sample_signature 60 sample_clock = None"
proof -
  let ?e = "evaluate sample_crypto (sample_io []) sample_clock ''i'' sample_request sample_checker"
  have e: "(case fst ?e of Inl e \<Rightarrow> False | Inr d \<Rightarrow> dec_signature d = Some sample_signature)" by code_simp
  then obtain d ck' where d: "?e = (Inr d, ck')" "dec_signature d = Some sample_signature"
    by (cases ?e) (auto split: sum.splits)
  from decisions_under_current_trust [OF d] d show ?thesis
    by (simp add: sample_checker_def fresh_checker_def effective_policy_def sample_settings_def sample_io_def)
qed

text \<open>
  The recorded list of consulted policies does not end with the policy that refused: with two
  applicable rules of which the first refuses, the denial carries the first one's refusal and lists the
  second one last.
\<close>

theorem refusing_policy_not_listed_last:
  "\<exists>known v. decide known sample_request 0 = Inr v \<and> v_result v = DENIED \<and>
     v_policies v = [''p1'', ''p2''] \<and> v_detail v = RequiresSignal ''approval'' \<and>
     (\<exists>a. map_of known ''a1'' = Some a \<and> map kind (ae_rules a) = [requires_approval, requires_evidence])"
proof (intro exI conjI)
  let ?rule = "\<lambda>pid k. \<lparr>policy_id = pid, kind = k, trigger = [PStr ''*''], spec = []\<rparr>"
  let ?a = "\<lparr>ae_config = obj [(''allowed_actions'', PList [PStr ''read''])], ae_mode = ''strict'', ae_source_path = PNone,
      ae_digest = PNone, ae_rules = [?rule ''p1'' requires_approval, ?rule ''p2'' requires_evidence], ae_declarative = []\<rparr>"
  let ?v = "\<lparr>v_result = DENIED, v_reason = POLICY_SIGNAL_MISSING, v_mode = ''strict'', v_pattern = Some ''read'',
      v_policies = [''p1'', ''p2''], v_detail = RequiresSignal ''approval''\<rparr>"
  show "decide [(''a1'', ?a)] sample_request 0 = Inr ?v" by code_simp
  show "map_of [(''a1'', ?a)] ''a1'' = Some ?a" by simp
qed simp_all

end
