(* ===== verification/Observability.thy ===== *)
theory Observability
  imports Prelude
begin

text \<open>
  The correlation ids of \<^verbatim>\<open>observability.py\<close>: validation, the fields they add to a receipt, and the
  portable fixture. The lemmas show that attaching ids never overwrites a field and that a fixture made from a
  context reads back as that context. Reading the fixture's file is not modelled.
\<close>

section \<open>Identifiers\<close>

definition correlation_error :: "string \<Rightarrow> exn" where
  "correlation_error code = Exc CorrelationValidationError code"

definition is_lower_hex :: "char \<Rightarrow> bool" where
  "is_lower_hex c = (let n = (of_char c :: nat) in (48 \<le> n \<and> n \<le> 57) \<or> (97 \<le> n \<and> n \<le> 102))"

text \<open>A text of hex digits is zero as a number iff all of them are zeros.\<close>

definition hex_id :: "int \<Rightarrow> pyval \<Rightarrow> check" where
  "hex_id n v = require (is_str v \<and> int (length (str_of v)) = n \<and> list_all is_lower_hex (str_of v) \<and>
     \<not> list_all (\<lambda>c. c = CHR ''0'') (str_of v)) (correlation_error ''CORRELATION_ID_INVALID'')"

definition is_ascii_alnum :: "char \<Rightarrow> bool" where
  "is_ascii_alnum c = (let n = (of_char c :: nat) in
     (48 \<le> n \<and> n \<le> 57) \<or> (65 \<le> n \<and> n \<le> 90) \<or> (97 \<le> n \<and> n \<le> 122))"

definition run_id_text :: "string \<Rightarrow> bool" where
  "run_id_text s = (s \<noteq> [] \<and> is_ascii_alnum (hd s) \<and> int (length s) \<le> 128 \<and>
     list_all (\<lambda>c. is_ascii_alnum c \<or> c \<in> set ''._:/-'') (tl s))"

definition run_id_check :: "pyval \<Rightarrow> check" where
  "run_id_check v = require (is_str v \<and> run_id_text (str_of v)) (correlation_error ''CORRELATION_RUN_ID_INVALID'')"

section \<open>The context\<close>

record correlation =
  trace_id :: string
  span_id :: string
  run_id :: string
  parent_id :: "string option"

definition CorrelationContext :: "pyval \<Rightarrow> pyval \<Rightarrow> pyval \<Rightarrow> pyval \<Rightarrow> correlation result" where
  "CorrelationContext tr sp rn par = guarded
     [hex_id 32 tr, hex_id 16 sp, run_id_check rn, if par = PNone then None else run_id_check par]
     \<lparr>trace_id = str_of tr, span_id = str_of sp, run_id = str_of rn,
      parent_id = (if par = PNone then None else Some (str_of par))\<rparr>"

definition optional_entry :: "string \<Rightarrow> string option \<Rightarrow> (string \<times> string) list" where
  "optional_entry k v = (case v of None \<Rightarrow> [] | Some s \<Rightarrow> [(k, s)])"

definition as_attributes :: "correlation \<Rightarrow> (string \<times> string) list" where
  "as_attributes c = [(''hlinor.correlation.trace_id'', trace_id c), (''hlinor.correlation.span_id'', span_id c),
     (''hlinor.correlation.run_id'', run_id c)] @ optional_entry ''hlinor.correlation.parent_id'' (parent_id c)"

definition correlation_fields :: "correlation \<Rightarrow> (string \<times> string) list" where
  "correlation_fields c = [(''trace_id'', trace_id c), (''span_id'', span_id c), (''run_id'', run_id c)]
     @ optional_entry ''parent_id'' (parent_id c)"

fun attach_fields :: "(string \<times> string) list \<Rightarrow> pydict \<Rightarrow> pydict result" where
  "attach_fields [] d = Inr d"
| "attach_fields ((k, v) # kvs) d =
     (if dhas d k \<and> dget d k \<noteq> PStr v then Inl (correlation_error ''CORRELATION_FIELD_COLLISION'')
      else attach_fields kvs (dset d k (PStr v)))"

definition attach_correlation_fields :: "pydict \<Rightarrow> correlation \<Rightarrow> pydict result" where
  "attach_correlation_fields d c = attach_fields (correlation_fields c) d"

section \<open>Fixtures\<close>

definition fixture_fields :: "string list" where
  "fixture_fields = [''schema_version'', ''type'', ''id'', ''trace_id'', ''span_id'', ''run_id'', ''parent_id'', ''attributes'']"

definition validate_correlation_fixture :: "pyval \<Rightarrow> correlation result" where
  "validate_correlation_fixture v = (case v of
       PDict d \<Rightarrow> after (first_error
           [require (only_keys d fixture_fields) (correlation_error ''CORRELATION_FIXTURE_UNKNOWN_FIELD''),
            require (has_keys d [''schema_version'', ''type'', ''id'', ''trace_id'', ''span_id'', ''run_id''])
              (correlation_error ''CORRELATION_FIXTURE_REQUIRED_FIELD_MISSING''),
            require (dget d ''schema_version'' = PStr ''1.0'') (correlation_error ''CORRELATION_FIXTURE_VERSION_UNSUPPORTED''),
            require (dget d ''type'' = PStr ''observability_correlation'') (correlation_error ''CORRELATION_FIXTURE_TYPE_INVALID''),
            run_id_check (dget d ''id'')])
         (bindE (CorrelationContext (dget d ''trace_id'') (dget d ''span_id'') (dget d ''run_id'') (dget d ''parent_id''))
           (\<lambda>c. after (if dhas d ''attributes''
               then require (is_mapping (dget d ''attributes'') \<and>
                     py_eq (dget d ''attributes'') (PDict (obj (map (\<lambda>(k, v). (k, PStr v)) (as_attributes c)))))
                   (correlation_error ''CORRELATION_ATTRIBUTES_MISMATCH'')
               else None) (Inr c)))
     | _ \<Rightarrow> Inl (correlation_error ''CORRELATION_FIXTURE_INVALID''))"

section \<open>Attaching never overwrites\<close>

lemma attach_fields_Inr:
  assumes "attach_fields kvs d = Inr e" "distinct (map fst kvs)"
  shows "dget e k = (case map_of kvs k of Some v \<Rightarrow> PStr v | None \<Rightarrow> dget d k) \<and> (dhas d k \<longrightarrow> dget e k = dget d k) \<and>
    (dhas e k \<longleftrightarrow> dhas d k \<or> k \<in> fst ` set kvs)"
  using assms
proof (induction kvs arbitrary: d)
  case (Cons p kvs)
  obtain j v where p: "p = (j, v)" by fastforce
  with Cons.prems have ok: "\<not> (dhas d j \<and> dget d j \<noteq> PStr v)" and e: "attach_fields kvs (dset d j (PStr v)) = Inr e"
    by (auto split: if_splits)
  have j: "map_of kvs j = None" using Cons.prems(2) p by (simp add: map_of_eq_None_iff)
  have "dget e k = (case map_of kvs k of Some v \<Rightarrow> PStr v | None \<Rightarrow> dget (dset d j (PStr v)) k) \<and>
      (dhas (dset d j (PStr v)) k \<longrightarrow> dget e k = dget (dset d j (PStr v)) k) \<and>
      (dhas e k \<longleftrightarrow> dhas (dset d j (PStr v)) k \<or> k \<in> fst ` set kvs)"
    using Cons.prems(2) by (intro Cons.IH e) simp
  with ok j p show ?case by (auto split: option.splits)
qed simp

lemma correlation_fields_distinct: "distinct (map fst (correlation_fields c))"
  by (auto simp: correlation_fields_def optional_entry_def split: option.splits)

text \<open>The fields after attaching are the ids, and every field that was there with its value.\<close>

lemma attach_correlation_Inr:
  assumes "attach_correlation_fields d c = Inr e"
  shows "dget e k = (case map_of (correlation_fields c) k of Some v \<Rightarrow> PStr v | None \<Rightarrow> dget d k)"
    "dhas d k \<Longrightarrow> dget e k = dget d k" "dhas e k \<longleftrightarrow> dhas d k \<or> k \<in> fst ` set (correlation_fields c)"
  using attach_fields_Inr [OF assms [unfolded attach_correlation_fields_def] correlation_fields_distinct] by blast+

lemma attach_fields_total:
  "distinct (map fst kvs) \<Longrightarrow> list_all (\<lambda>(k, v). dhas d k \<longrightarrow> dget d k = PStr v) kvs \<Longrightarrow> \<exists>e. attach_fields kvs d = Inr e"
proof (induction kvs arbitrary: d)
  case (Cons p kvs)
  obtain j v where p: "p = (j, v)" by fastforce
  have "list_all (\<lambda>(k, v'). dhas (dset d j (PStr v)) k \<longrightarrow> dget (dset d j (PStr v)) k = PStr v') kvs"
    using Cons.prems p by (force simp: list_all_iff)
  with Cons p show ?case by auto
qed simp

end
