(* ===== verification/Effects.thy ===== *)
theory Effects
  imports Prelude
begin

text \<open>
  Operations that read and change a state and may raise: they return a result with the state, which a raised
  exception keeps. \<open>bind_op\<close> is sequencing; what a raised exception skips is not run.
\<close>

definition raise_or :: "'a result \<Rightarrow> 's \<Rightarrow> 'a result \<times> 's" where
  "raise_or r s = (r, s)"

definition bind_op :: "('s \<Rightarrow> 'a result \<times> 's) \<Rightarrow> ('a \<Rightarrow> 's \<Rightarrow> 'b result \<times> 's) \<Rightarrow> 's \<Rightarrow> 'b result \<times> 's" where
  "bind_op m f s = (case m s of (Inl e, t) \<Rightarrow> (Inl e, t) | (Inr x, t) \<Rightarrow> f x t)"

definition update_op :: "('s \<Rightarrow> 's) \<Rightarrow> 's \<Rightarrow> unit result \<times> 's" where
  "update_op f s = (Inr (), f s)"

text \<open>An operation on a part of the state, read by \<open>get\<close> and written by \<open>upd\<close>.\<close>

definition on_part :: "('s \<Rightarrow> 'p) \<Rightarrow> ('p \<Rightarrow> 's \<Rightarrow> 's) \<Rightarrow> ('p \<Rightarrow> 'a result \<times> 'p) \<Rightarrow> 's \<Rightarrow> 'a result \<times> 's" where
  "on_part get upd m s = (let r = m (get s) in (fst r, upd (snd r) s))"

named_theorems ops \<open>when an operation returns a value\<close>

lemma raise_or_eq [simp, ops]: "raise_or r s = (r', t) \<longleftrightarrow> r' = r \<and> t = s"
  by (auto simp: raise_or_def)

lemma update_op_eq [simp, ops]: "update_op f s = (r, t) \<longleftrightarrow> r = Inr () \<and> t = f s"
  by (auto simp: update_op_def)

lemma bind_op_Inr [ops]: "bind_op m f s = (Inr y, t) \<longleftrightarrow> (\<exists>x u. m s = (Inr x, u) \<and> f x u = (Inr y, t))"
  by (auto simp: bind_op_def split: prod.splits sum.splits)

lemma on_part_Inr [ops]:
  "on_part get upd m s = (Inr x, t) \<longleftrightarrow> (\<exists>p. m (get s) = (Inr x, p) \<and> t = upd p s)"
  by (auto simp: on_part_def Let_def) (metis prod.collapse)

text \<open>
  \<open>keeps g m\<close>: whatever \<open>m\<close> returns or raises, \<open>g\<close> of the state is the same afterwards.
\<close>

definition keeps :: "('s \<Rightarrow> 'v) \<Rightarrow> ('s \<Rightarrow> 'a result \<times> 's) \<Rightarrow> bool" where
  "keeps g m \<longleftrightarrow> (\<forall>s. g (snd (m s)) = g s)"

named_theorems keeping \<open>operations that keep a part of the state\<close>

lemma keepsD: "keeps g m \<Longrightarrow> m s = (r, t) \<Longrightarrow> g t = g s"
  by (metis keeps_def snd_conv)

lemma keeps_raise_or [keeping]: "keeps g (raise_or r)"
  by (simp add: keeps_def raise_or_def)

lemma keeps_update [keeping]: "(\<And>s. g (f s) = g s) \<Longrightarrow> keeps g (update_op f)"
  by (simp add: keeps_def update_op_def)

lemma keeps_bind [keeping]: "keeps g m \<Longrightarrow> (\<And>x. keeps g (f x)) \<Longrightarrow> keeps g (bind_op m f)"
  by (simp add: keeps_def bind_op_def split: prod.splits sum.splits) (metis snd_conv)

text \<open>Induction along a sequence: while \<open>g\<close> is kept, whatever stops early has \<open>R\<close>, and so has the rest.\<close>

lemma keeps_chain:
  assumes "keeps g m" "g s = c" "\<And>e v. g v = c \<Longrightarrow> R (Inl e, v)" "\<And>x v. g v = c \<Longrightarrow> R (f x v)"
  shows "R (bind_op m f s)"
  using assms keepsD [OF assms(1)] by (auto simp: bind_op_def split: prod.split sum.split)

lemma keeps_on_part [keeping]: "(\<And>p s. g (upd p s) = g s) \<Longrightarrow> keeps g (on_part get upd m)"
  by (simp add: keeps_def on_part_def Let_def)

lemma keeps_if [keeping]: "(b \<Longrightarrow> keeps g m) \<Longrightarrow> (\<not> b \<Longrightarrow> keeps g n) \<Longrightarrow> keeps g (if b then m else n)"
  by simp

lemma keeps_option [keeping]:
  "keeps g m \<Longrightarrow> (\<And>x. keeps g (f x)) \<Longrightarrow> keeps g (case v of None \<Rightarrow> m | Some x \<Rightarrow> f x)"
  by (simp split: option.splits)

end
