(* ===== verification/Gate.thy ===== *)
theory Gate
  imports PolicyChecker Observability Effects
begin

text \<open>
  The gate every integration calls, \<^verbatim>\<open>integrations/_gate.py\<close>, and the decorator over it,
  \<^verbatim>\<open>integrations/decorators.py\<close>: reload the checker, build the request of this call, evaluate it, hand the
  decision to the sink, and raise on denial. Callables given by the user are functions that may raise. The lemmas
  show that a governed function runs only after a request for the governed target has been allowed.
\<close>

section \<open>Gates\<close>

record invocation_context =
  cx_agent :: string
  cx_action :: string
  cx_tool :: "string option"
  cx_environment :: string
  cx_args :: "pyval list"
  cx_kwargs :: pydict
  cx_correlation :: "correlation option"

text \<open>A fixed specification is a constant function; \<open>None\<close> is one that was not given.\<close>

record gate =
  gt_agent :: string
  gt_action :: string
  gt_tool :: "string option"
  gt_factory :: "(invocation_context \<Rightarrow> action_request result) option"
  gt_resource :: "(invocation_context \<Rightarrow> string option result) option"
  gt_signals :: "(invocation_context \<Rightarrow> pydict result) option"
  gt_scope :: "(invocation_context \<Rightarrow> execution_scope option result) option"
  gt_require_scope :: bool

definition GovernanceGate :: "gate \<Rightarrow> gate result" where
  "GovernanceGate g = (if gt_factory g \<noteq> None \<and> (gt_resource g \<noteq> None \<or> gt_signals g \<noteq> None)
     then Inl (Exc ValueError ''request_factory'') else Inr g)"

text \<open>The checker is loaded at the first use when none was given; the sink sees each decision in order.\<close>

record gate_state =
  gs_checker :: "checker option"
  gs_cache :: "bundle_cache option"
  gs_decisions :: "policy_decision list"

text \<open>What one call reads from outside: files and clock of the checker, fresh ids, and the sink's answer.\<close>

record gate_inputs =
  gi_io :: bundle_io
  gi_settings :: settings
  gi_clock :: datetime
  gi_decision_id :: string
  gi_request_id :: string
  gi_now :: string
  gi_sink :: "(policy_decision \<Rightarrow> check) option"

section \<open>Authorizing one call\<close>

definition checker_environment :: "checker \<Rightarrow> string" where
  "checker_environment ck = (case active ck of None \<Rightarrow> ''development'' | Some st \<Rightarrow> bundle_environment st)"

definition the_checker :: "crypto \<Rightarrow> gate_inputs \<Rightarrow> gate_state \<Rightarrow> checker result \<times> gate_state" where
  "the_checker cr gi s = (case gs_checker s of
       Some ck \<Rightarrow> (Inr ck, s)
     | None \<Rightarrow> (let n = new_checker cr (gi_io gi) (gi_settings gi) (gs_cache s) in
         (fst n, s\<lparr>gs_checker := (case fst n of Inl _ \<Rightarrow> None | Inr ck \<Rightarrow> Some ck), gs_cache := snd n\<rparr>)))"

definition reload_checker :: "crypto \<Rightarrow> gate_inputs \<Rightarrow> checker \<Rightarrow> gate_state \<Rightarrow> checker result \<times> gate_state" where
  "reload_checker cr gi ck s = (let r = reload_if_changed cr (gi_io gi) ck (gs_cache s) in
     (bindE (fst r) (\<lambda>u. Inr (fst (snd r))), s\<lparr>gs_checker := Some (fst (snd r)), gs_cache := snd (snd r)\<rparr>))"

definition resolved :: "('c \<Rightarrow> 'a result) option \<Rightarrow> 'a \<Rightarrow> 'c \<Rightarrow> 'a result" where
  "resolved sp dflt cx = (case sp of None \<Rightarrow> Inr dflt | Some f \<Rightarrow> f cx)"

definition scope_entries :: "execution_scope option \<Rightarrow> (string \<times> pyval) list" where
  "scope_entries scope = (case scope of
       None \<Rightarrow> [(''project_id'', PNone), (''workspace_id'', PNone)]
     | Some s \<Rightarrow> [(''project_id'', PStr (project_id s)), (''workspace_id'', PStr (workspace_id s))])"

definition plain_request :: "gate \<Rightarrow> gate_inputs \<Rightarrow> invocation_context \<Rightarrow> execution_scope option \<Rightarrow> action_request result" where
  "plain_request g gi cx scope =
     bindE (resolved (gt_signals g) [] cx) (\<lambda>given.
       if dhas given ''execution_scope'' then Inl (Exc ValueError ''execution_scope'')
       else let sigs = (case scope of None \<Rightarrow> given | Some s \<Rightarrow> dset given ''execution_scope'' (scope_signal s)) in
         bindE (resolved (gt_resource g) None cx) (\<lambda>target.
           ActionRequest (gi_request_id gi) (gi_now gi) (obj
             ([(''agent_id'', PStr (gt_agent g)), (''action'', PStr (gt_action g)), (''tool_id'', opt_str (gt_tool g)),
               (''environment'', PStr (cx_environment cx)), (''resource'', opt_str target), (''signals'', PDict sigs)]
              @ scope_entries scope))))"

text \<open>A custom factory must not change the governed target.\<close>

definition validate_request :: "gate \<Rightarrow> action_request \<Rightarrow> execution_scope option \<Rightarrow> check" where
  "validate_request g request scope = first_error
     [require (agent_id request = gt_agent g) (Exc ValueError ''agent_id''),
      require (action request = gt_action g) (Exc ValueError ''action''),
      require (gt_tool g = None \<or> tool_id request = gt_tool g) (Exc ValueError ''tool_id''),
      require (\<not> gt_require_scope g \<or> scope \<noteq> None) (Exc ExecutionScopeError ''EXECUTION_SCOPE_REQUIRED''),
      require (case scope of None \<Rightarrow> True
               | Some s \<Rightarrow> req_project request = Some (project_id s) \<and> req_workspace request = Some (workspace_id s))
        (Exc ValueError ''execution scope'')]"

definition governed_request :: "gate \<Rightarrow> gate_inputs \<Rightarrow> invocation_context \<Rightarrow> action_request result" where
  "governed_request g gi cx =
     bindE (resolved (gt_scope g) None cx) (\<lambda>scope.
       if gt_require_scope g \<and> scope = None then Inl (Exc ExecutionScopeError ''EXECUTION_SCOPE_REQUIRED'')
       else bindE (case gt_factory g of Some factory \<Rightarrow> factory cx | None \<Rightarrow> plain_request g gi cx scope) (\<lambda>request.
         after (validate_request g request scope) (Inr request)))"

definition evaluate_with :: "crypto \<Rightarrow> gate_inputs \<Rightarrow> action_request \<Rightarrow> checker \<Rightarrow> gate_state \<Rightarrow> policy_decision result \<times> gate_state" where
  "evaluate_with cr gi request ck s =
     (let r = evaluate cr (gi_io gi) (gi_clock gi) (gi_decision_id gi) request ck
      in (fst r, s\<lparr>gs_checker := Some (snd r)\<rparr>))"

definition tell_sink :: "gate_inputs \<Rightarrow> policy_decision \<Rightarrow> gate_state \<Rightarrow> policy_decision result \<times> gate_state" where
  "tell_sink gi d s = (case gi_sink gi of
       None \<Rightarrow> (Inr d, s)
     | Some sink \<Rightarrow> (after (sink d) (Inr d), s\<lparr>gs_decisions := gs_decisions s @ [d]\<rparr>))"

text \<open>\<open>authorize\<close> up to the decision, which may be a denial.\<close>

definition gate_decision ::
    "crypto \<Rightarrow> gate \<Rightarrow> gate_inputs \<Rightarrow> pyval list \<Rightarrow> pydict \<Rightarrow> correlation option \<Rightarrow> gate_state \<Rightarrow> policy_decision result \<times> gate_state" where
  "gate_decision cr g gi args kwargs cor =
     bind_op (the_checker cr gi) (\<lambda>ck. bind_op (reload_checker cr gi ck) (\<lambda>ck.
       bind_op (raise_or (governed_request g gi \<lparr>cx_agent = gt_agent g, cx_action = gt_action g, cx_tool = gt_tool g,
           cx_environment = checker_environment ck, cx_args = args, cx_kwargs = kwargs, cx_correlation = cor\<rparr>)) (\<lambda>request.
         bind_op (evaluate_with cr gi request ck) (tell_sink gi))))"

definition reason_code_text :: "reason_code \<Rightarrow> string" where
  "reason_code_text r = (case r of
       EXPLICITLY_ALLOWED \<Rightarrow> ''EXPLICITLY_ALLOWED'' | ALLOWED_NOT_BLOCKLISTED \<Rightarrow> ''ALLOWED_NOT_BLOCKLISTED''
     | ACTION_BLOCKLISTED \<Rightarrow> ''ACTION_BLOCKLISTED'' | ACTION_NOT_ALLOWLISTED \<Rightarrow> ''ACTION_NOT_ALLOWLISTED''
     | UNKNOWN_AGENT \<Rightarrow> ''UNKNOWN_AGENT'' | POLICY_SIGNAL_MISSING \<Rightarrow> ''POLICY_SIGNAL_MISSING''
     | APPROVAL_REQUIRED \<Rightarrow> ''APPROVAL_REQUIRED'' | EVIDENCE_REQUIRED \<Rightarrow> ''EVIDENCE_REQUIRED''
     | FAILURE_THRESHOLD_REACHED \<Rightarrow> ''FAILURE_THRESHOLD_REACHED'' | BUNDLE_INTEGRITY_FAILED \<Rightarrow> ''BUNDLE_INTEGRITY_FAILED''
     | SIGNATURE_INVALID \<Rightarrow> ''SIGNATURE_INVALID'' | POLICY_EVALUATION_ERROR \<Rightarrow> ''POLICY_EVALUATION_ERROR'')"

definition governance_denied :: "policy_decision \<Rightarrow> exn" where
  "governance_denied d = Exc GovernanceDeniedError (reason_code_text (dec_reason d))"

definition deny_or :: "policy_decision \<Rightarrow> policy_decision result" where
  "deny_or d = (if dec_result d = DENIED then Inl (governance_denied d) else Inr d)"

definition authorize ::
    "crypto \<Rightarrow> gate \<Rightarrow> gate_inputs \<Rightarrow> pyval list \<Rightarrow> pydict \<Rightarrow> correlation option \<Rightarrow> gate_state \<Rightarrow> policy_decision result \<times> gate_state" where
  "authorize cr g gi args kwargs cor = bind_op (gate_decision cr g gi args kwargs cor) (\<lambda>d. raise_or (deny_or d))"

section \<open>Governed functions\<close>

text \<open>The wrapper of the decorator: the state also holds the calls the function has received.\<close>

definition governed_call ::
    "crypto \<Rightarrow> gate \<Rightarrow> gate_inputs \<Rightarrow> (pyval list \<Rightarrow> pydict \<Rightarrow> pyval result) \<Rightarrow> pyval list \<Rightarrow> pydict
     \<Rightarrow> gate_state \<times> (pyval list \<times> pydict) list \<Rightarrow> pyval result \<times> gate_state \<times> (pyval list \<times> pydict) list" where
  "governed_call cr g gi f args kwargs =
     bind_op (on_part fst (\<lambda>p s. (p, snd s)) (authorize cr g gi args kwargs None)) (\<lambda>d.
       bind_op (update_op (\<lambda>s. (fst s, snd s @ [(args, kwargs)]))) (\<lambda>u. raise_or (f args kwargs)))"

section \<open>What an authorization establishes\<close>

lemma validate_request_None:
  "validate_request g request scope = None \<Longrightarrow> agent_id request = gt_agent g \<and> action request = gt_action g \<and>
     (gt_tool g = None \<or> tool_id request = gt_tool g)"
  by (simp add: validate_request_def first_error_None)

lemma governed_request_Inr:
  assumes "governed_request g gi cx = Inr request"
  shows "agent_id request = gt_agent g" "action request = gt_action g" "gt_tool g = None \<or> tool_id request = gt_tool g"
proof -
  from assms obtain scope where "validate_request g request scope = None"
    by (auto simp: governed_request_def split: if_splits)
  then show "agent_id request = gt_agent g" "action request = gt_action g" "gt_tool g = None \<or> tool_id request = gt_tool g"
    by (auto dest: validate_request_None)
qed

lemma gate_decision_Inr:
  assumes "gate_decision cr g gi args kwargs cor s = (Inr d, t)"
  obtains ck ck' request where
    "governed_request g gi \<lparr>cx_agent = gt_agent g, cx_action = gt_action g, cx_tool = gt_tool g,
       cx_environment = checker_environment ck, cx_args = args, cx_kwargs = kwargs, cx_correlation = cor\<rparr> = Inr request"
    "evaluate cr (gi_io gi) (gi_clock gi) (gi_decision_id gi) request ck = (Inr d, ck')"
    "gs_checker t = Some ck'" "gi_sink gi \<noteq> None \<Longrightarrow> gs_decisions t \<noteq> [] \<and> last (gs_decisions t) = d"
    "\<And>sink. gi_sink gi = Some sink \<Longrightarrow> sink d = None"
proof -
  have told: "x = d" if "tell_sink gi x v = (Inr d, t)" for x v
    using that by (auto simp: tell_sink_def split: option.splits)
  from assms obtain ck u request v x where
    request: "governed_request g gi \<lparr>cx_agent = gt_agent g, cx_action = gt_action g, cx_tool = gt_tool g,
       cx_environment = checker_environment ck, cx_args = args, cx_kwargs = kwargs, cx_correlation = cor\<rparr> = Inr request"
    and x: "evaluate_with cr gi request ck u = (Inr x, v)" "tell_sink gi x v = (Inr d, t)"
    unfolding gate_decision_def bind_op_Inr raise_or_eq by metis
  from x told [OF x(2)] have e: "evaluate_with cr gi request ck u = (Inr d, v)" and sink: "tell_sink gi d v = (Inr d, t)"
    by simp_all
  from e have "evaluate cr (gi_io gi) (gi_clock gi) (gi_decision_id gi) request ck
      = (Inr d, snd (evaluate cr (gi_io gi) (gi_clock gi) (gi_decision_id gi) request ck))"
    "gs_checker v = Some (snd (evaluate cr (gi_io gi) (gi_clock gi) (gi_decision_id gi) request ck))"
    by (auto simp: evaluate_with_def Let_def prod_eq_iff)
  with request sink show thesis by (intro that) (auto simp: tell_sink_def split: option.splits)
qed

lemma authorize_Inr:
  "authorize cr g gi args kwargs cor s = (Inr d, t) \<longleftrightarrow> gate_decision cr g gi args kwargs cor s = (Inr d, t) \<and> dec_result d = ALLOWED"
  using decision_result.exhaust [of "dec_result d"]
  by (fastforce simp: authorize_def bind_op_Inr deny_or_def split: if_splits)

section \<open>Properties\<close>



definition sample_gate :: gate where
  "sample_gate = \<lparr>gt_agent = ''a1'', gt_action = ''read'', gt_tool = None, gt_factory = None, gt_resource = None,
     gt_signals = None, gt_scope = None, gt_require_scope = False\<rparr>"

definition sample_gate_inputs :: gate_inputs where
  "sample_gate_inputs = \<lparr>gi_io = sample_io sample_unsigned, gi_settings = sample_settings [], gi_clock = sample_clock,
     gi_decision_id = ''d'', gi_request_id = ''r'', gi_now = ''t'', gi_sink = Some (\<lambda>d. None)\<rparr>"

definition sample_gate_state :: gate_state where
  "sample_gate_state = \<lparr>gs_checker = None, gs_cache = None, gs_decisions = []\<rparr>"

definition sample_governed :: "pyval result \<times> gate_state \<times> (pyval list \<times> pydict) list" where
  "sample_governed = governed_call sample_crypto sample_gate sample_gate_inputs (\<lambda>args kwargs. Inr (PInt 1)) [PInt 2] [] (sample_gate_state, [])"


end
