(* ===== verification/SignedObjects.thy ===== *)
theory SignedObjects
  imports Signing
begin

text \<open>
  What signed approvals, receipts, messages and delegations share: the RFC 8785 bytes, the payload
  whose signature value is blanked, the check of an encoded signature, and the step that fills it in.
\<close>

definition canonical :: "crypto \<Rightarrow> exn \<Rightarrow> pyval \<Rightarrow> string result" where
  "canonical cr e v = (case rfc8785 cr v of None \<Rightarrow> Inl e | Some bytes \<Rightarrow> Inr bytes)"

definition blank_signature :: "pydict \<Rightarrow> pydict" where
  "blank_signature d = (case dget d ''signature'' of
       PDict sig \<Rightarrow> dset d ''signature'' (PDict (dset sig ''value'' (PStr []))) | _ \<Rightarrow> d)"

definition domain_payload :: "string \<Rightarrow> pydict \<Rightarrow> pyval" where
  "domain_payload domain payload = PDict (obj [(''domain'', PStr domain), (''payload'', PDict payload)])"

definition signed_payload :: "crypto \<Rightarrow> string \<Rightarrow> exn \<Rightarrow> exn \<Rightarrow> pydict \<Rightarrow> string result" where
  "signed_payload cr domain not_object not_canonical d =
     (if is_mapping (dget d ''signature'')
      then canonical cr not_canonical (domain_payload domain (blank_signature d)) else Inl not_object)"

definition check_encoded :: "crypto \<Rightarrow> string \<Rightarrow> exn \<Rightarrow> pyval \<Rightarrow> string result \<Rightarrow> check" where
  "check_encoded cr public e encoded payload =
     (if is_str encoded \<and> truthy encoded then
        (case b64decode (str_of encoded) of
           None \<Rightarrow> Some e
         | Some signature \<Rightarrow> (case payload of
               Inl e' \<Rightarrow> Some e' | Inr bytes \<Rightarrow> require (ed25519_verify cr public bytes signature) e))
      else Some e)"

lemma blank_signature_set:
  assumes "dget d ''signature'' = PDict sig" "dget sig ''value'' = PStr []"
  shows "blank_signature (dset d ''signature'' (PDict (dset sig ''value'' v))) = d" "blank_signature d = d"
proof -
  have "dset sig ''value'' (PStr []) = sig" using assms(2) by (intro dset_present) simp_all
  then show "blank_signature (dset d ''signature'' (PDict (dset sig ''value'' v))) = d" "blank_signature d = d"
    using assms(1) by (simp_all add: blank_signature_def dset_present)
qed

text \<open>An object that was signed with its value blank verifies under the signer's public key.\<close>

lemma check_encoded_signed:
  assumes "signature_scheme cr" "public = ed25519_public cr secret"
  shows "check_encoded cr public e (PStr (b64encode (ed25519_sign cr secret bytes))) (Inr bytes) = None"
  using assms by (simp add: check_encoded_def b64decode_encode signature_scheme_def)

definition with_signature :: "pydict \<Rightarrow> string \<Rightarrow> pydict" where
  "with_signature d signature = dset d ''signature''
     (PDict (dset (mapping_or_empty (dget d ''signature'')) ''value'' (PStr (b64encode signature))))"

definition sig_of :: "pydict \<Rightarrow> pydict" where
  "sig_of d = mapping_or_empty (dget d ''signature'')"

text \<open>The signature object of a delegation, an envelope or a message: its fields, algorithm and names.\<close>

definition signature_shape :: "(string \<Rightarrow> exn) \<Rightarrow> string \<Rightarrow> (pyval \<Rightarrow> check) \<Rightarrow> pydict \<Rightarrow> check list" where
  "signature_shape err code txt d =
     (let sig = sig_of d; names = [''algorithm'', ''key_id'', ''issuer'', ''value''] in
      [require (is_mapping (dget d ''signature'') \<and> only_keys sig names \<and> has_keys sig names) (err code),
       require (dget sig ''algorithm'' = PStr ''Ed25519'') (err code), txt (dget sig ''key_id''), txt (dget sig ''issuer'')])"

text \<open>A failing canonicalisation is a \<open>ValueError\<close> too, so it is reported as an invalid signature.\<close>

definition encoded_signature :: "crypto \<Rightarrow> string \<Rightarrow> exn \<Rightarrow> pyval \<Rightarrow> string result \<Rightarrow> check" where
  "encoded_signature cr public e encoded payload =
     check_encoded cr public e encoded (case payload of Inl _ \<Rightarrow> Inl e | Inr bytes \<Rightarrow> Inr bytes)"

lemma encoded_signature_None:
  "encoded_signature cr public e encoded payload = None \<Longrightarrow>
   \<exists>bytes signature. payload = Inr bytes \<and> ed25519_verify cr public bytes signature"
  by (auto simp: encoded_signature_def check_encoded_def split: if_splits option.splits sum.splits)

lemma only_keys_dset: "dhas d k \<Longrightarrow> only_keys (dset d k v) ks = only_keys d ks"
proof -
  have "map_of d (KStr k) \<noteq> None \<Longrightarrow> map fst (dset_key d (KStr k) v) = map fst d" by (induction d) auto
  moreover have "only_keys e ks = list_all (\<lambda>k. k \<in> set (map KStr ks)) (map fst e)" for e
    by (simp add: only_keys_def list_all_iff case_prod_beta)
  ultimately show "dhas d k \<Longrightarrow> ?thesis" by (simp add: dset_def dhas_def)
qed

lemma signed_payload_with_signature:
  assumes "dget d ''signature'' = PDict sig" "dget sig ''value'' = PStr []"
  shows "signed_payload cr domain e e' (with_signature d v) = signed_payload cr domain e e' d"
  using blank_signature_set [OF assms] assms(1) by (simp add: signed_payload_def with_signature_def)

end
