(* ===== verification/Latch.thy ===== *)
theory Latch
  imports Prelude
begin

text \<open>
  The interface several stores promise: once a latch is shut nothing is admitted until an event
  that reopens it. The breaker, the kill switch and key revocation provide it; what follows for a
  whole history of events is proved once.
\<close>

locale latch =
  fixes apply_event :: "'e \<Rightarrow> 's \<Rightarrow> 's"
    and admits :: "'e \<Rightarrow> 's \<Rightarrow> bool"
    and shut :: "'s \<Rightarrow> bool"
    and reopens :: "'e \<Rightarrow> bool"
  assumes shut_refuses: "shut s \<Longrightarrow> \<not> admits e s"
    and shut_stays: "shut s \<Longrightarrow> \<not> reopens e \<Longrightarrow> shut (apply_event e s)"
begin

lemma stays_shut:
  "shut s \<Longrightarrow> list_all (\<lambda>e. \<not> reopens e) es \<Longrightarrow> shut (fold apply_event es s)"
  by (induction es arbitrary: s) (auto intro: shut_stays)

lemma nothing_admitted:
  assumes "shut s" "list_all (\<lambda>e. \<not> reopens e) es"
  shows "\<not> admits e (fold apply_event es s)"
  using assms by (intro shut_refuses stays_shut)

lemma admitted_was_reopened:
  "shut s \<Longrightarrow> admits e (fold apply_event es s) \<Longrightarrow> list_ex reopens es"
  using nothing_admitted [of s es e] by (auto simp: list_all_iff list_ex_iff)

end

end
