(* ===== verification/ReplayGuard.thy ===== *)
theory ReplayGuard
  imports PyTime Latch
begin

text \<open>
  The replay guards of \<^verbatim>\<open>execution_receipts.py\<close>, in memory and SQLite, and the operations their
  clients call. The times the guards compare are microseconds; the locks of the in-memory guard are not
  modelled, every operation is one step. The lemmas show that a claimed key is not claimed again before
  its expiry and that revocation is final.
\<close>

section \<open>The interface\<close>

definition approval_error :: "string \<Rightarrow> exn" where
  "approval_error code = Exc ApprovalVerificationError code"

definition approval_time :: "pyval \<Rightarrow> int result" where
  "approval_time v = parse_trimmed_utc ''Zz'' (approval_error ''APPROVAL_TIMESTAMP_INVALID'') v"

text \<open>What the verifier calls: the revocation lookup and the atomic claim, at the system's time.\<close>

record 's replay_ops =
  revoked_op :: "string \<Rightarrow> string \<Rightarrow> 's \<Rightarrow> bool result"
  claim_op :: "string \<Rightarrow> string \<Rightarrow> string \<Rightarrow> 's \<Rightarrow> bool result \<times> 's"

section \<open>The two guards\<close>

type_synonym claim_key = "string \<times> string"

record guard_state =
  claimed :: "(claim_key \<times> int) list"
  revoked :: "(string \<times> string option) list"

definition no_claims :: guard_state where
  "no_claims = \<lparr>claimed = [], revoked = []\<rparr>"

definition live_claims :: "int \<Rightarrow> guard_state \<Rightarrow> (claim_key \<times> int) list" where
  "live_claims now g = filter (\<lambda>(_, x). now < x) (claimed g)"

definition is_revoked :: "string \<Rightarrow> string \<Rightarrow> guard_state \<Rightarrow> bool" where
  "is_revoked tid nonce g \<longleftrightarrow>
     List.member (revoked g) (tid, None) \<or> List.member (revoked g) (tid, Some nonce)"

definition revoke :: "string \<Rightarrow> string option \<Rightarrow> guard_state \<Rightarrow> guard_state" where
  "revoke tid nonce g = g\<lparr>revoked := List.insert (tid, nonce) (revoked g)\<rparr>"

text \<open>\<open>InMemoryReplayGuard.claim\<close>, after the expiry was parsed.\<close>

definition mem_claim :: "int \<Rightarrow> claim_key \<Rightarrow> int \<Rightarrow> guard_state \<Rightarrow> bool \<times> guard_state" where
  "mem_claim now k x g =
     (let live = live_claims now g in
      if map_of live k \<noteq> None then (False, g\<lparr>claimed := live\<rparr>)
      else (True, g\<lparr>claimed := (k, x) # live\<rparr>))"

definition mem_ops :: "int \<Rightarrow> guard_state replay_ops" where
  "mem_ops now = \<lparr>revoked_op = (\<lambda>tid nonce g. Inr (is_revoked tid nonce g)),
     claim_op = (\<lambda>tid nonce ex g. case approval_time (PStr ex) of
       Inl e \<Rightarrow> (Inl e, g)
     | Inr x \<Rightarrow> (let c = mem_claim now (tid, nonce) x g in (Inr (fst c), snd c)))\<rparr>"

text \<open>
  \<open>SQLiteReplayGuard.claim\<close>: a refused claim rolls back, the purge of expired rows included.
\<close>

definition sql_claim :: "int \<Rightarrow> claim_key \<Rightarrow> int \<Rightarrow> guard_state \<Rightarrow> bool \<times> guard_state" where
  "sql_claim now k x g =
     (let live = live_claims now g in
      if is_revoked (fst k) (snd k) g \<or> map_of live k \<noteq> None then (False, g)
      else (True, g\<lparr>claimed := (k, x) # live\<rparr>))"

definition replay_unavailable :: exn where
  "replay_unavailable = Exc ReplayGuardError ''APPROVAL_REPLAY_STORE_UNAVAILABLE''"

definition sql_ops :: "int \<Rightarrow> db_fault \<Rightarrow> guard_state replay_ops" where
  "sql_ops now fault = \<lparr>revoked_op = (\<lambda>tid nonce g.
       if fault \<noteq> NoFault then Inl replay_unavailable else Inr (is_revoked tid nonce g)),
     claim_op = (\<lambda>tid nonce ex g. case approval_time (PStr ex) of
       Inl e \<Rightarrow> (Inl e, g)
     | Inr x \<Rightarrow> transact fault replay_unavailable (\<lambda>g. Inr (sql_claim now (tid, nonce) x g)) g)\<rparr>"

definition sql_revoke :: "db_fault \<Rightarrow> string \<Rightarrow> string option \<Rightarrow> guard_state \<Rightarrow> unit result \<times> guard_state" where
  "sql_revoke fault tid nonce = transact fault replay_unavailable (\<lambda>g. Inr ((), revoke tid nonce g))"

text \<open>
  The contract of a guard: a successful claim is remembered with its expiry, claims before that time and
  revocations keep it, and while it is remembered the key cannot be claimed again.
\<close>

datatype guard_event = Claim int claim_key int | Revoke string "string option"

fun guard_step :: "(int \<Rightarrow> claim_key \<Rightarrow> int \<Rightarrow> 's \<Rightarrow> bool \<times> 's) \<Rightarrow> (string \<Rightarrow> string option \<Rightarrow> 's \<Rightarrow> 's)
    \<Rightarrow> guard_event \<Rightarrow> 's \<Rightarrow> 's" where
  "guard_step claim_fn revoke_fn (Claim now k x) s = snd (claim_fn now k x s)"
| "guard_step claim_fn revoke_fn (Revoke tid nonce) s = revoke_fn tid nonce s"

fun event_before :: "int \<Rightarrow> guard_event \<Rightarrow> bool" where
  "event_before x (Claim now k y) = (now < x)"
| "event_before x (Revoke tid nonce) = True"

locale replay_guard =
  fixes claim :: "int \<Rightarrow> claim_key \<Rightarrow> int \<Rightarrow> 's \<Rightarrow> bool \<times> 's"
    and revoke_key :: "string \<Rightarrow> string option \<Rightarrow> 's \<Rightarrow> 's"
    and remembers :: "'s \<Rightarrow> claim_key \<Rightarrow> int \<Rightarrow> bool"
  assumes claim_remembered: "fst (claim now k x s) \<Longrightarrow> remembers (snd (claim now k x s)) k x"
    and remembered_kept: "remembers s k x \<Longrightarrow> now < x \<Longrightarrow> remembers (snd (claim now j y s)) k x"
    and remembered_revoke: "remembers s k x \<Longrightarrow> remembers (revoke_key tid nonce s) k x"
    and remembered_refused: "remembers s k x \<Longrightarrow> now < x \<Longrightarrow> \<not> fst (claim now k y s)"
begin

lemma step_remembered: "remembers s k x \<Longrightarrow> event_before x e \<Longrightarrow> remembers (guard_step claim revoke_key e s) k x"
  by (cases e) (auto intro: remembered_kept remembered_revoke)

lemma kept_through: "remembers s k x \<Longrightarrow> list_all (event_before x) es \<Longrightarrow> remembers (fold (guard_step claim revoke_key) es s) k x"
  by (induction es arbitrary: s) (auto intro: step_remembered)

text \<open>Before the expiry of a successful claim no other claim of the key succeeds.\<close>

lemma claimed_once:
  assumes "fst (claim t k x s)" "list_all (event_before x) es" "now < x"
  shows "\<not> fst (claim now k y (fold (guard_step claim revoke_key) es (snd (claim t k x s))))"
  using kept_through [OF claim_remembered [OF assms(1)] assms(2)] assms(3) by (rule remembered_refused)

end

definition has_claim :: "guard_state \<Rightarrow> claim_key \<Rightarrow> int \<Rightarrow> bool" where
  "has_claim g k x \<longleftrightarrow> map_of (claimed g) k = Some x"

lemma map_of_live: "map_of (claimed g) k = Some x \<Longrightarrow> now < x \<Longrightarrow> map_of (live_claims now g) k = Some x"
proof -
  have "map_of es k = Some x \<Longrightarrow> now < x \<Longrightarrow> map_of (filter (\<lambda>(_, x). now < x) es) k = Some x"
    for es :: "(claim_key \<times> int) list" by (induction es) auto
  then show "map_of (claimed g) k = Some x \<Longrightarrow> now < x \<Longrightarrow> map_of (live_claims now g) k = Some x"
    by (simp add: live_claims_def)
qed

interpretation mem_guard: replay_guard mem_claim revoke has_claim
  by unfold_locales (auto simp: mem_claim_def has_claim_def revoke_def Let_def map_of_live)

interpretation sql_guard: replay_guard sql_claim revoke has_claim
  by unfold_locales (auto simp: sql_claim_def has_claim_def revoke_def Let_def map_of_live split: if_splits)

text \<open>Revocation is a latch: there is no operation that takes it back.\<close>

fun guard_admits :: "claim_key \<Rightarrow> guard_event \<Rightarrow> guard_state \<Rightarrow> bool" where
  "guard_admits k (Claim now j x) g = (j = k \<and> fst (sql_claim now j x g))"
| "guard_admits k _ g = False"

interpretation revocation: latch "guard_step sql_claim revoke" "guard_admits k" "is_revoked (fst k) (snd k)" "\<lambda>e. False" for k
proof unfold_locales
  show "\<not> guard_admits k e g" if "is_revoked (fst k) (snd k) g" for e g
    using that by (cases "(k, e, g)" rule: guard_admits.cases) (auto simp: sql_claim_def)
  show "is_revoked (fst k) (snd k) (guard_step sql_claim revoke e g)" if "is_revoked (fst k) (snd k) g" for e g
    using that by (cases e) (auto simp: sql_claim_def is_revoked_def revoke_def Let_def)
qed

section \<open>Delivering once\<close>

text \<open>
  What the receivers of envelopes and of messages do after everything else has passed: a guard is
  required, the id must not be revoked, and the claim must be fresh. \<open>wrap\<close> is the handling of what the
  guard raises.
\<close>

definition deliver_once ::
    "(exn \<Rightarrow> exn) \<Rightarrow> exn \<Rightarrow> exn \<Rightarrow> exn \<Rightarrow> 's replay_ops option \<Rightarrow> string \<Rightarrow> string \<Rightarrow> string \<Rightarrow> 's \<Rightarrow> unit result \<times> 's" where
  "deliver_once wrap missing gone replayed guard tid nonce ex s = (case guard of
       None \<Rightarrow> (Inl missing, s)
     | Some ops \<Rightarrow> (case revoked_op ops tid nonce s of
           Inl e \<Rightarrow> (Inl (wrap e), s)
         | Inr r \<Rightarrow> if r then (Inl gone, s)
             else (let c = claim_op ops tid nonce ex s in
               (case fst c of Inl e \<Rightarrow> Inl (wrap e) | Inr fresh \<Rightarrow> if fresh then Inr () else Inl replayed, snd c))))"

lemma deliver_once_sql:
  "deliver_once wrap missing gone replayed (Some (sql_ops now fault)) tid nonce ex s = (Inr u, s') \<longleftrightarrow>
    fault = NoFault \<and> \<not> is_revoked tid nonce s \<and>
    (\<exists>x. approval_time (PStr ex) = Inr x \<and> sql_claim now (tid, nonce) x s = (True, s'))"
  by (cases fault) (auto simp: deliver_once_def sql_ops_def transact_def Let_def bindE_def
      split: sum.splits prod.splits if_splits)

text \<open>Before the expiry of a delivery no other delivery of the same id and nonce succeeds.\<close>

lemma delivered_once:
  assumes first: "deliver_once w m gn rp (Some (sql_ops now fault)) tid nonce ex s = (Inr u, s')"
    and "approval_time (PStr ex) = Inr expires" "list_all (event_before expires) events" "later < expires"
  shows "deliver_once w' m' gn' rp' (Some (sql_ops later fault')) tid nonce ex'
      (fold (guard_step sql_claim revoke) events s') \<noteq> (Inr u', s'')"
proof
  assume "deliver_once w' m' gn' rp' (Some (sql_ops later fault')) tid nonce ex'
      (fold (guard_step sql_claim revoke) events s') = (Inr u', s'')"
  then obtain y where "sql_claim later (tid, nonce) y (fold (guard_step sql_claim revoke) events s') = (True, s'')"
    by (auto simp: deliver_once_sql)
  moreover from first assms(2) have "sql_claim now (tid, nonce) expires s = (True, s')"
    by (auto simp: deliver_once_sql)
  ultimately show False
    using sql_guard.claimed_once [of now "(tid, nonce)" expires s events later y] assms(3,4) by simp
qed

end
