(* ===== verification/Approvals.thy ===== *)
theory Approvals
  imports SignedObjects ReplayGuard
begin

text \<open>
  Signed approvals of \<^verbatim>\<open>execution_receipts.py\<close>: signing, the policy signal, and the
  verification of a token against one request target, with the revocation lookup and the claim of a
  single-use token. The lemmas show what a verified approval authenticates, that a signed one verifies,
  and that the SQLite guard admits a single-use token once and a revoked one never.
\<close>

section \<open>Approval tokens\<close>

definition approval_window :: "pyval \<Rightarrow> pyval \<Rightarrow> datetime \<Rightarrow> int \<Rightarrow> check" where
  "approval_window issued_at expires_at clock skew =
     window_check (approval_error ''APPROVAL_WINDOW_INVALID'') (approval_error ''APPROVAL_NOT_YET_VALID'')
       (approval_error ''APPROVAL_EXPIRED'') (approval_time issued_at) (approval_time expires_at) clock skew"

definition approval_text :: "pyval \<Rightarrow> check" where
  "approval_text v = require (trimmed_str v) (approval_error ''APPROVAL_FIELD_INVALID'')"

definition scope_pair :: "pyval \<Rightarrow> pyval \<Rightarrow> check list" where
  "scope_pair project workspace =
     [require ((project = PNone) = (workspace = PNone)) (approval_error ''APPROVAL_SCOPE_INVALID''),
      (if project = PNone then None else approval_text project),
      (if workspace = PNone then None else approval_text workspace)]"

definition approval_payload :: "crypto \<Rightarrow> pydict \<Rightarrow> string result" where
  "approval_payload cr token = signed_payload cr ''hlinor/approval-token/v1''
     (approval_error ''APPROVAL_SIGNATURE_INVALID'') (Exc ReceiptError ''RFC 8785'') token"

text \<open>The target an approval names, as the optional arguments of signing and verification.\<close>

record approval_target =
  at_agent :: pyval
  at_action :: pyval
  at_arguments :: pyval
  at_resource :: pyval
  at_tool :: pyval
  at_session :: pyval
  at_tenant :: pyval
  at_project :: pyval
  at_workspace :: pyval

text \<open>The declared types of the targets: a string, or \<open>None\<close>.\<close>

definition declared_target :: "approval_target \<Rightarrow> bool" where
  "declared_target t \<longleftrightarrow> list_all (\<lambda>v. is_str v \<or> v = PNone)
     [at_agent t, at_action t, at_arguments t, at_resource t, at_tool t, at_session t, at_tenant t,
      at_project t, at_workspace t]"

definition unsigned_approval ::
    "pyval \<Rightarrow> pyval \<Rightarrow> pyval \<Rightarrow> approval_target \<Rightarrow> pyval \<Rightarrow> pyval \<Rightarrow> pyval \<Rightarrow> pyval \<Rightarrow> pyval \<Rightarrow> bool \<Rightarrow> pydict" where
  "unsigned_approval key issuer token t rdigest role issued_at expires_at nonce single_use = obj
     [(''schema_version'', PStr ''1.0''), (''token_id'', token), (''subject_agent_id'', at_agent t),
      (''action'', at_action t), (''tool_id'', at_tool t), (''resource'', at_resource t),
      (''arguments_digest'', at_arguments t), (''request_digest'', rdigest),
      (''session_id'', at_session t), (''tenant_id'', at_tenant t), (''project_id'', at_project t),
      (''workspace_id'', at_workspace t), (''approver_role'', role), (''issued_at'', issued_at),
      (''expires_at'', expires_at), (''nonce'', nonce), (''single_use'', PBool single_use),
      (''signature'', PDict (obj [(''algorithm'', PStr ''Ed25519''), (''key_id'', key), (''issuer'', issuer),
         (''value'', PStr [])]))]"

text \<open>\<open>uuid\<close> is the fresh identifier used when no (or an empty) token id is given.\<close>

definition sign_approval_token ::
    "crypto \<Rightarrow> string \<Rightarrow> string \<Rightarrow> pyval \<Rightarrow> pyval \<Rightarrow> pyval \<Rightarrow> approval_target \<Rightarrow> pyval \<Rightarrow> pyval \<Rightarrow> pyval \<Rightarrow> pyval \<Rightarrow> pyval \<Rightarrow> bool
     \<Rightarrow> datetime \<Rightarrow> pydict result" where
  "sign_approval_token cr secret uuid key issuer token_id t rdigest role issued_at expires_at nonce single_use clock =
     (let token = (if truthy token_id then token_id else PStr uuid);
          d = unsigned_approval key issuer token t rdigest role issued_at expires_at nonce single_use in
      after (first_error (map approval_text [key, issuer, at_agent t, at_action t, at_arguments t, nonce]
          @ scope_pair (at_project t) (at_workspace t)
          @ [approval_text token, approval_window issued_at expires_at clock 0]))
      (bindE (approval_payload cr d) (\<lambda>bytes. Inr (with_signature d (ed25519_sign cr secret bytes)))))"

section \<open>Verification\<close>

record verified_approval =
  va_token :: string
  va_key :: string
  va_issuer :: string
  va_target :: approval_target
  va_request_digest :: pyval
  va_role :: pyval
  va_issued_at :: string
  va_expires_at :: string
  va_nonce :: string
  va_single_use :: bool

definition approval_fields :: "string list" where
  "approval_fields = [''schema_version'', ''token_id'', ''subject_agent_id'', ''action'', ''tool_id'', ''resource'',
     ''arguments_digest'', ''request_digest'', ''session_id'', ''tenant_id'', ''project_id'', ''workspace_id'',
     ''approver_role'', ''issued_at'', ''expires_at'', ''nonce'', ''single_use'', ''signature'']"

definition shape_checks :: "pydict \<Rightarrow> check list" where
  "shape_checks token =
     (let sig = sig_of token; bad = approval_error ''APPROVAL_SIGNATURE_INVALID'' in
      [require (only_keys token approval_fields) (approval_error ''APPROVAL_INVALID''),
       require (dget token ''schema_version'' = PStr ''1.0'') (approval_error ''APPROVAL_VERSION_UNSUPPORTED'')]
      @ map (\<lambda>f. approval_text (dget token f))
          [''token_id'', ''subject_agent_id'', ''action'', ''arguments_digest'', ''issued_at'', ''expires_at'', ''nonce'']
      @ [require (is_bool (dget token ''single_use'')) (approval_error ''APPROVAL_INVALID'')]
      @ scope_pair (dget token ''project_id'') (dget token ''workspace_id'')
      @ [require (is_mapping (dget token ''signature'')) bad,
         require (only_keys sig [''algorithm'', ''key_id'', ''issuer'', ''value'']
                  \<and> has_keys sig [''algorithm'', ''key_id'', ''issuer'', ''value'']) bad,
         require (dget sig ''algorithm'' = PStr ''Ed25519'') bad,
         approval_text (dget sig ''key_id''), approval_text (dget sig ''issuer'')])"

definition target_fields :: "approval_target \<Rightarrow> (string \<times> pyval) list" where
  "target_fields t = [(''subject_agent_id'', at_agent t), (''action'', at_action t), (''arguments_digest'', at_arguments t),
     (''resource'', at_resource t), (''tool_id'', at_tool t), (''session_id'', at_session t),
     (''tenant_id'', at_tenant t), (''project_id'', at_project t), (''workspace_id'', at_workspace t)]"

definition key_checks :: "crypto \<Rightarrow> pydict \<Rightarrow> trusted_key \<Rightarrow> check list" where
  "key_checks cr token key =
     [require (tk_issuer key = None \<or> dget (sig_of token) ''issuer'' = opt_str (tk_issuer key))
        (approval_error ''APPROVAL_ISSUER_INVALID''),
      check_encoded cr (tk_public key) (approval_error ''APPROVAL_SIGNATURE_INVALID'') (dget (sig_of token) ''value'')
        (approval_payload cr token)]"

definition target_checks :: "pydict \<Rightarrow> approval_target \<Rightarrow> string option \<Rightarrow> check list" where
  "target_checks token t rdigest =
     map (\<lambda>(f, v). require (py_eq (dget token f) v) (approval_error ''APPROVAL_TARGET_MISMATCH'')) (target_fields t)
     @ [require (rdigest = None \<or> dget token ''request_digest'' = opt_str rdigest)
          (approval_error ''APPROVAL_REQUEST_MISMATCH'')]"

definition replay_check ::
    "pydict \<Rightarrow> 's replay_ops option \<Rightarrow> 's \<Rightarrow> unit result \<times> 's" where
  "replay_check token guard s =
     (let tid = str_of (dget token ''token_id''); nonce = str_of (dget token ''nonce'') in
      if \<not> truthy (dget token ''single_use'') then (Inr (), s)
      else (case guard of
          None \<Rightarrow> (Inl (approval_error ''APPROVAL_REPLAY_GUARD_REQUIRED''), s)
        | Some ops \<Rightarrow> (case revoked_op ops tid nonce s of
              Inl e \<Rightarrow> (Inl e, s)
            | Inr gone \<Rightarrow>
                if gone then (Inl (approval_error ''APPROVAL_REVOKED''), s)
                else (let c = claim_op ops tid nonce (str_of (dget token ''expires_at'')) s
                      in (bindE (fst c) (\<lambda>fresh.
                            if fresh then Inr () else Inl (approval_error ''APPROVAL_REPLAYED'')), snd c)))))"

definition verified_of :: "pydict \<Rightarrow> verified_approval" where
  "verified_of token = \<lparr>va_token = str_of (dget token ''token_id''), va_key = str_of (dget (sig_of token) ''key_id''),
     va_issuer = str_of (dget (sig_of token) ''issuer''),
     va_target = \<lparr>at_agent = dget token ''subject_agent_id'', at_action = dget token ''action'',
       at_arguments = dget token ''arguments_digest'', at_resource = dget token ''resource'',
       at_tool = dget token ''tool_id'', at_session = dget token ''session_id'', at_tenant = dget token ''tenant_id'',
       at_project = dget token ''project_id'', at_workspace = dget token ''workspace_id''\<rparr>,
     va_request_digest = dget token ''request_digest'', va_role = dget token ''approver_role'',
     va_issued_at = str_of (dget token ''issued_at''), va_expires_at = str_of (dget token ''expires_at''),
     va_nonce = str_of (dget token ''nonce''), va_single_use = truthy (dget token ''single_use'')\<rparr>"

definition approval_checks ::
    "crypto \<Rightarrow> pydict \<Rightarrow> (string \<times> trusted_key) list \<Rightarrow> approval_target \<Rightarrow> string option \<Rightarrow> datetime \<Rightarrow> int \<Rightarrow> check" where
  "approval_checks cr token trusted t rdigest clock skew =
     first_error (shape_checks token
       @ (case map_of trusted (str_of (dget (sig_of token) ''key_id'')) of
            None \<Rightarrow> [Some (approval_error ''APPROVAL_KEY_UNTRUSTED'')]
          | Some key \<Rightarrow> key_checks cr token key)
       @ [approval_window (dget token ''issued_at'') (dget token ''expires_at'') clock skew]
       @ target_checks token t rdigest)"

definition verify_approval_token ::
    "crypto \<Rightarrow> pyval \<Rightarrow> (string \<times> trusted_key) list \<Rightarrow> approval_target \<Rightarrow> string option \<Rightarrow> 's replay_ops option
     \<Rightarrow> datetime \<Rightarrow> int \<Rightarrow> 's \<Rightarrow> verified_approval result \<times> 's" where
  "verify_approval_token cr v trusted t rdigest guard clock skew s = (case v of
       PDict token \<Rightarrow> (case approval_checks cr token trusted t rdigest clock skew of
           Some e \<Rightarrow> (Inl e, s)
         | None \<Rightarrow> (let r = replay_check token guard s
                    in (bindE (fst r) (\<lambda>u. Inr (verified_of token)), snd r)))
     | _ \<Rightarrow> (Inl (approval_error ''APPROVAL_INVALID''), s))"

definition approval_signal :: "verified_approval \<Rightarrow> pyval" where
  "approval_signal va =
     (let t = va_target va;
          granted = (if at_resource t = PNone then str_of (at_action t)
                     else str_of (at_action t) @ '':'' @ str_of (at_resource t))
      in PDict (obj [(''token_id'', PStr (va_token va)), (''approver_role'', va_role va),
           (''granted_for'', PStr granted), (''granted_at'', PStr (va_issued_at va)),
           (''project_id'', at_project t), (''workspace_id'', at_workspace t), (''verified'', PBool True)]))"

section \<open>What verification establishes\<close>

lemma py_eq_declared: "is_str v \<or> v = PNone \<Longrightarrow> py_eq x v \<longleftrightarrow> x = v"
  by (cases v) auto

lemma target_checks_None:
  "declared_target t \<Longrightarrow> (\<forall>c \<in> set (target_checks token t rd). c = None) \<longleftrightarrow>
     va_target (verified_of token) = t \<and> (rd = None \<or> dget token ''request_digest'' = opt_str rd)"
  by (cases t) (auto simp: target_checks_def target_fields_def verified_of_def declared_target_def py_eq_declared)

lemma verify_approval_Inr:
  assumes "verify_approval_token cr v trusted t rd guard clock skew s = (Inr va, s')"
  obtains token where "v = PDict token" "approval_checks cr token trusted t rd clock skew = None"
    "replay_check token guard s = (Inr (), s')" "va = verified_of token"
  using assms
proof (cases v)
  case (PDict token)
  with assms have c: "approval_checks cr token trusted t rd clock skew = None"
    and r: "fst (replay_check token guard s) = Inr ()" "snd (replay_check token guard s) = s'" "va = verified_of token"
    by (auto simp: verify_approval_token_def Let_def split: option.splits)
  have "replay_check token guard s = (Inr (), s')" using r by (metis prod.collapse)
  with that PDict c r show ?thesis by blast
qed (auto simp: verify_approval_token_def)

text \<open>A single-use token passes the SQLite guard exactly when it is neither revoked nor claimed.\<close>

lemma replay_check_sql:
  assumes "truthy (dget token ''single_use'')"
  shows "replay_check token (Some (sql_ops now fault)) s = (Inr u, s') \<longleftrightarrow>
    fault = NoFault \<and> \<not> is_revoked (str_of (dget token ''token_id'')) (str_of (dget token ''nonce'')) s \<and>
    (\<exists>x. approval_time (PStr (str_of (dget token ''expires_at''))) = Inr x \<and>
       sql_claim now (str_of (dget token ''token_id''), str_of (dget token ''nonce'')) x s = (True, s'))"
  using assms
  by (cases fault) (auto simp: replay_check_def sql_ops_def transact_def Let_def bindE_def split: sum.splits prod.splits if_splits)


section \<open>Sample approval\<close>

definition sample_target :: approval_target where
  "sample_target = \<lparr>at_agent = PStr ''bot'', at_action = PStr ''send'', at_arguments = PStr ''d'', at_resource = PNone,
     at_tool = PStr ''mail'', at_session = PNone, at_tenant = PNone, at_project = PNone, at_workspace = PNone\<rparr>"

definition sample_approval :: "pydict result" where
  "sample_approval = sign_approval_token sample_flat ''k'' ''u'' (PStr ''key'') (PStr ''me'') PNone sample_target PNone PNone
     (PStr ''2026-01-01T00:00:00Z'') (PStr ''2026-02-01T00:00:00Z'') (PStr ''n'') True sample_clock"

definition sample_token :: pyval where
  "sample_token = (case sample_approval of Inr d \<Rightarrow> PDict d | Inl _ \<Rightarrow> PNone)"

text \<open>The clock and the stores' time one day after the sample clock, in microseconds.\<close>

definition sample_now :: int where
  "sample_now = 63903686400000000"

lemma sample_declared: "declared_target sample_target"
  by (simp add: declared_target_def sample_target_def)

lemma sample_verifies:
  "\<not> isl (fst (verify_approval_token sample_flat sample_token [(''key'', sample_key)] sample_target None
     (Some (sql_ops sample_now NoFault)) sample_clock 60 no_claims))"
  by code_simp

lemma not_isl_fst: "\<not> isl (fst p) \<Longrightarrow> \<exists>x s. p = (Inr x, s)"
  by (cases p; cases "fst p") auto



text \<open>
  Revocation wins: once a token id, or the pair of it and the nonce, is revoked, no verification of a
  single-use approval with them succeeds, whatever claims and revocations follow.
\<close>

theorem revoked_approval_never_verifies:
  assumes "fst (sql_revoke NoFault tid nonce g) = Inr u" "nonce \<in> {None, Some n}"
    and later: "verify_approval_token cr v trusted t rdigest (Some (sql_ops now fault)) clock skew
      (fold (guard_step sql_claim revoke) events (snd (sql_revoke NoFault tid nonce g))) = (Inr va, g')"
    and "va_token va = tid" "va_nonce va = n"
  shows "\<not> va_single_use va"
proof
  assume "va_single_use va"
  have "is_revoked (fst (tid, n)) (snd (tid, n)) (snd (sql_revoke NoFault tid nonce g))"
    using assms(2) by (auto simp: sql_revoke_def is_revoked_def revoke_def)
  then have "is_revoked tid n (fold (guard_step sql_claim revoke) events (snd (sql_revoke NoFault tid nonce g)))"
    using revocation.stays_shut [of "(tid, n)" _ events] by (simp add: list_all_iff)
  moreover obtain token where "replay_check token (Some (sql_ops now fault))
      (fold (guard_step sql_claim revoke) events (snd (sql_revoke NoFault tid nonce g))) = (Inr (), g')"
      "va = verified_of token"
    using later by (rule verify_approval_Inr)
  ultimately show False
    using \<open>va_single_use va\<close> assms(4,5) by (auto simp: verified_of_def replay_check_sql)
qed


theorem revoked_approval_never_verifies_witness:
  "isl (fst (verify_approval_token sample_flat sample_token [(''key'', sample_key)] sample_target None
     (Some (sql_ops sample_now NoFault)) sample_clock 60 (snd (sql_revoke NoFault ''u'' None no_claims))))"
proof (rule ccontr)
  let ?r = "verify_approval_token sample_flat sample_token [(''key'', sample_key)] sample_target None
     (Some (sql_ops sample_now NoFault)) sample_clock 60 (snd (sql_revoke NoFault ''u'' None no_claims))"
  assume "\<not> isl (fst ?r)"
  then obtain va g' where v: "?r = (Inr va, g')" using not_isl_fst by blast
  have "case sample_token of PDict d \<Rightarrow> va_token (verified_of d) = ''u'' \<and> va_nonce (verified_of d) = ''n'' \<and>
      va_single_use (verified_of d) | _ \<Rightarrow> False" by code_simp
  moreover obtain token where t: "sample_token = PDict token" and va: "va = verified_of token"
    using v by (rule verify_approval_Inr)
  ultimately have "va_token va = ''u'' \<and> va_nonce va = ''n'' \<and> va_single_use va"
    unfolding t va pyval.case by blast
  then have "va_token va = ''u''" "va_nonce va = ''n''" "va_single_use va" by blast+
  moreover have f: "fst (sql_revoke NoFault ''u'' None no_claims) = Inr ()" by (simp add: sql_revoke_def)
  have "\<not> va_single_use va"
    by (rule revoked_approval_never_verifies [OF f, where events = "[]" and n = "''n''"]) (use v calculation in \<open>simp_all only: fold_simps id_apply insertI1\<close>)
  ultimately show False by blast
qed

text \<open>
  The protection ends at the expiry although verification continues for the clock skew: an approval
  that verified at a time on or after its expiry verifies again, at the same time and against the same
  store, because the guard discards claims that have expired.
\<close>

theorem expired_claim_is_replayable:
  assumes "verify_approval_token cr v trusted t rdigest (Some (sql_ops now NoFault)) clock skew g = (Inr va, g')"
    and "approval_time (PStr (va_expires_at va)) = Inr expires" "expires \<le> now"
  shows "verify_approval_token cr v trusted t rdigest (Some (sql_ops now NoFault)) clock skew g' = (Inr va, g')"
proof -
  obtain token where v: "v = PDict token" and va: "va = verified_of token"
    and checks: "approval_checks cr token trusted t rdigest clock skew = None"
    and r: "replay_check token (Some (sql_ops now NoFault)) g = (Inr (), g')"
    using assms(1) by (rule verify_approval_Inr)
  have "replay_check token (Some (sql_ops now NoFault)) g' = (Inr (), g')"
  proof (cases "truthy (dget token ''single_use'')")
    case True
    with r assms(2) va have "\<not> is_revoked (va_token va) (va_nonce va) g" "sql_claim now (va_token va, va_nonce va) expires g = (True, g')"
      by (auto simp: replay_check_sql verified_of_def)
    then have "\<not> is_revoked (va_token va) (va_nonce va) g'" "sql_claim now (va_token va, va_nonce va) expires g' = (True, g')"
      using assms(3) by (auto simp: sql_claim_def is_revoked_def live_claims_def Let_def split: if_splits)
    with True assms(2) va show ?thesis by (auto simp: replay_check_sql verified_of_def)
  qed (use r in \<open>simp add: replay_check_def Let_def\<close>)
  then show ?thesis using v va checks by (simp add: verify_approval_token_def)
qed

text \<open>Thirty seconds after the expiry of the sample, by every clock involved.\<close>

definition sample_late :: int where
  "sample_late = 63905500830000000"

definition sample_late_clock :: datetime where
  "sample_late_clock = \<lparr>local_us = sample_late, utc_offset = Some 0\<rparr>"

theorem expired_claim_is_replayable_witness:
  "\<exists>va g'. verify_approval_token sample_flat sample_token [(''key'', sample_key)] sample_target None
      (Some (sql_ops sample_late NoFault)) sample_late_clock 60 no_claims = (Inr va, g') \<and> va_single_use va \<and>
    verify_approval_token sample_flat sample_token [(''key'', sample_key)] sample_target None
      (Some (sql_ops sample_late NoFault)) sample_late_clock 60 g' = (Inr va, g')"
proof -
  let ?r = "verify_approval_token sample_flat sample_token [(''key'', sample_key)] sample_target None
     (Some (sql_ops sample_late NoFault)) sample_late_clock 60 no_claims"
  have "case fst ?r of Inl _ \<Rightarrow> False | Inr va \<Rightarrow> va_single_use va \<and>
      (case approval_time (PStr (va_expires_at va)) of Inl _ \<Rightarrow> False | Inr x \<Rightarrow> x \<le> sample_late)" by code_simp
  then obtain va x g' where v: "?r = (Inr va, g')" and x: "va_single_use va"
    "approval_time (PStr (va_expires_at va)) = Inr x" "x \<le> sample_late"
    by (auto split: sum.splits) (metis prod.collapse)
  from v x(1) expired_claim_is_replayable [OF v x(2,3)] show ?thesis by blast
qed

section \<open>Signing and verifying\<close>

lemma unsigned_approval_reads:
  fixes key issuer token t rdigest role i x nonce su
  defines "d \<equiv> unsigned_approval key issuer token t rdigest role i x nonce su"
  shows "dget d ''schema_version'' = PStr ''1.0''" "dget d ''token_id'' = token" "dget d ''subject_agent_id'' = at_agent t"
    "dget d ''action'' = at_action t" "dget d ''tool_id'' = at_tool t" "dget d ''resource'' = at_resource t"
    "dget d ''arguments_digest'' = at_arguments t" "dget d ''request_digest'' = rdigest"
    "dget d ''session_id'' = at_session t" "dget d ''tenant_id'' = at_tenant t" "dget d ''project_id'' = at_project t"
    "dget d ''workspace_id'' = at_workspace t" "dget d ''approver_role'' = role" "dget d ''issued_at'' = i"
    "dget d ''expires_at'' = x" "dget d ''nonce'' = nonce" "dget d ''single_use'' = PBool su"
    "dget d ''signature'' = PDict (obj [(''algorithm'', PStr ''Ed25519''), (''key_id'', key), (''issuer'', issuer), (''value'', PStr [])])"
  by (simp_all add: d_def unsigned_approval_def dget_def dget_or_def)

lemma sign_approval_Inr:
  assumes "sign_approval_token cr secret uuid key issuer token_id t rdigest role i x nonce su clock = Inr d"
  obtains token u bytes where "u = unsigned_approval key issuer token t rdigest role i x nonce su"
    "approval_payload cr u = Inr bytes" "d = with_signature u (ed25519_sign cr secret bytes)"
    "\<forall>v \<in> {key, issuer, at_agent t, at_action t, at_arguments t, nonce, token}. trimmed_str v"
    "\<forall>c \<in> set (scope_pair (at_project t) (at_workspace t)). c = None"
  using assms by (auto simp: sign_approval_token_def Let_def guards approval_text_def)

lemma with_signature_payload:
  assumes "dget u ''signature'' = PDict sig" "dget sig ''value'' = PStr []"
  shows "approval_payload cr (with_signature u v) = approval_payload cr u"
  using assms by (simp add: approval_payload_def signed_payload_with_signature)

lemma window_trimmed: "approval_window i x clock skew = None \<Longrightarrow> trimmed_str i \<and> trimmed_str x"
  by (auto simp: approval_window_def window_check_None approval_time_def parse_trimmed_utc_def split: if_splits)

text \<open>
  What is signed is verified: an approval \<^verbatim>\<open>sign_approval_token\<close> returned is accepted for its own
  target under a trust root with the signer's key and issuer, at a clock inside the window, by a store that has
  neither revoked nor claimed it; the facts returned are those signed, and a single-use token is then recorded.
\<close>

theorem approval_sign_then_verify:
  assumes scheme: "signature_scheme cr"
    and signed: "sign_approval_token cr secret uuid (PStr kid) (PStr issuer) token_id t rdigest role i x nonce su clock0 = Inr d"
    and key: "map_of trusted kid = Some key" "tk_public key = ed25519_public cr secret" "tk_issuer key \<in> {None, Some issuer}"
    and "declared_target t" and window: "approval_window i x clock skew = None"
    and digest: "rd = None \<or> rdigest = opt_str rd"
    and fresh: "\<not> is_revoked (str_of (dget d ''token_id'')) (str_of nonce) g"
      "map_of (live_claims now g) (str_of (dget d ''token_id''), str_of nonce) = None"
  shows "\<exists>va g' expires. approval_time x = Inr expires \<and>
    verify_approval_token cr (PDict d) trusted t rd (Some (sql_ops now NoFault)) clock skew g = (Inr va, g') \<and>
    va_target va = t \<and> va_request_digest va = rdigest \<and> va_role va = role \<and> va_single_use va = su \<and>
    (su \<longrightarrow> has_claim g' (va_token va, va_nonce va) expires)"
proof -
  obtain token u bytes where u: "u = unsigned_approval (PStr kid) (PStr issuer) token t rdigest role i x nonce su"
    and bytes: "approval_payload cr u = Inr bytes" and d: "d = with_signature u (ed25519_sign cr secret bytes)"
    and trimmed: "\<forall>v \<in> {PStr kid, PStr issuer, at_agent t, at_action t, at_arguments t, nonce, token}. trimmed_str v"
    and scope: "\<forall>c \<in> set (scope_pair (at_project t) (at_workspace t)). c = None"
    using signed by (rule sign_approval_Inr)
  let ?sig = "\<lambda>v. obj [(''algorithm'', PStr ''Ed25519''), (''key_id'', PStr kid), (''issuer'', PStr issuer), (''value'', v)]"
  note reads = unsigned_approval_reads [of "PStr kid" "PStr issuer" token t rdigest role i x nonce su, folded u]
  let ?s = "PStr (b64encode (ed25519_sign cr secret bytes))"
  define sg where "sg = ?sig ?s"
  have sreads: "dget sg ''algorithm'' = PStr ''Ed25519''" "dget sg ''key_id'' = PStr kid"
      "dget sg ''issuer'' = PStr issuer" "dget sg ''value'' = ?s"
      "only_keys sg [''algorithm'', ''key_id'', ''issuer'', ''value'']"
      "has_keys sg [''algorithm'', ''key_id'', ''issuer'', ''value'']"
    by (simp_all add: sg_def only_keys_def has_keys_def dhas_def dget_def dget_or_def)
  have d': "d = dset u ''signature'' (PDict sg)"
    by (simp add: d with_signature_def reads sg_def dset_def)
  have dreads: "dget d k = (if k = ''signature'' then PDict sg else dget u k)" for k by (simp add: d')
  have payload: "approval_payload cr d = Inr bytes"
    using bytes unfolding d by (subst with_signature_payload [OF reads(18)]) (simp_all add: dget_def dget_or_def)
  have sig: "sig_of d = sg" by (simp add: sig_of_def d')
  have keys: "only_keys d approval_fields"
    unfolding d' by (subst only_keys_dset) (simp_all add: u unsigned_approval_def dhas_def only_keys_def approval_fields_def)
  have "\<forall>c \<in> set (shape_checks d). c = None"
    using keys scope trimmed window_trimmed [OF window]
    by (simp add: shape_checks_def Let_def sig sreads dreads reads approval_text_def)
  moreover have "\<forall>c \<in> set (key_checks cr d key). c = None"
    using scheme key check_encoded_signed [OF scheme key(2)]
    by (auto simp: key_checks_def sig payload sreads)
  moreover have "va_target (verified_of d) = t" by (cases t) (simp add: verified_of_def d' reads)
  then have "\<forall>c \<in> set (target_checks d t rd). c = None"
    using assms(6) digest by (auto simp: target_checks_None d' reads)
  moreover have "str_of (dget (sig_of d) ''key_id'') = kid" by (simp add: sig sreads)
  ultimately have "approval_checks cr d trusted t rd clock skew = None"
    using key(1) window by (simp add: approval_checks_def first_error_None ball_Un dreads reads)
  moreover obtain expires where ex: "approval_time x = Inr expires"
    using window by (auto simp: approval_window_def window_check_None)
  moreover obtain g' where "replay_check d (Some (sql_ops now NoFault)) g = (Inr (), g')"
      "su \<longrightarrow> has_claim g' (str_of (dget d ''token_id''), str_of nonce) expires"
  proof (cases su)
    case True
    obtain xs where "x = PStr xs" using window_trimmed [OF window] by auto
    with True fresh ex that show ?thesis
      by (auto simp: replay_check_sql d' reads sql_claim_def has_claim_def)
  next
    case False
    with that [of g] show ?thesis by (simp add: replay_check_def d' reads)
  qed
  ultimately show ?thesis
    using \<open>va_target (verified_of d) = t\<close> by (simp add: verify_approval_token_def) (simp add: verified_of_def d' reads)
qed

theorem approval_sign_then_verify_witness:
  "\<exists>d va g'. sign_approval_token sample_flat ''k'' ''u'' (PStr ''key'') (PStr ''me'') PNone sample_target PNone PNone
      (PStr ''2026-01-01T00:00:00Z'') (PStr ''2026-02-01T00:00:00Z'') (PStr ''n'') True sample_clock = Inr d \<and>
    verify_approval_token sample_flat (PDict d) [(''key'', sample_key)] sample_target None
      (Some (sql_ops sample_now NoFault)) sample_clock 60 no_claims = (Inr va, g') \<and> va_target va = sample_target"
proof -
  have "\<not> isl sample_approval" by code_simp
  then obtain d where d: "sign_approval_token sample_flat ''k'' ''u'' (PStr ''key'') (PStr ''me'') PNone sample_target PNone PNone
      (PStr ''2026-01-01T00:00:00Z'') (PStr ''2026-02-01T00:00:00Z'') (PStr ''n'') True sample_clock = Inr d"
    using not_isl_ex by (auto simp: sample_approval_def)
  have w: "approval_window (PStr ''2026-01-01T00:00:00Z'') (PStr ''2026-02-01T00:00:00Z'') sample_clock 60 = None" by code_simp
  have "\<exists>va g' expires. approval_time (PStr ''2026-02-01T00:00:00Z'') = Inr expires \<and>
    verify_approval_token sample_flat (PDict d) [(''key'', sample_key)] sample_target None
      (Some (sql_ops sample_now NoFault)) sample_clock 60 no_claims = (Inr va, g') \<and>
    va_target va = sample_target \<and> va_request_digest va = PNone \<and> va_role va = PNone \<and> va_single_use va = True \<and>
    (True \<longrightarrow> has_claim g' (va_token va, va_nonce va) expires)"
    by (rule approval_sign_then_verify [OF sample_flat_scheme d _ _ _ sample_declared w])
      (simp_all add: sample_key_def sample_flat_def sample_base_def no_claims_def is_revoked_def live_claims_def, code_simp+)
  with d show ?thesis by blast
qed

text \<open>
  Revocation does not reach a reusable approval: the verification of a token whose \<^verbatim>\<open>single_use\<close> is false
  has the same outcome before and after its token id was revoked, and never reads the store.
\<close>

theorem reusable_approval_ignores_revocation:
  assumes "dget token ''single_use'' = PBool False"
  shows "fst (verify_approval_token cr (PDict token) trusted t rdigest (Some (sql_ops now fault)) clock skew
      (revoke (str_of (dget token ''token_id'')) None g)) =
    fst (verify_approval_token cr (PDict token) trusted t rdigest None clock skew g)"
  using assms by (simp add: verify_approval_token_def replay_check_def Let_def split: option.split)

definition sample_reusable :: pydict where
  "sample_reusable = (case sign_approval_token sample_flat ''k'' ''u'' (PStr ''key'') (PStr ''me'') PNone sample_target PNone PNone
     (PStr ''2026-01-01T00:00:00Z'') (PStr ''2026-02-01T00:00:00Z'') (PStr ''n'') False sample_clock of Inr d \<Rightarrow> d | Inl _ \<Rightarrow> [])"

theorem reusable_approval_ignores_revocation_witness:
  "fst (verify_approval_token sample_flat (PDict sample_reusable) [(''key'', sample_key)] sample_target None
      (Some (sql_ops 0 NoFault)) sample_clock 60 (revoke ''u'' None no_claims)) =
    fst (verify_approval_token sample_flat (PDict sample_reusable) [(''key'', sample_key)] sample_target None
      None sample_clock 60 no_claims) \<and>
   \<not> isl (fst (verify_approval_token sample_flat (PDict sample_reusable) [(''key'', sample_key)] sample_target None
      (None :: guard_state replay_ops option) sample_clock 60 no_claims))"
proof -
  have "dget sample_reusable ''single_use'' = PBool False" "str_of (dget sample_reusable ''token_id'') = ''u''"
    by code_simp+
  moreover have "\<not> isl (fst (verify_approval_token sample_flat (PDict sample_reusable) [(''key'', sample_key)] sample_target None
      (None :: guard_state replay_ops option) sample_clock 60 no_claims))" by code_simp
  ultimately show ?thesis
    using reusable_approval_ignores_revocation [of sample_reusable sample_flat "[(''key'', sample_key)]" sample_target None 0 NoFault
        sample_clock 60 no_claims] by simp
qed

end
