(* ===== verification/FanOut.thy ===== *)
theory FanOut
  imports PyTime Latch
begin

text \<open>
  The fan-out guards of \<^verbatim>\<open>delegation.py\<close>, in memory and SQLite: which child delegations are
  registered under which parent, and which delegations are revoked. Times are microseconds; locks are not
  modelled, every operation is one step. The lemmas bound the children of a parent through every history
  and show that a revoked delegation is never registered again in the shared store.
\<close>

section \<open>State\<close>

record fan_out =
  children :: "(string \<times> string \<times> int) list"
  revoked_ids :: "string list"

definition no_children :: fan_out where
  "no_children = \<lparr>children = [], revoked_ids = []\<rparr>"

definition delegation_error :: "string \<Rightarrow> exn" where
  "delegation_error code = Exc DelegationVerificationError code"

definition fan_out_error :: "string \<Rightarrow> exn" where
  "fan_out_error code = Exc FanOutError code"

definition fan_out_unavailable :: exn where
  "fan_out_unavailable = fan_out_error ''DELEGATION_FANOUT_STORE_UNAVAILABLE''"

definition delegation_time :: "pyval \<Rightarrow> int result" where
  "delegation_time v = parse_trimmed_utc ''Zz'' (delegation_error ''DELEGATION_TIMESTAMP_INVALID'') v"

definition live_children :: "int \<Rightarrow> fan_out \<Rightarrow> (string \<times> string \<times> int) list" where
  "live_children now g = filter (\<lambda>(_, _, x). now < x) (children g)"

definition count_children :: "string \<Rightarrow> (string \<times> string \<times> int) list \<Rightarrow> nat" where
  "count_children parent cs = length (filter (\<lambda>(_, p, _). p = parent) cs)"

section \<open>Operations\<close>

text \<open>The body of \<open>InMemoryFanOutGuard.reserve\<close>: the purge stays whatever the outcome.\<close>

definition mem_reserve :: "int \<Rightarrow> string \<Rightarrow> string \<Rightarrow> int \<Rightarrow> int \<Rightarrow> fan_out \<Rightarrow> bool \<times> fan_out" where
  "mem_reserve now parent child limit x g =
     (let live = live_children now g; purged = g\<lparr>children := live\<rparr> in
      case map_of live child of
        Some (p, _) \<Rightarrow> (p = parent, purged)
      | None \<Rightarrow>
          if List.member (revoked_ids g) child \<or> limit \<le> int (count_children parent live) then (False, purged)
          else (True, g\<lparr>children := (child, parent, x) # live\<rparr>))"

text \<open>The transaction of \<open>SQLiteFanOutGuard.reserve\<close>: only a registration commits.\<close>

definition sql_reserve :: "int \<Rightarrow> string \<Rightarrow> string \<Rightarrow> int \<Rightarrow> int \<Rightarrow> fan_out \<Rightarrow> bool \<times> fan_out" where
  "sql_reserve now parent child limit x g =
     (let live = live_children now g in
      if List.member (revoked_ids g) child then (False, g)
      else (case map_of live child of
          Some (p, _) \<Rightarrow> (p = parent, g)
        | None \<Rightarrow>
            if limit \<le> int (count_children parent live) then (False, g)
            else (True, g\<lparr>children := (child, parent, x) # live\<rparr>)))"

definition reserve_guards :: "int \<Rightarrow> string \<Rightarrow> int result" where
  "reserve_guards limit expires =
     (if limit < 0 then Inl (fan_out_error ''DELEGATION_LIMIT_INVALID'') else delegation_time (PStr expires))"

definition InMemory_reserve :: "int \<Rightarrow> string \<Rightarrow> string \<Rightarrow> int \<Rightarrow> string \<Rightarrow> fan_out \<Rightarrow> bool result \<times> fan_out" where
  "InMemory_reserve now parent child limit expires g = (case reserve_guards limit expires of
       Inl e \<Rightarrow> (Inl e, g)
     | Inr x \<Rightarrow> (let r = mem_reserve now parent child limit x g in (Inr (fst r), snd r)))"

definition SQLite_reserve ::
    "int \<Rightarrow> db_fault \<Rightarrow> string \<Rightarrow> string \<Rightarrow> int \<Rightarrow> string \<Rightarrow> fan_out \<Rightarrow> bool result \<times> fan_out" where
  "SQLite_reserve now fault parent child limit expires g = (case reserve_guards limit expires of
       Inl e \<Rightarrow> (Inl e, g)
     | Inr x \<Rightarrow> transact fault fan_out_unavailable (\<lambda>g. Inr (sql_reserve now parent child limit x g)) g)"

text \<open>The registered parent is looked up without regard to the expiry.\<close>

definition is_registered :: "string \<Rightarrow> string \<Rightarrow> fan_out \<Rightarrow> bool" where
  "is_registered parent child g \<longleftrightarrow>
     (case map_of (children g) child of None \<Rightarrow> False | Some (p, _) \<Rightarrow> p = parent)"

definition is_revoked_delegation :: "string \<Rightarrow> fan_out \<Rightarrow> bool" where
  "is_revoked_delegation d g \<longleftrightarrow> List.member (revoked_ids g) d"

definition revoke_delegation :: "string \<Rightarrow> fan_out \<Rightarrow> fan_out" where
  "revoke_delegation d g = g\<lparr>revoked_ids := List.insert d (revoked_ids g)\<rparr>"

definition SQLite_revoke :: "db_fault \<Rightarrow> string \<Rightarrow> fan_out \<Rightarrow> unit result \<times> fan_out" where
  "SQLite_revoke fault d = transact fault fan_out_unavailable (\<lambda>g. Inr ((), revoke_delegation d g))"

text \<open>What chain verification reads; the SQLite reads fail with the store.\<close>

record fan_ops =
  fan_registered :: "string \<Rightarrow> string \<Rightarrow> bool result"
  fan_revoked :: "string \<Rightarrow> bool result"

definition mem_fan_ops :: "fan_out \<Rightarrow> fan_ops" where
  "mem_fan_ops g = \<lparr>fan_registered = (\<lambda>p c. Inr (is_registered p c g)), fan_revoked = (\<lambda>d. Inr (is_revoked_delegation d g))\<rparr>"

definition sql_fan_ops :: "db_fault \<Rightarrow> fan_out \<Rightarrow> fan_ops" where
  "sql_fan_ops fault g = \<lparr>
     fan_registered = (\<lambda>p c. if fault \<noteq> NoFault then Inl fan_out_unavailable else Inr (is_registered p c g)),
     fan_revoked = (\<lambda>d. if fault \<noteq> NoFault then Inl fan_out_unavailable else Inr (is_revoked_delegation d g))\<rparr>"

section \<open>The contract of a guard\<close>

datatype fan_event = Reserve int string string int int | RevokeDelegation string

fun fan_step :: "(int \<Rightarrow> string \<Rightarrow> string \<Rightarrow> int \<Rightarrow> int \<Rightarrow> 's \<Rightarrow> bool \<times> 's) \<Rightarrow> (string \<Rightarrow> 's \<Rightarrow> 's)
    \<Rightarrow> fan_event \<Rightarrow> 's \<Rightarrow> 's" where
  "fan_step reserve_fn revoke_fn (Reserve now p c l x) s = snd (reserve_fn now p c l x s)"
| "fan_step reserve_fn revoke_fn (RevokeDelegation d) s = revoke_fn d s"

fun asks_within :: "string \<Rightarrow> int \<Rightarrow> fan_event \<Rightarrow> bool" where
  "asks_within p m (Reserve now q c l x) = (q = p \<longrightarrow> l \<le> m)"
| "asks_within p m (RevokeDelegation d) = True"

text \<open>
  A reservation adds at most one child, and only while the parent has fewer than the limit it is given; a
  successful one registers the child; revocations register nothing.
\<close>

locale fan_out_guard =
  fixes reserve :: "int \<Rightarrow> string \<Rightarrow> string \<Rightarrow> int \<Rightarrow> int \<Rightarrow> 's \<Rightarrow> bool \<times> 's"
    and revoke :: "string \<Rightarrow> 's \<Rightarrow> 's"
    and load :: "string \<Rightarrow> 's \<Rightarrow> nat"
    and registered :: "string \<Rightarrow> string \<Rightarrow> 's \<Rightarrow> bool"
    and ok :: "'s \<Rightarrow> bool"
  assumes reserve_load: "int (load p (snd (reserve now q c l x s))) \<le> max (int (load p s)) (if q = p then l else 0)"
    and revoke_load: "load p (revoke d s) = load p s"
    and reserve_ok: "ok s \<Longrightarrow> ok (snd (reserve now q c l x s))"
    and revoke_ok: "ok s \<Longrightarrow> ok (revoke d s)"
    and reserve_registers: "ok s \<Longrightarrow> fst (reserve now p c l x s) \<Longrightarrow> registered p c (snd (reserve now p c l x s))"
begin

lemma history_ok: "ok s \<Longrightarrow> ok (fold (fan_step reserve revoke) es s)"
proof (induction es arbitrary: s)
  case (Cons e es)
  then show ?case by (cases e) (auto simp: reserve_ok revoke_ok)
qed simp

lemma step_load: "int (load p s) \<le> m \<Longrightarrow> asks_within p m e \<Longrightarrow> int (load p (fan_step reserve revoke e s)) \<le> m"
proof (cases e)
  case (Reserve now q c l x)
  assume "int (load p s) \<le> m" "asks_within p m e"
  with Reserve have "max (int (load p s)) (if q = p then l else 0) \<le> m" by auto
  with reserve_load [of p now q c l x s] have "int (load p (snd (reserve now q c l x s))) \<le> m" by (rule order_trans)
  with Reserve show ?thesis by simp
qed (simp add: revoke_load)

lemma bounded_fan_out:
  "int (load p s) \<le> m \<Longrightarrow> list_all (asks_within p m) es \<Longrightarrow> int (load p (fold (fan_step reserve revoke) es s)) \<le> m"
  by (induction es arbitrary: s) (auto intro: step_load)

end

definition load :: "string \<Rightarrow> fan_out \<Rightarrow> nat" where
  "load p g = count_children p (children g)"

lemma count_live: "count_children p (live_children now g) \<le> load p g"
proof -
  have "length (filter Q (filter P xs)) \<le> length (filter Q xs)" for P Q and xs :: "(string \<times> string \<times> int) list"
    by (induction xs) auto
  then show ?thesis by (simp add: live_children_def count_children_def load_def)
qed

lemma count_children_Cons [simp]:
  "count_children p ((c, q, x) # cs) = (if q = p then Suc (count_children p cs) else count_children p cs)"
  by (simp add: count_children_def)

text \<open>The child is the primary key: every child has one entry.\<close>

definition one_entry :: "fan_out \<Rightarrow> bool" where
  "one_entry g \<longleftrightarrow> distinct (map fst (children g))"

lemma one_entry_live: "one_entry g \<Longrightarrow> distinct (map fst (live_children now g))"
  by (simp add: one_entry_def live_children_def distinct_map_filter)

lemma live_unset: "map_of (live_children now g) c = None \<Longrightarrow> c \<notin> fst ` set (live_children now g)"
  by (simp add: map_of_eq_None_iff)

lemma live_is_registered:
  assumes "one_entry g" "map_of (live_children now g) c = Some (p, x)"
  shows "is_registered p c g"
proof -
  have "(c, p, x) \<in> set (children g)" using map_of_SomeD [OF assms(2)] by (simp add: live_children_def)
  then have "map_of (children g) c = Some (p, x)" using assms(1) by (simp add: one_entry_def)
  then show ?thesis by (simp add: is_registered_def)
qed

interpretation mem_fan: fan_out_guard mem_reserve revoke_delegation load is_registered one_entry
proof unfold_locales
  show "int (load p (snd (mem_reserve now q c l x s))) \<le> max (int (load p s)) (if q = p then l else 0)" for p now q c l x s
    using count_live [of p now s] by (auto simp: mem_reserve_def Let_def load_def split: option.split)
  show "fst (mem_reserve now p c l x s) \<Longrightarrow> is_registered p c (snd (mem_reserve now p c l x s))" for p now c l x s
    by (auto simp: mem_reserve_def is_registered_def Let_def split: option.splits if_splits)
  show "one_entry s \<Longrightarrow> one_entry (snd (mem_reserve now q c l x s))" for s now q c l x
    using one_entry_live [of s now] live_unset [of now s c]
    by (auto simp: mem_reserve_def one_entry_def Let_def split: option.splits)
qed (simp_all add: load_def revoke_delegation_def one_entry_def)

interpretation sql_fan: fan_out_guard sql_reserve revoke_delegation load is_registered one_entry
proof unfold_locales
  show "int (load p (snd (sql_reserve now q c l x s))) \<le> max (int (load p s)) (if q = p then l else 0)" for p now q c l x s
    using count_live [of p now s] by (auto simp: sql_reserve_def Let_def load_def split: option.split)
  show "one_entry s \<Longrightarrow> fst (sql_reserve now p c l x s) \<Longrightarrow> is_registered p c (snd (sql_reserve now p c l x s))" for s p now c l x
    using live_is_registered [of s now c] by (auto simp: sql_reserve_def Let_def split: option.splits if_splits)
      (auto simp: is_registered_def)
  show "one_entry s \<Longrightarrow> one_entry (snd (sql_reserve now q c l x s))" for s now q c l x
    using one_entry_live [of s now] live_unset [of now s c]
    by (auto simp: sql_reserve_def one_entry_def Let_def split: option.splits)
qed (simp_all add: load_def revoke_delegation_def one_entry_def)

text \<open>Revocation is final in both guards, and the SQLite guard registers no revoked child again.\<close>

fun registers :: "string \<Rightarrow> fan_event \<Rightarrow> fan_out \<Rightarrow> bool" where
  "registers d (Reserve now p c l x) g = (c = d \<and> fst (sql_reserve now p c l x g))"
| "registers d (RevokeDelegation e) g = False"

interpretation revoked_child: latch "fan_step sql_reserve revoke_delegation" "registers d" "is_revoked_delegation d" "\<lambda>e. False" for d
proof unfold_locales
  show "\<not> registers d e g" if "is_revoked_delegation d g" for e g
    using that by (cases "(d, e, g)" rule: registers.cases) (auto simp: sql_reserve_def is_revoked_delegation_def)
  show "is_revoked_delegation d (fan_step sql_reserve revoke_delegation e g)" if "is_revoked_delegation d g" for e g
    using that by (cases e) (auto simp: sql_reserve_def is_revoked_delegation_def revoke_delegation_def Let_def split: option.splits)
qed

section \<open>Properties\<close>

text \<open>
  C23. Fan-out is bounded: through every history of reservations, at any times and by any workers, and
  revocations, a parent whose reservations all ask for at most \<open>m\<close> children never has more than \<open>m\<close>
  registered; and an answer of true means the child is registered under that parent.
\<close>

theorem fan_out_bounded:
  assumes "list_all (asks_within p m) es" "0 \<le> m" "g = fold (fan_step sql_reserve revoke_delegation) es no_children"
  shows "int (load p g) \<le> m \<and>
    (fst (SQLite_reserve now fault p c limit ex g) = Inr True \<longrightarrow>
       is_registered p c (snd (SQLite_reserve now fault p c limit ex g)))"
proof -
  have "int (load p g) \<le> m"
    using sql_fan.bounded_fan_out [of p no_children m es] assms by (simp add: load_def no_children_def count_children_def)
  moreover have ok: "one_entry g"
    using sql_fan.history_ok [of no_children es] assms(3) by (simp add: one_entry_def no_children_def)
  moreover have "is_registered p c (snd (SQLite_reserve now fault p c limit ex g))"
    if t: "fst (SQLite_reserve now fault p c limit ex g) = Inr True"
  proof -
    obtain g' where g': "SQLite_reserve now fault p c limit ex g = (Inr True, g')"
      using t by (metis prod.collapse)
    then obtain x where "sql_reserve now p c limit x g = (True, g')"
      by (cases "reserve_guards limit ex") (auto simp: SQLite_reserve_def transact_Inr)
    with g' sql_fan.reserve_registers [OF ok, of now p c limit x] show ?thesis by simp
  qed
  ultimately show ?thesis by blast
qed

theorem fan_out_bounded_witness:
  "int (load ''p'' (fold (fan_step sql_reserve revoke_delegation)
      [Reserve 0 ''p'' ''a'' 1 9, Reserve 1 ''p'' ''b'' 1 9, RevokeDelegation ''a'', Reserve 10 ''p'' ''b'' 1 20] no_children)) \<le> 1"
proof -
  have "list_all (asks_within ''p'' 1)
      [Reserve 0 ''p'' ''a'' 1 9, Reserve 1 ''p'' ''b'' 1 9, RevokeDelegation ''a'', Reserve 10 ''p'' ''b'' 1 20]" by simp
  from fan_out_bounded [OF this _ refl] show ?thesis by simp
qed

text \<open>
  The guards differ on a revoked child that is still registered: the in-memory guard confirms it, the
  SQLite guard refuses it.
\<close>

theorem guards_differ_on_revoked_child:
  "fst (mem_reserve 1 ''p'' ''c'' 1 9 \<lparr>children = [(''c'', ''p'', 9)], revoked_ids = [''c'']\<rparr>) \<and>
   \<not> fst (sql_reserve 1 ''p'' ''c'' 1 9 \<lparr>children = [(''c'', ''p'', 9)], revoked_ids = [''c'']\<rparr>)"
  by (simp add: mem_reserve_def sql_reserve_def live_children_def)

end
