(* ===== verification/Delegation.thy ===== *)
theory Delegation
  imports SignedObjects FanOut
begin

text \<open>
  Signed delegations of \<^verbatim>\<open>delegation.py\<close>: the checks of the fields, the keys, and the signing and the verification
  of one token. What they promise is shown for whole chains in \<open>DelegationChain\<close>.
\<close>

section \<open>Fields\<close>

definition delegation_text :: "pyval \<Rightarrow> check" where
  "delegation_text v = require (trimmed_str v) (delegation_error ''DELEGATION_FIELD_INVALID'')"

definition delegation_optional :: "pyval \<Rightarrow> check" where
  "delegation_optional v = (if v = PNone then None else delegation_text v)"

definition identity_pair :: "pyval \<Rightarrow> pyval \<Rightarrow> check list" where
  "identity_pair deployment workload =
     [require ((deployment = PNone) = (workload = PNone)) (delegation_error ''DELEGATION_IDENTITY_INVALID''),
      delegation_optional deployment, delegation_optional workload]"

definition delegation_window :: "pyval \<Rightarrow> pyval \<Rightarrow> datetime \<Rightarrow> int \<Rightarrow> check" where
  "delegation_window issued_at expires_at clock skew =
     window_check (delegation_error ''DELEGATION_WINDOW_INVALID'') (delegation_error ''DELEGATION_NOT_YET_VALID'')
       (delegation_error ''DELEGATION_EXPIRED'') (delegation_time issued_at) (delegation_time expires_at) clock skew"

text \<open>\<open>_scope_list\<close>: the elements of a list or a tuple, each a trimmed string, none twice, sorted.\<close>

definition scope_list :: "pyval \<Rightarrow> string list result" where
  "scope_list v =
     (let bad = delegation_error ''DELEGATION_FIELD_INVALID'' in
      case (case v of PList vs \<Rightarrow> Some vs | PTuple vs \<Rightarrow> Some vs | _ \<Rightarrow> None) of
        None \<Rightarrow> Inl bad
      | Some vs \<Rightarrow> guarded (map delegation_text vs @ [require (vs \<noteq> []) bad, require (distinct (map str_of vs)) bad])
                    (sort (map str_of vs)))"

definition delegation_limits :: "pyval \<Rightarrow> pyval \<Rightarrow> pyval \<Rightarrow> pyval \<Rightarrow> (int \<times> int \<times> int) result" where
  "delegation_limits depth max_depth max_fan_out parent =
     (let bad = delegation_error ''DELEGATION_LIMIT_INVALID''; chain = delegation_error ''DELEGATION_CHAIN_INVALID'';
          count = (\<lambda>v. case plain_int v of None \<Rightarrow> - 1 | Some n \<Rightarrow> n) in
      guarded
        [require (0 \<le> count depth) bad, require (0 \<le> count max_depth) bad, require (0 \<le> count max_fan_out) bad,
         require (count depth \<le> count max_depth) bad,
         require (parent \<noteq> PNone \<or> count depth = 0) chain,
         require (parent = PNone \<or> count depth \<noteq> 0) chain]
        (count depth, count max_depth, count max_fan_out))"

definition delegation_payload :: "crypto \<Rightarrow> pydict \<Rightarrow> string result" where
  "delegation_payload cr token = signed_payload cr ''hlinor/agent-delegation/v1''
     (delegation_error ''DELEGATION_SIGNATURE_INVALID'') (delegation_error ''DELEGATION_CANONICALIZATION_FAILED'') token"

section \<open>Keys and verified facts\<close>

record delegation_key =
  dk_id :: string
  dk_agent :: string
  dk_public :: string
  dk_issuer :: "string option"
  dk_deployment :: "string option"
  dk_workload :: "string option"

record verified_delegation =
  vd_id :: string
  vd_issuer_agent :: string
  vd_subject :: string
  vd_audience :: string
  vd_actions :: "string list"
  vd_resources :: "string list"
  vd_session :: pyval
  vd_tenant :: pyval
  vd_project :: pyval
  vd_workspace :: pyval
  vd_parent :: pyval
  vd_depth :: int
  vd_max_depth :: int
  vd_max_fan_out :: int
  vd_issued_at :: string
  vd_expires_at :: string
  vd_nonce :: string
  vd_key :: string
  vd_issuer :: string
  vd_deployment :: "string option"
  vd_workload :: "string option"

definition delegation_signal :: "verified_delegation \<Rightarrow> pyval" where
  "delegation_signal d = PDict (obj
     [(''delegation_id'', PStr (vd_id d)), (''issuer_agent_id'', PStr (vd_issuer_agent d)),
      (''subject_agent_id'', PStr (vd_subject d)), (''audience'', PStr (vd_audience d)),
      (''deployment_identity'', opt_str (vd_deployment d)), (''workload_identity'', opt_str (vd_workload d)),
      (''verified'', PBool True)])"

definition identity_binding ::
    "delegation_key \<Rightarrow> pyval \<Rightarrow> pyval \<Rightarrow> string option \<Rightarrow> string option \<Rightarrow> bool \<Rightarrow> check list" where
  "identity_binding key deployment workload expected_deployment expected_workload bound =
     (let mismatch = delegation_error ''DELEGATION_IDENTITY_MISMATCH'' in
      identity_pair (opt_str (dk_deployment key)) (opt_str (dk_workload key))
      @ [require (\<not> bound \<or> (dk_deployment key \<noteq> None \<and> dk_workload key \<noteq> None \<and> deployment \<noteq> PNone \<and> workload \<noteq> PNone))
           (delegation_error ''DELEGATION_IDENTITY_UNBOUND''),
         require (dk_deployment key = None \<or>
             (deployment = opt_str (dk_deployment key) \<and> workload = opt_str (dk_workload key))) mismatch,
         require (expected_deployment = None \<or>
             (dk_deployment key = expected_deployment \<and> dk_workload key = expected_workload)) mismatch])"

section \<open>Signing\<close>

record delegation_request =
  dr_issuer_agent :: pyval
  dr_subject :: pyval
  dr_audience :: pyval
  dr_actions :: pyval
  dr_resources :: pyval
  dr_session :: pyval
  dr_tenant :: pyval
  dr_project :: pyval
  dr_workspace :: pyval
  dr_parent :: pyval
  dr_depth :: pyval
  dr_max_depth :: pyval
  dr_max_fan_out :: pyval
  dr_deployment :: pyval
  dr_workload :: pyval

definition unsigned_delegation ::
    "pyval \<Rightarrow> pyval \<Rightarrow> pyval \<Rightarrow> delegation_request \<Rightarrow> string list \<Rightarrow> string list \<Rightarrow> pyval \<Rightarrow> pyval \<Rightarrow> pyval \<Rightarrow> pydict" where
  "unsigned_delegation key issuer did r actions resources issued_at expires_at nonce = obj
     [(''schema_version'', PStr ''1.0''), (''delegation_id'', did), (''issuer_agent_id'', dr_issuer_agent r),
      (''subject_agent_id'', dr_subject r), (''audience'', dr_audience r),
      (''allowed_actions'', PList (map PStr actions)), (''allowed_resource_scopes'', PList (map PStr resources)),
      (''session_id'', dr_session r), (''tenant_id'', dr_tenant r), (''project_id'', dr_project r),
      (''workspace_id'', dr_workspace r), (''parent_delegation_id'', dr_parent r), (''delegation_depth'', dr_depth r),
      (''max_depth'', dr_max_depth r), (''max_fan_out'', dr_max_fan_out r), (''issued_at'', issued_at),
      (''expires_at'', expires_at), (''nonce'', nonce), (''issuer_deployment_identity'', dr_deployment r),
      (''issuer_workload_identity'', dr_workload r),
      (''signature'', PDict (obj [(''algorithm'', PStr ''Ed25519''), (''key_id'', key), (''issuer'', issuer),
         (''value'', PStr [])]))]"

text \<open>\<open>uuid\<close> is the fresh id used when none is given.\<close>

definition sign_delegation_token ::
    "crypto \<Rightarrow> string \<Rightarrow> string \<Rightarrow> pyval \<Rightarrow> pyval \<Rightarrow> pyval \<Rightarrow> delegation_request \<Rightarrow> pyval \<Rightarrow> pyval \<Rightarrow> pyval
     \<Rightarrow> datetime \<Rightarrow> pydict result" where
  "sign_delegation_token cr secret uuid key issuer delegation_id r issued_at expires_at nonce clock =
     (let did = (if delegation_id = PNone then PStr uuid else delegation_id) in
      after (first_error (map delegation_text [key, issuer, dr_issuer_agent r, dr_subject r, dr_audience r, nonce]
          @ identity_pair (dr_deployment r) (dr_workload r)
          @ [require (\<not> py_eq (dr_issuer_agent r) (dr_subject r)) (delegation_error ''DELEGATION_CHAIN_INVALID'')]
          @ map delegation_optional [dr_session r, dr_tenant r, dr_project r, dr_workspace r, dr_parent r]
          @ [delegation_text did]))
      (bindE (scope_list (dr_actions r)) (\<lambda>actions.
       bindE (scope_list (dr_resources r)) (\<lambda>resources.
       bindE (delegation_limits (dr_depth r) (dr_max_depth r) (dr_max_fan_out r) (dr_parent r)) (\<lambda>limits.
       after (delegation_window issued_at expires_at clock 0)
       (let d = unsigned_delegation key issuer did r actions resources issued_at expires_at nonce in
        bindE (delegation_payload cr d) (\<lambda>bytes. Inr (with_signature d (ed25519_sign cr secret bytes)))))))))"

section \<open>Verifying one token\<close>

text \<open>What the caller expects; \<open>None\<close> is not compared.\<close>

record delegation_context =
  dc_audience :: string
  dc_subject :: "string option"
  dc_session :: "string option"
  dc_tenant :: "string option"
  dc_project :: "string option"
  dc_workspace :: "string option"
  dc_deployment :: "string option"
  dc_workload :: "string option"
  dc_bound :: bool

definition delegation_fields :: "string list" where
  "delegation_fields = [''schema_version'', ''delegation_id'', ''issuer_agent_id'', ''subject_agent_id'', ''audience'',
     ''allowed_actions'', ''allowed_resource_scopes'', ''session_id'', ''tenant_id'', ''project_id'', ''workspace_id'',
     ''parent_delegation_id'', ''delegation_depth'', ''max_depth'', ''max_fan_out'', ''issued_at'', ''expires_at'',
     ''nonce'', ''issuer_deployment_identity'', ''issuer_workload_identity'', ''signature'']"

definition delegation_shape :: "pydict \<Rightarrow> check list" where
  "delegation_shape token =
     [require (only_keys token delegation_fields) (delegation_error ''DELEGATION_INVALID''),
      require (dget token ''schema_version'' = PStr ''1.0'') (delegation_error ''DELEGATION_VERSION_UNSUPPORTED'')]
     @ map (\<lambda>f. delegation_text (dget token f))
         [''delegation_id'', ''issuer_agent_id'', ''subject_agent_id'', ''audience'', ''issued_at'', ''expires_at'', ''nonce'']
     @ [require (dget token ''issuer_agent_id'' \<noteq> dget token ''subject_agent_id'') (delegation_error ''DELEGATION_CHAIN_INVALID''),
        check_of (scope_list (dget token ''allowed_actions'')), check_of (scope_list (dget token ''allowed_resource_scopes'')),
        delegation_optional (dget token ''parent_delegation_id'')]"

definition limits_of :: "pydict \<Rightarrow> (int \<times> int \<times> int) result" where
  "limits_of token = delegation_limits (dget token ''delegation_depth'') (dget token ''max_depth'')
     (dget token ''max_fan_out'') (dget token ''parent_delegation_id'')"

definition context_checks :: "pydict \<Rightarrow> delegation_context \<Rightarrow> check list" where
  "context_checks token ctx =
     map (\<lambda>(f, e). require (e = None \<or> dget token f = opt_str e) (delegation_error ''DELEGATION_CONTEXT_MISMATCH''))
       [(''audience'', Some (dc_audience ctx)), (''subject_agent_id'', dc_subject ctx), (''session_id'', dc_session ctx),
        (''tenant_id'', dc_tenant ctx), (''project_id'', dc_project ctx), (''workspace_id'', dc_workspace ctx)]"

definition delegation_key_checks :: "crypto \<Rightarrow> pydict \<Rightarrow> delegation_key \<Rightarrow> delegation_context \<Rightarrow> check list" where
  "delegation_key_checks cr token key ctx =
     [require (dget token ''issuer_agent_id'' = PStr (dk_agent key)) (delegation_error ''DELEGATION_ISSUER_UNBOUND'')]
     @ identity_binding key (dget token ''issuer_deployment_identity'') (dget token ''issuer_workload_identity'')
         (dc_deployment ctx) (dc_workload ctx) (dc_bound ctx)
     @ [require (dk_issuer key = None \<or> dget (sig_of token) ''issuer'' = opt_str (dk_issuer key))
          (delegation_error ''DELEGATION_ISSUER_INVALID''),
        encoded_signature cr (dk_public key) (delegation_error ''DELEGATION_SIGNATURE_INVALID'')
          (dget (sig_of token) ''value'') (delegation_payload cr token)]"

definition result_or :: "'a \<Rightarrow> 'a result \<Rightarrow> 'a" where
  "result_or d r = (case r of Inl _ \<Rightarrow> d | Inr x \<Rightarrow> x)"

definition verified_delegation_of :: "pydict \<Rightarrow> delegation_key \<Rightarrow> verified_delegation" where
  "verified_delegation_of token key =
     (let s = (\<lambda>f. str_of (dget token f)); limits = result_or (0, 0, 0) (limits_of token) in
      \<lparr>vd_id = s ''delegation_id'', vd_issuer_agent = s ''issuer_agent_id'', vd_subject = s ''subject_agent_id'',
       vd_audience = s ''audience'', vd_actions = result_or [] (scope_list (dget token ''allowed_actions'')),
       vd_resources = result_or [] (scope_list (dget token ''allowed_resource_scopes'')),
       vd_session = dget token ''session_id'', vd_tenant = dget token ''tenant_id'', vd_project = dget token ''project_id'',
       vd_workspace = dget token ''workspace_id'', vd_parent = dget token ''parent_delegation_id'',
       vd_depth = fst limits, vd_max_depth = fst (snd limits), vd_max_fan_out = snd (snd limits),
       vd_issued_at = s ''issued_at'', vd_expires_at = s ''expires_at'', vd_nonce = s ''nonce'',
       vd_key = str_of (dget (sig_of token) ''key_id''), vd_issuer = str_of (dget (sig_of token) ''issuer''),
       vd_deployment = dk_deployment key, vd_workload = dk_workload key\<rparr>)"

definition token_checks :: "pydict \<Rightarrow> delegation_context \<Rightarrow> check list" where
  "token_checks token ctx =
     delegation_shape token
     @ identity_pair (dget token ''issuer_deployment_identity'') (dget token ''issuer_workload_identity'')
     @ identity_pair (opt_str (dc_deployment ctx)) (opt_str (dc_workload ctx))
     @ [check_of (limits_of token)] @ context_checks token ctx
     @ signature_shape delegation_error ''DELEGATION_SIGNATURE_INVALID'' delegation_text token"

definition verify_delegation_token ::
    "crypto \<Rightarrow> pyval \<Rightarrow> (string \<times> delegation_key) list \<Rightarrow> delegation_context \<Rightarrow> datetime \<Rightarrow> int
     \<Rightarrow> verified_delegation result" where
  "verify_delegation_token cr v keys ctx clock skew = (case v of
       PDict token \<Rightarrow> after (first_error (token_checks token ctx))
         (case map_of keys (str_of (dget (sig_of token) ''key_id'')) of
            None \<Rightarrow> Inl (delegation_error ''DELEGATION_KEY_UNTRUSTED'')
          | Some key \<Rightarrow> guarded (delegation_key_checks cr token key ctx
                @ [delegation_window (dget token ''issued_at'') (dget token ''expires_at'') clock skew])
              (verified_delegation_of token key))
     | _ \<Rightarrow> Inl (delegation_error ''DELEGATION_INVALID''))"

end
