(* ===== verification/DelegationChain.thy ===== *)
theory DelegationChain
  imports Delegation ReplayGuard
begin

text \<open>
  The composition of delegations in \<^verbatim>\<open>delegation.py\<close>: the parent-child link, the reservation of a
  child, and the verification of a chain from its root to its leaf. The lemmas show that authority only
  shrinks along a verified chain and that a revoked delegation breaks every chain through it.
\<close>

section \<open>Links\<close>

definition child_link :: "verified_delegation \<Rightarrow> verified_delegation \<Rightarrow> check list" where
  "child_link parent child =
     [require (vd_parent child = PStr (vd_id parent)) (delegation_error ''DELEGATION_CHAIN_INVALID''),
      require (vd_issuer_agent child = vd_subject parent) (delegation_error ''DELEGATION_ISSUER_INVALID''),
      require (vd_depth child = vd_depth parent + 1) (delegation_error ''DELEGATION_CHAIN_INVALID''),
      require (vd_max_depth child \<le> vd_max_depth parent) (delegation_error ''DELEGATION_SCOPE_ESCALATION''),
      require (vd_audience child = vd_audience parent) (delegation_error ''DELEGATION_CONTEXT_MISMATCH'')]
     @ map (\<lambda>f. require (py_eq (f child) (f parent)) (delegation_error ''DELEGATION_CONTEXT_MISMATCH''))
         [vd_session, vd_tenant, vd_project, vd_workspace]
     @ [require (set (vd_actions child) \<subseteq> set (vd_actions parent)) (delegation_error ''DELEGATION_SCOPE_ESCALATION''),
        require (set (vd_resources child) \<subseteq> set (vd_resources parent)) (delegation_error ''DELEGATION_SCOPE_ESCALATION'')]"

text \<open>\<open>reserve\<close> is the guard's operation, applied to parent, child, limit and expiry.\<close>

definition reserve_delegation_child ::
    "verified_delegation \<Rightarrow> verified_delegation \<Rightarrow> (string \<Rightarrow> string \<Rightarrow> int \<Rightarrow> string \<Rightarrow> 's \<Rightarrow> bool result \<times> 's)
     \<Rightarrow> 's \<Rightarrow> unit result \<times> 's" where
  "reserve_delegation_child parent child reserve g = (case first_error (child_link parent child) of
       Some e \<Rightarrow> (Inl e, g)
     | None \<Rightarrow> (let r = reserve (vd_id parent) (vd_id child) (vd_max_fan_out parent) (vd_expires_at child) g in
         (bindE (fst r) (\<lambda>b. if b then Inr () else Inl (fan_out_error ''DELEGATION_FANOUT_EXCEEDED'')), snd r)))"

section \<open>Chains\<close>

definition refuse_if :: "bool result \<Rightarrow> bool \<Rightarrow> exn \<Rightarrow> check" where
  "refuse_if r b e = (case r of Inl e' \<Rightarrow> Some e' | Inr x \<Rightarrow> require (x \<noteq> b) e)"

definition position_checks :: "fan_ops option \<Rightarrow> verified_delegation list \<Rightarrow> verified_delegation \<Rightarrow> check list" where
  "position_checks guard verified cur =
     [require (vd_id cur \<notin> set (map vd_id verified)) (delegation_error ''DELEGATION_CHAIN_INVALID''),
      (case guard of None \<Rightarrow> None
       | Some ops \<Rightarrow> refuse_if (fan_revoked ops (vd_id cur)) True (delegation_error ''DELEGATION_REVOKED''))]
     @ (if verified = [] then
          [require (vd_parent cur = PNone \<and> vd_depth cur = 0) (delegation_error ''DELEGATION_CHAIN_INVALID'')]
        else child_link (last verified) cur
          @ [(case guard of
                None \<Rightarrow> Some (delegation_error ''DELEGATION_FANOUT_GUARD_REQUIRED'')
              | Some ops \<Rightarrow> refuse_if (fan_registered ops (vd_id (last verified)) (vd_id cur)) False
                  (delegation_error ''DELEGATION_FANOUT_UNREGISTERED''))])"

text \<open>The subject and the workload identity are compared at the leaf only.\<close>

definition inner_context :: "delegation_context \<Rightarrow> delegation_context" where
  "inner_context ctx = ctx\<lparr>dc_subject := None, dc_deployment := None, dc_workload := None\<rparr>"

fun verify_links ::
    "crypto \<Rightarrow> (string \<times> delegation_key) list \<Rightarrow> delegation_context \<Rightarrow> fan_ops option \<Rightarrow> datetime \<Rightarrow> int
     \<Rightarrow> verified_delegation list \<Rightarrow> pyval list \<Rightarrow> verified_delegation list result" where
  "verify_links cr keys ctx guard clock skew verified [] = Inr verified"
| "verify_links cr keys ctx guard clock skew verified (v # vs) =
     bindE (verify_delegation_token cr v keys (if vs = [] then ctx else inner_context ctx) clock skew) (\<lambda>cur.
       after (first_error (position_checks guard verified cur))
         (verify_links cr keys ctx guard clock skew (verified @ [cur]) vs))"

definition sequence_of :: "pyval \<Rightarrow> pyval list option" where
  "sequence_of v = (case v of PList vs \<Rightarrow> Some vs | PTuple vs \<Rightarrow> Some vs | _ \<Rightarrow> None)"

definition verify_delegation_chain ::
    "crypto \<Rightarrow> pyval \<Rightarrow> (string \<times> delegation_key) list \<Rightarrow> delegation_context \<Rightarrow> string option \<Rightarrow> string option
     \<Rightarrow> fan_ops option \<Rightarrow> datetime \<Rightarrow> int \<Rightarrow> int \<Rightarrow> verified_delegation list result" where
  "verify_delegation_chain cr ch keys ctx act res guard clock skew max_length =
     (case sequence_of ch of
        None \<Rightarrow> Inl (delegation_error ''DELEGATION_CHAIN_INVALID'')
      | Some vs \<Rightarrow> after (first_error
            [require (vs \<noteq> []) (delegation_error ''DELEGATION_CHAIN_INVALID''),
             require (1 \<le> max_length) (Exc ValueError ''max_chain_length''),
             require (int (length vs) \<le> max_length) (delegation_error ''DELEGATION_CHAIN_TOO_DEEP'')])
          (bindE (verify_links cr keys ctx guard clock skew [] vs) (\<lambda>ds. guarded
             [require (case act of None \<Rightarrow> True | Some a \<Rightarrow> a \<in> set (vd_actions (last ds)))
                (delegation_error ''DELEGATION_ACTION_NOT_ALLOWED''),
              require (case res of None \<Rightarrow> True | Some r \<Rightarrow> r \<in> set (vd_resources (last ds)))
                (delegation_error ''DELEGATION_RESOURCE_NOT_ALLOWED'')] ds)))"

section \<open>What a verified chain establishes\<close>

text \<open>The authority of a child is within that of its parent.\<close>

definition attenuates :: "verified_delegation \<Rightarrow> verified_delegation \<Rightarrow> bool" where
  "attenuates parent child \<longleftrightarrow>
     set (vd_actions child) \<subseteq> set (vd_actions parent) \<and> set (vd_resources child) \<subseteq> set (vd_resources parent) \<and>
     vd_max_depth child \<le> vd_max_depth parent \<and> vd_audience child = vd_audience parent"

definition linked :: "verified_delegation \<Rightarrow> verified_delegation \<Rightarrow> bool" where
  "linked parent child \<longleftrightarrow> attenuates parent child \<and> vd_parent child = PStr (vd_id parent) \<and>
     vd_issuer_agent child = vd_subject parent \<and> vd_depth child = vd_depth parent + 1"

definition ops_register :: "fan_ops option \<Rightarrow> verified_delegation \<Rightarrow> verified_delegation \<Rightarrow> bool" where
  "ops_register guard parent child \<longleftrightarrow>
     (case guard of None \<Rightarrow> False | Some ops \<Rightarrow> fan_registered ops (vd_id parent) (vd_id child) = Inr True)"

definition not_revoked :: "fan_ops option \<Rightarrow> verified_delegation \<Rightarrow> bool" where
  "not_revoked guard d \<longleftrightarrow> (case guard of None \<Rightarrow> True | Some ops \<Rightarrow> fan_revoked ops (vd_id d) = Inr False)"

text \<open>A token is signed by a trusted key bound to its issuing agent, and is inside its window.\<close>

definition authentic ::
    "crypto \<Rightarrow> (string \<times> delegation_key) list \<Rightarrow> datetime \<Rightarrow> int \<Rightarrow> pyval \<Rightarrow> verified_delegation \<Rightarrow> bool" where
  "authentic cr keys clock skew v d \<longleftrightarrow> (\<exists>token key bytes signature. v = PDict token \<and>
     map_of keys (vd_key d) = Some key \<and> dk_agent key = vd_issuer_agent d \<and> d = verified_delegation_of token key \<and>
     delegation_payload cr token = Inr bytes \<and> ed25519_verify cr (dk_public key) bytes signature \<and>
     delegation_window (dget token ''issued_at'') (dget token ''expires_at'') clock skew = None)"

lemma refuse_if_None [simp]: "refuse_if r b e = None \<longleftrightarrow> (\<exists>x. r = Inr x \<and> x \<noteq> b)"
  by (auto simp: refuse_if_def split: sum.splits)

lemma child_link_None: "(\<forall>c \<in> set (child_link p c'). c = None) \<Longrightarrow> linked p c'"
  by (auto simp: child_link_def linked_def attenuates_def)

lemma verify_token_authentic:
  assumes "verify_delegation_token cr v keys ctx clock skew = Inr d"
  shows "authentic cr keys clock skew v d"
proof (cases v)
  case (PDict token)
  with assms obtain key where key: "map_of keys (str_of (dget (sig_of token) ''key_id'')) = Some key"
    and checks: "\<forall>c \<in> set (delegation_key_checks cr token key ctx). c = None"
    and window: "delegation_window (dget token ''issued_at'') (dget token ''expires_at'') clock skew = None"
    and d: "d = verified_delegation_of token key"
    by (auto simp: verify_delegation_token_def split: option.splits)
  have "\<exists>bytes signature. delegation_payload cr token = Inr bytes \<and> ed25519_verify cr (dk_public key) bytes signature"
    using checks by (intro encoded_signature_None) (auto simp: delegation_key_checks_def)
  moreover have "dk_agent key = vd_issuer_agent d"
    using checks by (simp add: delegation_key_checks_def d verified_delegation_of_def Let_def)
  moreover have "vd_key d = str_of (dget (sig_of token) ''key_id'')" by (simp add: d verified_delegation_of_def Let_def)
  ultimately show ?thesis using PDict key window d unfolding authentic_def by auto
qed (use assms in \<open>auto simp: verify_delegation_token_def\<close>)

definition good_chain :: "fan_ops option \<Rightarrow> verified_delegation list \<Rightarrow> bool" where
  "good_chain guard ds \<longleftrightarrow>
     distinct (map vd_id ds) \<and> list_all (not_revoked guard) ds \<and>
     successively (\<lambda>p c. linked p c \<and> ops_register guard p c) ds \<and>
     (ds \<noteq> [] \<longrightarrow> vd_parent (hd ds) = PNone \<and> vd_depth (hd ds) = 0)"

lemma position_checks_good:
  assumes "good_chain guard ds" "first_error (position_checks guard ds d) = None"
  shows "good_chain guard (ds @ [d])"
proof (cases "ds = []")
  case True
  with assms(2) show ?thesis
    by (auto simp: good_chain_def position_checks_def first_error_None not_revoked_def split: option.splits)
next
  case False
  have "linked (last ds) d"
    using assms(2) False by (intro child_link_None) (auto simp: position_checks_def first_error_None)
  moreover have "ops_register guard (last ds) d" "not_revoked guard d" "vd_id d \<notin> set (map vd_id ds)"
    using assms(2) False
    by (auto simp: position_checks_def first_error_None ops_register_def not_revoked_def split: option.splits)
  ultimately show ?thesis
    using assms(1) False by (simp add: good_chain_def successively_append_iff)
qed

lemma verify_links_good:
  assumes "verify_links cr keys ctx guard clock skew acc vs = Inr ds" "good_chain guard acc"
  shows "good_chain guard ds \<and> (\<exists>new. ds = acc @ new \<and> list_all2 (authentic cr keys clock skew) vs new)"
  using assms
proof (induction vs arbitrary: acc)
  case (Cons v vs)
  obtain cur where cur: "verify_delegation_token cr v keys (if vs = [] then ctx else inner_context ctx) clock skew = Inr cur"
    and pos: "first_error (position_checks guard acc cur) = None"
    and rest: "verify_links cr keys ctx guard clock skew (acc @ [cur]) vs = Inr ds"
    using Cons.prems(1) by auto
  obtain new where "good_chain guard ds" "ds = (acc @ [cur]) @ new" "list_all2 (authentic cr keys clock skew) vs new"
    using Cons.IH [OF rest position_checks_good [OF Cons.prems(2) pos]] by blast
  then show ?case using verify_token_authentic [OF cur] by (intro conjI exI [of _ "cur # new"]) simp_all
qed simp

lemma linked_attenuates: "linked p c \<Longrightarrow> attenuates p c"
  by (simp add: linked_def)

lemma attenuates_trans: "attenuates a b \<Longrightarrow> attenuates b c \<Longrightarrow> attenuates a c"
  by (auto simp: attenuates_def)

lemma chain_attenuates:
  assumes "successively (\<lambda>p c. linked p c \<and> ops_register guard p c) ds" "d \<in> set ds"
  shows "attenuates d (last ds)"
  using assms
proof (induction ds arbitrary: d rule: rev_induct)
  case (snoc x ds)
  show ?case
  proof (cases "d = x")
    case True
    then show ?thesis by (simp add: attenuates_def)
  next
    case False
    with snoc.prems have d: "d \<in> set ds" "ds \<noteq> []" by auto
    with snoc.prems(1) have "successively (\<lambda>p c. linked p c \<and> ops_register guard p c) ds" "linked (last ds) x"
      by (auto simp: successively_append_iff)
    with snoc.IH [of d] d(1) have "attenuates d x" by (blast intro: attenuates_trans linked_attenuates)
    then show ?thesis by simp
  qed
qed simp

lemma chain_depth:
  assumes "successively (\<lambda>p c. linked p c \<and> ops_register guard p c) ds" "ds \<noteq> []"
  shows "vd_depth (last ds) = vd_depth (hd ds) + int (length ds) - 1"
  using assms
proof (induction ds rule: rev_induct)
  case (snoc x ds)
  then show ?case by (cases "ds = []") (auto simp: successively_append_iff linked_def)
qed simp

lemma verify_chain_Inr:
  assumes "verify_delegation_chain cr ch keys ctx act res guard clock skew max_length = Inr ds"
  obtains vs where "sequence_of ch = Some vs" "vs \<noteq> []" "int (length vs) \<le> max_length"
    "verify_links cr keys ctx guard clock skew [] vs = Inr ds" "good_chain guard ds"
    "list_all2 (authentic cr keys clock skew) vs ds"
    "\<forall>a. act = Some a \<longrightarrow> a \<in> set (vd_actions (last ds))" "\<forall>r. res = Some r \<longrightarrow> r \<in> set (vd_resources (last ds))"
proof -
  obtain vs where vs: "sequence_of ch = Some vs" using assms by (auto simp: verify_delegation_chain_def split: option.splits)
  then have l: "verify_links cr keys ctx guard clock skew [] vs = Inr ds"
    and c: "vs \<noteq> []" "int (length vs) \<le> max_length"
    and e: "case act of None \<Rightarrow> True | Some a \<Rightarrow> a \<in> set (vd_actions (last ds))"
      "case res of None \<Rightarrow> True | Some r \<Rightarrow> r \<in> set (vd_resources (last ds))"
    using assms by (auto simp: verify_delegation_chain_def first_error_None)
  have "good_chain guard ds \<and> (\<exists>new. ds = [] @ new \<and> list_all2 (authentic cr keys clock skew) vs new)"
    by (rule verify_links_good [OF l]) (simp add: good_chain_def)
  then have "good_chain guard ds" "list_all2 (authentic cr keys clock skew) vs ds" by auto
  with vs c l show thesis by (rule that) (use e in auto)
qed

section \<open>A sample chain\<close>

definition sample_request_of :: "string \<Rightarrow> string \<Rightarrow> string list \<Rightarrow> pyval \<Rightarrow> int \<Rightarrow> int \<Rightarrow> delegation_request" where
  "sample_request_of iss sub acts parent depth fan = \<lparr>dr_issuer_agent = PStr iss, dr_subject = PStr sub, dr_audience = PStr ''api'',
     dr_actions = PList (map PStr acts), dr_resources = PList [PStr ''r''], dr_session = PNone, dr_tenant = PNone,
     dr_project = PNone, dr_workspace = PNone, dr_parent = parent, dr_depth = PInt depth, dr_max_depth = PInt 1,
     dr_max_fan_out = PInt fan, dr_deployment = PNone, dr_workload = PNone\<rparr>"

definition sample_delegation :: "string \<Rightarrow> string \<Rightarrow> delegation_request \<Rightarrow> pyval" where
  "sample_delegation secret did r = (case sign_delegation_token sample_flat secret ''u'' (PStr secret) (PStr ''me'') (PStr did) r
     (PStr ''2026-01-01T00:00:00Z'') (PStr ''2026-02-01T00:00:00Z'') (PStr ''n'') sample_clock of Inl _ \<Rightarrow> PNone | Inr d \<Rightarrow> PDict d)"

definition sample_chain :: pyval where
  "sample_chain = PList [sample_delegation ''a'' ''d0'' (sample_request_of ''alice'' ''bob'' [''send'', ''read''] PNone 0 1),
     sample_delegation ''b'' ''d1'' (sample_request_of ''bob'' ''carol'' [''read''] (PStr ''d0'') 1 0)]"

definition sample_agent_key :: "string \<Rightarrow> string \<Rightarrow> delegation_key" where
  "sample_agent_key k agent = \<lparr>dk_id = k, dk_agent = agent, dk_public = k, dk_issuer = None, dk_deployment = None, dk_workload = None\<rparr>"

definition sample_agent_keys :: "(string \<times> delegation_key) list" where
  "sample_agent_keys = [(''a'', sample_agent_key ''a'' ''alice''), (''b'', sample_agent_key ''b'' ''bob'')]"

definition sample_context :: delegation_context where
  "sample_context = \<lparr>dc_audience = ''api'', dc_subject = Some ''carol'', dc_session = None, dc_tenant = None, dc_project = None,
     dc_workspace = None, dc_deployment = None, dc_workload = None, dc_bound = False\<rparr>"

definition sample_fan_out :: fan_out where
  "sample_fan_out = \<lparr>children = [(''d1'', ''d0'', 63905500800000000)], revoked_ids = []\<rparr>"

lemma sample_chain_verifies:
  "\<not> isl (verify_delegation_chain sample_flat sample_chain sample_agent_keys sample_context (Some ''read'') (Some ''r'')
     (Some (sql_fan_ops NoFault sample_fan_out)) sample_clock 60 8)"
  by code_simp

section \<open>Properties\<close>



text \<open>
  C26. A revoked delegation breaks every chain through it: once its id is revoked in the SQLite store, no chain
  with a token of that id verifies, whatever reservations and revocations follow.
\<close>

theorem revoked_delegation_breaks_chains:
  assumes "fst (SQLite_revoke NoFault d g) = Inr u"
    and "verify_delegation_chain cr ch keys ctx act res
      (Some (sql_fan_ops fault (fold (fan_step sql_reserve revoke_delegation) es (snd (SQLite_revoke NoFault d g)))))
      clock skew max_length = Inr ds"
  shows "d \<notin> set (map vd_id ds)"
proof -
  let ?g = "fold (fan_step sql_reserve revoke_delegation) es (snd (SQLite_revoke NoFault d g))"
  have "is_revoked_delegation d (snd (SQLite_revoke NoFault d g))"
    by (simp add: SQLite_revoke_def is_revoked_delegation_def revoke_delegation_def)
  then have r: "is_revoked_delegation d ?g" using revoked_child.stays_shut [of d _ es] by (simp add: list_all_iff)
  have "good_chain (Some (sql_fan_ops fault ?g)) ds" using assms(2) by (rule verify_chain_Inr)
  then have "\<forall>x \<in> set ds. vd_id x \<noteq> d"
    using r by (auto simp: good_chain_def list_all_iff not_revoked_def sql_fan_ops_def split: if_splits)
  then show ?thesis by auto
qed

theorem revoked_delegation_breaks_chains_witness:
  "\<exists>ds. verify_delegation_chain sample_flat sample_chain sample_agent_keys sample_context (Some ''read'') (Some ''r'')
     (Some (sql_fan_ops NoFault (snd (SQLite_revoke NoFault ''d2'' sample_fan_out)))) sample_clock 60 8 = Inr ds \<and>
    ''d2'' \<notin> set (map vd_id ds)"
proof -
  have "\<not> isl (verify_delegation_chain sample_flat sample_chain sample_agent_keys sample_context (Some ''read'') (Some ''r'')
     (Some (sql_fan_ops NoFault (snd (SQLite_revoke NoFault ''d2'' sample_fan_out)))) sample_clock 60 8)"
    by code_simp
  then obtain ds where v: "verify_delegation_chain sample_flat sample_chain sample_agent_keys sample_context (Some ''read'') (Some ''r'')
     (Some (sql_fan_ops NoFault (snd (SQLite_revoke NoFault ''d2'' sample_fan_out)))) sample_clock 60 8 = Inr ds"
    using not_isl_ex by blast
  moreover have "fst (SQLite_revoke NoFault ''d2'' sample_fan_out) = Inr ()" by (simp add: SQLite_revoke_def)
  then have "''d2'' \<notin> set (map vd_id ds)"
    using v by (intro revoked_delegation_breaks_chains [where es = "[]"]) simp_all
  ultimately show ?thesis by blast
qed

end
