(* ===== verification/DelegationTransport.thy ===== *)
theory DelegationTransport
  imports DelegationChain
begin

text \<open>
  The transport envelope of \<^verbatim>\<open>delegation.py\<close>: a delegation chain signed by its sender for one
  receiver, with deployment and workload identities on both sides, accepted once. The lemmas show what
  an accepted envelope establishes, and that it is accepted once before it expires.
\<close>

section \<open>Signing\<close>

definition transport_payload :: "crypto \<Rightarrow> pydict \<Rightarrow> string result" where
  "transport_payload cr envelope = signed_payload cr ''hlinor/agent-delegation-transport/v1''
     (delegation_error ''DELEGATION_TRANSPORT_SIGNATURE_INVALID'') (delegation_error ''DELEGATION_CANONICALIZATION_FAILED'') envelope"

text \<open>The parties of an envelope, as the arguments of signing and of verification.\<close>

record transport_parties =
  tp_audience :: pyval
  tp_sender :: pyval
  tp_sender_deployment :: pyval
  tp_sender_workload :: pyval
  tp_receiver_deployment :: pyval
  tp_receiver_workload :: pyval

definition unsigned_envelope ::
    "pyval \<Rightarrow> pyval \<Rightarrow> pyval \<Rightarrow> transport_parties \<Rightarrow> pyval list \<Rightarrow> pyval \<Rightarrow> pyval \<Rightarrow> pyval \<Rightarrow> pydict" where
  "unsigned_envelope key issuer tid p tokens issued_at expires_at nonce = obj
     [(''schema_version'', PStr ''1.0''), (''transport_id'', tid), (''audience'', tp_audience p),
      (''sender_agent_id'', tp_sender p), (''sender_deployment_identity'', tp_sender_deployment p),
      (''sender_workload_identity'', tp_sender_workload p), (''receiver_deployment_identity'', tp_receiver_deployment p),
      (''receiver_workload_identity'', tp_receiver_workload p), (''delegation_chain'', PList tokens),
      (''issued_at'', issued_at), (''expires_at'', expires_at), (''nonce'', nonce),
      (''signature'', PDict (obj [(''algorithm'', PStr ''Ed25519''), (''key_id'', key), (''issuer'', issuer),
         (''value'', PStr [])]))]"

definition sign_delegation_transport ::
    "crypto \<Rightarrow> string \<Rightarrow> pyval \<Rightarrow> pyval \<Rightarrow> pyval \<Rightarrow> transport_parties \<Rightarrow> pyval \<Rightarrow> pyval \<Rightarrow> pyval \<Rightarrow> pyval \<Rightarrow> datetime
     \<Rightarrow> pydict result" where
  "sign_delegation_transport cr secret key issuer tid p ch issued_at expires_at nonce clock =
     (let invalid = delegation_error ''DELEGATION_TRANSPORT_INVALID'';
          tokens = (case sequence_of ch of None \<Rightarrow> [] | Some vs \<Rightarrow> vs);
          d = unsigned_envelope key issuer tid p tokens issued_at expires_at nonce in
      after (first_error (map delegation_text
            [key, issuer, tid, tp_audience p, tp_sender p, tp_receiver_deployment p, tp_receiver_workload p, nonce]
          @ identity_pair (tp_sender_deployment p) (tp_sender_workload p)
          @ [require (tokens \<noteq> []) invalid, require (list_all is_mapping tokens) invalid,
             delegation_window issued_at expires_at clock 0]))
        (bindE (transport_payload cr d) (\<lambda>bytes. Inr (with_signature d (ed25519_sign cr secret bytes)))))"

section \<open>Verification\<close>

record verified_transport =
  vt_id :: string
  vt_parties :: transport_parties
  vt_issued_at :: string
  vt_expires_at :: string
  vt_nonce :: string
  vt_key :: string
  vt_issuer :: string
  vt_chain :: "verified_delegation list"

definition transport_fields :: "string list" where
  "transport_fields = [''schema_version'', ''transport_id'', ''audience'', ''sender_agent_id'', ''sender_deployment_identity'',
     ''sender_workload_identity'', ''receiver_deployment_identity'', ''receiver_workload_identity'', ''delegation_chain'',
     ''issued_at'', ''expires_at'', ''nonce'', ''signature'']"

text \<open>The receiver's own expectations are strings; \<open>te_sender\<close> is also the subject of the leaf.\<close>

record transport_expectation =
  te_audience :: string
  te_sender :: string
  te_sender_deployment :: string
  te_sender_workload :: string
  te_receiver_deployment :: string
  te_receiver_workload :: string

definition expected_fields :: "transport_expectation \<Rightarrow> (string \<times> string) list" where
  "expected_fields x = [(''audience'', te_audience x), (''sender_agent_id'', te_sender x),
     (''sender_deployment_identity'', te_sender_deployment x), (''sender_workload_identity'', te_sender_workload x),
     (''receiver_deployment_identity'', te_receiver_deployment x), (''receiver_workload_identity'', te_receiver_workload x)]"

definition envelope_checks :: "pydict \<Rightarrow> transport_expectation \<Rightarrow> datetime \<Rightarrow> int \<Rightarrow> check list" where
  "envelope_checks d x clock skew =
     [require (only_keys d transport_fields) (delegation_error ''DELEGATION_TRANSPORT_INVALID''),
      require (dget d ''schema_version'' = PStr ''1.0'') (delegation_error ''DELEGATION_TRANSPORT_VERSION_UNSUPPORTED'')]
     @ map (\<lambda>f. delegation_text (dget d f))
         [''transport_id'', ''audience'', ''sender_agent_id'', ''receiver_deployment_identity'', ''receiver_workload_identity'',
          ''issued_at'', ''expires_at'', ''nonce'']
     @ identity_pair (dget d ''sender_deployment_identity'') (dget d ''sender_workload_identity'')
     @ identity_pair (PStr (te_sender_deployment x)) (PStr (te_sender_workload x))
     @ map (\<lambda>(f, e). require (dget d f = PStr e) (delegation_error ''DELEGATION_TRANSPORT_CONTEXT_MISMATCH'')) (expected_fields x)
     @ [delegation_window (dget d ''issued_at'') (dget d ''expires_at'') clock skew]
     @ signature_shape delegation_error ''DELEGATION_TRANSPORT_SIGNATURE_INVALID'' delegation_text d"

definition sender_checks :: "crypto \<Rightarrow> pydict \<Rightarrow> delegation_key \<Rightarrow> transport_expectation \<Rightarrow> check list" where
  "sender_checks cr d key x =
     [require (dget d ''sender_agent_id'' = PStr (dk_agent key)) (delegation_error ''DELEGATION_TRANSPORT_SENDER_UNBOUND'')]
     @ identity_binding key (dget d ''sender_deployment_identity'') (dget d ''sender_workload_identity'')
         (Some (te_sender_deployment x)) (Some (te_sender_workload x)) True
     @ [require (dk_issuer key = None \<or> dget (sig_of d) ''issuer'' = opt_str (dk_issuer key))
          (delegation_error ''DELEGATION_ISSUER_INVALID''),
        encoded_signature cr (dk_public key) (delegation_error ''DELEGATION_TRANSPORT_SIGNATURE_INVALID'')
          (dget (sig_of d) ''value'') (transport_payload cr d),
        require (sequence_of (dget d ''delegation_chain'') \<noteq> None) (delegation_error ''DELEGATION_TRANSPORT_INVALID'')]"

text \<open>What the guard raises is reported as unavailable replay state, unless it is a delegation error itself.\<close>

definition replay_state_error :: "exn \<Rightarrow> exn" where
  "replay_state_error e = (if exc_of e = DelegationVerificationError then e
     else delegation_error ''DELEGATION_TRANSPORT_REPLAY_STATE_UNAVAILABLE'')"

definition transport_replay :: "pydict \<Rightarrow> 's replay_ops option \<Rightarrow> 's \<Rightarrow> unit result \<times> 's" where
  "transport_replay d guard =
     deliver_once replay_state_error (delegation_error ''DELEGATION_TRANSPORT_REPLAY_GUARD_REQUIRED'')
       (delegation_error ''DELEGATION_TRANSPORT_REVOKED'') (delegation_error ''DELEGATION_TRANSPORT_REPLAYED'') guard
       (str_of (dget d ''transport_id'')) (str_of (dget d ''nonce'')) (str_of (dget d ''expires_at''))"

definition chain_context :: "transport_expectation \<Rightarrow> delegation_context \<Rightarrow> delegation_context" where
  "chain_context x ctx = ctx\<lparr>dc_audience := te_audience x, dc_subject := Some (te_sender x),
     dc_deployment := None, dc_workload := None, dc_bound := True\<rparr>"

definition verified_transport_of :: "pydict \<Rightarrow> verified_delegation list \<Rightarrow> verified_transport" where
  "verified_transport_of d ds = \<lparr>vt_id = str_of (dget d ''transport_id''),
     vt_parties = \<lparr>tp_audience = dget d ''audience'', tp_sender = dget d ''sender_agent_id'',
       tp_sender_deployment = dget d ''sender_deployment_identity'', tp_sender_workload = dget d ''sender_workload_identity'',
       tp_receiver_deployment = dget d ''receiver_deployment_identity'', tp_receiver_workload = dget d ''receiver_workload_identity''\<rparr>,
     vt_issued_at = str_of (dget d ''issued_at''), vt_expires_at = str_of (dget d ''expires_at''),
     vt_nonce = str_of (dget d ''nonce''), vt_key = str_of (dget (sig_of d) ''key_id''),
     vt_issuer = str_of (dget (sig_of d) ''issuer''), vt_chain = ds\<rparr>"

text \<open>Everything before the replay guard: the envelope, its key, its signature and the chain it carries. The
  session, tenant, project and workspace expected of the chain are those of \<open>ctx\<close>.\<close>

definition transport_chain ::
    "crypto \<Rightarrow> pydict \<Rightarrow> (string \<times> delegation_key) list \<Rightarrow> transport_expectation \<Rightarrow> delegation_context \<Rightarrow> string option
     \<Rightarrow> string option \<Rightarrow> fan_ops option \<Rightarrow> datetime \<Rightarrow> int \<Rightarrow> int \<Rightarrow> verified_delegation list result" where
  "transport_chain cr d keys x ctx act res fan clock skew max_length =
     after (first_error (envelope_checks d x clock skew))
       (case map_of keys (str_of (dget (sig_of d) ''key_id'')) of
          None \<Rightarrow> Inl (delegation_error ''DELEGATION_KEY_UNTRUSTED'')
        | Some key \<Rightarrow> after (first_error (sender_checks cr d key x))
            (verify_delegation_chain cr (dget d ''delegation_chain'') keys (chain_context x ctx) act res fan clock skew max_length))"

definition verify_delegation_transport ::
    "crypto \<Rightarrow> pyval \<Rightarrow> (string \<times> delegation_key) list \<Rightarrow> transport_expectation \<Rightarrow> delegation_context \<Rightarrow> string option
     \<Rightarrow> string option \<Rightarrow> 's replay_ops option \<Rightarrow> fan_ops option \<Rightarrow> datetime \<Rightarrow> int \<Rightarrow> int \<Rightarrow> 's
     \<Rightarrow> verified_transport result \<times> 's" where
  "verify_delegation_transport cr v keys x ctx act res guard fan clock skew max_length s = (case v of
       PDict d \<Rightarrow> (case transport_chain cr d keys x ctx act res fan clock skew max_length of
           Inl e \<Rightarrow> (Inl e, s)
         | Inr ds \<Rightarrow> (let r = transport_replay d guard s
                    in (bindE (fst r) (\<lambda>u. Inr (verified_transport_of d ds)), snd r)))
     | _ \<Rightarrow> (Inl (delegation_error ''DELEGATION_TRANSPORT_INVALID''), s))"

section \<open>What an accepted envelope establishes\<close>

lemma verify_transport_Inr:
  assumes "verify_delegation_transport cr v keys x ctx act res guard fan clock skew max_length s = (Inr vt, s')"
  obtains d ds where "v = PDict d" "transport_chain cr d keys x ctx act res fan clock skew max_length = Inr ds"
    "transport_replay d guard s = (Inr (), s')" "vt = verified_transport_of d ds"
proof (cases v)
  case (PDict d)
  then obtain ds where c: "transport_chain cr d keys x ctx act res fan clock skew max_length = Inr ds"
    using assms by (auto simp: verify_delegation_transport_def split: sum.splits)
  with assms PDict have "fst (transport_replay d guard s) = Inr ()" "snd (transport_replay d guard s) = s'"
    "vt = verified_transport_of d ds"
    by (auto simp: verify_delegation_transport_def Let_def)
  with that PDict c show thesis by (metis prod.collapse)
qed (use assms in \<open>auto simp: verify_delegation_transport_def\<close>)

lemma verify_links_leaf:
  assumes "verify_links cr keys ctx guard clock skew acc vs = Inr ds" "vs \<noteq> []"
  shows "verify_delegation_token cr (last vs) keys ctx clock skew = Inr (last ds)"
  using assms
proof (induction vs arbitrary: acc)
  case (Cons v vs)
  then show ?case by (cases "vs = []") auto
qed simp

lemma leaf_subject:
  assumes "verify_delegation_token cr v keys ctx clock skew = Inr d" "dc_subject ctx = Some sub"
  shows "vd_subject d = sub"
proof (cases v)
  case (PDict token)
  with assms obtain key where "\<forall>c \<in> set (context_checks token ctx). c = None" "d = verified_delegation_of token key"
    by (auto simp: verify_delegation_token_def token_checks_def first_error_None ball_Un split: option.splits)
  with assms(2) show ?thesis by (simp add: context_checks_def verified_delegation_of_def Let_def)
qed (use assms in \<open>auto simp: verify_delegation_token_def\<close>)

lemma chain_leaf_subject:
  assumes "verify_delegation_chain cr ch keys ctx act res guard clock skew max_length = Inr ds" "dc_subject ctx = Some sub"
  shows "vd_subject (last ds) = sub"
proof -
  obtain vs where "verify_links cr keys ctx guard clock skew [] vs = Inr ds" "vs \<noteq> []"
    using assms(1) by (rule verify_chain_Inr)
  then show ?thesis using leaf_subject [OF verify_links_leaf assms(2)] by blast
qed

section \<open>A sample envelope\<close>

definition sample_bound_key :: "string \<Rightarrow> string \<Rightarrow> delegation_key" where
  "sample_bound_key k agent = (sample_agent_key k agent)\<lparr>dk_deployment := Some ''d'', dk_workload := Some ''w''\<rparr>"

definition sample_bound_keys :: "(string \<times> delegation_key) list" where
  "sample_bound_keys = [(''a'', sample_bound_key ''a'' ''alice''), (''b'', sample_bound_key ''b'' ''bob'')]"

definition sample_bound_request :: delegation_request where
  "sample_bound_request = (sample_request_of ''alice'' ''bob'' [''read''] PNone 0 1)\<lparr>dr_deployment := PStr ''d'', dr_workload := PStr ''w''\<rparr>"

definition sample_parties :: transport_parties where
  "sample_parties = \<lparr>tp_audience = PStr ''api'', tp_sender = PStr ''bob'', tp_sender_deployment = PStr ''d'',
     tp_sender_workload = PStr ''w'', tp_receiver_deployment = PStr ''e'', tp_receiver_workload = PStr ''f''\<rparr>"

definition sample_expectation :: transport_expectation where
  "sample_expectation = \<lparr>te_audience = ''api'', te_sender = ''bob'', te_sender_deployment = ''d'', te_sender_workload = ''w'',
     te_receiver_deployment = ''e'', te_receiver_workload = ''f''\<rparr>"

definition sample_envelope :: pyval where
  "sample_envelope = (case sign_delegation_transport sample_flat ''b'' (PStr ''b'') (PStr ''me'') (PStr ''t'') sample_parties
     (PList [sample_delegation ''a'' ''d0'' sample_bound_request])
     (PStr ''2026-01-01T00:00:00Z'') (PStr ''2026-02-01T00:00:00Z'') (PStr ''n'') sample_clock of Inl _ \<Rightarrow> PNone | Inr d \<Rightarrow> PDict d)"

definition sample_acceptance :: "verified_transport result \<times> guard_state" where
  "sample_acceptance = verify_delegation_transport sample_flat sample_envelope sample_bound_keys sample_expectation sample_context
     (Some ''read'') None (Some (sql_ops 0 NoFault)) None sample_clock 60 8 no_claims"

lemma sample_accepted:
  "case fst sample_acceptance of Inl _ \<Rightarrow> False
   | Inr vt \<Rightarrow> (case approval_time (PStr (vt_expires_at vt)) of Inl _ \<Rightarrow> False | Inr x \<Rightarrow> 1 < x)"
  by code_simp

lemma sample_acceptance_obtain:
  obtains vt g' e where "sample_acceptance = (Inr vt, g')" "approval_time (PStr (vt_expires_at vt)) = Inr e" "1 < e"
proof -
  obtain r g' where r: "sample_acceptance = (r, g')" by fastforce
  from case_InrD [OF sample_accepted] obtain vt where "r = Inr vt"
    "case approval_time (PStr (vt_expires_at vt)) of Inl _ \<Rightarrow> False | Inr x \<Rightarrow> 1 < x" by (auto simp: r)
  with that r show thesis by (blast dest: case_InrD)
qed

section \<open>Properties\<close>

text \<open>
  An accepted envelope is from its sender, for this receiver: its parties are those the receiver expects;
  it is signed by a trusted key bound to the sender's agent, deployment and workload; it is inside its window;
  and it carries a chain, without revoked or unregistered links, whose leaf is the sender and whose every
  delegation grants the requested action.
\<close>

theorem accepted_envelope:
  assumes "verify_delegation_transport cr v keys x ctx act res guard fan clock skew max_length s = (Inr vt, s')"
  shows "vt_parties vt = \<lparr>tp_audience = PStr (te_audience x), tp_sender = PStr (te_sender x),
      tp_sender_deployment = PStr (te_sender_deployment x), tp_sender_workload = PStr (te_sender_workload x),
      tp_receiver_deployment = PStr (te_receiver_deployment x), tp_receiver_workload = PStr (te_receiver_workload x)\<rparr> \<and>
    (\<exists>d key bytes signature. v = PDict d \<and> map_of keys (vt_key vt) = Some key \<and> dk_agent key = te_sender x \<and>
       dk_deployment key = Some (te_sender_deployment x) \<and> dk_workload key = Some (te_sender_workload x) \<and>
       transport_payload cr d = Inr bytes \<and> ed25519_verify cr (dk_public key) bytes signature \<and>
       delegation_window (dget d ''issued_at'') (dget d ''expires_at'') clock skew = None) \<and>
    good_chain fan (vt_chain vt) \<and> vd_subject (last (vt_chain vt)) = te_sender x \<and>
    (\<forall>a. act = Some a \<longrightarrow> (\<forall>d \<in> set (vt_chain vt). a \<in> set (vd_actions d)))"
proof -
  obtain d ds where v: "v = PDict d" and c: "transport_chain cr d keys x ctx act res fan clock skew max_length = Inr ds"
    and vt: "vt = verified_transport_of d ds"
    using assms by (rule verify_transport_Inr)
  from c obtain key where key: "map_of keys (str_of (dget (sig_of d) ''key_id'')) = Some key"
    and env: "\<forall>c \<in> set (envelope_checks d x clock skew). c = None" and snd: "\<forall>c \<in> set (sender_checks cr d key x). c = None"
    and ch: "verify_delegation_chain cr (dget d ''delegation_chain'') keys (chain_context x ctx) act res fan clock skew max_length = Inr ds"
    by (auto simp: transport_chain_def first_error_None split: option.splits)
  have fields: "dget d ''audience'' = PStr (te_audience x)" "dget d ''sender_agent_id'' = PStr (te_sender x)"
    "dget d ''sender_deployment_identity'' = PStr (te_sender_deployment x)" "dget d ''sender_workload_identity'' = PStr (te_sender_workload x)"
    "dget d ''receiver_deployment_identity'' = PStr (te_receiver_deployment x)" "dget d ''receiver_workload_identity'' = PStr (te_receiver_workload x)"
    "delegation_window (dget d ''issued_at'') (dget d ''expires_at'') clock skew = None"
    using env by (simp_all add: envelope_checks_def expected_fields_def)
  have "\<exists>bytes signature. transport_payload cr d = Inr bytes \<and> ed25519_verify cr (dk_public key) bytes signature"
    using snd by (intro encoded_signature_None) (auto simp: sender_checks_def)
  moreover have "dk_agent key = te_sender x" "dk_deployment key = Some (te_sender_deployment x)" "dk_workload key = Some (te_sender_workload x)"
    using snd by (auto simp: sender_checks_def fields identity_binding_def Let_def)
  moreover have "good_chain fan ds" "\<forall>a. act = Some a \<longrightarrow> (\<forall>d \<in> set ds. a \<in> set (vd_actions d))"
  proof -
    from ch have g: "good_chain fan ds" and leaf: "\<forall>a. act = Some a \<longrightarrow> a \<in> set (vd_actions (last ds))"
      by (rule verify_chain_Inr, blast)+
    from g have "attenuates d (last ds)" if "d \<in> set ds" for d
      using that by (intro chain_attenuates [of fan]) (simp_all add: good_chain_def)
    with g leaf show "good_chain fan ds" "\<forall>a. act = Some a \<longrightarrow> (\<forall>d \<in> set ds. a \<in> set (vd_actions d))"
      unfolding attenuates_def by blast+
  qed
  moreover have "vd_subject (last ds) = te_sender x"
    using chain_leaf_subject [OF ch] by (simp add: chain_context_def)
  ultimately show ?thesis
    using v key fields by (simp add: vt verified_transport_of_def)
qed

theorem accepted_envelope_witness:
  "\<exists>vt g'. sample_acceptance = (Inr vt, g') \<and> tp_sender (vt_parties vt) = PStr ''bob'' \<and> vd_subject (last (vt_chain vt)) = ''bob''"
proof -
  obtain vt g' where v: "sample_acceptance = (Inr vt, g')" by (rule sample_acceptance_obtain)
  from accepted_envelope [OF v [unfolded sample_acceptance_def]]
  have "tp_sender (vt_parties vt) = PStr ''bob''" "vd_subject (last (vt_chain vt)) = ''bob''"
    by (simp_all add: sample_expectation_def)
  with v show ?thesis by blast
qed

text \<open>
  C25. An envelope is accepted once: after an acceptance against the SQLite guard, no envelope with the same
  transport id and nonce is accepted before its expiry, whatever claims and revocations happen in between.
\<close>

theorem envelope_accepted_once:
  assumes first: "verify_delegation_transport cr v keys x ctx act res (Some (sql_ops now fault)) fan clock skew n g = (Inr vt, g')"
    and "approval_time (PStr (vt_expires_at vt)) = Inr expires" "list_all (event_before expires) events" "later < expires"
    and "vt_id vt' = vt_id vt" "vt_nonce vt' = vt_nonce vt"
  shows "verify_delegation_transport cr v' keys' x' ctx' act' res' (Some (sql_ops later fault')) fan' clock' skew' n'
      (fold (guard_step sql_claim revoke) events g') \<noteq> (Inr vt', g'')"
proof
  assume second: "verify_delegation_transport cr v' keys' x' ctx' act' res' (Some (sql_ops later fault')) fan' clock' skew' n'
      (fold (guard_step sql_claim revoke) events g') = (Inr vt', g'')"
  obtain d ds where d: "transport_replay d (Some (sql_ops now fault)) g = (Inr (), g')" "vt = verified_transport_of d ds"
    using first by (rule verify_transport_Inr)
  obtain d' ds' where d': "transport_replay d' (Some (sql_ops later fault')) (fold (guard_step sql_claim revoke) events g') = (Inr (), g'')"
      "vt' = verified_transport_of d' ds'"
    using second by (rule verify_transport_Inr)
  have k: "str_of (dget d' ''transport_id'') = str_of (dget d ''transport_id'')" "str_of (dget d' ''nonce'') = str_of (dget d ''nonce'')"
    using assms(5,6) by (simp_all add: d(2) d'(2) verified_transport_of_def)
  have "approval_time (PStr (str_of (dget d ''expires_at''))) = Inr expires"
    using assms(2) by (simp add: d(2) verified_transport_of_def)
  from delivered_once [OF d(1) [unfolded transport_replay_def] this assms(3,4)] d'(1) k
  show False unfolding transport_replay_def by simp
qed

theorem envelope_accepted_once_witness:
  "\<exists>vt g'. sample_acceptance = (Inr vt, g') \<and>
    verify_delegation_transport sample_flat sample_envelope sample_bound_keys sample_expectation sample_context
      (Some ''read'') None (Some (sql_ops 1 NoFault)) None sample_clock 60 8 g' \<noteq> (Inr vt, g')"
proof -
  obtain vt g' e where v: "sample_acceptance = (Inr vt, g')" "approval_time (PStr (vt_expires_at vt)) = Inr e" "1 < e"
    by (rule sample_acceptance_obtain)
  have "verify_delegation_transport sample_flat sample_envelope sample_bound_keys sample_expectation sample_context
      (Some ''read'') None (Some (sql_ops 1 NoFault)) None sample_clock 60 8 (fold (guard_step sql_claim revoke) [] g') \<noteq> (Inr vt, g')"
    by (rule envelope_accepted_once [OF v(1) [unfolded sample_acceptance_def] v(2) _ v(3) refl refl]) simp
  then have "verify_delegation_transport sample_flat sample_envelope sample_bound_keys sample_expectation sample_context
      (Some ''read'') None (Some (sql_ops 1 NoFault)) None sample_clock 60 8 g' \<noteq> (Inr vt, g')"
    unfolding fold_simps .
  with v(1) show ?thesis by blast
qed

end
