(* ===== verification/Breaker.thy ===== *)
theory Breaker
  imports Latch
begin

text \<open>
  \<^verbatim>\<open>circuit_breaker.py\<close>: the durable breaker, one row per failure fingerprint. Times are clock
  readings in microseconds; a database failure is the argument \<open>fault\<close>. The lemmas give the
  invariant of every reachable store, that an open breaker stays shut until a probe is started, that
  exactly one probe passes, and how the count follows the recorded failures.
\<close>

section \<open>Rows and the store\<close>

datatype breaker_state = Closed | Open | HalfOpen

datatype next_action = Continue | Stop | RetryProbe

record breaker_row =
  threshold :: int
  current_count :: int
  bstate :: breaker_state
  next_action :: next_action
  probe_claimed :: bool
  updated_at :: int

type_synonym breaker_store = "string \<Rightarrow> breaker_row option"

record breaker_snapshot =
  sn_fingerprint :: string
  sn_threshold :: int
  sn_count :: int
  sn_state :: breaker_state
  sn_action :: next_action
  sn_updated_at :: int

definition breaker_error :: "string \<Rightarrow> exn" where
  "breaker_error code = Exc CircuitBreakerError code"

definition breaker_unavailable :: exn where
  "breaker_unavailable = breaker_error ''BREAKER_STORE_UNAVAILABLE''"

definition circuit_open :: exn where
  "circuit_open = Exc CircuitOpenError ''CIRCUIT_OPEN''"

definition snapshot_of :: "string \<Rightarrow> breaker_row \<Rightarrow> breaker_snapshot" where
  "snapshot_of f row = \<lparr>sn_fingerprint = f, sn_threshold = threshold row, sn_count = current_count row,
     sn_state = bstate row, sn_action = next_action row, sn_updated_at = updated_at row\<rparr>"

definition validate_fingerprint :: "string \<Rightarrow> check" where
  "validate_fingerprint f = require (\<not> blank f) (Exc ValueError ''failure_fingerprint'')"

definition validate_threshold :: "int \<Rightarrow> check" where
  "validate_threshold th = require (1 \<le> th) (Exc ValueError ''threshold'')"

definition new_row :: "int \<Rightarrow> int \<Rightarrow> breaker_row" where
  "new_row th now = \<lparr>threshold = th, current_count = 0, bstate = Closed, next_action = Continue,
     probe_claimed = False, updated_at = now\<rparr>"

text \<open>\<open>_require_row\<close>: an unknown fingerprint gets a fresh row; the threshold is fixed by it.\<close>

definition require_row :: "int \<Rightarrow> string \<Rightarrow> int \<Rightarrow> breaker_store \<Rightarrow> (breaker_row \<times> breaker_store) result" where
  "require_row now f th s =
     (let row = (case s f of None \<Rightarrow> new_row th now | Some row \<Rightarrow> row) in
      if threshold row = th then Inr (row, s(f \<mapsto> row)) else Inl (breaker_error ''BREAKER_THRESHOLD_MISMATCH''))"

section \<open>Operations\<close>

definition before_body :: "int \<Rightarrow> string \<Rightarrow> int \<Rightarrow> breaker_store \<Rightarrow> (breaker_snapshot \<times> breaker_store) result" where
  "before_body now f th s = bindE (require_row now f th s) (\<lambda>(row, s). case bstate row of
       Open \<Rightarrow> Inl circuit_open
     | HalfOpen \<Rightarrow>
         if probe_claimed row then Inl circuit_open
         else (let row' = row\<lparr>probe_claimed := True, next_action := RetryProbe, updated_at := now\<rparr>
               in Inr (snapshot_of f row', s(f \<mapsto> row')))
     | Closed \<Rightarrow> Inr (snapshot_of f row, s))"

definition failure_row :: "int \<Rightarrow> breaker_row \<Rightarrow> breaker_row" where
  "failure_row now row =
     (let count = current_count row + 1; opens = (threshold row \<le> count)
      in row\<lparr>current_count := count, bstate := (if opens then Open else Closed),
             next_action := (if opens then Stop else Continue), probe_claimed := False, updated_at := now\<rparr>)"

definition failure_body :: "int \<Rightarrow> string \<Rightarrow> int \<Rightarrow> breaker_store \<Rightarrow> (breaker_snapshot \<times> breaker_store) result" where
  "failure_body now f th s = bindE (require_row now f th s) (\<lambda>(row, s).
     let row' = failure_row now row in Inr (snapshot_of f row', s(f \<mapsto> row')))"

definition success_body :: "int \<Rightarrow> string \<Rightarrow> breaker_store \<Rightarrow> (breaker_snapshot \<times> breaker_store) result" where
  "success_body now f s = (case s f of
       None \<Rightarrow> Inl (breaker_error ''BREAKER_UNKNOWN'')
     | Some row \<Rightarrow>
         if bstate row = Open then Inr (snapshot_of f row, s)
         else (let row' = row\<lparr>current_count := 0, bstate := Closed, next_action := Continue,
                              probe_claimed := False, updated_at := now\<rparr>
               in Inr (snapshot_of f row', s(f \<mapsto> row'))))"

definition probe_body :: "int \<Rightarrow> string \<Rightarrow> breaker_store \<Rightarrow> (breaker_snapshot \<times> breaker_store) result" where
  "probe_body now f s = (case s f of
       None \<Rightarrow> Inl (breaker_error ''BREAKER_UNKNOWN'')
     | Some row \<Rightarrow>
         if bstate row \<noteq> Open then Inl (breaker_error ''BREAKER_NOT_OPEN'')
         else (let row' = row\<lparr>bstate := HalfOpen, next_action := RetryProbe, probe_claimed := False, updated_at := now\<rparr>
               in Inr (snapshot_of f row', s(f \<mapsto> row'))))"

definition before_dispatch ::
    "int \<Rightarrow> db_fault \<Rightarrow> string \<Rightarrow> int \<Rightarrow> breaker_store \<Rightarrow> breaker_snapshot result \<times> breaker_store" where
  "before_dispatch now fault f th =
     guarded_op [validate_fingerprint f, validate_threshold th] fault (before_body now f th) breaker_unavailable"

definition record_failure ::
    "int \<Rightarrow> db_fault \<Rightarrow> string \<Rightarrow> int \<Rightarrow> breaker_store \<Rightarrow> breaker_snapshot result \<times> breaker_store" where
  "record_failure now fault f th =
     guarded_op [validate_fingerprint f, validate_threshold th] fault (failure_body now f th) breaker_unavailable"

definition record_success ::
    "int \<Rightarrow> db_fault \<Rightarrow> string \<Rightarrow> breaker_store \<Rightarrow> breaker_snapshot result \<times> breaker_store" where
  "record_success now fault f =
     guarded_op [validate_fingerprint f] fault (success_body now f) breaker_unavailable"

definition start_probe ::
    "int \<Rightarrow> db_fault \<Rightarrow> string \<Rightarrow> breaker_store \<Rightarrow> breaker_snapshot result \<times> breaker_store" where
  "start_probe now fault f =
     guarded_op [validate_fingerprint f] fault (probe_body now f) breaker_unavailable"

section \<open>Histories\<close>

datatype breaker_event = BeforeDispatch string int | Failure string int | Success string | StartProbe string

type_synonym timed_event = "int \<times> db_fault \<times> breaker_event"

fun breaker_apply :: "timed_event \<Rightarrow> breaker_store \<Rightarrow> breaker_store" where
  "breaker_apply (now, fault, BeforeDispatch f th) s = snd (before_dispatch now fault f th s)"
| "breaker_apply (now, fault, Failure f th) s = snd (record_failure now fault f th s)"
| "breaker_apply (now, fault, Success f) s = snd (record_success now fault f s)"
| "breaker_apply (now, fault, StartProbe f) s = snd (start_probe now fault f s)"

text \<open>The dispatches of one fingerprint a store lets through.\<close>

fun breaker_admits :: "string \<Rightarrow> timed_event \<Rightarrow> breaker_store \<Rightarrow> bool" where
  "breaker_admits g (now, fault, BeforeDispatch f th) s = (f = g \<and> \<not> isl (fst (before_dispatch now fault f th s)))"
| "breaker_admits g _ s = False"

inductive reachable_breaker :: "breaker_store \<Rightarrow> bool" where
  empty: "reachable_breaker (\<lambda>f. None)"
| step: "reachable_breaker s \<Longrightarrow> reachable_breaker (breaker_apply e s)"

section \<open>Invariant\<close>

definition row_inv :: "breaker_row \<Rightarrow> bool" where
  "row_inv row \<longleftrightarrow> 1 \<le> threshold row \<and> 0 \<le> current_count row \<and>
     (bstate row = Closed \<longleftrightarrow> current_count row < threshold row) \<and>
     next_action row = (case bstate row of Closed \<Rightarrow> Continue | Open \<Rightarrow> Stop | HalfOpen \<Rightarrow> RetryProbe) \<and>
     (probe_claimed row \<longrightarrow> bstate row = HalfOpen)"

definition store_inv :: "breaker_store \<Rightarrow> bool" where
  "store_inv s \<longleftrightarrow> (\<forall>f row. s f = Some row \<longrightarrow> row_inv row)"

lemma require_row_Inr:
  "require_row now f th s = Inr (row, s') \<longleftrightarrow>
   threshold row = th \<and> row = (case s f of None \<Rightarrow> new_row th now | Some r \<Rightarrow> r) \<and> s' = s(f \<mapsto> row)"
  by (auto simp: require_row_def Let_def split: if_splits option.splits)

lemma require_row_inv:
  "require_row now f th s = Inr (row, s') \<Longrightarrow> store_inv s \<Longrightarrow> 1 \<le> th \<Longrightarrow> row_inv row \<and> store_inv s'"
  by (auto simp: require_row_Inr store_inv_def new_row_def row_inv_def split: option.splits)

lemma store_inv_upd: "store_inv s \<Longrightarrow> row_inv row \<Longrightarrow> store_inv (s(f \<mapsto> row))"
  by (simp add: store_inv_def)

lemma before_body_inv:
  assumes "before_body now f th s = Inr (x, s')" "store_inv s" "1 \<le> th"
  shows "store_inv s'"
proof -
  obtain row t where "require_row now f th s = Inr (row, t)" using assms(1) by (auto simp: before_body_def)
  with require_row_inv [OF this assms(2,3)] assms(1) show ?thesis
    by (auto simp: before_body_def Let_def row_inv_def split: breaker_state.splits if_splits intro!: store_inv_upd)
qed

lemma failure_body_inv:
  assumes "failure_body now f th s = Inr (x, s')" "store_inv s" "1 \<le> th"
  shows "store_inv s'"
proof -
  obtain row t where "require_row now f th s = Inr (row, t)" using assms(1) by (auto simp: failure_body_def)
  with require_row_inv [OF this assms(2,3)] assms(1) show ?thesis
    by (auto simp: failure_body_def failure_row_def Let_def row_inv_def intro!: store_inv_upd)
qed

lemma store_invD: "store_inv s \<Longrightarrow> s f = Some row \<Longrightarrow> row_inv row"
  by (simp add: store_inv_def)

lemma success_body_inv:
  assumes "success_body now f s = Inr (x, s')" "store_inv s"
  shows "store_inv s'"
proof -
  obtain row where row: "s f = Some row" using assms(1) by (auto simp: success_body_def split: option.splits)
  show ?thesis
    using assms row store_invD [OF assms(2) row]
    by (auto simp: success_body_def Let_def row_inv_def split: if_splits intro!: store_inv_upd)
qed

lemma probe_body_inv:
  assumes "probe_body now f s = Inr (x, s')" "store_inv s"
  shows "store_inv s'"
proof -
  obtain row where row: "s f = Some row" using assms(1) by (auto simp: probe_body_def split: option.splits)
  show ?thesis
    using assms row store_invD [OF assms(2) row]
    by (auto simp: probe_body_def Let_def row_inv_def split: if_splits intro!: store_inv_upd)
qed

lemma breaker_apply_inv: "store_inv s \<Longrightarrow> store_inv (breaker_apply e s)"
  by (induction e s rule: breaker_apply.induct)
    (auto simp: before_dispatch_def record_failure_def record_success_def start_probe_def
      validate_threshold_def first_error_Cons split: option.splits
      intro!: guarded_op_inv [where P = store_inv]
      dest: before_body_inv failure_body_inv success_body_inv probe_body_inv)

lemma reachable_inv: "reachable_breaker s \<Longrightarrow> store_inv s"
  by (induction rule: reachable_breaker.induct) (auto simp: store_inv_def [of "\<lambda>f. None"] breaker_apply_inv)

section \<open>What one event does to one fingerprint\<close>

definition shut_at :: "string \<Rightarrow> breaker_store \<Rightarrow> bool" where
  "shut_at g s \<longleftrightarrow> (case s g of None \<Rightarrow> False | Some row \<Rightarrow> bstate row = Open)"

definition claimed_at :: "string \<Rightarrow> breaker_store \<Rightarrow> bool" where
  "claimed_at g s \<longleftrightarrow> (case s g of None \<Rightarrow> False | Some row \<Rightarrow> bstate row = HalfOpen \<and> probe_claimed row)"

fun probes :: "string \<Rightarrow> timed_event \<Rightarrow> bool" where
  "probes g (_, _, StartProbe f) = (f = g)" | "probes g _ = False"

fun records :: "string \<Rightarrow> timed_event \<Rightarrow> bool" where
  "records g (_, _, Failure f th) = (f = g)"
| "records g (_, _, Success f) = (f = g)"
| "records g _ = False"

lemmas breaker_ops = before_dispatch_def record_failure_def record_success_def start_probe_def
lemmas breaker_bodies = before_body_def failure_body_def success_body_def probe_body_def require_row_def failure_row_def Let_def

lemma opened_refuses: "shut_at g s \<Longrightarrow> \<not> breaker_admits g e s"
  by (cases "(g, e, s)" rule: breaker_admits.cases)
    (auto simp: before_dispatch_def shut_at_def breaker_bodies guarded_op_isl split: option.splits if_splits)

lemma claimed_refuses: "claimed_at g s \<Longrightarrow> \<not> breaker_admits g e s"
  by (cases "(g, e, s)" rule: breaker_admits.cases)
    (auto simp: before_dispatch_def claimed_at_def breaker_bodies guarded_op_isl split: option.splits if_splits)

lemma breaker_frame:
  "(\<And>x s'. body s = Inr (x, s') \<Longrightarrow> s' g = s g) \<Longrightarrow> snd (guarded_op cs fault body u s) g = s g"
  using guarded_op_state [of cs fault body u s] by (elim disjE conjE exE) auto

fun event_key :: "breaker_event \<Rightarrow> string" where
  "event_key (BeforeDispatch f th) = f" | "event_key (Failure f th) = f"
| "event_key (Success f) = f" | "event_key (StartProbe f) = f"

text \<open>Breakers are independent: an event of another fingerprint does not touch the row.\<close>

lemma breaker_apply_other: "event_key (snd (snd e)) \<noteq> g \<Longrightarrow> breaker_apply e s g = s g"
  by (induction e s rule: breaker_apply.induct)
    (auto simp: breaker_ops breaker_bodies intro!: breaker_frame split: option.splits if_splits breaker_state.splits)

lemma bodies_shut:
  assumes "shut_at g s"
  shows "before_body now f th s = Inr (x, s') \<Longrightarrow> shut_at g s'"
    and "store_inv s \<Longrightarrow> failure_body now f th s = Inr (x, s') \<Longrightarrow> shut_at g s'"
    and "success_body now f s = Inr (x, s') \<Longrightarrow> shut_at g s'"
    and "f \<noteq> g \<Longrightarrow> probe_body now f s = Inr (x, s') \<Longrightarrow> shut_at g s'"
proof -
  obtain row where row: "s g = Some row" "bstate row = Open" using assms by (auto simp: shut_at_def split: option.splits)
  then show "before_body now f th s = Inr (x, s') \<Longrightarrow> shut_at g s'" "success_body now f s = Inr (x, s') \<Longrightarrow> shut_at g s'"
    "f \<noteq> g \<Longrightarrow> probe_body now f s = Inr (x, s') \<Longrightarrow> shut_at g s'"
    by (cases "f = g"; auto simp: breaker_bodies shut_at_def split: option.splits if_splits breaker_state.splits)+
  assume "store_inv s"
  from store_invD [OF this row(1)] row(2) have "threshold row \<le> current_count row" by (auto simp: row_inv_def)
  with row show "failure_body now f th s = Inr (x, s') \<Longrightarrow> shut_at g s'"
    by (cases "f = g"; auto simp: breaker_bodies shut_at_def split: option.splits if_splits)
qed

lemma shut_stays: "shut_at g s \<Longrightarrow> \<not> probes g e \<Longrightarrow> store_inv s \<Longrightarrow> shut_at g (breaker_apply e s)"
  by (cases "(e, s)" rule: breaker_apply.cases)
    (auto simp: breaker_ops intro!: guarded_op_inv [where P = "shut_at g"] intro: bodies_shut)

lemma bodies_claimed:
  assumes "claimed_at g s"
  shows "before_body now f th s = Inr (x, s') \<Longrightarrow> claimed_at g s'"
    and "f \<noteq> g \<Longrightarrow> failure_body now f th s = Inr (x, s') \<Longrightarrow> claimed_at g s'"
    and "f \<noteq> g \<Longrightarrow> success_body now f s = Inr (x, s') \<Longrightarrow> claimed_at g s'"
    and "probe_body now f s = Inr (x, s') \<Longrightarrow> claimed_at g s'"
  using assms by (cases "f = g"; auto simp: breaker_bodies claimed_at_def split: option.splits if_splits breaker_state.splits)+

lemma claimed_stays: "claimed_at g s \<Longrightarrow> \<not> records g e \<Longrightarrow> claimed_at g (breaker_apply e s)"
  by (cases "(e, s)" rule: breaker_apply.cases)
    (auto simp: breaker_ops intro!: guarded_op_inv [where P = "claimed_at g"] intro: bodies_claimed)

interpretation open_breaker: latch breaker_apply "breaker_admits g" "\<lambda>s. shut_at g s \<and> store_inv s" "probes g" for g
  by unfold_locales (auto simp: opened_refuses intro: shut_stays breaker_apply_inv)

interpretation claimed_probe: latch breaker_apply "breaker_admits g" "claimed_at g" "records g" for g
  by unfold_locales (auto simp: claimed_refuses intro: claimed_stays)

section \<open>Counting\<close>

text \<open>\<open>n\<close> failures of one fingerprint on a healthy database.\<close>

definition failures :: "string \<Rightarrow> int \<Rightarrow> int list \<Rightarrow> timed_event list" where
  "failures f th moments = map (\<lambda>now. (now, NoFault, Failure f th)) moments"

lemma record_failure_row:
  assumes "\<not> blank f" "1 \<le> th" "s f = Some row" "threshold row = th"
  shows "breaker_apply (now, NoFault, Failure f th) s = s(f \<mapsto> failure_row now row)"
  using assms by (simp add: record_failure_def guarded_op_def validate_fingerprint_def validate_threshold_def
      failure_body_def require_row_def Let_def first_error_Cons)

lemma fold_failures:
  fixes th :: int
  assumes "\<not> blank f" "1 \<le> th"
  shows "s f = Some row \<Longrightarrow> threshold row = th \<Longrightarrow> row_inv row \<Longrightarrow> bstate row \<noteq> HalfOpen \<Longrightarrow>
    \<exists>row'. fold breaker_apply (failures f th moments) s f = Some row' \<and> threshold row' = th \<and>
      current_count row' = current_count row + int (length moments) \<and> row_inv row' \<and> bstate row' \<noteq> HalfOpen"
proof (induction moments arbitrary: s row)
  case (Cons now moments)
  let ?row = "failure_row now row"
  have r: "threshold ?row = th" "current_count ?row = current_count row + 1" "row_inv ?row" "bstate ?row \<noteq> HalfOpen"
    using Cons.prems by (auto simp: failure_row_def Let_def row_inv_def)
  have "breaker_apply (now, NoFault, Failure f th) s = s(f \<mapsto> ?row)"
    using assms Cons.prems by (intro record_failure_row)
  then have "fold breaker_apply (failures f th (now # moments)) s = fold breaker_apply (failures f th moments) (s(f \<mapsto> ?row))"
    by (simp add: failures_def del: breaker_apply.simps)
  moreover have "\<exists>row'. fold breaker_apply (failures f th moments) (s(f \<mapsto> ?row)) f = Some row' \<and> threshold row' = th \<and>
      current_count row' = current_count ?row + int (length moments) \<and> row_inv row' \<and> bstate row' \<noteq> HalfOpen"
    by (rule Cons.IH) (use r in simp_all)
  ultimately show ?case using r(2) by auto
qed (simp add: failures_def)

section \<open>Properties\<close>

text \<open>
  C27. In every store the operations can reach, under any interleaving of fingerprints and any database
  failures, each breaker is consistent: it is closed exactly while its count is below the positive
  threshold, the next action is the one of its state, and only a half-open breaker has a claimed probe.
\<close>

theorem breaker_invariant:
  assumes "reachable_breaker s" and "s f = Some row"
  shows "1 \<le> threshold row \<and> 0 \<le> current_count row \<and>
    (bstate row = Closed \<longleftrightarrow> current_count row < threshold row) \<and>
    next_action row = (case bstate row of Closed \<Rightarrow> Continue | Open \<Rightarrow> Stop | HalfOpen \<Rightarrow> RetryProbe) \<and>
    (probe_claimed row \<longrightarrow> bstate row = HalfOpen)"
  using store_invD [OF reachable_inv [OF assms(1)] assms(2)] by (simp add: row_inv_def)

definition sample_failed :: breaker_store where
  "sample_failed = breaker_apply (7, NoFault, Failure ''f'' 1) (\<lambda>f. None)"

theorem breaker_invariant_witness:
  "\<exists>row. reachable_breaker sample_failed \<and> sample_failed ''f'' = Some row \<and> bstate row = Open \<and>
     \<not> current_count row < threshold row"
proof -
  have r: "reachable_breaker sample_failed"
    unfolding sample_failed_def by (intro reachable_breaker.intros)
  obtain row where row: "sample_failed ''f'' = Some row" "bstate row = Open"
    by (simp add: sample_failed_def record_failure_def guarded_op_def validate_fingerprint_def validate_threshold_def
        failure_body_def require_row_def new_row_def failure_row_def Let_def blank_def py_space_def)
  with breaker_invariant [OF r row(1)] r show ?thesis by auto
qed

text \<open>
  An open breaker stays shut: in any history of events, of any fingerprints and with any database
  failures, a dispatch of the open fingerprint is admitted only after a probe of it was started. Late
  successes and further failures do not reopen it.
\<close>

theorem open_until_probe:
  assumes "reachable_breaker s" and "shut_at g s"
    and "breaker_admits g e (fold breaker_apply es s)"
  shows "list_ex (probes g) es"
  using open_breaker.admitted_was_reopened [of g s e es] assms reachable_inv by blast

theorem open_until_probe_witness:
  "breaker_admits ''f'' (9, NoFault, BeforeDispatch ''f'' 1) (fold breaker_apply [(8, NoFault, StartProbe ''f'')] sample_failed) \<and>
   list_ex (probes ''f'') [(8, NoFault, StartProbe ''f'')]"
proof -
  have r: "reachable_breaker sample_failed"
    unfolding sample_failed_def by (intro reachable_breaker.intros)
  have a: "breaker_admits ''f'' (9, NoFault, BeforeDispatch ''f'' 1) (fold breaker_apply [(8, NoFault, StartProbe ''f'')] sample_failed)"
    by code_simp
  moreover have "shut_at ''f'' sample_failed" by code_simp
  ultimately show ?thesis using open_until_probe [OF r _ a] by blast
qed

text \<open>
  A claimed probe is exclusive and is released by nothing but its outcome: while it is claimed no
  other dispatch of the fingerprint passes, and neither further dispatch attempts nor starting a probe
  release it; only a recorded failure or success does. A probe whose outcome is never recorded blocks
  the fingerprint for good.
\<close>

theorem claimed_probe_until_recorded:
  assumes "claimed_at g s" and "list_all (\<lambda>e. \<not> records g e) es"
  shows "claimed_at g (fold breaker_apply es s) \<and> \<not> breaker_admits g e (fold breaker_apply es s)"
  using claimed_probe.stays_shut [OF assms] claimed_probe.nothing_admitted [OF assms] by blast

definition sample_claimed :: breaker_store where
  "sample_claimed = fold breaker_apply
     [(8, NoFault, StartProbe ''f''), (9, NoFault, BeforeDispatch ''f'' 1)] sample_failed"

theorem claimed_probe_until_recorded_witness:
  "claimed_at ''f'' (fold breaker_apply [(10, NoFault, StartProbe ''f'')] sample_claimed) \<and>
   \<not> breaker_admits ''f'' (11, NoFault, BeforeDispatch ''f'' 1) (fold breaker_apply [(10, NoFault, StartProbe ''f'')] sample_claimed)"
proof (rule claimed_probe_until_recorded)
  show "claimed_at ''f'' sample_claimed" by code_simp
qed simp

text \<open>
  The threshold is met exactly: after any number of failures recorded for a fingerprint with a fresh
  breaker, the breaker is open if and only if that number has reached the threshold.
\<close>

theorem opens_exactly_at_threshold:
  assumes "\<not> blank f" and "1 \<le> th" and "moments \<noteq> []"
  shows "shut_at f (fold breaker_apply (failures f th moments) (\<lambda>f. None)) \<longleftrightarrow> th \<le> int (length moments)"
proof -
  obtain now rest where t: "moments = now # rest" using assms(3) by (cases moments) auto
  let ?row = "failure_row now (new_row th now)" and ?s = "breaker_apply (now, NoFault, Failure f th) (\<lambda>f. None)"
  have s: "?s f = Some ?row" "threshold ?row = th" "row_inv ?row" "bstate ?row \<noteq> HalfOpen" "current_count ?row = 1"
    using assms by (auto simp: record_failure_def guarded_op_def validate_fingerprint_def validate_threshold_def
        failure_body_def require_row_def new_row_def failure_row_def row_inv_def Let_def first_error_Cons)
  from fold_failures [OF assms(1,2), where s = ?s and row = ?row and moments = rest] s obtain row where
    "fold breaker_apply (failures f th rest) ?s f = Some row" "threshold row = th"
    "current_count row = int (length moments)" "row_inv row" "bstate row \<noteq> HalfOpen" by (auto simp: t)
  then show ?thesis
    by (cases "bstate row") (auto simp: shut_at_def t failures_def row_inv_def)
qed

theorem opens_exactly_at_threshold_witness:
  "shut_at ''f'' (fold breaker_apply (failures ''f'' 2 [1, 2]) (\<lambda>f. None)) \<longleftrightarrow> (2 :: int) \<le> int (length [1 :: int, 2])"
  by (rule opens_exactly_at_threshold) (simp_all add: blank_def py_space_def)

text \<open>
  A success that was not a probe's closes a half-open breaker: after a probe was started and
  before any dispatch claimed it, a late success recorded by an earlier call resets the count and closes
  the breaker, so the next dispatch passes as a normal call.
\<close>

theorem late_success_closes_half_open:
  "\<exists>row. fold breaker_apply [(8, NoFault, StartProbe ''f''), (9, NoFault, Success ''f'')] sample_failed ''f'' = Some row \<and>
     bstate row = Closed \<and> current_count row = 0"
proof -
  let ?s = "fold breaker_apply [(8, NoFault, StartProbe ''f''), (9, NoFault, Success ''f'')] sample_failed"
  have "(case ?s ''f'' of None \<Rightarrow> False | Some row \<Rightarrow> bstate row = Closed \<and> current_count row = 0)" by code_simp
  then show ?thesis by (auto split: option.splits)
qed

text \<open>
  C28. An open breaker is not shut for good: from every reachable store, on a healthy database, starting a probe makes the
  next dispatch of the fingerprint pass, a recorded success then closes the breaker with a count of zero and lets the
  following dispatch pass, and a recorded failure of the probe opens it again.
\<close>

theorem open_breaker_recovers:
  assumes "reachable_breaker s" "s f = Some row" "bstate row = Open" "\<not> blank f"
  shows "let probing = breaker_apply (t1, NoFault, StartProbe f) s;
      probed = breaker_apply (t2, NoFault, BeforeDispatch f (threshold row)) probing;
      recovered = breaker_apply (t3, NoFault, Success f) probed in
    breaker_admits f (t2, NoFault, BeforeDispatch f (threshold row)) probing \<and>
    breaker_admits f (t4, NoFault, BeforeDispatch f (threshold row)) recovered \<and>
    map_option bstate (recovered f) = Some Closed \<and> map_option current_count (recovered f) = Some 0 \<and>
    map_option bstate (breaker_apply (t3, NoFault, Failure f (threshold row)) probed f) = Some Open"
proof -
  have inv: "1 \<le> threshold row" "threshold row \<le> current_count row"
    using store_invD [OF reachable_inv [OF assms(1)] assms(2)] assms(3) by (auto simp: row_inv_def)
  let ?probing = "breaker_apply (t1, NoFault, StartProbe f) s"
  let ?probed = "breaker_apply (t2, NoFault, BeforeDispatch f (threshold row)) ?probing"
  let ?recovered = "breaker_apply (t3, NoFault, Success f) ?probed"
  note steps = start_probe_def before_dispatch_def record_success_def record_failure_def guarded_op_def validate_fingerprint_def
    validate_threshold_def probe_body_def before_body_def success_body_def failure_body_def require_row_def failure_row_def Let_def first_error_Cons
  obtain r1 where r1: "?probing f = Some r1" "bstate r1 = HalfOpen" "\<not> probe_claimed r1" "threshold r1 = threshold row"
    "current_count r1 = current_count row" using assms(2-4) by (simp add: steps)
  obtain r2 where r2: "?probed f = Some r2" "bstate r2 = HalfOpen" "threshold r2 = threshold row" "current_count r2 = current_count row"
    using assms(4) inv r1 by (simp add: steps del: breaker_apply.simps(4))
  obtain r3 where r3: "?recovered f = Some r3" "bstate r3 = Closed" "threshold r3 = threshold row" "current_count r3 = 0"
    using assms(4) inv r2 by (simp add: steps del: breaker_apply.simps(1,4))
  have "breaker_admits f (t2, NoFault, BeforeDispatch f (threshold row)) ?probing"
    "breaker_admits f (t4, NoFault, BeforeDispatch f (threshold row)) ?recovered"
    "map_option bstate (breaker_apply (t3, NoFault, Failure f (threshold row)) ?probed f) = Some Open"
    using assms(4) inv r1 r2 r3 by (simp_all add: steps del: breaker_apply.simps(1,3,4))
  with r3 show ?thesis by (simp add: Let_def del: breaker_apply.simps breaker_admits.simps)
qed

theorem open_breaker_recovers_witness:
  "breaker_admits ''f'' (10, NoFault, BeforeDispatch ''f'' 1) (fold breaker_apply
     [(7, NoFault, StartProbe ''f''), (8, NoFault, BeforeDispatch ''f'' 1), (9, NoFault, Success ''f'')] sample_failed)"
proof -
  have r: "reachable_breaker sample_failed"
    unfolding sample_failed_def by (intro reachable_breaker.intros)
  have "map_option bstate (sample_failed ''f'') = Some Open" "map_option threshold (sample_failed ''f'') = Some 1" by code_simp+
  then obtain row where row: "sample_failed ''f'' = Some row" "bstate row = Open" "threshold row = 1" by auto
  have "\<not> blank ''f''" by code_simp
  from open_breaker_recovers [OF r row(1,2) this, of 7 8 9 10] show ?thesis
    by (simp add: row(3) Let_def del: breaker_apply.simps breaker_admits.simps)
qed

end
