(* ===== verification/RuntimeLimits.thy ===== *)
theory RuntimeLimits
  imports Latch
begin

text \<open>
  \<^verbatim>\<open>runtime_limits.py\<close>: admission of a dispatch under the kill switch, the concurrency limit and
  the rate limit, all in one transaction. Times are microseconds. The lemmas show that the limits
  hold over whole histories of callers, and what one scope can do to another.
\<close>

section \<open>The store\<close>

record lease =
  lease_id :: string
  lease_scope :: string
  expires_at :: int

record budget_store =
  kill_switch :: "(bool \<times> string \<times> int) option"
  leases :: "lease list"
  rate_events :: "(string \<times> int) list"

record budget_snapshot =
  bs_scope :: string
  bs_lease :: string
  bs_active :: nat
  bs_events :: nat
  bs_kill_switch :: bool

definition empty_budget :: budget_store where
  "empty_budget = \<lparr>kill_switch = Some (False, [], 0), leases = [], rate_events = []\<rparr>"

definition limit_error :: "string \<Rightarrow> exn" where
  "limit_error code = Exc RuntimeLimitError code"

definition limit_unavailable :: exn where
  "limit_unavailable = limit_error ''RUNTIME_LIMIT_STORE_UNAVAILABLE''"

definition kill_switch_active :: exn where
  "kill_switch_active = Exc KillSwitchActiveError ''KILL_SWITCH_ACTIVE''"

definition concurrency_exceeded :: exn where
  "concurrency_exceeded = Exc ConcurrencyLimitError ''CONCURRENCY_LIMIT_EXCEEDED''"

definition rate_exceeded :: exn where
  "rate_exceeded = Exc RateLimitExceededError ''RATE_LIMIT_EXCEEDED''"

definition validate_limit_text :: "string \<Rightarrow> check" where
  "validate_limit_text s = require (trimmed_str (PStr s)) (limit_error ''RUNTIME_LIMIT_INPUT_INVALID'')"

definition validate_positive :: "int option \<Rightarrow> check" where
  "validate_positive v = require (case v of None \<Rightarrow> True | Some n \<Rightarrow> 1 \<le> n) (limit_error ''RUNTIME_LIMIT_CONFIG_INVALID'')"

text \<open>The limits of one caller. \<open>ttl\<close> and the window are seconds.\<close>

record limits =
  max_concurrency :: "int option"
  rate_limit :: "int option"
  rate_window :: "int option"
  ttl :: int

definition seconds :: "int \<Rightarrow> int" where
  "seconds n = n * 1000000"

definition acquire_checks :: "string \<Rightarrow> string \<Rightarrow> limits \<Rightarrow> check list" where
  "acquire_checks scope lid lm =
     [validate_limit_text scope, validate_limit_text lid, validate_positive (max_concurrency lm),
      validate_positive (rate_limit lm), validate_positive (rate_window lm), validate_positive (Some (ttl lm)),
      require (rate_limit lm = None \<or> rate_window lm \<noteq> None) (limit_error ''RUNTIME_LIMIT_CONFIG_INVALID''),
      require (rate_limit lm \<noteq> None \<or> rate_window lm = None) (limit_error ''RUNTIME_LIMIT_CONFIG_INVALID''),
      require (max_concurrency lm \<noteq> None \<or> rate_limit lm \<noteq> None) (limit_error ''RUNTIME_LIMIT_CONFIG_INVALID'')]"

definition live_leases :: "int \<Rightarrow> lease list \<Rightarrow> lease list" where
  "live_leases now ls = filter (\<lambda>l. now < expires_at l) ls"

definition kept_events :: "int \<Rightarrow> int option \<Rightarrow> (string \<times> int) list \<Rightarrow> (string \<times> int) list" where
  "kept_events now window es = (case window of
       None \<Rightarrow> es | Some w \<Rightarrow> filter (\<lambda>(_, t). now - seconds w \<le> t) es)"

definition count_leases :: "string \<Rightarrow> lease list \<Rightarrow> nat" where
  "count_leases scope ls = length (filter (\<lambda>l. lease_scope l = scope) ls)"

definition count_events :: "string \<Rightarrow> (string \<times> int) list \<Rightarrow> nat" where
  "count_events scope es = length (filter (\<lambda>(sc, _). sc = scope) es)"

definition acquire_body ::
    "int \<Rightarrow> string \<Rightarrow> string \<Rightarrow> limits \<Rightarrow> budget_store \<Rightarrow> (budget_snapshot \<times> budget_store) result" where
  "acquire_body now scope lid lm s = (case kill_switch s of
       None \<Rightarrow> Inl (limit_error ''RUNTIME_LIMIT_STORE_INVALID'')
     | Some (active, _, _) \<Rightarrow>
         if active then Inl kill_switch_active
         else (let ls = live_leases now (leases s);
                   es = kept_events now (rate_window lm) (rate_events s);
                   n = count_leases scope ls;
                   r = (if rate_window lm = None then 0 else count_events scope es)
               in if (case max_concurrency lm of None \<Rightarrow> False | Some m \<Rightarrow> m \<le> int n) then Inl concurrency_exceeded
                  else if rate_window lm \<noteq> None \<and> (case rate_limit lm of None \<Rightarrow> False | Some m \<Rightarrow> m \<le> int r)
                    then Inl rate_exceeded
                  else if list_ex (\<lambda>l. lease_id l = lid) ls then Inl (limit_error ''RUNTIME_LEASE_CONFLICT'')
                  else Inr (\<lparr>bs_scope = scope, bs_lease = lid, bs_active = Suc n, bs_events = Suc r,
                      bs_kill_switch = False\<rparr>,
                    s\<lparr>leases := \<lparr>lease_id = lid, lease_scope = scope, expires_at = now + seconds (ttl lm)\<rparr> # ls,
                      rate_events := (scope, now) # es\<rparr>)))"

definition acquire ::
    "int \<Rightarrow> db_fault \<Rightarrow> string \<Rightarrow> string \<Rightarrow> limits \<Rightarrow> budget_store \<Rightarrow> budget_snapshot result \<times> budget_store" where
  "acquire now fault scope lid lm =
     guarded_op (acquire_checks scope lid lm) fault (acquire_body now scope lid lm) limit_unavailable"

definition release :: "db_fault \<Rightarrow> string \<Rightarrow> budget_store \<Rightarrow> unit result \<times> budget_store" where
  "release fault lid = guarded_op [validate_limit_text lid] fault
     (\<lambda>s. Inr ((), s\<lparr>leases := filter (\<lambda>l. lease_id l \<noteq> lid) (leases s)\<rparr>)) limit_unavailable"

definition set_kill_switch :: "int \<Rightarrow> db_fault \<Rightarrow> bool \<Rightarrow> string \<Rightarrow> budget_store \<Rightarrow> unit result \<times> budget_store" where
  "set_kill_switch now fault active reason = transact fault limit_unavailable
     (\<lambda>s. Inr ((), s\<lparr>kill_switch := map_option (\<lambda>_. (active, reason, now)) (kill_switch s)\<rparr>))"

definition activate_kill_switch :: "int \<Rightarrow> db_fault \<Rightarrow> string \<Rightarrow> budget_store \<Rightarrow> unit result \<times> budget_store" where
  "activate_kill_switch now fault reason s = (case validate_limit_text reason of
       Some e \<Rightarrow> (Inl e, s) | None \<Rightarrow> set_kill_switch now fault True reason s)"

definition deactivate_kill_switch :: "int \<Rightarrow> db_fault \<Rightarrow> budget_store \<Rightarrow> unit result \<times> budget_store" where
  "deactivate_kill_switch now fault = set_kill_switch now fault False []"

definition is_kill_switch_active :: "db_fault \<Rightarrow> budget_store \<Rightarrow> bool result" where
  "is_kill_switch_active fault s =
     (if fault \<noteq> NoFault then Inl limit_unavailable
      else (case kill_switch s of
          None \<Rightarrow> Inl (limit_error ''RUNTIME_LIMIT_STORE_INVALID'') | Some (active, _, _) \<Rightarrow> Inr active))"

section \<open>Histories of callers\<close>

datatype budget_event =
    Acquire int db_fault string string limits
  | Release db_fault string
  | Activate int db_fault string
  | Deactivate int db_fault

fun budget_apply :: "budget_event \<Rightarrow> budget_store \<Rightarrow> budget_store" where
  "budget_apply (Acquire now fault scope lid lm) s = snd (acquire now fault scope lid lm s)"
| "budget_apply (Release fault lid) s = snd (release fault lid s)"
| "budget_apply (Activate now fault reason) s = snd (activate_kill_switch now fault reason s)"
| "budget_apply (Deactivate now fault) s = snd (deactivate_kill_switch now fault s)"

fun budget_admits :: "budget_event \<Rightarrow> budget_store \<Rightarrow> bool" where
  "budget_admits (Acquire now fault scope lid lm) s = (\<not> isl (fst (acquire now fault scope lid lm s)))"
| "budget_admits _ s = False"

definition switched_off :: "budget_store \<Rightarrow> bool" where
  "switched_off s \<longleftrightarrow> (case kill_switch s of None \<Rightarrow> False | Some (active, _, _) \<Rightarrow> active)"

fun deactivates :: "budget_event \<Rightarrow> bool" where
  "deactivates (Deactivate now fault) = True" | "deactivates _ = False"

lemma guarded_op_pred:
  "P s \<Longrightarrow> (\<And>x s'. body s = Inr (x, s') \<Longrightarrow> P s') \<Longrightarrow> P (snd (guarded_op cs fault body u s))"
  by (rule guarded_op_inv)

lemma transact_pred: "P s \<Longrightarrow> (\<And>x s'. body s = Inr (x, s') \<Longrightarrow> P s') \<Longrightarrow> P (snd (transact fault u body s))"
  using transact_state [of fault u body s] by auto

lemma acquire_body_Inr:
  assumes "acquire_body now scope lid lm s = Inr (x, s')"
  shows "kill_switch s' = kill_switch s" "\<not> switched_off s"
    "leases s' = \<lparr>lease_id = lid, lease_scope = scope, expires_at = now + seconds (ttl lm)\<rparr> # live_leases now (leases s)"
    "rate_events s' = (scope, now) # kept_events now (rate_window lm) (rate_events s)"
    "max_concurrency lm = Some m \<Longrightarrow> int (count_leases scope (live_leases now (leases s))) < m"
    "rate_window lm \<noteq> None \<Longrightarrow> rate_limit lm = Some r \<Longrightarrow>
       int (count_events scope (kept_events now (rate_window lm) (rate_events s))) < r"
    "lid \<notin> lease_id ` set (live_leases now (leases s))"
  using assms by (auto simp: acquire_body_def switched_off_def Let_def list_ex_iff split: option.splits if_splits)

lemma switched_off_refuses: "switched_off s \<Longrightarrow> \<not> budget_admits e s"
  by (cases e) (auto simp: acquire_def guarded_op_isl acquire_body_def switched_off_def split: option.splits)

lemma switched_off_stays: "switched_off s \<Longrightarrow> \<not> deactivates e \<Longrightarrow> switched_off (budget_apply e s)"
proof (cases e)
  case (Acquire now fault scope lid lm)
  assume "switched_off s"
  then show ?thesis
    by (auto simp: Acquire acquire_def intro!: guarded_op_pred [where P = switched_off] dest: acquire_body_Inr(2))
next
  case (Release fault lid)
  assume "switched_off s"
  then show ?thesis
    unfolding Release budget_apply.simps release_def
    by (rule guarded_op_pred [where P = switched_off]) (use \<open>switched_off s\<close> in \<open>auto simp: switched_off_def\<close>)
next
  case (Activate now fault reason)
  assume "switched_off s"
  then show ?thesis
    by (auto simp: Activate activate_kill_switch_def set_kill_switch_def
        split: option.splits intro!: transact_pred [where P = switched_off])
      (auto simp: switched_off_def split: option.splits)
qed simp

interpretation kill_switch: latch budget_apply budget_admits switched_off deactivates
  by unfold_locales (simp_all add: switched_off_refuses switched_off_stays)

section \<open>Limits over histories\<close>

text \<open>Every caller of the scope asks for at most \<open>m\<close> concurrent leases.\<close>

fun asks_at_most :: "string \<Rightarrow> int \<Rightarrow> budget_event \<Rightarrow> bool" where
  "asks_at_most sc m (Acquire now fault scope lid lm) =
     (scope = sc \<longrightarrow> (\<exists>k. max_concurrency lm = Some k \<and> k \<le> m))"
| "asks_at_most sc m _ = True"

lemma count_live_le: "count_leases sc (live_leases now ls) \<le> count_leases sc ls"
  by (induction ls) (auto simp: count_leases_def live_leases_def)

lemma count_filter_le: "count_leases sc (filter P ls) \<le> count_leases sc ls"
  by (induction ls) (auto simp: count_leases_def)

lemma count_leases_Cons: "count_leases sc (l # ls) = (if lease_scope l = sc then 1 else 0) + count_leases sc ls"
  by (simp add: count_leases_def)

lemma leases_bounded_step:
  assumes "int (count_leases sc (leases s)) \<le> m" "asks_at_most sc m e"
  shows "int (count_leases sc (leases (budget_apply e s))) \<le> m"
proof (cases e)
  case (Acquire now fault scope lid lm)
  have "int (count_leases sc (leases s')) \<le> m" if "acquire_body now scope lid lm s = Inr (x, s')" for x s'
  proof (cases "scope = sc")
    case True
    with assms(2) Acquire obtain k where "max_concurrency lm = Some k" "k \<le> m" by auto
    with acquire_body_Inr(3,5) [OF that] True show ?thesis by (simp add: count_leases_Cons)
  next
    case False
    with acquire_body_Inr(3) [OF that] assms(1) count_live_le [of sc now "leases s"] show ?thesis
      by (simp add: count_leases_Cons)
  qed
  with assms(1) show ?thesis
    unfolding Acquire budget_apply.simps acquire_def
    by (intro guarded_op_pred [where P = "\<lambda>s. int (count_leases sc (leases s)) \<le> m"])
next
  case (Release fault lid)
  show ?thesis
    unfolding Release budget_apply.simps release_def
    by (rule guarded_op_pred [where P = "\<lambda>s. int (count_leases sc (leases s)) \<le> m"])
      (use assms(1) count_filter_le [of sc _ "leases s"] in \<open>auto intro: order_trans [OF of_nat_mono]\<close>)
next
  case (Activate now fault reason)
  with assms(1) show ?thesis
    by (auto simp: activate_kill_switch_def set_kill_switch_def split: option.splits
        intro!: transact_pred [where P = "\<lambda>s. int (count_leases sc (leases s)) \<le> m"])
next
  case (Deactivate now fault)
  with assms(1) show ?thesis
    by (auto simp: deactivate_kill_switch_def set_kill_switch_def
        intro!: transact_pred [where P = "\<lambda>s. int (count_leases sc (leases s)) \<le> m"])
qed

lemma leases_bounded:
  "int (count_leases sc (leases s)) \<le> m \<Longrightarrow> list_all (asks_at_most sc m) es \<Longrightarrow>
   int (count_leases sc (leases (fold budget_apply es s))) \<le> m"
  by (induction es arbitrary: s) (auto intro: leases_bounded_step)

text \<open>
  The log of admissions of one scope, and what the event table still knows of it. Callers of the scope
  use the rate \<open>r\<close> per \<open>w\<close> seconds; callers of any scope use windows of at least \<open>w\<close>.
\<close>

fun event_time :: "budget_event \<Rightarrow> int option" where
  "event_time (Acquire now _ _ _ _) = Some now" | "event_time _ = None"

fun admission_log :: "string \<Rightarrow> budget_event list \<Rightarrow> budget_store \<Rightarrow> int list" where
  "admission_log sc [] s = []"
| "admission_log sc (e # es) s =
     (case e of
        Acquire now fault scope lid lm \<Rightarrow> if scope = sc \<and> budget_admits e s then [now] else []
      | _ \<Rightarrow> [])
     @ admission_log sc es (budget_apply e s)"

fun same_rate :: "string \<Rightarrow> int \<Rightarrow> int \<Rightarrow> budget_event \<Rightarrow> bool" where
  "same_rate sc r w (Acquire now fault scope lid lm) =
     ((scope = sc \<longrightarrow> rate_limit lm = Some r \<and> rate_window lm = Some w) \<and>
      (case rate_window lm of None \<Rightarrow> True | Some v \<Rightarrow> w \<le> v))"
| "same_rate sc r w _ = True"

definition since :: "int \<Rightarrow> int list \<Rightarrow> nat" where
  "since lo ts = length (filter (\<lambda>t. lo \<le> t) ts)"

definition times_of :: "string \<Rightarrow> (string \<times> int) list \<Rightarrow> int list" where
  "times_of sc es = map snd (filter (\<lambda>(sc', _). sc' = sc) es)"

lemma count_events_times: "count_events sc es = length (times_of sc es)"
  by (simp add: count_events_def times_of_def)

lemma times_kept:
  assumes "now - seconds w \<le> lo" "case window of None \<Rightarrow> True | Some v \<Rightarrow> w \<le> v"
  shows "since lo (times_of sc (kept_events now window es)) = since lo (times_of sc es)"
proof (induction es)
  case (Cons a es)
  then show ?case using assms
    by (cases a) (auto simp: kept_events_def times_of_def since_def seconds_def split: option.splits)
qed (simp add: kept_events_def split: option.splits)

lemma times_kept_all:
  "since (now - seconds w) (times_of sc (kept_events now (Some w) es)) = count_events sc (kept_events now (Some w) es)"
proof (induction es)
  case (Cons a es)
  then show ?case by (cases a) (auto simp: kept_events_def times_of_def since_def count_events_def)
qed (simp add: kept_events_def times_of_def since_def count_events_def)

lemma since_append: "since lo (xs @ ys) = since lo xs + since lo ys"
  by (simp add: since_def)

lemma times_of_Cons: "times_of sc ((sc', t) # es) = (if sc' = sc then [t] else []) @ times_of sc es"
  by (simp add: times_of_def)

lemma admits_body:
  assumes "budget_admits (Acquire now fault scope lid lm) s"
  shows "\<exists>x. acquire_body now scope lid lm s = Inr (x, budget_apply (Acquire now fault scope lid lm) s)"
proof -
  from assms have "\<not> isl (fst (acquire now fault scope lid lm s))" by simp
  from not_isl_ex [OF this] obtain x where "fst (acquire now fault scope lid lm s) = Inr x" by blast
  from guarded_op_Inr [OF this [unfolded acquire_def]] show ?thesis by (auto simp: acquire_def)
qed

lemma body_events:
  assumes "acquire_body now scope lid lm s = Inr (x, s')" "same_rate sc r w (Acquire now fault scope lid lm)"
    and "now - seconds w \<le> lo"
  shows "since lo (times_of sc (rate_events s')) =
    (if scope = sc \<and> lo \<le> now then 1 else 0) + since lo (times_of sc (rate_events s))"
  using acquire_body_Inr(4) [OF assms(1)] assms(2,3) times_kept [of now w lo "rate_window lm" sc "rate_events s"]
  by (auto simp: times_of_Cons since_append) (auto simp: since_def)

lemma event_table_step:
  assumes "same_rate sc r w (Acquire now fault scope lid lm)" "now - seconds w \<le> lo" "lo \<le> now"
  defines "e \<equiv> Acquire now fault scope lid lm"
  shows "since lo (times_of sc (rate_events s)) + (if scope = sc \<and> budget_admits e s then 1 else 0) \<le>
    since lo (times_of sc (rate_events (budget_apply e s)))"
proof (cases "budget_admits e s")
  case True
  with admits_body [of now fault scope lid lm s] body_events [OF _ assms(1,2)] assms(3) show ?thesis
    by (auto simp: e_def)
next
  case False
  have "budget_apply e s = s \<or> (\<exists>x. acquire_body now scope lid lm s = Inr (x, budget_apply e s))"
    using guarded_op_state [of "acquire_checks scope lid lm" fault "acquire_body now scope lid lm" limit_unavailable s]
    by (auto simp: e_def acquire_def)
  with False body_events [OF _ assms(1,2)] show ?thesis by auto
qed

text \<open>Clock readings of the callers do not run backwards.\<close>

fun in_order :: "int \<Rightarrow> budget_event list \<Rightarrow> bool" where
  "in_order t [] = True"
| "in_order t (e # es) = (case event_time e of None \<Rightarrow> in_order t es | Some now \<Rightarrow> t \<le> now \<and> in_order now es)"

text \<open>At every admission, the window of \<open>w\<close> seconds that ends there holds at most \<open>r\<close> of them.\<close>

definition within_rate :: "int \<Rightarrow> int \<Rightarrow> int list \<Rightarrow> bool" where
  "within_rate r w ts \<longleftrightarrow>
     (\<forall>pre t post. ts = pre @ t # post \<longrightarrow> int (since (t - seconds w) (pre @ [t])) \<le> r)"

lemma within_rate_snoc:
  "within_rate r w ts \<Longrightarrow> int (since (t - seconds w) (ts @ [t])) \<le> r \<Longrightarrow> within_rate r w (ts @ [t])"
  unfolding within_rate_def
proof (intro allI impI)
  fix pre u post
  assume IH: "\<forall>pre t post. ts = pre @ t # post \<longrightarrow> int (since (t - seconds w) (pre @ [t])) \<le> r"
    and last: "int (since (t - seconds w) (ts @ [t])) \<le> r" and split: "ts @ [t] = pre @ u # post"
  show "int (since (u - seconds w) (pre @ [u])) \<le> r"
    using IH last split by (cases post rule: rev_cases) auto
qed

lemma other_events: "event_time e = None \<Longrightarrow> rate_events (budget_apply e s) = rate_events s"
proof (cases e)
  case (Release fault lid)
  show ?thesis unfolding Release budget_apply.simps release_def
    by (rule guarded_op_pred [where P = "\<lambda>s'. rate_events s' = rate_events s"]) auto
next
  case (Activate now fault reason)
  then show ?thesis
    by (auto simp: activate_kill_switch_def set_kill_switch_def split: option.splits
        intro!: transact_pred [where P = "\<lambda>s'. rate_events s' = rate_events s"])
next
  case (Deactivate now fault)
  then show ?thesis
    by (auto simp: deactivate_kill_switch_def set_kill_switch_def
        intro!: transact_pred [where P = "\<lambda>s'. rate_events s' = rate_events s"])
qed simp

lemma since_late: "\<forall>t \<in> set ts. t < lo \<Longrightarrow> since lo ts = 0"
  by (auto simp: since_def filter_empty_conv)

lemma admission_within_rate:
  assumes "budget_admits (Acquire now fault sc lid lm) s" "rate_limit lm = Some r" "rate_window lm = Some w"
  shows "int (since (now - seconds w) (times_of sc (rate_events s))) < r"
proof -
  obtain x s' where "acquire_body now sc lid lm s = Inr (x, s')" using admits_body [OF assms(1)] by blast
  from acquire_body_Inr(6) [OF this] assms(2,3)
    times_kept [of now w "now - seconds w" "Some w" sc "rate_events s"]
  show ?thesis by (simp add: times_kept_all [symmetric])
qed

lemma history_within_rate:
  assumes "list_all (same_rate sc r w) es" "in_order t es" "0 \<le> w"
    and "\<forall>u \<in> set ts. u \<le> t" "\<forall>lo. t - seconds w \<le> lo \<longrightarrow> since lo ts \<le> since lo (times_of sc (rate_events s))"
    and "within_rate r w ts"
  shows "within_rate r w (ts @ admission_log sc es s)"
  using assms
proof (induction es arbitrary: s ts t)
  case (Cons e es)
  show ?case
  proof (cases e)
    case (Acquire now fault scope lid lm)
    let ?adm = "scope = sc \<and> budget_admits e s"
    let ?ts = "ts @ (if ?adm then [now] else [])"
    have now: "t \<le> now" "in_order now es" using Cons.prems(2) Acquire by auto
    have w: "0 \<le> seconds w" using Cons.prems(3) by (simp add: seconds_def)
    have old: "since lo ts \<le> since lo (times_of sc (rate_events s))" if "now - seconds w \<le> lo" for lo
      using Cons.prems(5) now(1) that by auto
    have rate: "within_rate r w ?ts"
    proof (cases ?adm)
      case True
      then have "int (since (now - seconds w) (times_of sc (rate_events s))) < r"
        using Cons.prems(1) Acquire by (intro admission_within_rate) auto
      with old [of "now - seconds w"] w have "int (since (now - seconds w) (ts @ [now])) \<le> r"
        by (auto simp: since_append) (auto simp: since_def)
      with True Cons.prems(6) show ?thesis by (simp add: within_rate_snoc)
    qed (use Cons.prems(6) in auto)
    have table: "since lo ?ts \<le> since lo (times_of sc (rate_events (budget_apply e s)))" if lo: "now - seconds w \<le> lo" for lo
    proof (cases "lo \<le> now")
      case True
      have "since lo ?ts \<le> since lo ts + (if ?adm then 1 else 0)" by (simp add: since_append) (simp add: since_def)
      with event_table_step [of sc r w now fault scope lid lm lo s] Cons.prems(1) lo True old [OF lo] show ?thesis
        by (simp add: Acquire)
    next
      case False
      with Cons.prems(4) now(1) have "since lo ?ts = 0" by (intro since_late) auto
      then show ?thesis by simp
    qed
    have "within_rate r w (?ts @ admission_log sc es (budget_apply e s))"
      by (rule Cons.IH [where t = now]) (use Cons.prems now rate table in auto)
    then show ?thesis by (simp add: Acquire)
  next
    case (Release fault lid)
    then show ?thesis using Cons.IH [of t ts "budget_apply e s"] Cons.prems other_events [of e s] by simp
  next
    case (Activate now fault reason)
    then show ?thesis using Cons.IH [of t ts "budget_apply e s"] Cons.prems other_events [of e s] by simp
  next
    case (Deactivate now fault)
    then show ?thesis using Cons.IH [of t ts "budget_apply e s"] Cons.prems other_events [of e s] by simp
  qed
qed simp

section \<open>Properties\<close>

text \<open>
  C15. The concurrency limit is never exceeded: in any history of acquisitions, releases, expiries,
  kill-switch changes and database failures, if every caller of a scope asks for at most \<open>m\<close> leases,
  the store never holds more than \<open>m\<close> leases of that scope, whatever other scopes do.
\<close>

theorem concurrency_never_exceeded:
  assumes "list_all (asks_at_most sc m) es" and "0 \<le> m"
  shows "int (count_leases sc (leases (fold budget_apply es empty_budget))) \<le> m"
  using leases_bounded [of sc empty_budget m es] assms by (simp add: empty_budget_def count_leases_def)

definition sample_limits :: limits where
  "sample_limits = \<lparr>max_concurrency = Some 1, rate_limit = Some 1, rate_window = Some 10, ttl = 60\<rparr>"

theorem concurrency_never_exceeded_witness:
  "int (count_leases ''s'' (leases (fold budget_apply [Acquire 0 NoFault ''s'' ''a'' sample_limits,
     Acquire 20000000 NoFault ''s'' ''b'' sample_limits] empty_budget))) \<le> 1"
  by (rule concurrency_never_exceeded) (simp_all add: sample_limits_def)

text \<open>
  The rate limit holds over histories: when all callers of a scope use the rate \<open>r\<close> per \<open>w\<close>
  seconds, no caller of any scope uses a shorter window, and clock readings do not run backwards, then
  at every admission of the scope at most \<open>r\<close> admissions lie in the window that ends there.
\<close>

theorem rate_limit_holds:
  assumes "list_all (same_rate sc r w) es" and "in_order t es" and "0 \<le> w"
  shows "within_rate r w (admission_log sc es empty_budget)"
  using history_within_rate [OF assms, of "[]" empty_budget]
  by (simp add: since_def within_rate_def)

theorem rate_limit_holds_witness:
  "admission_log ''s'' [Acquire 0 NoFault ''s'' ''a'' sample_limits, Release NoFault ''a'',
       Acquire 5000000 NoFault ''s'' ''b'' sample_limits, Acquire 11000000 NoFault ''s'' ''c'' sample_limits] empty_budget
     = [0, 11000000] \<and>
   within_rate 1 10 (admission_log ''s'' [Acquire 0 NoFault ''s'' ''a'' sample_limits, Release NoFault ''a'',
       Acquire 5000000 NoFault ''s'' ''b'' sample_limits, Acquire 11000000 NoFault ''s'' ''c'' sample_limits] empty_budget)"
  by (rule conjI, code_simp, rule rate_limit_holds [where t = 0]) (simp_all add: sample_limits_def)

text \<open>
  Without the condition on other scopes the rate limit fails: an acquisition of another scope
  with a shorter window deletes this scope's events, and the limit of one admission per 1000 seconds
  then admits a second one after 100 seconds.
\<close>

theorem shorter_window_of_another_scope_resets_the_rate:
  "\<exists>one other. rate_limit one = Some 1 \<and> rate_window one = Some 1000 \<and> rate_window other = Some 1 \<and>
     admission_log ''s'' [Acquire 0 NoFault ''s'' ''a'' one, Acquire 50000000 NoFault ''t'' ''x'' other,
        Acquire 100000000 NoFault ''s'' ''b'' one] empty_budget = [0, 100000000] \<and>
     admission_log ''s'' [Acquire 0 NoFault ''s'' ''a'' one, Acquire 100000000 NoFault ''s'' ''b'' one] empty_budget = [0]"
  by (intro exI [of _ "\<lparr>max_concurrency = None, rate_limit = Some 1, rate_window = Some 1000, ttl = 60\<rparr>"]
      exI [of _ "\<lparr>max_concurrency = None, rate_limit = Some 1, rate_window = Some 1, ttl = 60\<rparr>"] conjI)
    (simp, simp, simp, code_simp, code_simp)

text \<open>
  The kill switch stops everything: once it is active no acquisition of any scope is admitted in any
  history of events, until a deactivation.
\<close>

theorem kill_switch_stops_admission:
  assumes "switched_off s" and "budget_admits e (fold budget_apply es s)"
  shows "list_ex deactivates es"
  using kill_switch.admitted_was_reopened [OF assms] .

theorem kill_switch_stops_admission_witness:
  "switched_off (fold budget_apply [Activate 1 NoFault ''stop''] empty_budget) \<and>
   budget_admits (Acquire 3 NoFault ''s'' ''a'' sample_limits)
     (fold budget_apply [Deactivate 2 NoFault] (fold budget_apply [Activate 1 NoFault ''stop''] empty_budget)) \<and>
   list_ex deactivates [Deactivate 2 NoFault]"
proof -
  have o: "switched_off (fold budget_apply [Activate 1 NoFault ''stop''] empty_budget)" by code_simp
  have a: "budget_admits (Acquire 3 NoFault ''s'' ''a'' sample_limits)
     (fold budget_apply [Deactivate 2 NoFault] (fold budget_apply [Activate 1 NoFault ''stop''] empty_budget))" by code_simp
  from kill_switch_stops_admission [OF o a] o a show ?thesis by blast
qed

text \<open>
  A refused acquisition changes nothing: limits, conflicts, an active switch and failures before the
  commit leave leases and rate events as they were.
\<close>

theorem refused_acquire_rolls_back:
  assumes "fst (acquire now fault scope lid lm s) = Inl e" and "fault \<noteq> FailAfter"
  shows "snd (acquire now fault scope lid lm s) = s"
  using assms by (auto simp: acquire_def guarded_op_def transact_def split: option.splits db_fault.splits sum.splits prod.splits)

theorem refused_acquire_rolls_back_witness:
  "fst (acquire 1 FailBefore ''s'' ''a'' sample_limits empty_budget) = Inl limit_unavailable \<and>
   snd (acquire 1 FailBefore ''s'' ''a'' sample_limits empty_budget) = empty_budget"
proof -
  have f: "fst (acquire 1 FailBefore ''s'' ''a'' sample_limits empty_budget) = Inl limit_unavailable" by code_simp
  from refused_acquire_rolls_back [OF f] f show ?thesis by simp
qed

end
