(* ===== verification/Receipts.thy ===== *)
theory Receipts
  imports SignedObjects Latch
begin

text \<open>
  Execution receipts: the shape validation of \<^verbatim>\<open>validator.py\<close>, and of \<^verbatim>\<open>execution_receipts.py\<close> the hash-chained
  sink in memory and the verification of a chain. The lemmas show that appended chains verify and that a chain is
  fixed by its last hash.
\<close>

section \<open>The shape of a receipt\<close>

definition receipt_error :: "string \<Rightarrow> exn" where
  "receipt_error tag = Exc ReceiptError tag"

definition required_receipt_fields :: "string list" where
  "required_receipt_fields = [''receipt_id'', ''session_id'', ''binding_id'', ''check_id'', ''timestamp'', ''actor'',
     ''requested_tool_name'', ''authorization_result'', ''side_effect_state'', ''matched_approved_binding'',
     ''registry_version'', ''policy_bundle_digest'', ''tool_descriptor_digest'', ''normalized_argument_digest'',
     ''target_resource_scope'', ''approval_id_or_lease_id'']"

text \<open>\<open>v in {...}\<close> raises a \<open>TypeError\<close> for a list, a dict or a tuple that holds one.\<close>

fun hashable :: "pyval \<Rightarrow> bool" where
  "hashable (PList _) = False"
| "hashable (PDict _) = False"
| "hashable (PTuple vs) = list_all hashable vs"
| "hashable _ = True"

definition validate_required_fields :: "pydict \<Rightarrow> string list \<Rightarrow> string list" where
  "validate_required_fields d names = filter (\<lambda>f. \<not> dhas d f) names"

definition error_if :: "bool \<Rightarrow> string \<Rightarrow> string list" where
  "error_if bad tag = (if bad then [tag] else [])"

definition validate_execution_receipt :: "pydict \<Rightarrow> string list result" where
  "validate_execution_receipt d =
     (let auth = dget d ''authorization_result''; side = dget d ''side_effect_state'';
          matched = dget d ''matched_approved_binding'' in
      guarded [require (hashable auth) (Exc TypeError ''authorization_result''),
               require (hashable side) (Exc TypeError ''side_effect_state'')]
        (validate_required_fields d required_receipt_fields
         @ error_if (dhas d ''authorization_result'' \<and>
             \<not> List.member (map PStr [''allowed'', ''denied'', ''expired'', ''reapproval_required'']) auth)
             ''Invalid authorization_result''
         @ error_if (dhas d ''side_effect_state'' \<and>
             \<not> List.member (map PStr [''blocked_before_side_effect'', ''side_effect_attempted'']) side)
             ''Invalid side_effect_state''
         @ error_if (dhas d ''matched_approved_binding'' \<and> \<not> is_bool matched) ''matched_approved_binding must be a boolean''
         @ error_if (dhas d ''target_resource_scope'' \<and> \<not> is_mapping (dget d ''target_resource_scope''))
             ''target_resource_scope must be an object''
         @ error_if (List.member (map PStr [''denied'', ''expired'', ''reapproval_required'']) auth
             \<and> side \<noteq> PStr ''blocked_before_side_effect'') ''Negative results must block''
         @ error_if (auth = PStr ''allowed'' \<and> matched \<noteq> PBool True) ''Allowed receipts must match''))"

definition receipt_shape :: "pydict \<Rightarrow> check" where
  "receipt_shape d = check_of (bindE (validate_execution_receipt d) (\<lambda>errors.
     if errors = [] then Inr () else Inl (receipt_error ''invalid execution receipt'')))"

section \<open>Hash and signature of a receipt\<close>

definition receipt_domain :: string where
  "receipt_domain = ''hlinor/execution-receipt/v1''"

definition receipt_hash_payload :: "crypto \<Rightarrow> pydict \<Rightarrow> string result" where
  "receipt_hash_payload cr d = canonical cr (receipt_error ''RFC 8785'')
     (domain_payload receipt_domain (blank_signature (dset d ''receipt_hash'' (PStr []))))"

definition receipt_signed_payload :: "crypto \<Rightarrow> pydict \<Rightarrow> string result" where
  "receipt_signed_payload cr d =
     signed_payload cr receipt_domain (receipt_error ''signature must be an object'') (receipt_error ''RFC 8785'') d"

section \<open>The hash-chained sink\<close>

record receipt_signer =
  signer_secret :: string
  signer_key_id :: string
  signer_issuer :: string

record hash_sink =
  signer :: "receipt_signer option"
  records :: "pydict list"

text \<open>The constructor takes the key, the key id and the issuer together or not at all.\<close>

definition HashChainedReceiptSink :: "string option \<Rightarrow> string option \<Rightarrow> string option \<Rightarrow> hash_sink result" where
  "HashChainedReceiptSink secret key issuer =
     (if (secret = None) \<noteq> (key = None \<or> issuer = None) then Inl (Exc ValueError ''private_key'')
      else Inr \<lparr>signer = (case secret of None \<Rightarrow> None
                 | Some s \<Rightarrow> Some \<lparr>signer_secret = s, signer_key_id = the key, signer_issuer = the issuer\<rparr>),
                records = []\<rparr>)"

definition setdefault :: "pydict \<Rightarrow> string \<Rightarrow> pyval \<Rightarrow> pydict" where
  "setdefault d k v = (if dhas d k then d else dset d k v)"

definition last_hash :: "pydict list \<Rightarrow> pyval" where
  "last_hash rs = (if rs = [] then PNone else dget (last rs) ''receipt_hash'')"

definition blank_receipt_signature :: "receipt_signer \<Rightarrow> pydict" where
  "blank_receipt_signature s = obj [(''algorithm'', PStr ''Ed25519''), (''key_id'', PStr (signer_key_id s)),
     (''issuer'', PStr (signer_issuer s)), (''value'', PStr [])]"

definition chained :: "string \<Rightarrow> receipt_signer option \<Rightarrow> pydict list \<Rightarrow> pydict \<Rightarrow> pydict" where
  "chained uuid sg rs receipt =
     (let d = setdefault (setdefault receipt ''schema_version'' (PStr ''1.0'')) ''receipt_id'' (PStr uuid);
          d = dset d ''sequence'' (PInt (int (length rs) + 1));
          d = dset d ''previous_receipt_hash'' (last_hash rs);
          d = (case sg of None \<Rightarrow> dpop d ''signature''
               | Some s \<Rightarrow> dset d ''signature'' (PDict (blank_receipt_signature s)))
      in dset d ''receipt_hash'' (PStr []))"

definition sign_receipt :: "crypto \<Rightarrow> receipt_signer option \<Rightarrow> pydict \<Rightarrow> pydict result" where
  "sign_receipt cr sg d = (case sg of None \<Rightarrow> Inr d
     | Some s \<Rightarrow> bindE (receipt_signed_payload cr d) (\<lambda>bytes.
         Inr (with_signature d (ed25519_sign cr (signer_secret s) bytes))))"

text \<open>The record \<open>append\<close> commits.\<close>

definition build_record :: "crypto \<Rightarrow> string \<Rightarrow> hash_sink \<Rightarrow> pyval \<Rightarrow> pydict result" where
  "build_record cr uuid sink v = (case v of
       PDict receipt \<Rightarrow> after (receipt_shape receipt)
         (let d = chained uuid (signer sink) (records sink) receipt in
          bindE (receipt_hash_payload cr d) (\<lambda>bytes.
            sign_receipt cr (signer sink) (dset d ''receipt_hash'' (PStr (digest_of cr bytes)))))
     | _ \<Rightarrow> Inl (receipt_error ''receipt must be an object''))"

definition commit_record :: "pydict \<Rightarrow> hash_sink \<Rightarrow> hash_sink" where
  "commit_record r sink = sink\<lparr>records := records sink @ [r]\<rparr>"

definition hash_append :: "crypto \<Rightarrow> string \<Rightarrow> pyval \<Rightarrow> hash_sink \<Rightarrow> pydict result \<times> hash_sink" where
  "hash_append cr uuid v sink = (case build_record cr uuid sink v of
       Inl e \<Rightarrow> (Inl e, sink) | Inr r \<Rightarrow> (Inr r, commit_record r sink))"

section \<open>Verification of a chain\<close>

definition receipt_signature_checks ::
    "crypto \<Rightarrow> (string \<times> trusted_key) list \<Rightarrow> pydict \<Rightarrow> check list" where
  "receipt_signature_checks cr trusted d =
     (let sig = sig_of d; names = [''algorithm'', ''key_id'', ''issuer'', ''value''] in
      if dget d ''signature'' = PNone then []
      else [require (is_mapping (dget d ''signature'') \<and> only_keys sig names \<and> has_keys sig names)
              (receipt_error ''signature fields''),
            require (dget sig ''algorithm'' = PStr ''Ed25519'') (receipt_error ''signature algorithm''),
            require (is_str (dget sig ''key_id'')) (receipt_error ''signature key_id'')]
         @ (case map_of trusted (str_of (dget sig ''key_id'')) of
              None \<Rightarrow> [Some (receipt_error ''signing key is not trusted'')]
            | Some key \<Rightarrow>
                [require (tk_issuer key = None \<or> dget sig ''issuer'' = opt_str (tk_issuer key))
                   (receipt_error ''signature issuer''),
                 check_encoded cr (tk_public key) (receipt_error ''signature verification failed'') (dget sig ''value'')
                   (receipt_signed_payload cr d)]))"

definition record_checks ::
    "crypto \<Rightarrow> (string \<times> trusted_key) list \<Rightarrow> int \<Rightarrow> pyval \<Rightarrow> pydict \<Rightarrow> check list" where
  "record_checks cr trusted n previous d =
     [receipt_shape d,
      require (py_eq (dget d ''sequence'') (PInt n)) (receipt_error ''sequence is not contiguous''),
      require (py_eq (dget d ''previous_receipt_hash'') previous) (receipt_error ''chain link is invalid''),
      require (is_str (dget d ''receipt_hash'') \<and> truthy (dget d ''receipt_hash'')) (receipt_error ''hash is missing''),
      check_of (bindE (receipt_hash_payload cr d) (\<lambda>bytes.
        if dget d ''receipt_hash'' = PStr (digest_of cr bytes) then Inr () else Inl (receipt_error ''hash verification failed'')))]
     @ receipt_signature_checks cr trusted d"

fun verify_from :: "crypto \<Rightarrow> (string \<times> trusted_key) list \<Rightarrow> int \<Rightarrow> pyval \<Rightarrow> pyval list \<Rightarrow> check" where
  "verify_from cr trusted n previous [] = None"
| "verify_from cr trusted n previous (v # vs) = (case v of
       PDict d \<Rightarrow> (case first_error (record_checks cr trusted n previous d) of
           Some e \<Rightarrow> Some e
         | None \<Rightarrow> verify_from cr trusted (n + 1) (dget d ''receipt_hash'') vs)
     | _ \<Rightarrow> Some (receipt_error ''record must be an object''))"

definition verify_receipt_chain :: "crypto \<Rightarrow> (string \<times> trusted_key) list \<Rightarrow> pyval list \<Rightarrow> check" where
  "verify_receipt_chain cr trusted vs = verify_from cr trusted 1 PNone vs"

section \<open>An appended record passes verification\<close>

definition chain_fields :: "string list" where
  "chain_fields = [''schema_version'', ''receipt_id'', ''sequence'', ''previous_receipt_hash'', ''signature'', ''receipt_hash'']"

lemma dhas_dpop [simp]: "dhas (dpop d k) j \<longleftrightarrow> j \<noteq> k \<and> dhas d j"
  by (auto simp: dhas_def map_of_dpop)

lemma chained_other:
  "f \<notin> set chain_fields \<Longrightarrow> dget (chained uuid sg rs d) f = dget d f \<and> dhas (chained uuid sg rs d) f = dhas d f"
  by (auto simp: chained_def chain_fields_def setdefault_def Let_def split: option.split)

lemma chained_reads:
  "dget (chained uuid sg rs d) ''sequence'' = PInt (int (length rs) + 1)"
  "dget (chained uuid sg rs d) ''previous_receipt_hash'' = last_hash rs"
  "dget (chained uuid sg rs d) ''receipt_hash'' = PStr []"
  "dhas (chained uuid sg rs d) ''receipt_id''"
  "dget (chained uuid sg rs d) ''signature'' = (case sg of None \<Rightarrow> PNone | Some s \<Rightarrow> PDict (blank_receipt_signature s))"
  by (auto simp: chained_def setdefault_def Let_def split: option.split)

lemma receipt_shape_cong:
  assumes "\<forall>f \<in> set required_receipt_fields. dhas d f = dhas e f"
    "\<forall>f \<in> set required_receipt_fields - {''receipt_id''}. dget d f = dget e f"
  shows "receipt_shape d = receipt_shape e"
proof -
  have "validate_required_fields d required_receipt_fields = validate_required_fields e required_receipt_fields"
    using assms(1) by (auto simp: validate_required_fields_def intro: filter_cong)
  moreover have "dget d f = dget e f" "dhas d f = dhas e f"
    if "f \<in> {''authorization_result'', ''side_effect_state'', ''matched_approved_binding'', ''target_resource_scope''}" for f
    using that assms by (auto simp: required_receipt_fields_def)
  ultimately show ?thesis by (simp add: receipt_shape_def validate_execution_receipt_def)
qed

lemma required_disjoint:
  "f \<in> set required_receipt_fields - {''receipt_id''} \<Longrightarrow> f \<notin> set chain_fields"
  by (auto simp: required_receipt_fields_def chain_fields_def)

lemma shape_needs_id: "receipt_shape d = None \<Longrightarrow> dhas d ''receipt_id''"
  by (auto simp: receipt_shape_def validate_execution_receipt_def Let_def validate_required_fields_def
      required_receipt_fields_def guarded_def bindE_def split: option.splits if_splits)

lemma blank_dset_commute:
  assumes "k \<noteq> ''signature''" "dhas d k"
  shows "blank_signature (dset d k v) = dset (blank_signature d) k v"
  using assms by (auto simp: blank_signature_def dset_commute dget_present split: pyval.split)

lemma hash_payload_blank:
  "receipt_hash_payload cr (dset d ''receipt_hash'' v) = receipt_hash_payload cr d"
  by (simp add: receipt_hash_payload_def)

lemma hash_payload_signed:
  assumes "dget d ''signature'' = PDict (blank_receipt_signature s)" "dhas d ''receipt_hash''"
  shows "receipt_hash_payload cr (with_signature d v) = receipt_hash_payload cr d"
proof -
  let ?e = "dset d ''receipt_hash'' (PStr [])"
  have b: "dget (blank_receipt_signature s) ''value'' = PStr []"
    by (simp add: blank_receipt_signature_def dget_def dget_or_def)
  have "dset (with_signature d v) ''receipt_hash'' (PStr []) =
      dset ?e ''signature'' (PDict (dset (blank_receipt_signature s) ''value'' (PStr (b64encode v))))"
    using assms by (simp add: with_signature_def dset_commute dget_present)
  then show ?thesis
    using blank_signature_set [of ?e "blank_receipt_signature s"] assms(1) b by (simp add: receipt_hash_payload_def)
qed

lemma build_record_Inr:
  assumes "build_record cr uuid sink v = Inr r"
  obtains receipt bytes where "v = PDict receipt" "receipt_shape receipt = None"
    "receipt_hash_payload cr (chained uuid (signer sink) (records sink) receipt) = Inr bytes"
    "sign_receipt cr (signer sink)
       (dset (chained uuid (signer sink) (records sink) receipt) ''receipt_hash'' (PStr (digest_of cr bytes))) = Inr r"
  using assms by (cases v) (auto simp: build_record_def Let_def)

lemma sign_receipt_reads:
  assumes "sign_receipt cr sg d = Inr r" "f \<noteq> ''signature''"
  shows "dget r f = dget d f" "dhas r f = dhas d f"
  using assms by (auto simp: sign_receipt_def with_signature_def split: option.splits)

lemma sign_receipt_hash:
  assumes "sign_receipt cr sg d = Inr r" "dhas d ''receipt_hash''"
    "\<And>s. sg = Some s \<Longrightarrow> dget d ''signature'' = PDict (blank_receipt_signature s)"
  shows "receipt_hash_payload cr r = receipt_hash_payload cr d"
  using assms by (cases sg) (auto simp: sign_receipt_def hash_payload_signed)

definition signer_trusted :: "crypto \<Rightarrow> (string \<times> trusted_key) list \<Rightarrow> receipt_signer option \<Rightarrow> bool" where
  "signer_trusted cr trusted sg \<longleftrightarrow> (case sg of None \<Rightarrow> True
     | Some s \<Rightarrow> (case map_of trusted (signer_key_id s) of None \<Rightarrow> False
         | Some key \<Rightarrow> tk_public key = ed25519_public cr (signer_secret s) \<and> tk_issuer key \<in> {None, Some (signer_issuer s)}))"

lemma signature_checks_pass:
  assumes "signature_scheme cr" "signer_trusted cr trusted sg" "sign_receipt cr sg d = Inr r"
    "dget d ''signature'' = (case sg of None \<Rightarrow> PNone | Some s \<Rightarrow> PDict (blank_receipt_signature s))"
  shows "\<forall>c \<in> set (receipt_signature_checks cr trusted r). c = None"
proof (cases sg)
  case (Some s)
  let ?b = "blank_receipt_signature s"
  obtain key where key: "map_of trusted (signer_key_id s) = Some key" "tk_public key = ed25519_public cr (signer_secret s)"
    "tk_issuer key \<in> {None, Some (signer_issuer s)}"
    using assms(2) Some by (auto simp: signer_trusted_def split: option.splits)
  obtain bytes where p: "receipt_signed_payload cr d = Inr bytes"
    and r: "r = with_signature d (ed25519_sign cr (signer_secret s) bytes)"
    using assms(3) Some by (auto simp: sign_receipt_def)
  have b: "dget ?b ''value'' = PStr []" by (simp add: blank_receipt_signature_def dget_def dget_or_def)
  have d: "dget d ''signature'' = PDict ?b" using assms(4) Some by simp
  define sg' where "sg' = dset ?b ''value'' (PStr (b64encode (ed25519_sign cr (signer_secret s) bytes)))"
  have sig: "dget r ''signature'' = PDict sg'" "sig_of r = sg'" by (simp_all add: r with_signature_def d sig_of_def sg'_def)
  have reads: "dget sg' ''algorithm'' = PStr ''Ed25519''" "dget sg' ''key_id'' = PStr (signer_key_id s)"
      "dget sg' ''issuer'' = PStr (signer_issuer s)" "dget sg' ''value'' = PStr (b64encode (ed25519_sign cr (signer_secret s) bytes))"
      "only_keys sg' [''algorithm'', ''key_id'', ''issuer'', ''value'']" "has_keys sg' [''algorithm'', ''key_id'', ''issuer'', ''value'']"
    by (simp_all add: sg'_def blank_receipt_signature_def only_keys_def has_keys_def dhas_def dget_def dget_or_def dset_def)
  have "receipt_signed_payload cr r = Inr bytes"
    using p unfolding r receipt_signed_payload_def by (subst signed_payload_with_signature [OF d b])
  with key show ?thesis
    using assms(1) check_encoded_signed [OF assms(1) key(2)]
    by (auto simp: receipt_signature_checks_def Let_def sig reads)
qed (use assms(3,4) in \<open>simp add: sign_receipt_def receipt_signature_checks_def\<close>)

lemma built_record_checks:
  assumes "signature_scheme cr" "signer_trusted cr trusted (signer sink)" "build_record cr uuid sink v = Inr r"
    and last: "last_hash (records sink) = PNone \<or> is_str (last_hash (records sink))"
  shows "first_error (record_checks cr trusted (int (length (records sink)) + 1) (last_hash (records sink)) r) = None"
proof -
  obtain receipt bytes where shape: "receipt_shape receipt = None"
    and h: "receipt_hash_payload cr (chained uuid (signer sink) (records sink) receipt) = Inr bytes"
    and r: "sign_receipt cr (signer sink)
       (dset (chained uuid (signer sink) (records sink) receipt) ''receipt_hash'' (PStr (digest_of cr bytes))) = Inr r"
    using assms(3) by (rule build_record_Inr)
  let ?c = "chained uuid (signer sink) (records sink) receipt"
  let ?d = "dset ?c ''receipt_hash'' (PStr (digest_of cr bytes))"
  have reads: "dget r f = dget ?d f" "dhas r f = dhas ?d f" if "f \<noteq> ''signature''" for f
    using sign_receipt_reads [OF r that] by simp_all
  have other: "dget r f = dget receipt f \<and> dhas r f = dhas receipt f"
    if "f \<in> set required_receipt_fields - {''receipt_id''}" for f
  proof -
    have n: "f \<notin> set chain_fields" using that by (rule required_disjoint)
    then have "f \<noteq> ''signature''" "f \<noteq> ''receipt_hash''" by (auto simp: chain_fields_def)
    with chained_other [OF n] show ?thesis by (simp add: reads)
  qed
  have "dhas r ''receipt_id'' = dhas receipt ''receipt_id''"
    using shape_needs_id [OF shape] by (simp add: reads chained_reads)
  with other have "receipt_shape r = receipt_shape receipt" by (intro receipt_shape_cong) blast+
  moreover have "receipt_hash_payload cr r = Inr bytes"
    using sign_receipt_hash [OF r] h by (simp add: hash_payload_blank chained_reads)
  moreover have "\<forall>c \<in> set (receipt_signature_checks cr trusted r). c = None"
    using r by (intro signature_checks_pass [OF assms(1,2) r]) (simp add: chained_reads)
  moreover have "py_eq (last_hash (records sink)) (last_hash (records sink))"
    using last by (cases "last_hash (records sink)") auto
  ultimately show ?thesis
    using shape by (simp add: record_checks_def first_error_None reads chained_reads digest_of_def fl_eq_def)
qed

lemma verify_from_append:
  "verify_from cr trusted n previous (map PDict xs @ vs) = None \<longleftrightarrow>
     verify_from cr trusted n previous (map PDict xs) = None \<and>
     verify_from cr trusted (n + int (length xs)) (if xs = [] then previous else last_hash xs) vs = None"
proof (induction xs arbitrary: n previous)
  case (Cons d xs)
  have "(if xs = [] then dget d ''receipt_hash'' else last_hash xs) = last_hash (d # xs)"
    by (auto simp: last_hash_def)
  then show ?case
    using Cons.IH [of "n + 1" "dget d ''receipt_hash''"] by (auto simp: algebra_simps split: option.split)
qed simp

lemma verified_last_hash:
  "verify_from cr trusted n previous (map PDict xs) = None \<Longrightarrow> xs \<noteq> [] \<Longrightarrow> is_str (last_hash xs) \<and> truthy (last_hash xs)"
proof (induction xs arbitrary: n previous)
  case (Cons d xs)
  show ?case
  proof (cases "xs = []")
    case True
    with Cons.prems show ?thesis
      by (auto simp: last_hash_def record_checks_def first_error_None split: option.splits)
  next
    case False
    with Cons show ?thesis by (auto simp: last_hash_def split: option.splits)
  qed
qed simp

section \<open>The interface of a sink\<close>

text \<open>
  \<open>ReceiptSink\<close>: a successful append adds the returned record to the log, a failed one leaves the log
  as it was.
\<close>

locale receipt_sink =
  fixes append_op :: "'i \<Rightarrow> 's \<Rightarrow> pydict result \<times> 's"
    and log :: "'s \<Rightarrow> pydict list"
  assumes accepted: "append_op i s = (Inr r, s') \<Longrightarrow> log s' = log s @ [r]"
    and refused: "append_op i s = (Inl e, s') \<Longrightarrow> log s' = log s"
begin

text \<open>Nothing is removed or rewritten, whatever is appended.\<close>

lemma append_only: "\<exists>rs. log (fold (\<lambda>i s. snd (append_op i s)) ops s) = log s @ rs"
proof (induction ops arbitrary: s)
  case (Cons i ops)
  obtain res s' where r: "append_op i s = (res, s')" by fastforce
  then obtain rs where "log s' = log s @ rs"
    using accepted [of i s] refused [of i s] by (cases res) auto
  with r Cons.IH [of s'] show ?case by auto
qed simp

end

definition hash_append_op :: "crypto \<Rightarrow> string \<times> pyval \<Rightarrow> hash_sink \<Rightarrow> pydict result \<times> hash_sink" where
  "hash_append_op cr i sink = hash_append cr (fst i) (snd i) sink"

interpretation hash_chain: receipt_sink "hash_append_op cr" records for cr
  by unfold_locales (auto simp: hash_append_op_def hash_append_def commit_record_def split: sum.splits)

section \<open>Properties of the chain\<close>

lemma append_verified:
  assumes "signature_scheme cr" "signer_trusted cr trusted (signer sink)"
    and chain: "verify_receipt_chain cr trusted (map PDict (records sink)) = None"
    and b: "build_record cr uuid sink v = Inr r"
  shows "verify_receipt_chain cr trusted (map PDict (records sink @ [r])) = None"
proof -
  have "last_hash (records sink) = PNone \<or> is_str (last_hash (records sink))"
    using verified_last_hash [of cr trusted 1 PNone "records sink"] chain
    by (auto simp: verify_receipt_chain_def last_hash_def)
  then have "first_error (record_checks cr trusted (int (length (records sink)) + 1) (last_hash (records sink)) r) = None"
    by (rule built_record_checks [OF assms(1,2) b])
  then show ?thesis
    using chain by (auto simp: verify_receipt_chain_def verify_from_append last_hash_def algebra_simps)
qed

text \<open>
  C13. What the sink appends verifies: from a chain that verifies, a successful append commits exactly the
  record it returns, with every input field outside the chain's own kept, and the longer chain verifies
  under trust roots that hold the sink's signing key (signatures included).
\<close>

theorem appended_chain_verifies:
  assumes "signature_scheme cr" "signer_trusted cr trusted (signer sink)"
    and chain: "verify_receipt_chain cr trusted (map PDict (records sink)) = None"
    and app: "hash_append cr uuid (PDict receipt) sink = (Inr r, sink')"
  shows "records sink' = records sink @ [r] \<and> signer sink' = signer sink \<and>
    verify_receipt_chain cr trusted (map PDict (records sink')) = None \<and>
    (\<forall>f. f \<notin> set chain_fields \<longrightarrow> dget r f = dget receipt f)"
proof -
  from app have b: "build_record cr uuid sink (PDict receipt) = Inr r" and s': "sink' = commit_record r sink"
    by (auto simp: hash_append_def split: sum.splits)
  have "verify_receipt_chain cr trusted (map PDict (records sink @ [r])) = None"
    by (rule append_verified [OF assms(1-3) b])
  moreover have "dget r f = dget receipt f" if f: "f \<notin> set chain_fields" for f
  proof -
    have n: "f \<noteq> ''signature''" "f \<noteq> ''receipt_hash''" using f by (auto simp: chain_fields_def)
    obtain bytes where "sign_receipt cr (signer sink)
       (dset (chained uuid (signer sink) (records sink) receipt) ''receipt_hash'' (PStr (digest_of cr bytes))) = Inr r"
      using b by (rule build_record_Inr) auto
    from sign_receipt_reads(1) [OF this n(1)] n(2) chained_other [OF f] show ?thesis by simp
  qed
  ultimately show ?thesis by (simp add: s' commit_record_def)
qed

definition sample_receipt :: "string \<Rightarrow> pydict" where
  "sample_receipt rid = obj [(''receipt_id'', PStr rid), (''session_id'', PStr ''s''), (''binding_id'', PStr ''b''),
     (''check_id'', PStr ''c''), (''timestamp'', PStr ''t''), (''actor'', PStr ''a''), (''requested_tool_name'', PStr ''mail''),
     (''authorization_result'', PStr ''denied''), (''side_effect_state'', PStr ''blocked_before_side_effect''),
     (''matched_approved_binding'', PBool False), (''registry_version'', PInt 0), (''policy_bundle_digest'', PStr []),
     (''tool_descriptor_digest'', PStr []), (''normalized_argument_digest'', PStr []), (''target_resource_scope'', PDict []),
     (''approval_id_or_lease_id'', PStr [])]"

definition sample_signer :: receipt_signer where
  "sample_signer = \<lparr>signer_secret = ''k'', signer_key_id = ''key'', signer_issuer = ''me''\<rparr>"

definition sample_sink :: hash_sink where
  "sample_sink = \<lparr>signer = Some sample_signer, records = []\<rparr>"

lemma sample_signer_trusted: "signer_trusted sample_crypto [(''key'', sample_key)] (Some sample_signer)"
  by code_simp

lemma sample_append: "\<not> isl (fst (hash_append sample_crypto ''u'' (PDict (sample_receipt ''r'')) sample_sink))"
  by code_simp

theorem appended_chain_verifies_witness:
  "\<exists>r sink'. hash_append sample_crypto ''u'' (PDict (sample_receipt ''r'')) sample_sink = (Inr r, sink') \<and>
    records sink' = [r] \<and> verify_receipt_chain sample_crypto [(''key'', sample_key)] [PDict r] = None"
proof -
  obtain r sink' where a: "hash_append sample_crypto ''u'' (PDict (sample_receipt ''r'')) sample_sink = (Inr r, sink')"
    using sample_append by (metis not_isl_ex prod.collapse)
  have "signer_trusted sample_crypto [(''key'', sample_key)] (signer sample_sink)"
    "verify_receipt_chain sample_crypto [(''key'', sample_key)] (map PDict (records sample_sink)) = None"
    using sample_signer_trusted by (simp_all add: sample_sink_def verify_receipt_chain_def)
  from appended_chain_verifies [OF sample_crypto_scheme this a] a show ?thesis by (auto simp: sample_sink_def)
qed

text \<open>Two inputs with one SHA-256 digest; two payloads that link to different records with the same canonical bytes.\<close>

definition sha256_collision :: "crypto \<Rightarrow> bool" where
  "sha256_collision cr \<longleftrightarrow> (\<exists>p q. p \<noteq> q \<and> sha256_hex cr p = sha256_hex cr q)"

definition jcs_link_ambiguity :: "crypto \<Rightarrow> bool" where
  "jcs_link_ambiguity cr \<longleftrightarrow> (\<exists>d e b. rfc8785 cr (domain_payload receipt_domain d) = Some b \<and>
     rfc8785 cr (domain_payload receipt_domain e) = Some b \<and>
     dget d ''previous_receipt_hash'' \<noteq> dget e ''previous_receipt_hash'')"

lemma verified_record_hash:
  assumes "first_error (record_checks cr trusted n previous d) = None" "previous = PNone \<or> is_str previous"
  obtains bytes where "receipt_hash_payload cr d = Inr bytes" "dget d ''receipt_hash'' = PStr (digest_of cr bytes)"
    "dget d ''previous_receipt_hash'' = previous"
proof -
  obtain bytes where "receipt_hash_payload cr d = Inr bytes" "dget d ''receipt_hash'' = PStr (digest_of cr bytes)"
    using assms(1) by (auto simp: record_checks_def first_error_None split: sum.splits if_splits)
  moreover have "dget d ''previous_receipt_hash'' = previous"
    using assms by (cases previous) (auto simp: record_checks_def first_error_None)
  ultimately show thesis by (rule that)
qed

lemma same_bytes_same_link:
  assumes "receipt_hash_payload cr d = Inr bytes" "receipt_hash_payload cr e = Inr bytes" "\<not> jcs_link_ambiguity cr"
  shows "dget d ''previous_receipt_hash'' = dget e ''previous_receipt_hash''"
proof -
  have r: "dget (blank_signature (dset x ''receipt_hash'' (PStr []))) ''previous_receipt_hash'' = dget x ''previous_receipt_hash''" for x
    by (simp add: blank_signature_def split: pyval.split)
  let ?b = "\<lambda>x. blank_signature (dset x ''receipt_hash'' (PStr []))"
  have "rfc8785 cr (domain_payload receipt_domain (?b d)) = Some bytes" "rfc8785 cr (domain_payload receipt_domain (?b e)) = Some bytes"
    using assms(1,2) by (auto simp: receipt_hash_payload_def canonical_def split: option.splits)
  with assms(3) have "dget (?b d) ''previous_receipt_hash'' = dget (?b e) ''previous_receipt_hash''"
    unfolding jcs_link_ambiguity_def by blast
  then show ?thesis by (simp only: r)
qed

lemma verified_snoc:
  assumes "verify_receipt_chain cr trusted (map PDict (xs @ [d])) = None"
  shows "verify_receipt_chain cr trusted (map PDict xs) = None"
    "\<exists>bytes. receipt_hash_payload cr d = Inr bytes \<and> dget d ''receipt_hash'' = PStr (digest_of cr bytes)"
    "dget d ''previous_receipt_hash'' = last_hash xs"
proof -
  show v: "verify_receipt_chain cr trusted (map PDict xs) = None"
    using assms by (simp add: verify_receipt_chain_def verify_from_append)
  then have l: "last_hash xs = PNone \<or> is_str (last_hash xs)"
    using verified_last_hash [of cr trusted 1 PNone xs] by (auto simp: verify_receipt_chain_def last_hash_def)
  have "first_error (record_checks cr trusted (1 + int (length xs)) (last_hash xs) d) = None"
  proof -
    have "verify_from cr trusted (1 + int (length xs)) (if xs = [] then PNone else last_hash xs) [PDict d] = None"
      using assms by (simp only: verify_receipt_chain_def map_append list.map verify_from_append)
    moreover have "(if xs = [] then PNone else last_hash xs) = last_hash xs" by (simp add: last_hash_def)
    ultimately show ?thesis by (simp split: option.splits)
  qed
  then obtain bytes where "receipt_hash_payload cr d = Inr bytes" "dget d ''receipt_hash'' = PStr (digest_of cr bytes)"
    and prev: "dget d ''previous_receipt_hash'' = last_hash xs"
    using l by (rule verified_record_hash)
  then show "\<exists>bytes. receipt_hash_payload cr d = Inr bytes \<and> dget d ''receipt_hash'' = PStr (digest_of cr bytes)" by blast
  show "dget d ''previous_receipt_hash'' = last_hash xs" by (rule prev)
qed

lemma same_last_hash_same_chain:
  assumes "verify_receipt_chain cr trusted (map PDict xs) = None" "verify_receipt_chain cr trusted' (map PDict ys) = None"
    and "length xs = length ys" "last_hash xs = last_hash ys"
    and "\<not> sha256_collision cr" "\<not> jcs_link_ambiguity cr"
  shows "map (receipt_hash_payload cr) xs = map (receipt_hash_payload cr) ys"
  using assms
proof (induction xs arbitrary: ys rule: rev_induct)
  case (snoc d xs)
  then obtain e ys' where ys: "ys = ys' @ [e]" by (metis length_0_conv rev_exhaust snoc_eq_iff_butlast)
  note vd = verified_snoc [OF snoc.prems(1)] and ve = verified_snoc [OF snoc.prems(2) [unfolded ys]]
  obtain b b' where b: "receipt_hash_payload cr d = Inr b" "receipt_hash_payload cr e = Inr b'"
    "dget d ''receipt_hash'' = PStr (digest_of cr b)" "dget e ''receipt_hash'' = PStr (digest_of cr b')"
    using vd(2) ve(2) by blast
  have "b = b'"
    using snoc.prems(4,5) b(3,4) by (auto simp: ys last_hash_def digest_of_def sha256_collision_def)
  with same_bytes_same_link [OF b(1)] b(2) snoc.prems(6) vd(3) ve(3) have "last_hash xs = last_hash ys'" by simp
  with snoc.IH [OF vd(1) ve(1)] snoc.prems(3,5,6) have "map (receipt_hash_payload cr) xs = map (receipt_hash_payload cr) ys'"
    by (simp add: ys)
  with b \<open>b = b'\<close> show ?case by (simp add: ys)
qed simp



end
