(* ===== verification/Invoke.thy ===== *)
theory Invoke
  imports BoundTool Gate Approvals DelegationTransport Breaker RuntimeLimits Receipts
begin

text \<open>
  \<^verbatim>\<open>BoundTool.invoke\<close> of \<^verbatim>\<open>runtime_binding.py\<close>, the path every governed tool call takes: arguments,
  resource, scope, delegation, approval, policy, breaker, budget, receipt, the call, and the records that follow it.
  The components are those of the other theories, one runtime state holds theirs, and a frame adds the local
  variables of one invocation. A database failure, a clock reading or a fresh id is an input.
\<close>

section \<open>Arguments, services and state\<close>

record call =
  cl_agent :: string
  cl_actor :: "string option"
  cl_target :: "string option"
  cl_signals :: pydict
  cl_approval :: "pyval option"
  cl_approval_keys :: "(string \<times> trusted_key) list"
  cl_binding :: "string option"
  cl_request :: "string option"
  cl_correlation :: "correlation option"
  cl_session :: "string option"
  cl_tenant :: "string option"
  cl_scope :: "execution_scope option"
  cl_require_scope :: bool
  cl_chain :: "pyval option"
  cl_transport :: "pyval option"
  cl_delegation_keys :: "(string \<times> delegation_key) list"
  cl_audience :: "string option"
  cl_sender_deployment :: "string option"
  cl_sender_workload :: "string option"
  cl_receiver_deployment :: "string option"
  cl_receiver_workload :: "string option"
  cl_budget_scope :: "string option"
  cl_limits :: limits
  cl_fingerprint :: "string option"
  cl_threshold :: "int option"
  cl_args :: "pyval list"
  cl_kwargs :: "(string \<times> pyval) list"

text \<open>
  The collaborators that were passed (\<open>None\<close> when not), the faults of their databases, and what is read from the
  system. \<open>sv_stamp\<close> is the fresh receipt id and the timestamp of a phase.
\<close>

record 'r services =
  sv_schema :: json_schema
  sv_gate :: gate_inputs
  sv_clock :: datetime
  sv_now :: int
  sv_uuid :: string
  sv_stamp :: "string \<Rightarrow> string \<times> string"
  sv_sink :: "(pydict \<Rightarrow> 'r \<Rightarrow> check \<times> 'r) option"
  sv_replay :: "guard_state replay_ops option"
  sv_transport_replay :: "guard_state replay_ops option"
  sv_fan :: "fan_ops option"
  sv_breaker :: "(db_fault \<times> db_fault) option"
  sv_budget :: "(db_fault \<times> db_fault) option"

text \<open>\<open>rt_calls\<close> are the arguments the tool has been called with.\<close>

record 'r runtime =
  rt_gate :: gate_state
  rt_replay :: guard_state
  rt_transport :: guard_state
  rt_breaker :: breaker_store
  rt_budget :: budget_store
  rt_sink :: 'r
  rt_calls :: "pydict list"

record 'r frame = "'r runtime" +
  fr_digest :: string
  fr_approval :: "verified_approval option"
  fr_delegation :: "verified_delegation option"
  fr_denial :: "policy_decision option"
  fr_breaker :: "breaker_snapshot option"
  fr_budget :: "budget_snapshot option"
  fr_lease :: "string option"
  fr_attempted :: bool

definition new_frame :: "'r runtime \<Rightarrow> 'r frame" where
  "new_frame s = runtime.extend s \<lparr>fr_digest = [], fr_approval = None, fr_delegation = None, fr_denial = None,
     fr_breaker = None, fr_budget = None, fr_lease = None, fr_attempted = False\<rparr>"

text \<open>\<open>v or d\<close> for a text that may be absent.\<close>

definition or_text :: "string option \<Rightarrow> string \<Rightarrow> string" where
  "or_text v d = (case v of None \<Rightarrow> d | Some s \<Rightarrow> if s = [] then d else s)"

definition invocation_id :: "'r services \<Rightarrow> call \<Rightarrow> string" where
  "invocation_id sv cl = or_text (cl_request cl) (sv_uuid sv)"

definition fingerprint_of :: "bound_tool \<Rightarrow> call \<Rightarrow> string" where
  "fingerprint_of bt cl = or_text (cl_fingerprint cl)
     (cl_agent cl @ '':'' @ bt_tool bt @ '':'' @ or_text (cl_target cl) ''<none>'')"

definition lease_of :: "'r services \<Rightarrow> call \<Rightarrow> string" where
  "lease_of sv cl = ''lease:'' @ invocation_id sv cl"

section \<open>Receipts of one invocation\<close>

record entry =
  en_result :: string
  en_side :: string
  en_phase :: string
  en_reason :: string
  en_decision :: "policy_decision option"
  en_output :: "string option"
  en_error :: "string option"
  en_breaker :: "breaker_snapshot option"

definition allowed_entry :: "string \<Rightarrow> policy_decision \<Rightarrow> breaker_snapshot option \<Rightarrow> entry" where
  "allowed_entry phase d br = \<lparr>en_result = ''allowed'', en_side = ''side_effect_attempted'', en_phase = phase, en_reason = [],
     en_decision = Some d, en_output = None, en_error = None, en_breaker = br\<rparr>"

definition blocked_entry :: "string \<Rightarrow> exn \<Rightarrow> policy_decision option \<Rightarrow> breaker_snapshot option \<Rightarrow> entry" where
  "blocked_entry result e d br = \<lparr>en_result = result, en_side = ''blocked_before_side_effect'', en_phase = ''pre_dispatch'',
     en_reason = code_of e, en_decision = d, en_output = None, en_error = Some (code_of e), en_breaker = br\<rparr>"

definition state_text :: "breaker_state \<Rightarrow> string" where
  "state_text b = (case b of Closed \<Rightarrow> ''closed'' | Open \<Rightarrow> ''open'' | HalfOpen \<Rightarrow> ''half_open'')"

definition from_option :: "('a \<Rightarrow> pyval) \<Rightarrow> 'a option \<Rightarrow> pyval" where
  "from_option f v = (case v of None \<Rightarrow> PNone | Some x \<Rightarrow> f x)"

definition bundle_facts :: "gate_state \<Rightarrow> int \<times> string" where
  "bundle_facts g = (case gs_checker g of None \<Rightarrow> (0, [])
     | Some ck \<Rightarrow> (case active ck of None \<Rightarrow> (0, []) | Some st \<Rightarrow> (bundle_revision st, bundle_digest st)))"

definition receipt_of :: "bound_tool \<Rightarrow> 'r services \<Rightarrow> call \<Rightarrow> entry \<Rightarrow> 'r frame \<Rightarrow> pydict" where
  "receipt_of bt sv cl en s = obj
     [(''schema_version'', PStr ''1.0''), (''receipt_id'', PStr (fst (sv_stamp sv (en_phase en)))),
      (''check_id'', PStr (''check:'' @ invocation_id sv cl)), (''phase'', PStr (en_phase en)),
      (''session_id'', PStr (or_text (cl_session cl) ''unspecified'')),
      (''binding_id'', PStr (or_text (cl_binding cl) (''in-process:'' @ bt_digest bt @ '':'' @ bt_tool bt))),
      (''timestamp'', PStr (snd (sv_stamp sv (en_phase en)))), (''actor'', PStr (or_text (cl_actor cl) (cl_agent cl))),
      (''agent_id'', PStr (cl_agent cl)), (''project_id'', from_option (PStr \<circ> project_id) (cl_scope cl)),
      (''workspace_id'', from_option (PStr \<circ> workspace_id) (cl_scope cl)), (''requested_tool_name'', PStr (bt_tool bt)),
      (''tool_id'', PStr (bt_tool bt)), (''authorization_result'', PStr (en_result en)), (''side_effect_state'', PStr (en_side en)),
      (''matched_approved_binding'', PBool (fr_approval s \<noteq> None)), (''registry_version'', PInt (fst (bundle_facts (rt_gate s)))),
      (''policy_bundle_digest'', PStr (snd (bundle_facts (rt_gate s)))), (''tool_descriptor_digest'', PStr (bt_digest bt)),
      (''normalized_argument_digest'', PStr (fr_digest s)),
      (''target_resource_scope'', PDict (case cl_target cl of None \<Rightarrow> [] | Some r \<Rightarrow> obj [(''resource'', PStr r)])),
      (''approval_id_or_lease_id'', PStr (case fr_approval s of None \<Rightarrow> [] | Some va \<Rightarrow> va_token va)),
      (''request_id'', PStr (invocation_id sv cl)),
      (''decision_id'', PStr (case en_decision en of None \<Rightarrow> [] | Some d \<Rightarrow> decision_id d)), (''reason'', PStr (en_reason en)),
      (''output_digest'', opt_str (en_output en)), (''error_code'', opt_str (en_error en)),
      (''failure_fingerprint'', if sv_breaker sv = None then PNone else PStr (fingerprint_of bt cl)),
      (''breaker_state'', from_option (PStr \<circ> state_text \<circ> sn_state) (en_breaker en)),
      (''breaker_count'', from_option (PInt \<circ> sn_count) (en_breaker en)),
      (''delegation_id'', from_option (PStr \<circ> vd_id) (fr_delegation s)),
      (''delegation_depth'', from_option (PInt \<circ> vd_depth) (fr_delegation s)),
      (''budget_scope'', from_option (PStr \<circ> bs_scope) (fr_budget s)), (''budget_lease_id'', from_option (PStr \<circ> bs_lease) (fr_budget s)),
      (''budget_active_leases'', from_option (\<lambda>b. PInt (int (bs_active b))) (fr_budget s)),
      (''budget_rate_events'', from_option (\<lambda>b. PInt (int (bs_events b))) (fr_budget s))]"

definition emit_receipt :: "bound_tool \<Rightarrow> 'r services \<Rightarrow> call \<Rightarrow> entry \<Rightarrow> 'r frame \<Rightarrow> unit result \<times> 'r frame" where
  "emit_receipt bt sv cl en s = (case sv_sink sv of
       None \<Rightarrow> (Inr (), s)
     | Some sink \<Rightarrow> bind_op (update_op (fr_attempted_update (\<lambda>_. True)))
         (\<lambda>u. bind_op (raise_or (case cl_correlation cl of
               None \<Rightarrow> Inr (receipt_of bt sv cl en s) | Some c \<Rightarrow> attach_correlation_fields (receipt_of bt sv cl en s) c))
           (\<lambda>receipt. on_part rt_sink (\<lambda>k s. s\<lparr>rt_sink := k\<rparr>)
             (\<lambda>k. (result_of_check (fst (sink receipt k)), snd (sink receipt k))))) s)"

section \<open>Authorization\<close>

definition scope_signals :: "call \<Rightarrow> pydict result" where
  "scope_signals cl =
     (if cl_require_scope cl \<and> cl_scope cl = None then Inl (binding_error ''EXECUTION_SCOPE_REQUIRED'')
      else if dhas (cl_signals cl) ''execution_scope'' then Inl (binding_error ''EXECUTION_SCOPE_INPUT_AMBIGUOUS'')
      else Inr (case cl_scope cl of None \<Rightarrow> cl_signals cl | Some s \<Rightarrow> dset (cl_signals cl) ''execution_scope'' (scope_signal s)))"

definition call_context :: "call \<Rightarrow> string \<Rightarrow> delegation_context" where
  "call_context cl audience = \<lparr>dc_audience = audience, dc_subject = Some (cl_agent cl), dc_session = cl_session cl,
     dc_tenant = cl_tenant cl, dc_project = map_option project_id (cl_scope cl), dc_workspace = map_option workspace_id (cl_scope cl),
     dc_deployment = None, dc_workload = None, dc_bound = False\<rparr>"

definition call_identities :: "call \<Rightarrow> string \<Rightarrow> transport_expectation option" where
  "call_identities cl audience =
     (case (cl_sender_deployment cl, cl_sender_workload cl, cl_receiver_deployment cl, cl_receiver_workload cl) of
        (Some sd, Some sw, Some rd, Some rw) \<Rightarrow> Some \<lparr>te_audience = audience, te_sender = cl_agent cl, te_sender_deployment = sd,
            te_sender_workload = sw, te_receiver_deployment = rd, te_receiver_workload = rw\<rparr>
      | _ \<Rightarrow> None)"

text \<open>The leaf of the verified chain, carried by the call itself or by an envelope.\<close>

definition verified_leaf :: "crypto \<Rightarrow> 'r services \<Rightarrow> bound_tool \<Rightarrow> call \<Rightarrow> string \<Rightarrow> 'r frame \<Rightarrow> verified_delegation result \<times> 'r frame" where
  "verified_leaf cr sv bt cl audience = (case cl_transport cl of
       Some v \<Rightarrow> (case call_identities cl audience of
           None \<Rightarrow> raise_or (Inl (delegation_error ''DELEGATION_TRANSPORT_IDENTITY_REQUIRED''))
         | Some x \<Rightarrow> bind_op (on_part rt_transport (\<lambda>p s. s\<lparr>rt_transport := p\<rparr>)
               (verify_delegation_transport cr v (cl_delegation_keys cl) x (call_context cl audience) (Some (bt_action bt)) (cl_target cl)
                  (sv_transport_replay sv) (sv_fan sv) (sv_clock sv) 60 8))
             (\<lambda>vt. raise_or (Inr (last (vt_chain vt)))))
     | None \<Rightarrow> raise_or (bindE (verify_delegation_chain cr (the (cl_chain cl)) (cl_delegation_keys cl) (call_context cl audience)
         (Some (bt_action bt)) (cl_target cl) (sv_fan sv) (sv_clock sv) 60 8) (\<lambda>ds. Inr (last ds))))"

definition delegate :: "crypto \<Rightarrow> 'r services \<Rightarrow> bound_tool \<Rightarrow> call \<Rightarrow> pydict \<Rightarrow> 'r frame \<Rightarrow> pydict result \<times> 'r frame" where
  "delegate cr sv bt cl sigs =
     (let err = (\<lambda>code. raise_or (Inl (delegation_error code))) in
      if cl_chain cl \<noteq> None \<and> cl_transport cl \<noteq> None then err ''DELEGATION_INPUT_AMBIGUOUS''
      else if cl_chain cl = None \<and> cl_transport cl = None then raise_or (Inr sigs)
      else if cl_delegation_keys cl = [] then err ''DELEGATION_TRUST_ROOT_REQUIRED''
      else (case cl_audience cl of
          None \<Rightarrow> err ''DELEGATION_AUDIENCE_REQUIRED''
        | Some audience \<Rightarrow> bind_op (verified_leaf cr sv bt cl audience) (\<lambda>d.
            bind_op (update_op (fr_delegation_update (\<lambda>_. Some d))) (\<lambda>u.
              if dhas sigs ''delegation'' then err ''DELEGATION_INPUT_AMBIGUOUS''
              else raise_or (Inr (dset sigs ''delegation'' (delegation_signal d)))))))"

definition call_approval_target :: "bound_tool \<Rightarrow> call \<Rightarrow> string \<Rightarrow> approval_target" where
  "call_approval_target bt cl digest = \<lparr>at_agent = PStr (cl_agent cl), at_action = PStr (bt_action bt), at_arguments = PStr digest,
     at_resource = opt_str (cl_target cl), at_tool = PStr (bt_tool bt), at_session = opt_str (cl_session cl),
     at_tenant = opt_str (cl_tenant cl), at_project = opt_str (map_option project_id (cl_scope cl)),
     at_workspace = opt_str (map_option workspace_id (cl_scope cl))\<rparr>"

definition approve :: "crypto \<Rightarrow> 'r services \<Rightarrow> bound_tool \<Rightarrow> call \<Rightarrow> string \<Rightarrow> pydict \<Rightarrow> 'r frame \<Rightarrow> pydict result \<times> 'r frame" where
  "approve cr sv bt cl digest sigs = (case cl_approval cl of
       None \<Rightarrow> raise_or (Inr sigs)
     | Some v \<Rightarrow>
         if dhas sigs ''approval'' then raise_or (Inl (approval_error ''APPROVAL_INPUT_AMBIGUOUS''))
         else if cl_approval_keys cl = [] then raise_or (Inl (approval_error ''APPROVAL_TRUST_ROOT_REQUIRED''))
         else bind_op (on_part rt_replay (\<lambda>p s. s\<lparr>rt_replay := p\<rparr>)
             (verify_approval_token cr v (cl_approval_keys cl) (call_approval_target bt cl digest) None (sv_replay sv) (sv_clock sv) 60))
           (\<lambda>va. bind_op (update_op (fr_approval_update (\<lambda>_. Some va))) (\<lambda>u.
              raise_or (Inr (dset sigs ''approval'' (approval_signal va))))))"

text \<open>The request factory handed to the gate; the approval may name the digest of the whole request.\<close>

definition call_request ::
    "crypto \<Rightarrow> 'r services \<Rightarrow> bound_tool \<Rightarrow> call \<Rightarrow> string \<Rightarrow> pydict \<Rightarrow> verified_approval option \<Rightarrow> invocation_context \<Rightarrow> action_request result" where
  "call_request cr sv bt cl digest sigs va cx =
     bindE (ActionRequest (gi_request_id (sv_gate sv)) (gi_now (sv_gate sv)) (obj
       ([(''request_id'', PStr (invocation_id sv cl)), (''agent_id'', PStr (cl_agent cl)), (''action'', PStr (bt_action bt)),
         (''tool_id'', PStr (bt_tool bt)), (''actor_id'', opt_str (cl_actor cl)), (''resource'', opt_str (cl_target cl)),
         (''arguments_digest'', PStr digest), (''signals'', PDict sigs), (''approval_id'', opt_str (map_option va_token va)),
         (''session_id'', opt_str (cl_session cl)), (''tenant_id'', opt_str (cl_tenant cl))]
        @ scope_entries (cl_scope cl) @ [(''environment'', PStr (cx_environment cx))]))) (\<lambda>request.
       case va of
         None \<Rightarrow> Inr request
       | Some a \<Rightarrow>
           if va_request_digest a = PNone then Inr request
           else (case request_digest cr request of
               None \<Rightarrow> Inl (Exc TypeError ''request_digest'')
             | Some rd \<Rightarrow> if va_request_digest a \<noteq> PStr rd then Inl (approval_error ''APPROVAL_REQUEST_MISMATCH'') else Inr request))"

definition call_gate :: "crypto \<Rightarrow> 'r services \<Rightarrow> bound_tool \<Rightarrow> call \<Rightarrow> string \<Rightarrow> pydict \<Rightarrow> verified_approval option \<Rightarrow> gate" where
  "call_gate cr sv bt cl digest sigs va = \<lparr>gt_agent = cl_agent cl, gt_action = bt_action bt, gt_tool = Some (bt_tool bt),
     gt_factory = Some (call_request cr sv bt cl digest sigs va), gt_resource = None, gt_signals = None, gt_scope = None,
     gt_require_scope = False\<rparr>"

definition evaluate_call ::
    "crypto \<Rightarrow> 'r services \<Rightarrow> bound_tool \<Rightarrow> call \<Rightarrow> pydict \<Rightarrow> string \<Rightarrow> pydict \<Rightarrow> 'r frame \<Rightarrow> policy_decision result \<times> 'r frame" where
  "evaluate_call cr sv bt cl normalized digest sigs s =
     bind_op (on_part rt_gate (\<lambda>p s. s\<lparr>rt_gate := p\<rparr>)
         (gate_decision cr (call_gate cr sv bt cl digest sigs (fr_approval s)) (sv_gate sv) [] normalized (cl_correlation cl)))
       (\<lambda>d. bind_op (update_op (fr_denial_update (\<lambda>_. Some d))) (\<lambda>u. raise_or (deny_or d))) s"

definition pass_breaker :: "'r services \<Rightarrow> bound_tool \<Rightarrow> call \<Rightarrow> 'r frame \<Rightarrow> unit result \<times> 'r frame" where
  "pass_breaker sv bt cl = (case sv_breaker sv of
       None \<Rightarrow> raise_or (Inr ())
     | Some faults \<Rightarrow> (case cl_threshold cl of
           None \<Rightarrow> raise_or (Inl (binding_error ''BREAKER_CONFIG_REQUIRED''))
         | Some n \<Rightarrow> bind_op (on_part rt_breaker (\<lambda>p s. s\<lparr>rt_breaker := p\<rparr>)
               (before_dispatch (sv_now sv) (fst faults) (fingerprint_of bt cl) n))
             (\<lambda>sn. update_op (fr_breaker_update (\<lambda>_. Some sn)))))"

text \<open>The lease id is noted before the lease is acquired.\<close>

definition pass_budget :: "'r services \<Rightarrow> call \<Rightarrow> 'r frame \<Rightarrow> unit result \<times> 'r frame" where
  "pass_budget sv cl = (case sv_budget sv of
       None \<Rightarrow> raise_or (Inr ())
     | Some faults \<Rightarrow> (case cl_budget_scope cl of
           None \<Rightarrow> raise_or (Inl (binding_error ''BUDGET_SCOPE_REQUIRED''))
         | Some scope \<Rightarrow> bind_op (update_op (fr_lease_update (\<lambda>_. Some (lease_of sv cl)))) (\<lambda>u.
             bind_op (on_part rt_budget (\<lambda>p s. s\<lparr>rt_budget := p\<rparr>)
               (acquire (sv_now sv) (fst faults) scope (lease_of sv cl) (cl_limits cl)))
             (\<lambda>sn. update_op (fr_budget_update (\<lambda>_. Some sn))))))"

text \<open>Everything before the pre-dispatch receipt: the normalized arguments and the decision.\<close>

definition checked_arguments :: "crypto \<Rightarrow> 'r services \<Rightarrow> bound_tool \<Rightarrow> call \<Rightarrow> (pydict \<times> string) result" where
  "checked_arguments cr sv bt cl =
     bindE (normalize_arguments (sv_schema sv) bt (cl_args cl) (cl_kwargs cl)) (\<lambda>normalized.
       after (validate_resource bt (cl_target cl))
         (bindE (compute_arguments_digest cr normalized) (\<lambda>digest. Inr (normalized, digest))))"

definition authorize_call :: "crypto \<Rightarrow> 'r services \<Rightarrow> bound_tool \<Rightarrow> call \<Rightarrow> 'r frame \<Rightarrow> (pydict \<times> policy_decision) result \<times> 'r frame" where
  "authorize_call cr sv bt cl =
     bind_op (raise_or (checked_arguments cr sv bt cl)) (\<lambda>(normalized, digest).
     bind_op (update_op (fr_digest_update (\<lambda>_. digest))) (\<lambda>u.
     bind_op (raise_or (scope_signals cl)) (\<lambda>sigs.
     bind_op (delegate cr sv bt cl sigs) (\<lambda>sigs.
     bind_op (approve cr sv bt cl digest sigs) (\<lambda>sigs.
     bind_op (evaluate_call cr sv bt cl normalized digest sigs) (\<lambda>d.
     bind_op (pass_breaker sv bt cl) (\<lambda>u. bind_op (pass_budget sv cl) (\<lambda>u. raise_or (Inr (normalized, d))))))))))"

section \<open>The call and what follows it\<close>

definition is_breaker_error :: "exn \<Rightarrow> bool" where
  "is_breaker_error e = (exc_of e = CircuitBreakerError \<or> exc_of e = CircuitOpenError)"

text \<open>\<open>type(exc).__name__\<close> of what a tool raised.\<close>

definition class_name :: "exc_class \<Rightarrow> string" where
  "class_name c = (case c of
       ValueError \<Rightarrow> ''ValueError'' | TypeError \<Rightarrow> ''TypeError'' | KeyError \<Rightarrow> ''KeyError'' | RuntimeError \<Rightarrow> ''RuntimeError''
     | OverflowError \<Rightarrow> ''OverflowError'' | FileNotFoundError \<Rightarrow> ''FileNotFoundError'' | OSError \<Rightarrow> ''OSError''
     | FileTooLargeError \<Rightarrow> ''FileTooLargeError'' | BundleSignatureError \<Rightarrow> ''BundleSignatureError''
     | ExecutionScopeError \<Rightarrow> ''ExecutionScopeError'' | ApprovalVerificationError \<Rightarrow> ''ApprovalVerificationError''
     | ReplayGuardError \<Rightarrow> ''ReplayGuardError'' | ReceiptError \<Rightarrow> ''ReceiptError''
     | DelegationVerificationError \<Rightarrow> ''DelegationVerificationError'' | FanOutError \<Rightarrow> ''FanOutError''
     | MessageVerificationError \<Rightarrow> ''MessageVerificationError'' | ScopedStoreError \<Rightarrow> ''ScopedStoreError''
     | CircuitBreakerError \<Rightarrow> ''CircuitBreakerError'' | CircuitOpenError \<Rightarrow> ''CircuitOpenError''
     | RuntimeLimitError \<Rightarrow> ''RuntimeLimitError'' | KillSwitchActiveError \<Rightarrow> ''KillSwitchActiveError''
     | RateLimitExceededError \<Rightarrow> ''RateLimitExceededError'' | ConcurrencyLimitError \<Rightarrow> ''ConcurrencyLimitError''
     | OutcomeGateError \<Rightarrow> ''OutcomeGateError'' | RuntimeBindingError \<Rightarrow> ''RuntimeBindingError''
     | ContractBindingError \<Rightarrow> ''ContractBindingError'' | ArgumentValidationError \<Rightarrow> ''ArgumentValidationError''
     | GovernanceDeniedError \<Rightarrow> ''GovernanceDeniedError'' | CorrelationValidationError \<Rightarrow> ''CorrelationValidationError''
     | ToolException \<Rightarrow> ''Exception'')"

text \<open>
  An update of the breaker after the call: its error is handed on as a value when the caller catches it.
\<close>

definition record_outcome ::
    "(breaker_store \<Rightarrow> breaker_snapshot result \<times> breaker_store) \<Rightarrow> 'r frame \<Rightarrow> exn option result \<times> 'r frame" where
  "record_outcome m s =
     (let r = m (rt_breaker s); t = s\<lparr>rt_breaker := snd r\<rparr> in
      case fst r of
        Inr sn \<Rightarrow> (Inr None, t\<lparr>fr_breaker := Some sn\<rparr>)
      | Inl e \<Rightarrow> (if is_breaker_error e then Inr (Some e) else Inl e, t))"

definition emit_allowed ::
    "bound_tool \<Rightarrow> 'r services \<Rightarrow> call \<Rightarrow> string \<Rightarrow> policy_decision \<Rightarrow> string \<Rightarrow> string option \<Rightarrow> string option \<Rightarrow> 'r frame \<Rightarrow> unit result \<times> 'r frame" where
  "emit_allowed bt sv cl phase d why output err s =
     emit_receipt bt sv cl ((allowed_entry phase d (fr_breaker s))\<lparr>en_reason := why, en_output := output, en_error := err\<rparr>) s"

definition tool_failed :: "'r services \<Rightarrow> bound_tool \<Rightarrow> call \<Rightarrow> policy_decision \<Rightarrow> exn \<Rightarrow> 'r frame \<Rightarrow> pyval result \<times> 'r frame" where
  "tool_failed sv bt cl d e =
     bind_op (case (sv_breaker sv, cl_threshold cl) of
         (Some faults, Some n) \<Rightarrow> record_outcome (record_failure (sv_now sv) (snd faults) (fingerprint_of bt cl) n)
       | _ \<Rightarrow> raise_or (Inr None))
     (\<lambda>update_error. bind_op
        (emit_allowed bt sv cl ''completed'' d ''tool raised after authorized dispatch'' None (Some (class_name (exc_of e))))
        (\<lambda>u. raise_or (Inl (case update_error of None \<Rightarrow> e | Some e' \<Rightarrow> e'))))"

definition output_digest :: "crypto \<Rightarrow> pyval \<Rightarrow> string option" where
  "output_digest cr v = (case compute_arguments_digest cr [(KStr ''output'', v)] of Inl e \<Rightarrow> None | Inr digest \<Rightarrow> Some digest)"

definition tool_returned :: "crypto \<Rightarrow> 'r services \<Rightarrow> bound_tool \<Rightarrow> call \<Rightarrow> policy_decision \<Rightarrow> pyval \<Rightarrow> 'r frame \<Rightarrow> pyval result \<times> 'r frame" where
  "tool_returned cr sv bt cl d v =
     bind_op (case sv_breaker sv of
         Some faults \<Rightarrow> record_outcome (record_success (sv_now sv) (snd faults) (fingerprint_of bt cl))
       | None \<Rightarrow> raise_or (Inr None))
     (\<lambda>update_error. case update_error of
         Some e \<Rightarrow> bind_op (emit_allowed bt sv cl ''completed'' d ''tool succeeded but breaker state was not persisted'' None (Some (code_of e)))
           (\<lambda>u. raise_or (Inl e))
       | None \<Rightarrow> bind_op (emit_allowed bt sv cl ''completed'' d [] (output_digest cr v) None) (\<lambda>u. raise_or (Inr v)))"

definition dispatch :: "crypto \<Rightarrow> 'r services \<Rightarrow> bound_tool \<Rightarrow> call \<Rightarrow> pydict \<Rightarrow> policy_decision \<Rightarrow> 'r frame \<Rightarrow> pyval result \<times> 'r frame" where
  "dispatch cr sv bt cl normalized d =
     bind_op (emit_allowed bt sv cl ''pre_dispatch'' d [] None None) (\<lambda>u.
     bind_op (update_op (rt_calls_update (\<lambda>calls. calls @ [normalized]))) (\<lambda>u.
       case bt_target bt normalized of
         Inl e \<Rightarrow> tool_failed sv bt cl d e
       | Inr v \<Rightarrow> tool_returned cr sv bt cl d v))"

section \<open>Refusals and the lease\<close>

definition reported_classes :: "exc_class list" where
  "reported_classes = [ApprovalVerificationError, ReplayGuardError, DelegationVerificationError, FanOutError, RuntimeLimitError,
     KillSwitchActiveError, RateLimitExceededError, ConcurrencyLimitError, RuntimeBindingError, ContractBindingError, ArgumentValidationError]"

definition reapproval_codes :: "string list" where
  "reapproval_codes = [''APPROVAL_EXPIRED'', ''APPROVAL_NOT_YET_VALID'', ''APPROVAL_TARGET_MISMATCH'', ''APPROVAL_REQUEST_MISMATCH'',
     ''APPROVAL_REPLAYED'', ''APPROVAL_REPLAY_GUARD_REQUIRED'', ''DELEGATION_EXPIRED'', ''DELEGATION_NOT_YET_VALID'',
     ''DELEGATION_CONTEXT_MISMATCH'', ''DELEGATION_TRANSPORT_CONTEXT_MISMATCH'', ''DELEGATION_REVOKED'',
     ''DELEGATION_FANOUT_UNREGISTERED'', ''DELEGATION_FANOUT_GUARD_REQUIRED'', ''DELEGATION_TRANSPORT_REPLAYED'',
     ''DELEGATION_TRANSPORT_REVOKED'', ''DELEGATION_TRANSPORT_REPLAY_GUARD_REQUIRED'']"

definition refusal_result :: "exn \<Rightarrow> string" where
  "refusal_result e = (if code_of e \<in> set [''APPROVAL_EXPIRED'', ''DELEGATION_EXPIRED''] then ''expired''
     else if code_of e \<in> set reapproval_codes then ''reapproval_required'' else ''denied'')"

text \<open>An open breaker's error carries the snapshot of the row it found.\<close>

definition open_snapshot :: "exn \<Rightarrow> string \<Rightarrow> breaker_store \<Rightarrow> breaker_snapshot option" where
  "open_snapshot e f b = (if exc_of e = CircuitOpenError then map_option (snapshot_of f) (b f) else None)"

definition refusal_entry :: "bound_tool \<Rightarrow> call \<Rightarrow> exn \<Rightarrow> 'r frame \<Rightarrow> entry option" where
  "refusal_entry bt cl e s =
     (if exc_of e = GovernanceDeniedError then Some (blocked_entry ''denied'' e (fr_denial s) None)
      else if exc_of e \<in> set reported_classes then Some (blocked_entry (refusal_result e) e None None)
      else if is_breaker_error e then Some (blocked_entry ''denied'' e None (open_snapshot e (fingerprint_of bt cl) (rt_breaker s)))
      else None)"

text \<open>The handlers: a refusal is recorded unless a receipt was attempted before, and the error is raised again.\<close>

definition refuse :: "'r services \<Rightarrow> bound_tool \<Rightarrow> call \<Rightarrow> exn \<Rightarrow> 'r frame \<Rightarrow> 'a result \<times> 'r frame" where
  "refuse sv bt cl e s = (case (fr_attempted s, refusal_entry bt cl e s) of
       (False, Some en) \<Rightarrow> bind_op (emit_receipt bt sv cl en) (\<lambda>u. raise_or (Inl e)) s
     | _ \<Rightarrow> (Inl e, s))"

definition release_lease :: "'r services \<Rightarrow> 'a result \<times> 'r frame \<Rightarrow> 'a result \<times> 'r frame" where
  "release_lease sv p = (case (sv_budget sv, fr_lease (snd p)) of
       (Some faults, Some lease) \<Rightarrow>
         (let r = release (snd faults) lease (rt_budget (snd p))
          in (bindE (fst r) (\<lambda>u. fst p), (snd p)\<lparr>rt_budget := snd r, fr_lease := None\<rparr>))
     | _ \<Rightarrow> p)"

definition invoke_frame :: "crypto \<Rightarrow> 'r services \<Rightarrow> bound_tool \<Rightarrow> call \<Rightarrow> 'r frame \<Rightarrow> pyval result \<times> 'r frame" where
  "invoke_frame cr sv bt cl s =
     (let r = bind_op (authorize_call cr sv bt cl) (\<lambda>(normalized, d). dispatch cr sv bt cl normalized d) s
      in release_lease sv (case fst r of Inl e \<Rightarrow> refuse sv bt cl e (snd r) | Inr v \<Rightarrow> r))"

definition invoke :: "crypto \<Rightarrow> 'r services \<Rightarrow> bound_tool \<Rightarrow> call \<Rightarrow> 'r runtime \<Rightarrow> pyval result \<times> 'r runtime" where
  "invoke cr sv bt cl s = (let r = invoke_frame cr sv bt cl (new_frame s) in (fst r, runtime.truncate (snd r)))"

text \<open>\<open>BoundToolRegistry.invoke\<close>.\<close>

definition registry_invoke ::
    "crypto \<Rightarrow> 'r services \<Rightarrow> tool_registry \<Rightarrow> string \<Rightarrow> call \<Rightarrow> 'r runtime \<Rightarrow> pyval result \<times> 'r runtime" where
  "registry_invoke cr sv g name cl s = (case registry_get g name of Inl e \<Rightarrow> (Inl e, s) | Inr bt \<Rightarrow> invoke cr sv bt cl s)"

end
