(* ===== verification/Invocation.thy ===== *)
theory Invocation
  imports Invoke
begin

text \<open>
  What an invocation guarantees: the tool sees a call only after every check, at most once, and a refusal leaves no
  trace of it; together with the two ways in which the order of the breaker and the budget lets state escape.
\<close>

section \<open>What an invocation keeps\<close>

text \<open>The calls of the tool are touched by the dispatch alone, and the local variables by the step that sets them.\<close>

lemma keeps_emit [keeping]:
  assumes "\<And>b s. g (s\<lparr>fr_attempted := b\<rparr>) = g s" and "\<And>k s. g (s\<lparr>rt_sink := k\<rparr>) = g s"
  shows "keeps g (emit_receipt bt sv cl en)"
proof -
  have "g (snd (bind_op (update_op (fr_attempted_update (\<lambda>_. True))) (\<lambda>u. bind_op (raise_or r)
      (\<lambda>receipt. on_part rt_sink (\<lambda>k s. s\<lparr>rt_sink := k\<rparr>) (m receipt))) s)) = g s" for r m s
    by (rule keeps_def [THEN iffD1, rule_format], intro keeping assms)
  then show ?thesis
    by (auto simp: keeps_def emit_receipt_def split: option.splits)
qed

lemma keeps_case_prod [keeping]: "(\<And>a b. keeps g (f a b)) \<Longrightarrow> keeps g (case p of (a, b) \<Rightarrow> f a b)"
  by (simp split: prod.split)

lemma keeps_here: "(\<And>s. keeps g (f s)) \<Longrightarrow> (\<And>s. m s = f s s) \<Longrightarrow> keeps g m"
  by (simp add: keeps_def)

lemma keeps_delegate [keeping]:
  assumes "\<And>x s. g (s\<lparr>rt_transport := x\<rparr>) = g s" "\<And>x s. g (s\<lparr>fr_delegation := x\<rparr>) = g s"
  shows "keeps g (delegate cr sv bt cl sigs)"
proof -
  have "keeps g (verified_leaf cr sv bt cl a)" for a unfolding verified_leaf_def by (intro keeping assms)
  then show ?thesis unfolding delegate_def Let_def by (intro keeping assms)
qed

lemma keeps_approve [keeping]:
  "(\<And>x s. g (s\<lparr>rt_replay := x\<rparr>) = g s) \<Longrightarrow> (\<And>x s. g (s\<lparr>fr_approval := x\<rparr>) = g s) \<Longrightarrow> keeps g (approve cr sv bt cl dg sigs)"
  unfolding approve_def by (intro keeping)

lemma keeps_evaluate [keeping]:
  "(\<And>x s. g (s\<lparr>rt_gate := x\<rparr>) = g s) \<Longrightarrow> (\<And>x s. g (s\<lparr>fr_denial := x\<rparr>) = g s) \<Longrightarrow> keeps g (evaluate_call cr sv bt cl n dg sigs)"
  by (rule keeps_here [OF _ evaluate_call_def]) (intro keeping)

lemma keeps_breaker [keeping]:
  "(\<And>x s. g (s\<lparr>rt_breaker := x\<rparr>) = g s) \<Longrightarrow> (\<And>x s. g (s\<lparr>fr_breaker := x\<rparr>) = g s) \<Longrightarrow> keeps g (pass_breaker sv bt cl)"
  unfolding pass_breaker_def by (intro keeping)

lemma keeps_budget [keeping]:
  "(\<And>x s. g (s\<lparr>rt_budget := x\<rparr>) = g s) \<Longrightarrow> (\<And>x s. g (s\<lparr>fr_budget := x\<rparr>) = g s) \<Longrightarrow> (\<And>x s. g (s\<lparr>fr_lease := x\<rparr>) = g s) \<Longrightarrow>
   keeps g (pass_budget sv cl)"
  unfolding pass_budget_def by (intro keeping)

lemma authorize_keeps_calls [keeping]: "keeps rt_calls (authorize_call cr sv bt cl)"
  unfolding authorize_call_def by (intro keeping) simp_all

lemma authorize_keeps_sink: "keeps rt_sink (authorize_call cr sv bt cl)"
  unfolding authorize_call_def by (intro keeping) simp_all

lemma emit_keeps_calls [keeping]: "keeps rt_calls (emit_receipt bt sv cl en)"
  by (intro keeping) simp_all

lemma emit_allowed_keeps [keeping]: "(\<And>en. keeps g (emit_receipt bt sv cl en)) \<Longrightarrow> keeps g (emit_allowed bt sv cl phase d why out err)"
  by (rule keeps_here [OF _ emit_allowed_def]) simp

section \<open>What an authorization establishes\<close>

lemma dget_with_default: "dhas kw k \<or> j \<noteq> k \<Longrightarrow> dget (with_default k v kw) j = dget kw j"
  by (auto simp: with_default_def)

lemma ActionRequest_reads:
  assumes "ActionRequest fresh now kw = Inr r"
  shows "arguments_digest r = str_option (dget kw ''arguments_digest'')" "resource r = str_option (dget kw ''resource'')"
    "approval_id r = str_option (dget kw ''approval_id'')"
    "dhas kw ''request_id'' \<Longrightarrow> request_id r = str_of (dget kw ''request_id'')"
proof -
  from assms obtain attrs sigs where
    "r = request_fields (with_default ''requested_at'' (PStr now) (with_default ''request_id'' (PStr fresh) kw)) attrs sigs"
    by (auto simp: ActionRequest_def post_init_def split: if_splits)
  then show "arguments_digest r = str_option (dget kw ''arguments_digest'')" "resource r = str_option (dget kw ''resource'')"
    "approval_id r = str_option (dget kw ''approval_id'')"
    "dhas kw ''request_id'' \<Longrightarrow> request_id r = str_of (dget kw ''request_id'')"
    by (simp_all add: request_fields_def dget_with_default)
qed

lemma call_request_Inr:
  assumes "call_request cr sv bt cl digest sigs va cx = Inr request"
  shows "arguments_digest request = Some digest" "resource request = cl_target cl" "request_id request = invocation_id sv cl"
    "approval_id request = map_option va_token va"
proof -
  obtain req where req: "ActionRequest (gi_request_id (sv_gate sv)) (gi_now (sv_gate sv)) (obj
       ([(''request_id'', PStr (invocation_id sv cl)), (''agent_id'', PStr (cl_agent cl)), (''action'', PStr (bt_action bt)),
         (''tool_id'', PStr (bt_tool bt)), (''actor_id'', opt_str (cl_actor cl)), (''resource'', opt_str (cl_target cl)),
         (''arguments_digest'', PStr digest), (''signals'', PDict sigs), (''approval_id'', opt_str (map_option va_token va)),
         (''session_id'', opt_str (cl_session cl)), (''tenant_id'', opt_str (cl_tenant cl))]
        @ scope_entries (cl_scope cl) @ [(''environment'', PStr (cx_environment cx))])) = Inr req"
    and same: "(case va of None \<Rightarrow> Inr req | Some a \<Rightarrow>
           if va_request_digest a = PNone then Inr req
           else (case request_digest cr req of
               None \<Rightarrow> Inl (Exc TypeError ''request_digest'')
             | Some rd \<Rightarrow> if va_request_digest a \<noteq> PStr rd then Inl (approval_error ''APPROVAL_REQUEST_MISMATCH'') else Inr req)) = Inr request"
    using assms unfolding call_request_def bindE_Inr by blast
  from same have "req = request" by (auto split: option.splits if_splits)
  with ActionRequest_reads [OF req] show "arguments_digest request = Some digest" "resource request = cl_target cl"
    "request_id request = invocation_id sv cl" "approval_id request = map_option va_token va"
    by (simp_all add: dict_read)
qed

lemma authorize_call_Inr:
  assumes "authorize_call cr sv bt cl s = (Inr (normalized, d), t)"
  obtains digest sigs sigs' sigs'' u v w x where
    "checked_arguments cr sv bt cl = Inr (normalized, digest)" "scope_signals cl = Inr sigs"
    "delegate cr sv bt cl sigs (s\<lparr>fr_digest := digest\<rparr>) = (Inr sigs', u)" "approve cr sv bt cl digest sigs' u = (Inr sigs'', v)"
    "evaluate_call cr sv bt cl normalized digest sigs'' v = (Inr d, w)" "pass_breaker sv bt cl w = (Inr (), x)"
    "pass_budget sv cl x = (Inr (), t)"
  using assms by (auto simp: authorize_call_def ops split: prod.splits) metis

text \<open>
  The checks of an invocation, each against the part of the runtime it reads as the invocation found it. An argument that
  was not passed asks for nothing.
\<close>

definition delegation_verified :: "crypto \<Rightarrow> 'r services \<Rightarrow> bound_tool \<Rightarrow> call \<Rightarrow> 'r runtime \<Rightarrow> bool" where
  "delegation_verified cr sv bt cl s \<longleftrightarrow> \<not> (cl_chain cl \<noteq> None \<and> cl_transport cl \<noteq> None) \<and>
     (\<forall>v. cl_chain cl = Some v \<longrightarrow> (\<exists>audience ds. cl_audience cl = Some audience \<and>
        verify_delegation_chain cr v (cl_delegation_keys cl) (call_context cl audience) (Some (bt_action bt)) (cl_target cl)
          (sv_fan sv) (sv_clock sv) 60 8 = Inr ds)) \<and>
     (\<forall>v. cl_transport cl = Some v \<longrightarrow> (\<exists>audience x vt p. cl_audience cl = Some audience \<and> call_identities cl audience = Some x \<and>
        verify_delegation_transport cr v (cl_delegation_keys cl) x (call_context cl audience) (Some (bt_action bt)) (cl_target cl)
          (sv_transport_replay sv) (sv_fan sv) (sv_clock sv) 60 8 (rt_transport s) = (Inr vt, p)))"

definition approval_verified :: "crypto \<Rightarrow> 'r services \<Rightarrow> bound_tool \<Rightarrow> call \<Rightarrow> string \<Rightarrow> 'r runtime \<Rightarrow> bool" where
  "approval_verified cr sv bt cl digest s \<longleftrightarrow> (\<forall>v. cl_approval cl = Some v \<longrightarrow> (\<exists>va p.
     verify_approval_token cr v (cl_approval_keys cl) (call_approval_target bt cl digest) None (sv_replay sv) (sv_clock sv) 60 (rt_replay s)
       = (Inr va, p)))"

definition policy_allowed :: "crypto \<Rightarrow> 'r services \<Rightarrow> bound_tool \<Rightarrow> call \<Rightarrow> string \<Rightarrow> policy_decision \<Rightarrow> bool" where
  "policy_allowed cr sv bt cl digest d \<longleftrightarrow> dec_result d = ALLOWED \<and> (\<exists>request ck ck'.
     evaluate cr (gi_io (sv_gate sv)) (gi_clock (sv_gate sv)) (gi_decision_id (sv_gate sv)) request ck = (Inr d, ck') \<and>
     agent_id request = cl_agent cl \<and> action request = bt_action bt \<and> tool_id request = Some (bt_tool bt) \<and>
     arguments_digest request = Some digest \<and> resource request = cl_target cl)"

definition breaker_admitted :: "'r services \<Rightarrow> bound_tool \<Rightarrow> call \<Rightarrow> 'r runtime \<Rightarrow> bool" where
  "breaker_admitted sv bt cl s \<longleftrightarrow> (\<forall>faults. sv_breaker sv = Some faults \<longrightarrow> (\<exists>n sn b. cl_threshold cl = Some n \<and>
     before_dispatch (sv_now sv) (fst faults) (fingerprint_of bt cl) n (rt_breaker s) = (Inr sn, b)))"

definition budget_admitted :: "'r services \<Rightarrow> call \<Rightarrow> 'r runtime \<Rightarrow> bool" where
  "budget_admitted sv cl s \<longleftrightarrow> (\<forall>faults. sv_budget sv = Some faults \<longrightarrow> (\<exists>scope sn b. cl_budget_scope cl = Some scope \<and>
     acquire (sv_now sv) (fst faults) scope (lease_of sv cl) (cl_limits cl) (rt_budget s) = (Inr sn, b)))"

lemma Inr_eq_bindE [simp]: "Inr y = bindE r f \<longleftrightarrow> bindE r f = Inr y"
  by (simp only: eq_commute)

lemma delegate_Inr:
  assumes "delegate cr sv bt cl sigs s = (Inr sigs', t)"
  shows "delegation_verified cr sv bt cl (runtime.truncate s)"
  using assms
  by (auto simp: delegate_def delegation_verified_def verified_leaf_def ops Let_def runtime.truncate_def
      split: if_splits option.splits)

lemma approve_Inr:
  assumes "approve cr sv bt cl digest sigs s = (Inr sigs', t)"
  shows "approval_verified cr sv bt cl digest (runtime.truncate s)"
  using assms
  by (auto simp: approve_def approval_verified_def ops runtime.truncate_def split: if_splits option.splits)

lemma pass_breaker_Inr: "pass_breaker sv bt cl s = (Inr (), t) \<Longrightarrow> breaker_admitted sv bt cl (runtime.truncate s)"
  by (auto simp: pass_breaker_def breaker_admitted_def ops runtime.truncate_def split: option.splits)

lemma pass_budget_Inr: "pass_budget sv cl s = (Inr (), t) \<Longrightarrow> budget_admitted sv cl (runtime.truncate s)"
  by (auto simp: pass_budget_def budget_admitted_def ops runtime.truncate_def split: option.splits)

lemma evaluate_call_Inr:
  assumes "evaluate_call cr sv bt cl normalized digest sigs s = (Inr d, t)"
  shows "policy_allowed cr sv bt cl digest d"
proof -
  obtain p where g: "gate_decision cr (call_gate cr sv bt cl digest sigs (fr_approval s)) (sv_gate sv) [] normalized (cl_correlation cl)
      (rt_gate s) = (Inr d, p)" and ok: "dec_result d = ALLOWED"
    using assms by (auto simp: evaluate_call_def ops deny_or_def split: if_splits)
      (metis decision_result.exhaust)
  from g show ?thesis
  proof (rule gate_decision_Inr)
    fix ck ck' request
    let ?cx = "\<lparr>cx_agent = gt_agent (call_gate cr sv bt cl digest sigs (fr_approval s)),
       cx_action = gt_action (call_gate cr sv bt cl digest sigs (fr_approval s)),
       cx_tool = gt_tool (call_gate cr sv bt cl digest sigs (fr_approval s)),
       cx_environment = checker_environment ck, cx_args = [], cx_kwargs = normalized, cx_correlation = cl_correlation cl\<rparr>"
    assume r: "governed_request (call_gate cr sv bt cl digest sigs (fr_approval s)) (sv_gate sv) ?cx = Inr request"
      and e: "evaluate cr (gi_io (sv_gate sv)) (gi_clock (sv_gate sv)) (gi_decision_id (sv_gate sv)) request ck = (Inr d, ck')"
    then have "call_request cr sv bt cl digest sigs (fr_approval s) ?cx = Inr request"
      by (auto simp: governed_request_def call_gate_def resolved_def split: if_splits)
    from call_request_Inr [OF this] governed_request_Inr [OF r] e ok show ?thesis
      by (auto simp: policy_allowed_def call_gate_def)
  qed
qed

lemma authorize_call_checks:
  assumes "authorize_call cr sv bt cl s = (Inr (normalized, d), t)"
  obtains digest where "checked_arguments cr sv bt cl = Inr (normalized, digest)" "cl_require_scope cl \<longrightarrow> cl_scope cl \<noteq> None"
    "delegation_verified cr sv bt cl (runtime.truncate s)" "approval_verified cr sv bt cl digest (runtime.truncate s)"
    "policy_allowed cr sv bt cl digest d" "breaker_admitted sv bt cl (runtime.truncate s)" "budget_admitted sv cl (runtime.truncate s)"
proof -
  obtain digest sigs sigs' sigs'' u v w x where args: "checked_arguments cr sv bt cl = Inr (normalized, digest)"
    and scope: "scope_signals cl = Inr sigs"
    and u: "delegate cr sv bt cl sigs (s\<lparr>fr_digest := digest\<rparr>) = (Inr sigs', u)" and v: "approve cr sv bt cl digest sigs' u = (Inr sigs'', v)"
    and w: "evaluate_call cr sv bt cl normalized digest sigs'' v = (Inr d, w)" and x: "pass_breaker sv bt cl w = (Inr (), x)"
    and t: "pass_budget sv cl x = (Inr (), t)"
    using assms by (rule authorize_call_Inr)
  have "rt_replay u = rt_replay s" "rt_breaker u = rt_breaker s" "rt_budget u = rt_budget s"
    using keepsD [OF keeps_delegate u, of rt_replay] keepsD [OF keeps_delegate u, of rt_breaker] keepsD [OF keeps_delegate u, of rt_budget]
    by simp_all
  moreover have "rt_breaker v = rt_breaker u" "rt_budget v = rt_budget u"
    using keepsD [OF keeps_approve v, of rt_breaker] keepsD [OF keeps_approve v, of rt_budget] by simp_all
  moreover have "rt_breaker w = rt_breaker v" "rt_budget w = rt_budget v"
    using keepsD [OF keeps_evaluate w, of rt_breaker] keepsD [OF keeps_evaluate w, of rt_budget] by simp_all
  moreover have "rt_budget x = rt_budget w" using keepsD [OF keeps_breaker x, of rt_budget] by simp
  moreover have "cl_require_scope cl \<longrightarrow> cl_scope cl \<noteq> None" using scope by (auto simp: scope_signals_def split: if_splits)
  moreover note args delegate_Inr [OF u] approve_Inr [OF v] evaluate_call_Inr [OF w] pass_breaker_Inr [OF x] pass_budget_Inr [OF t]
  ultimately show thesis
    by (intro that) (simp_all add: delegation_verified_def approval_verified_def breaker_admitted_def budget_admitted_def runtime.truncate_def)
qed

section \<open>The call\<close>

lemma keeps_outcome [keeping]:
  "(\<And>x s. g (s\<lparr>rt_breaker := x\<rparr>) = g s) \<Longrightarrow> (\<And>x s. g (s\<lparr>fr_breaker := x\<rparr>) = g s) \<Longrightarrow> keeps g (record_outcome m)"
  by (simp add: keeps_def record_outcome_def Let_def split: sum.split)

lemma after_call_keeps [keeping]:
  assumes "\<And>x s. g (s\<lparr>rt_breaker := x\<rparr>) = g s" "\<And>x s. g (s\<lparr>fr_breaker := x\<rparr>) = g s" "\<And>en. keeps g (emit_receipt bt sv cl en)"
  shows "keeps g (tool_failed sv bt cl d e)" "keeps g (tool_returned cr sv bt cl d v)"
  unfolding tool_failed_def tool_returned_def case_prod_beta by (intro keeping assms)+

lemma dispatch_calls:
  assumes "dispatch cr sv bt cl normalized d s = (r, t)"
  shows "rt_calls t = rt_calls s \<and> isl r \<or>
    rt_calls t = rt_calls s @ [normalized] \<and> (\<exists>u. emit_allowed bt sv cl ''pre_dispatch'' d [] None None s = (Inr (), u)) \<and>
    (\<forall>v. r = Inr v \<longrightarrow> bt_target bt normalized = Inr v)"
proof -
  obtain q u where emitted: "emit_allowed bt sv cl ''pre_dispatch'' d [] None None s = (q, u)" by fastforce
  then have same: "rt_calls u = rt_calls s" by (rule keepsD [rotated]) (intro keeping, simp_all)
  show ?thesis
  proof (cases q)
    case (Inl e)
    then show ?thesis using assms emitted same by (auto simp: dispatch_def bind_op_def)
  next
    case (Inr x)
    let ?u = "rt_calls_update (\<lambda>calls. calls @ [normalized]) u"
    have t: "(case bt_target bt normalized of Inl e \<Rightarrow> tool_failed sv bt cl d e ?u | Inr v \<Rightarrow> tool_returned cr sv bt cl d v ?u) = (r, t)"
      using assms emitted Inr by (auto simp: dispatch_def bind_op_def update_op_def split: sum.splits)
    have k: "keeps rt_calls (tool_failed sv bt cl d e)" "keeps rt_calls (tool_returned cr sv bt cl d v)" for e v
      by (intro keeping; simp)+
    have "rt_calls t = rt_calls ?u"
      using t keepsD [OF k(1)] keepsD [OF k(2)] by (cases "bt_target bt normalized") fastforce+
    moreover have "bt_target bt normalized = Inr v" if "r = Inr v" for v
      using t that by (auto simp: tool_failed_def tool_returned_def ops split: sum.splits option.splits)
    ultimately show ?thesis using same emitted Inr by auto
  qed
qed

text \<open>The receipt handed to the sink keeps every field of \<open>receipt_of\<close>, whatever correlation adds.\<close>

lemma receipt_attach:
  "\<exists>receipt. attach_correlation_fields (receipt_of bt sv cl en s) c = Inr receipt"
proof -
  have "\<not> dhas (receipt_of bt sv cl en s) k" if "k \<in> set [''trace_id'', ''span_id'', ''run_id'', ''parent_id'']" for k
    using that unfolding list.set insert_iff empty_iff by (elim disjE) (simp_all add: receipt_of_def dhas_def)
  moreover have "fst ` set (correlation_fields c) \<subseteq> set [''trace_id'', ''span_id'', ''run_id'', ''parent_id'']"
    by (auto simp: correlation_fields_def optional_entry_def split: option.splits)
  ultimately have "\<not> dhas (receipt_of bt sv cl en s) k" if "k \<in> fst ` set (correlation_fields c)" for k
    using that by blast
  then show ?thesis
    unfolding attach_correlation_fields_def
    by (intro attach_fields_total correlation_fields_distinct) (force simp: list_all_iff)
qed

lemma emit_receipt_sink:
  assumes "sv_sink sv = Some sink"
  obtains receipt where "\<And>k. dhas (receipt_of bt sv cl en s) k \<Longrightarrow> dget receipt k = dget (receipt_of bt sv cl en s) k \<and> dhas receipt k"
      "emit_receipt bt sv cl en s = (result_of_check (fst (sink receipt (rt_sink s))),
         s\<lparr>fr_attempted := True, rt_sink := snd (sink receipt (rt_sink s))\<rparr>)"
proof -
  obtain receipt where built: "(case cl_correlation cl of
      None \<Rightarrow> Inr (receipt_of bt sv cl en s) | Some c \<Rightarrow> attach_correlation_fields (receipt_of bt sv cl en s) c) = Inr receipt"
    using receipt_attach by (cases "cl_correlation cl") force+
  have "emit_receipt bt sv cl en s = (result_of_check (fst (sink receipt (rt_sink s))),
          s\<lparr>fr_attempted := True, rt_sink := snd (sink receipt (rt_sink s))\<rparr>)"
    by (simp add: emit_receipt_def assms built bind_op_def update_op_def raise_or_def on_part_def Let_def)
  moreover have "dget receipt k = dget (receipt_of bt sv cl en s) k \<and> dhas receipt k" if "dhas (receipt_of bt sv cl en s) k" for k
    using that built attach_correlation_Inr(2,3) by (auto split: option.splits)
  ultimately show thesis using that by blast
qed

lemma receipt_reads:
  "dhas (receipt_of bt sv cl en s) ''phase''" "dget (receipt_of bt sv cl en s) ''phase'' = PStr (en_phase en)"
  "dhas (receipt_of bt sv cl en s) ''authorization_result''" "dget (receipt_of bt sv cl en s) ''authorization_result'' = PStr (en_result en)"
  "dhas (receipt_of bt sv cl en s) ''side_effect_state''" "dget (receipt_of bt sv cl en s) ''side_effect_state'' = PStr (en_side en)"
  "dhas (receipt_of bt sv cl en s) ''decision_id''"
  "dget (receipt_of bt sv cl en s) ''decision_id'' = PStr (case en_decision en of None \<Rightarrow> [] | Some d \<Rightarrow> decision_id d)"
  "dhas (receipt_of bt sv cl en s) ''error_code''" "dget (receipt_of bt sv cl en s) ''error_code'' = opt_str (en_error en)"
  "dhas (receipt_of bt sv cl en s) ''output_digest''" "dget (receipt_of bt sv cl en s) ''output_digest'' = opt_str (en_output en)"
  "dhas (receipt_of bt sv cl en s) ''matched_approved_binding''"
  "dget (receipt_of bt sv cl en s) ''matched_approved_binding'' = PBool (fr_approval s \<noteq> None)"
  by (simp_all add: receipt_of_def dict_read)

text \<open>A receipt of the phase, the result and the decision, accepted by the sink in state \<open>k\<close>.\<close>

definition accepted_receipt :: "(pydict \<Rightarrow> 'r \<Rightarrow> check \<times> 'r) \<Rightarrow> 'r \<Rightarrow> entry \<Rightarrow> 'r \<Rightarrow> bool" where
  "accepted_receipt sink k en k' \<longleftrightarrow> (\<exists>receipt. sink receipt k = (None, k') \<and> dget receipt ''phase'' = PStr (en_phase en) \<and>
     dget receipt ''authorization_result'' = PStr (en_result en) \<and> dget receipt ''side_effect_state'' = PStr (en_side en) \<and>
     dget receipt ''decision_id'' = PStr (case en_decision en of None \<Rightarrow> [] | Some d \<Rightarrow> decision_id d) \<and>
     dget receipt ''output_digest'' = opt_str (en_output en) \<and> dget receipt ''error_code'' = opt_str (en_error en))"

lemma emit_receipt_accepted:
  assumes "emit_receipt bt sv cl en s = (Inr (), t)" "sv_sink sv = Some sink"
  shows "accepted_receipt sink (rt_sink s) en (rt_sink t)"
proof -
  obtain receipt where receipt: "\<And>k. dhas (receipt_of bt sv cl en s) k \<Longrightarrow> dget receipt k = dget (receipt_of bt sv cl en s) k \<and> dhas receipt k"
      "emit_receipt bt sv cl en s = (result_of_check (fst (sink receipt (rt_sink s))),
         s\<lparr>fr_attempted := True, rt_sink := snd (sink receipt (rt_sink s))\<rparr>)"
    using emit_receipt_sink [OF assms(2)] by blast
  then have "sink receipt (rt_sink s) = (None, rt_sink t)"
    using assms(1) by (auto simp: prod_eq_iff result_of_check_def split: option.splits)
  with receipt(1) show ?thesis
    unfolding accepted_receipt_def by (intro exI [of _ receipt]) (simp add: receipt_reads)
qed

section \<open>One invocation\<close>

lemma refuse_keeps: "keeps rt_calls (refuse sv bt cl e :: 'r frame \<Rightarrow> 'a result \<times> 'r frame)"
proof -
  have "keeps rt_calls (bind_op (emit_receipt bt sv cl en) (\<lambda>u. raise_or (Inl e)) :: 'r frame \<Rightarrow> 'a result \<times> 'r frame)" for en
    by (intro keeping; simp)
  then show ?thesis by (simp add: keeps_def refuse_def split: bool.split option.split)
qed

lemma release_lease_calls [simp]: "rt_calls (snd (release_lease sv p)) = rt_calls (snd p)"
  by (auto simp: release_lease_def Let_def split: option.split)

lemma new_frame_truncate [simp]: "runtime.truncate (new_frame s) = s"
  by (cases s) (simp add: new_frame_def runtime.truncate_def runtime.extend_def)

lemma new_frame_reads [simp]:
  "rt_gate (new_frame s) = rt_gate s" "rt_replay (new_frame s) = rt_replay s" "rt_transport (new_frame s) = rt_transport s"
  "rt_breaker (new_frame s) = rt_breaker s" "rt_budget (new_frame s) = rt_budget s" "rt_sink (new_frame s) = rt_sink s"
  "rt_calls (new_frame s) = rt_calls s" "fr_lease (new_frame s) = None" "fr_attempted (new_frame s) = False"
  "fr_approval (new_frame s) = None"
  by (simp_all add: new_frame_def runtime.extend_def)

lemma truncate_reads [simp]:
  "rt_calls (runtime.truncate f) = rt_calls f" "rt_budget (runtime.truncate f) = rt_budget f"
  "rt_breaker (runtime.truncate f) = rt_breaker f" "rt_sink (runtime.truncate f) = rt_sink f"
  by (simp_all add: runtime.truncate_def)

text \<open>What happens before the lease is released.\<close>

lemma invoke_cases:
  assumes "invoke cr sv bt cl s = (r, t)"
  obtains (refused) e u where "authorize_call cr sv bt cl (new_frame s) = (Inl e, u)"
      "r = fst (release_lease sv (refuse sv bt cl e u :: pyval result \<times> _))" "t = runtime.truncate (snd (release_lease sv (refuse sv bt cl e u :: pyval result \<times> _)))"
  | (failed) normalized d u e w where "authorize_call cr sv bt cl (new_frame s) = (Inr (normalized, d), u)"
      "dispatch cr sv bt cl normalized d u = (Inl e, w)"
      "r = fst (release_lease sv (refuse sv bt cl e w :: pyval result \<times> _))" "t = runtime.truncate (snd (release_lease sv (refuse sv bt cl e w :: pyval result \<times> _)))"
  | (returned) normalized d u v w where "authorize_call cr sv bt cl (new_frame s) = (Inr (normalized, d), u)"
      "dispatch cr sv bt cl normalized d u = (Inr v, w)"
      "r = fst (release_lease sv (Inr v, w))" "t = runtime.truncate (snd (release_lease sv (Inr v, w)))"
proof -
  obtain q u where a: "authorize_call cr sv bt cl (new_frame s) = (q, u)" by fastforce
  show thesis
  proof (cases q)
    case (Inl e)
    show ?thesis
      by (rule refused) (use assms a Inl in \<open>auto simp: invoke_def invoke_frame_def Let_def bind_op_def\<close>)
  next
    case (Inr x)
    obtain normalized d where x: "x = (normalized, d)" by fastforce
    obtain q' w where b: "dispatch cr sv bt cl normalized d u = (q', w)" by fastforce
    note facts = assms a [unfolded Inr x] b
    show ?thesis
    proof (cases q')
      case (Inl e)
      show ?thesis
        by (rule failed) (use facts Inl in \<open>auto simp: invoke_def invoke_frame_def Let_def bind_op_def\<close>)
    next
      case (Inr v)
      show ?thesis
        by (rule returned) (use facts Inr in \<open>auto simp: invoke_def invoke_frame_def Let_def bind_op_def\<close>)
    qed
  qed
qed

lemma authorize_keeps_attempted: "keeps fr_attempted (authorize_call cr sv bt cl)"
  unfolding authorize_call_def by (intro keeping) simp_all

text \<open>The lease and the breaker's claim, whether or not the invocation was authorized.\<close>

lemma authorize_budget:
  assumes "authorize_call cr sv bt cl s = (q, u)" "fr_lease s = None"
  shows "fr_lease u = None \<and> rt_budget u = rt_budget s \<or>
    fr_lease u = Some (lease_of sv cl) \<and> (\<exists>faults scope p. sv_budget sv = Some faults \<and> cl_budget_scope cl = Some scope \<and>
      acquire (sv_now sv) (fst faults) scope (lease_of sv cl) (cl_limits cl) (rt_budget s) = (p, rt_budget u) \<and> isl p = isl q)"
    (is "?P q u")
proof -
  let ?g = "\<lambda>x. (fr_lease x, rt_budget x)"
  define R where "R = (\<lambda>(q, u). ?P q u)"
  have last: "R (bind_op (pass_budget sv cl) (\<lambda>y. raise_or (Inr z)) v)" if v: "?g v = ?g s" for v z
  proof (cases "sv_budget sv = None \<or> cl_budget_scope cl = None")
    case True
    then show ?thesis using v assms(2) by (auto simp: R_def pass_budget_def bind_op_def raise_or_def split: option.split)
  next
    case False
    then obtain faults scope where "sv_budget sv = Some faults" "cl_budget_scope cl = Some scope" by auto
    moreover obtain p b where "acquire (sv_now sv) (fst faults) scope (lease_of sv cl) (cl_limits cl) (rt_budget s) = (p, b)"
      by fastforce
    ultimately show ?thesis using v
      by (cases p) (auto simp: R_def pass_budget_def bind_op_def raise_or_def update_op_def on_part_def Let_def)
  qed
  have stop: "R (Inl e, v)" if "?g v = ?g s" for e v using that assms(2) by (auto simp: R_def)
  have "R (authorize_call cr sv bt cl s)"
    unfolding authorize_call_def case_prod_beta
    by (erule last | rule keeps_chain [where g = ?g and c = "?g s" and R = R] | assumption | rule refl | erule stop
      | (intro keeping; simp; fail))+
  then show ?thesis by (simp add: assms(1) R_def)
qed

lemma authorize_breaker:
  assumes "authorize_call cr sv bt cl s = (q, u)" "fr_breaker s = None"
  shows "fr_breaker u = None \<or> (\<exists>faults n sn. sv_breaker sv = Some faults \<and> cl_threshold cl = Some n \<and> fr_breaker u = Some sn \<and>
      before_dispatch (sv_now sv) (fst faults) (fingerprint_of bt cl) n (rt_breaker s) = (Inr sn, rt_breaker u))"
    (is "?P u")
proof -
  let ?g = "\<lambda>x. (fr_breaker x, rt_breaker x)"
  define R where "R = (\<lambda>(q :: (pydict \<times> policy_decision) result, u). ?P u)"
  have last: "R (bind_op (pass_breaker sv bt cl) (\<lambda>y. bind_op (pass_budget sv cl) (\<lambda>y. raise_or (Inr z))) v)"
    if v: "?g v = ?g s" for v z
  proof -
    obtain p w where w: "pass_breaker sv bt cl v = (p, w)" by fastforce
    have P: "?P w"
      using w v assms(2) by (cases p) (auto simp: pass_breaker_def bind_op_def raise_or_def update_op_def on_part_def Let_def
          prod_eq_iff split: option.splits prod.splits sum.splits)
    have "?g (snd (bind_op (pass_budget sv cl) (\<lambda>y. raise_or (Inr z)) w)) = ?g w" for z :: "pydict \<times> policy_decision"
      by (rule keeps_def [THEN iffD1, rule_format]) (intro keeping; simp)
    with P w show ?thesis by (cases p) (auto simp: R_def bind_op_def [of "pass_breaker sv bt cl"] case_prod_beta)
  qed
  have stop: "R (Inl e, v)" if "?g v = ?g s" for e v using that assms(2) by (auto simp: R_def)
  have "R (authorize_call cr sv bt cl s)"
    unfolding authorize_call_def case_prod_beta
    by (erule last | rule keeps_chain [where g = ?g and c = "?g s" and R = R] | assumption | rule refl | erule stop
      | (intro keeping; simp; fail))+
  then show ?thesis by (simp add: assms(1) R_def)
qed

lemma dispatch_keeps:
  assumes "\<And>x s. g (s\<lparr>rt_breaker := x\<rparr>) = g s" "\<And>x s. g (s\<lparr>fr_breaker := x\<rparr>) = g s" "\<And>en. keeps g (emit_receipt bt sv cl en)"
    "\<And>f s. g (rt_calls_update f s) = g s"
  shows "keeps g (dispatch cr sv bt cl normalized d)"
proof -
  have "keeps g (case r of Inl e \<Rightarrow> tool_failed sv bt cl d e | Inr v \<Rightarrow> tool_returned cr sv bt cl d v)" for r
    by (cases r) (simp_all add: after_call_keeps assms)
  then show ?thesis unfolding dispatch_def by (intro keeping assms)
qed

lemma refuse_keeps_budget: "keeps (\<lambda>s. (fr_lease s, rt_budget s)) (refuse sv bt cl e :: 'r frame \<Rightarrow> 'a result \<times> 'r frame)"
proof -
  have "keeps (\<lambda>s. (fr_lease s, rt_budget s)) (bind_op (emit_receipt bt sv cl en) (\<lambda>u. raise_or (Inl e)) :: 'r frame \<Rightarrow> 'a result \<times> 'r frame)" for en
    by (intro keeping; simp)
  then show ?thesis by (simp add: keeps_def refuse_def split: bool.split option.split)
qed

text \<open>The leases after an invocation: those after \<open>acquire\<close>, less the one of the invocation when it was noted.\<close>

lemma invoke_budget:
  assumes "invoke cr sv bt cl s = (r, t)" "authorize_call cr sv bt cl (new_frame s) = (q, u)"
  shows "rt_budget t = (case (sv_budget sv, fr_lease u) of
     (Some faults, Some lease) \<Rightarrow> snd (release (snd faults) lease (rt_budget u)) | _ \<Rightarrow> rt_budget u)"
proof -
  have k: "keeps (\<lambda>s. (fr_lease s, rt_budget s)) (dispatch cr sv bt cl normalized d)" for normalized d
    by (intro dispatch_keeps keeping; simp)
  note kept = refuse_keeps_budget [unfolded keeps_def, rule_format, unfolded prod.inject]
  have "\<exists>p. (fr_lease (snd p), rt_budget (snd p)) = (fr_lease u, rt_budget u) \<and> rt_budget t = rt_budget (snd (release_lease sv (p :: pyval result \<times> _)))"
    using assms(1)
  proof (cases rule: invoke_cases)
    case (refused e u')
    with assms(2) show ?thesis by (intro exI [of _ "refuse sv bt cl e u"]) (simp add: kept)
  next
    case (failed normalized d u' e w)
    then have "(fr_lease w, rt_budget w) = (fr_lease u, rt_budget u)" using assms(2) keepsD [OF k failed(2)] by simp
    with failed show ?thesis by (intro exI [of _ "refuse sv bt cl e w"]) (simp add: kept)
  next
    case (returned normalized d u' v w)
    then have "(fr_lease w, rt_budget w) = (fr_lease u, rt_budget u)" using assms(2) keepsD [OF k returned(2)] by simp
    with returned show ?thesis by (intro exI [of _ "(Inr v, w)"]) simp
  qed
  then show ?thesis by (auto simp: release_lease_def Let_def split: option.splits)
qed

end
