(* ===== verification/Dispatch.thy ===== *)
theory Dispatch
  imports Invocation
begin

text \<open>
  The properties of an invocation, over the lemmas of \<^verbatim>\<open>Invocation\<close>: what has been checked when the tool sees a
  call, what a returned value and a refusal record, what becomes of the budget, and three consequences of the order in
  which \<^verbatim>\<open>BoundTool.invoke\<close> runs its steps.
\<close>

section \<open>A sample runtime\<close>

definition sample_reader :: bound_tool where
  "sample_reader = (sample_bound [])\<lparr>bt_action := ''read''\<rparr>"

text \<open>A sink that keeps what it is given, and a governed runtime with a breaker and a budget.\<close>

definition keep_receipt :: "pydict \<Rightarrow> pydict list \<Rightarrow> check \<times> pydict list" where
  "keep_receipt receipt k = (None, k @ [receipt])"

definition sample_services :: "pydict list services" where
  "sample_services = \<lparr>sv_schema = sample_schema, sv_gate = sample_gate_inputs, sv_clock = sample_clock, sv_now = 1000, sv_uuid = ''u'',
     sv_stamp = (\<lambda>phase. (phase, ''t'')), sv_sink = Some keep_receipt, sv_replay = None, sv_transport_replay = None, sv_fan = None,
     sv_breaker = Some (NoFault, NoFault), sv_budget = Some (NoFault, NoFault)\<rparr>"

definition sample_call :: "pyval list \<Rightarrow> call" where
  "sample_call args = \<lparr>cl_agent = ''a1'', cl_actor = None, cl_target = None, cl_signals = [], cl_approval = None, cl_approval_keys = [],
     cl_binding = None, cl_request = Some ''r'', cl_correlation = None, cl_session = None, cl_tenant = None, cl_scope = None,
     cl_require_scope = False, cl_chain = None, cl_transport = None, cl_delegation_keys = [], cl_audience = None,
     cl_sender_deployment = None, cl_sender_workload = None, cl_receiver_deployment = None, cl_receiver_workload = None,
     cl_budget_scope = Some ''s'', cl_limits = sample_limits, cl_fingerprint = Some ''f'', cl_threshold = Some 2, cl_args = args,
     cl_kwargs = []\<rparr>"

definition sample_runtime :: "'r \<Rightarrow> 'r runtime" where
  "sample_runtime k = \<lparr>rt_gate = sample_gate_state, rt_replay = no_claims, rt_transport = no_claims, rt_breaker = (\<lambda>f. None),
     rt_budget = empty_budget, rt_sink = k, rt_calls = []\<rparr>"

definition sample_invocation :: "pyval result \<times> pydict list runtime" where
  "sample_invocation = invoke sample_crypto sample_services sample_reader (sample_call [PInt 2]) (sample_runtime [])"

lemma sample_invocation_returns:
  "case sample_invocation of (r, t) \<Rightarrow> (case r of Inl e \<Rightarrow> False | Inr v \<Rightarrow> v = PNone \<and> rt_calls t = [obj [(''x'', PInt 2), (''y'', PInt 1)]])"
  by code_simp

text \<open>
  The same call while another one with its request id still runs, on a breaker whose probe is free: the budget
  refuses it.
\<close>

definition sample_held :: lease where
  "sample_held = \<lparr>lease_id = ''lease:r'', lease_scope = ''s'', expires_at = 60000000\<rparr>"

definition sample_half_open :: breaker_row where
  "sample_half_open = (new_row 2 0)\<lparr>current_count := 2, bstate := HalfOpen, next_action := RetryProbe\<rparr>"

definition sample_busy :: "pydict list runtime" where
  "sample_busy = (sample_runtime [])\<lparr>rt_breaker := [''f'' \<mapsto> sample_half_open],
     rt_budget := empty_budget\<lparr>leases := [sample_held]\<rparr>\<rparr>"

lemma sample_busy_refused:
  "case authorize_call sample_crypto sample_services sample_reader (sample_call [PInt 2]) (new_frame sample_busy) of
     (q, u) \<Rightarrow> (case q of Inr x \<Rightarrow> False | Inl e \<Rightarrow> fr_lease u \<noteq> None \<and> fr_breaker u \<noteq> None)"
  by code_simp

lemma sample_busy_refusal:
  obtains e u where "authorize_call sample_crypto sample_services sample_reader (sample_call [PInt 2]) (new_frame sample_busy) = (Inl e, u)"
    "fr_lease u \<noteq> None" "fr_breaker u \<noteq> None"
  using sample_busy_refused by (auto split: prod.splits sum.splits)

section \<open>Authorization before dispatch\<close>

lemma refuse_raises [simp]: "isl (fst (refuse sv bt cl e s))"
  by (auto simp: refuse_def bind_op_def raise_or_def split: bool.split option.split prod.split sum.split)

lemma release_raises [simp]: "isl (fst p) \<Longrightarrow> isl (fst (release_lease sv p))"
  by (auto simp: release_lease_def Let_def bindE_def isl_def split: option.split sum.split)

lemma invoke_calls:
  assumes "invoke cr sv bt cl s = (r, t)"
  obtains (none) "rt_calls t = rt_calls s" "isl r"
  | (one) normalized d u q w where "authorize_call cr sv bt cl (new_frame s) = (Inr (normalized, d), u)"
      "dispatch cr sv bt cl normalized d u = (q, w)" "rt_calls t = rt_calls s @ [normalized]"
      "\<exists>x. emit_allowed bt sv cl ''pre_dispatch'' d [] None None u = (Inr (), x)"
proof -
  note refused_calls = refuse_keeps [unfolded keeps_def, rule_format]
  note before = keepsD [OF authorize_keeps_calls]
  show thesis
    using assms
  proof (cases rule: invoke_cases)
    case (refused e u)
    with before [OF refused(1)] none show ?thesis by (simp add: refused_calls)
  next
    case (failed normalized d u e w)
    with before [OF failed(1)] dispatch_calls [OF failed(2)] none one show ?thesis by (auto simp: refused_calls)
  next
    case (returned normalized d u v w)
    with before [OF returned(1)] dispatch_calls [OF returned(2)] none one show ?thesis by auto
  qed
qed



section \<open>What is returned and what is refused\<close>

text \<open>
  C4. A value that an invocation returns is the tool's own: the tool was called once, with the checked arguments, and
  returned it; and the sink's last act was to accept the completed receipt, with the digest of that value.
\<close>

theorem returned_value_is_the_tools:
  assumes "invoke cr sv bt cl s = (Inr v, t)"
  shows "\<exists>normalized digest d. checked_arguments cr sv bt cl = Inr (normalized, digest) \<and> rt_calls t = rt_calls s @ [normalized] \<and>
    bt_target bt normalized = Inr v \<and>
    (\<forall>sink. sv_sink sv = Some sink \<longrightarrow> (\<exists>k br. accepted_receipt sink k
       ((allowed_entry ''completed'' d br)\<lparr>en_output := output_digest cr v\<rparr>) (rt_sink t)))"
  using assms
proof (cases rule: invoke_cases)
  case (returned normalized d u v' w)
  have v: "v' = v" using returned(3) by (auto simp: release_lease_def Let_def bindE_def split: option.splits sum.splits)
  have sink: "rt_sink t = rt_sink w" using returned(4) by (auto simp: release_lease_def Let_def split: option.splits)
  have calls: "rt_calls t = rt_calls s @ [normalized]" "bt_target bt normalized = Inr v"
    using dispatch_calls [OF returned(2)] keepsD [OF authorize_keeps_calls returned(1)] returned(4) v by auto
  obtain digest where args: "checked_arguments cr sv bt cl = Inr (normalized, digest)"
    using returned(1) by (rule authorize_call_checks)
  obtain x where "emit_allowed bt sv cl ''completed'' d [] (output_digest cr v) None x = (Inr (), w)"
    using returned(2) calls(2) by (auto simp: dispatch_def tool_returned_def ops v split: option.splits)
  then have "accepted_receipt sink (rt_sink x) ((allowed_entry ''completed'' d (fr_breaker x))\<lparr>en_output := output_digest cr v\<rparr>) (rt_sink w)"
    if "sv_sink sv = Some sink" for sink
    using emit_receipt_accepted [OF _ that] by (force simp: emit_allowed_def allowed_entry_def)
  with args calls sink show ?thesis by metis
next
  case (refused e u)
  have "isl (Inr v :: pyval result)" unfolding refused(2) by simp
  then show ?thesis by simp
next
  case (failed normalized d u e w)
  have "isl (Inr v :: pyval result)" unfolding failed(3) by simp
  then show ?thesis by simp
qed

theorem returned_value_is_the_tools_witness:
  "\<exists>t k d br. sample_invocation = (Inr PNone, t) \<and> accepted_receipt keep_receipt k
     ((allowed_entry ''completed'' d br)\<lparr>en_output := output_digest sample_crypto PNone\<rparr>) (rt_sink t)"
proof -
  obtain r t where rt: "sample_invocation = (r, t)" by fastforce
  with sample_invocation_returns have i: "sample_invocation = (Inr PNone, t)" unfolding rt by (cases r) auto
  from returned_value_is_the_tools [OF i [unfolded sample_invocation_def]] i show ?thesis
    by (auto simp: sample_services_def)
qed



section \<open>The budget\<close>

text \<open>
  C6. No invocation leaves a lease behind: when the release reaches the database, every lease after an invocation was
  there before it, whether it was refused, the tool raised, or it returned.
\<close>

theorem no_lease_outlives_its_invocation:
  assumes "invoke cr sv bt cl s = (r, t)" and "sv_budget sv = Some (fault, NoFault)"
  shows "set (leases (rt_budget t)) \<subseteq> set (leases (rt_budget s))"
proof -
  let ?lid = "lease_of sv cl"
  obtain q u where a: "authorize_call cr sv bt cl (new_frame s) = (q, u)" by fastforce
  have released: "leases (snd (release NoFault lid b)) = (if validate_limit_text lid = None then filter (\<lambda>l. lease_id l \<noteq> lid) (leases b) else leases b)"
    for lid b by (auto simp: release_def guarded_op_def split: option.splits)
  from authorize_budget [OF a] have "fr_lease u = None \<and> rt_budget u = rt_budget s \<or>
    fr_lease u = Some ?lid \<and> (\<exists>scope p. acquire (sv_now sv) fault scope ?lid (cl_limits cl) (rt_budget s) = (p, rt_budget u))"
    by (auto simp: assms(2))
  then show ?thesis
  proof
    assume n: "fr_lease u = Some ?lid \<and> (\<exists>scope p. acquire (sv_now sv) fault scope ?lid (cl_limits cl) (rt_budget s) = (p, rt_budget u))"
    then obtain scope p where acq: "acquire (sv_now sv) fault scope ?lid (cl_limits cl) (rt_budget s) = (p, rt_budget u)" by blast
    have "rt_budget u = rt_budget s \<or> first_error (acquire_checks scope ?lid (cl_limits cl)) = None \<and>
        (\<exists>x. acquire_body (sv_now sv) scope ?lid (cl_limits cl) (rt_budget s) = Inr (x, rt_budget u))"
      using guarded_op_state [of "acquire_checks scope ?lid (cl_limits cl)" fault
          "acquire_body (sv_now sv) scope ?lid (cl_limits cl)" limit_unavailable "rt_budget s"] acq
      by (auto simp: acquire_def)
    moreover have "rt_budget t = snd (release NoFault ?lid (rt_budget u))"
      using invoke_budget [OF assms(1) a] n by (simp add: assms(2))
    ultimately show ?thesis
      by (auto simp: released live_leases_def first_error_None acquire_checks_def dest!: acquire_body_Inr(3))
  next
    assume "fr_lease u = None \<and> rt_budget u = rt_budget s"
    then show ?thesis using invoke_budget [OF assms(1) a] by (simp add: assms(2))
  qed
qed

theorem no_lease_outlives_its_invocation_witness:
  "leases (rt_budget (snd sample_invocation)) = []"
proof -
  obtain r t where i: "sample_invocation = (r, t)" by fastforce
  have "sv_budget sample_services = Some (NoFault, NoFault)" by (simp add: sample_services_def)
  from no_lease_outlives_its_invocation [OF i [unfolded sample_invocation_def] this] show ?thesis
    by (simp add: i sample_runtime_def empty_budget_def)
qed

text \<open>
  Reusing a request id takes the lease away from the call that holds it: an invocation that the budget refuses, for
  whatever reason, after it has noted its lease id deletes every lease of that id, although it acquired none.
\<close>

theorem refused_invocation_releases_the_lease_of_its_id:
  assumes "invoke cr sv bt cl s = (r, t)" "authorize_call cr sv bt cl (new_frame s) = (Inl e, u)" "fr_lease u \<noteq> None"
    and "sv_budget sv = Some (fault, NoFault)" "fault \<noteq> FailAfter" "validate_limit_text (lease_of sv cl) = None"
  shows "rt_calls t = rt_calls s \<and> leases (rt_budget t) = filter (\<lambda>l. lease_id l \<noteq> lease_of sv cl) (leases (rt_budget s))"
proof -
  have lease: "fr_lease u = Some (lease_of sv cl)" and "rt_budget u = rt_budget s"
    using authorize_budget [OF assms(2)] assms(3-5)
    by (auto simp: acquire_def guarded_op_def transact_def split: option.splits db_fault.splits sum.splits prod.splits)
  with invoke_budget [OF assms(1,2)] assms(4,6) have "leases (rt_budget t) = filter (\<lambda>l. lease_id l \<noteq> lease_of sv cl) (leases (rt_budget s))"
    by (simp add: release_def guarded_op_def)
  moreover have "rt_calls t = rt_calls s" using assms(1) by (rule invoke_calls) (use assms(2) in auto)
  ultimately show ?thesis by blast
qed

theorem refused_invocation_releases_the_lease_of_its_id_witness:
  "leases (rt_budget sample_busy) = [sample_held] \<and>
   leases (rt_budget (snd (invoke sample_crypto sample_services sample_reader (sample_call [PInt 2]) sample_busy))) = []"
proof -
  obtain e u where a: "authorize_call sample_crypto sample_services sample_reader (sample_call [PInt 2]) (new_frame sample_busy) = (Inl e, u)"
    "fr_lease u \<noteq> None"
    by (rule sample_busy_refusal)
  obtain r t where i: "invoke sample_crypto sample_services sample_reader (sample_call [PInt 2]) sample_busy = (r, t)" by fastforce
  have lid: "lease_of sample_services (sample_call [PInt 2]) = ''lease:r''"
    by (simp add: lease_of_def invocation_id_def or_text_def sample_call_def)
  have "sv_budget sample_services = Some (NoFault, NoFault)" by (simp add: sample_services_def)
  moreover have "validate_limit_text (lease_of sample_services (sample_call [PInt 2])) = None" unfolding lid by code_simp
  ultimately have "leases (rt_budget t) = []"
    using refused_invocation_releases_the_lease_of_its_id [OF i a] by (simp add: lid sample_busy_def sample_held_def)
  then show ?thesis unfolding i by (simp add: sample_busy_def)
qed

section \<open>The breaker and the sink\<close>

lemma refused_breaker:
  assumes "invoke cr sv bt cl s = (r, t)" "authorize_call cr sv bt cl (new_frame s) = (Inl e, u)"
  shows "rt_breaker t = rt_breaker u"
proof -
  have "rt_breaker (snd (emit_receipt bt sv cl en u)) = rt_breaker u" for en
    by (rule keeps_def [THEN iffD1, rule_format]) (intro keeping; simp)
  then have "rt_breaker (snd (refuse sv bt cl e u :: pyval result \<times> _)) = rt_breaker u"
    by (simp add: refuse_def bind_op_def raise_or_def split: bool.split option.split prod.split sum.split) (metis snd_conv)
  then show ?thesis
    using assms by (auto simp: invoke_def invoke_frame_def Let_def bind_op_def release_lease_def split: option.split)
qed

text \<open>
  A budget refusal can wedge the breaker: an invocation that passes a half-open breaker claims its only probe, and if
  the budget then refuses it nothing is recorded; the probe stays claimed, and from then on no dispatch of this
  fingerprint is admitted until some outcome is recorded or the breaker is reset from outside.
\<close>

theorem budget_refusal_keeps_the_probe:
  assumes "invoke cr sv bt cl s = (r, t)" "authorize_call cr sv bt cl (new_frame s) = (Inl e, u)" "fr_breaker u \<noteq> None"
    and "rt_breaker s (fingerprint_of bt cl) = Some row" "bstate row = HalfOpen"
  shows "rt_calls t = rt_calls s \<and> claimed_at (fingerprint_of bt cl) (rt_breaker t) \<and>
    \<not> breaker_admits (fingerprint_of bt cl) ev (rt_breaker t)"
proof -
  obtain now fault n sn where b: "before_dispatch now fault (fingerprint_of bt cl) n (rt_breaker s) = (Inr sn, rt_breaker u)"
    using authorize_breaker [OF assms(2)] assms(3) by (auto simp: new_frame_def runtime.extend_def)
  then have "before_body now (fingerprint_of bt cl) n (rt_breaker s) = Inr (sn, rt_breaker u)"
    using guarded_op_Inr unfolding before_dispatch_def by (metis fst_conv snd_conv)
  then have "claimed_at (fingerprint_of bt cl) (rt_breaker u)"
    using assms(4,5) by (auto simp: claimed_at_def before_body_def require_row_def Let_def split: if_splits dest!: sym [of _ "rt_breaker u"])
  then have "claimed_at (fingerprint_of bt cl) (rt_breaker t)" using refused_breaker [OF assms(1,2)] by simp
  moreover have "rt_calls t = rt_calls s" using assms(1) by (rule invoke_calls) (use assms(2) in auto)
  ultimately show ?thesis by (simp add: claimed_refuses)
qed

theorem budget_refusal_keeps_the_probe_witness:
  "\<exists>t. snd (invoke sample_crypto sample_services sample_reader (sample_call [PInt 2]) sample_busy) = t \<and>
     claimed_at ''f'' (rt_breaker t) \<and> \<not> breaker_admits ''f'' (9, NoFault, BeforeDispatch ''f'' 2) (rt_breaker t)"
proof -
  obtain e u where a: "authorize_call sample_crypto sample_services sample_reader (sample_call [PInt 2]) (new_frame sample_busy) = (Inl e, u)"
    "fr_breaker u \<noteq> None"
    by (rule sample_busy_refusal)
  obtain r t where i: "invoke sample_crypto sample_services sample_reader (sample_call [PInt 2]) sample_busy = (r, t)" by fastforce
  have f: "fingerprint_of sample_reader (sample_call [PInt 2]) = ''f''" by (simp add: fingerprint_of_def or_text_def sample_call_def)
  have "rt_breaker sample_busy (fingerprint_of sample_reader (sample_call [PInt 2])) = Some sample_half_open"
    "bstate sample_half_open = HalfOpen"
    by (simp_all add: f sample_busy_def sample_half_open_def)
  from budget_refusal_keeps_the_probe [OF i a this, of "(9, NoFault, BeforeDispatch ''f'' 2)"] show ?thesis
    unfolding i by (simp add: f)
qed

text \<open>The chain of receipts as the sink of an invocation.\<close>

definition chain_sink :: "crypto \<Rightarrow> string \<Rightarrow> pydict \<Rightarrow> hash_sink \<Rightarrow> check \<times> hash_sink" where
  "chain_sink cr uuid receipt k =
     (check_of (fst (hash_append cr uuid (PDict receipt) k)), snd (hash_append cr uuid (PDict receipt) k))"

lemma chain_sink_refuses:
  assumes "dget receipt ''authorization_result'' = PStr ''allowed''" "dget receipt ''matched_approved_binding'' = PBool False"
  shows "fst (chain_sink cr uuid receipt k) \<noteq> None"
proof -
  have "receipt_shape receipt \<noteq> None"
    using assms by (auto simp: receipt_shape_def validate_execution_receipt_def Let_def error_if_def guarded_def bindE_def
        split: option.splits)
  then show ?thesis by (auto simp: chain_sink_def hash_append_def build_record_def after_def split: sum.splits option.splits)
qed

text \<open>
  The receipt chain refuses calls that need no approval: a pre-dispatch receipt says the call is allowed, and the
  chain accepts such a receipt only when it names a verified approval; so with the chain as its sink an invocation without
  an approval token never calls the tool, whatever the policy decides, and always raises.
\<close>

theorem chained_sink_needs_an_approval:
  assumes "invoke cr sv bt cl s = (r, t)" "sv_sink sv = Some (chain_sink cr' uuid)" "cl_approval cl = None"
  shows "rt_calls t = rt_calls s \<and> isl r"
  using assms(1)
proof (cases rule: invoke_calls)
  case (one normalized d u q w)
  have k: "keeps fr_approval (approve cr sv bt cl digest sigs)" for digest sigs
    by (simp add: approve_def assms(3) keeps_raise_or)
  have "keeps fr_approval (authorize_call cr sv bt cl)"
    unfolding authorize_call_def by (rule k | rule keeping | (simp; fail))+
  from keepsD [OF this one(1)] have no_approval: "fr_approval u = None" by simp
  define en where "en = (allowed_entry ''pre_dispatch'' d (fr_breaker u))\<lparr>en_reason := [], en_output := None, en_error := None\<rparr>"
  obtain x where x: "emit_receipt bt sv cl en u = (Inr (), x)" using one(4) by (auto simp: emit_allowed_def en_def)
  obtain receipt where receipt: "\<And>k. dhas (receipt_of bt sv cl en u) k \<Longrightarrow> dget receipt k = dget (receipt_of bt sv cl en u) k \<and> dhas receipt k"
      "emit_receipt bt sv cl en u = (result_of_check (fst (chain_sink cr' uuid receipt (rt_sink u))),
         u\<lparr>fr_attempted := True, rt_sink := snd (chain_sink cr' uuid receipt (rt_sink u))\<rparr>)"
    using emit_receipt_sink [OF assms(2)] by blast
  have "dget receipt ''authorization_result'' = PStr ''allowed''"
    using receipt(1) [of "''authorization_result''"] by (simp add: receipt_reads en_def allowed_entry_def)
  moreover have "dget receipt ''matched_approved_binding'' = PBool False"
    using receipt(1) [of "''matched_approved_binding''"] by (simp add: receipt_reads no_approval)
  ultimately have "fst (chain_sink cr' uuid receipt (rt_sink u)) \<noteq> None" by (rule chain_sink_refuses)
  with x receipt(2) show ?thesis by (auto simp: result_of_check_def)
qed simp

definition sample_chained :: "hash_sink services" where
  "sample_chained = \<lparr>sv_schema = sample_schema, sv_gate = sample_gate_inputs, sv_clock = sample_clock, sv_now = 1000, sv_uuid = ''u'',
     sv_stamp = (\<lambda>phase. (phase, ''t'')), sv_sink = Some (chain_sink sample_crypto ''n''), sv_replay = None, sv_transport_replay = None,
     sv_fan = None, sv_breaker = None, sv_budget = None\<rparr>"

theorem chained_sink_needs_an_approval_witness:
  "isl (fst (invoke sample_crypto sample_chained sample_reader (sample_call [PInt 2]) (sample_runtime sample_sink)))"
proof -
  obtain r t where i: "invoke sample_crypto sample_chained sample_reader (sample_call [PInt 2]) (sample_runtime sample_sink) = (r, t)"
    by fastforce
  have "sv_sink sample_chained = Some (chain_sink sample_crypto ''n'')" "cl_approval (sample_call [PInt 2]) = None"
    by (simp_all add: sample_chained_def sample_call_def)
  from chained_sink_needs_an_approval [OF i this] show ?thesis by (simp add: i)
qed

end
