(* ===== verification/Outcome.thy ===== *)
theory Outcome
  imports ActionRequest
begin

text \<open>
  \<^verbatim>\<open>outcome.py\<close>: the acceptance gate that turns an observed execution state and verified
  evidence into the terminal outcome of a task. The lemmas show that success cannot be claimed.
\<close>

section \<open>Statuses, criteria and evidence\<close>

datatype outcome_status = SUCCESS | FAILED | BLOCKED | AWAITING_APPROVAL | PARTIAL

datatype execution_state =
    ex_completed | ex_failed | ex_blocked | ex_awaiting_approval | ex_partial | ex_timed_out | ex_interrupted

datatype outcome_reason =
    ACCEPTANCE_VERIFIED | ACCEPTANCE_EVIDENCE_MISSING | EXECUTION_FAILED | EXECUTION_BLOCKED
  | APPROVAL_PENDING | EXECUTION_PARTIAL

record criterion =
  criterion_id :: string
  required_evidence :: "string list"

record evidence_record =
  evidence_id :: string
  ev_reference :: string
  ev_verified :: bool

record task_outcome =
  task_id :: string
  status :: outcome_status
  execution_state :: execution_state
  acceptance_criteria :: "criterion list"
  criterion_ids :: "string list"
  satisfied_ids :: "string list"
  verified_refs :: "string list"
  missing_refs :: "string list"
  outcome_reason :: outcome_reason

definition outcome_text :: "pyval \<Rightarrow> check" where
  "outcome_text v = require (trimmed_str v) (Exc OutcomeGateError ''OUTCOME_FIELD_INVALID'')"

definition contract_invalid :: exn where
  "contract_invalid = Exc OutcomeGateError ''ACCEPTANCE_CONTRACT_INVALID''"

definition evidence_invalid :: exn where
  "evidence_invalid = Exc OutcomeGateError ''EVIDENCE_INVALID''"

definition AcceptanceCriterion :: "pyval \<Rightarrow> pyval list \<Rightarrow> criterion result" where
  "AcceptanceCriterion cid refs = guarded
     ([outcome_text cid, require (refs \<noteq> []) contract_invalid] @ map outcome_text refs
      @ [require (distinct (map str_of refs)) contract_invalid])
     \<lparr>criterion_id = str_of cid, required_evidence = map str_of refs\<rparr>"

definition EvidenceRecord :: "pyval \<Rightarrow> pyval \<Rightarrow> pyval \<Rightarrow> evidence_record result" where
  "EvidenceRecord eid ref v = guarded
     [outcome_text eid, outcome_text ref, require (is_bool v) evidence_invalid]
     \<lparr>evidence_id = str_of eid, ev_reference = str_of ref, ev_verified = truthy v\<rparr>"

section \<open>The gate\<close>

record outcome_gate =
  gate_task :: string
  gate_criteria :: "criterion list"

definition OutcomeAcceptanceGate :: "pyval \<Rightarrow> criterion list \<Rightarrow> outcome_gate result" where
  "OutcomeAcceptanceGate task criteria = guarded
     [outcome_text task, require (criteria \<noteq> []) contract_invalid,
      require (distinct (map criterion_id criteria)) contract_invalid]
     \<lparr>gate_task = str_of task, gate_criteria = criteria\<rparr>"

definition coerce_execution_state :: "string \<Rightarrow> execution_state result" where
  "coerce_execution_state s = (case map_of
      [(''completed'', ex_completed), (''failed'', ex_failed), (''blocked'', ex_blocked),
       (''awaiting_approval'', ex_awaiting_approval), (''partial'', ex_partial),
       (''timed_out'', ex_timed_out), (''interrupted'', ex_interrupted)] s of
       None \<Rightarrow> Inl (Exc OutcomeGateError ''EXECUTION_STATE_INVALID'') | Some st \<Rightarrow> Inr st)"

definition status_for :: "execution_state \<Rightarrow> bool \<Rightarrow> outcome_status \<times> outcome_reason" where
  "status_for st missing =
     (if st = ex_awaiting_approval then (AWAITING_APPROVAL, APPROVAL_PENDING)
      else if st \<in> {ex_failed, ex_timed_out, ex_interrupted} then (FAILED, EXECUTION_FAILED)
      else if st = ex_blocked then (BLOCKED, EXECUTION_BLOCKED)
      else if st = ex_partial then (PARTIAL, EXECUTION_PARTIAL)
      else if missing then (BLOCKED, ACCEPTANCE_EVIDENCE_MISSING)
      else (SUCCESS, ACCEPTANCE_VERIFIED))"

definition has_verified :: "(string \<times> evidence_record) list \<Rightarrow> string \<Rightarrow> bool" where
  "has_verified evidence ref = (case map_of evidence ref of None \<Rightarrow> False | Some r \<Rightarrow> ev_verified r)"

definition criterion_missing :: "(string \<times> evidence_record) list \<Rightarrow> criterion \<Rightarrow> string list" where
  "criterion_missing evidence c = filter (\<lambda>ref. \<not> has_verified evidence ref) (required_evidence c)"

fun evidence_checks :: "(string \<times> evidence_record) list \<Rightarrow> check list" where
  "evidence_checks [] = []"
| "evidence_checks ((ref, r) # rest) =
     outcome_text (PStr ref) # require (ev_reference r = ref) evidence_invalid # evidence_checks rest"

definition evaluate_outcome :: "outcome_gate \<Rightarrow> (string \<times> evidence_record) list \<Rightarrow> string \<Rightarrow> task_outcome result" where
  "evaluate_outcome gate evidence state =
     bindE (coerce_execution_state state) (\<lambda>st.
       let cs = gate_criteria gate;
           missing = dedup (concat (map (criterion_missing evidence) cs));
           met = filter (\<lambda>c. criterion_missing evidence c = []) cs;
           verdict = status_for st (missing \<noteq> [])
       in guarded (evidence_checks evidence)
          \<lparr>task_id = gate_task gate, status = fst verdict, execution_state = st,
           acceptance_criteria = cs, criterion_ids = map criterion_id cs,
           satisfied_ids = map criterion_id met,
           verified_refs = dedup (concat (map required_evidence met)),
           missing_refs = missing, outcome_reason = snd verdict\<rparr>)"

text \<open>\<open>TaskOutcome.as_receipt_fields\<close>.\<close>

definition status_text :: "outcome_status \<Rightarrow> string" where
  "status_text st = (case st of SUCCESS \<Rightarrow> ''SUCCESS'' | FAILED \<Rightarrow> ''FAILED'' | BLOCKED \<Rightarrow> ''BLOCKED''
     | AWAITING_APPROVAL \<Rightarrow> ''AWAITING_APPROVAL'' | PARTIAL \<Rightarrow> ''PARTIAL'')"

definition execution_text :: "execution_state \<Rightarrow> string" where
  "execution_text st = (case st of ex_completed \<Rightarrow> ''completed'' | ex_failed \<Rightarrow> ''failed'' | ex_blocked \<Rightarrow> ''blocked''
     | ex_awaiting_approval \<Rightarrow> ''awaiting_approval'' | ex_partial \<Rightarrow> ''partial'' | ex_timed_out \<Rightarrow> ''timed_out''
     | ex_interrupted \<Rightarrow> ''interrupted'')"

definition reason_text :: "outcome_reason \<Rightarrow> string" where
  "reason_text r = (case r of ACCEPTANCE_VERIFIED \<Rightarrow> ''ACCEPTANCE_VERIFIED''
     | ACCEPTANCE_EVIDENCE_MISSING \<Rightarrow> ''ACCEPTANCE_EVIDENCE_MISSING'' | EXECUTION_FAILED \<Rightarrow> ''EXECUTION_FAILED''
     | EXECUTION_BLOCKED \<Rightarrow> ''EXECUTION_BLOCKED'' | APPROVAL_PENDING \<Rightarrow> ''APPROVAL_PENDING''
     | EXECUTION_PARTIAL \<Rightarrow> ''EXECUTION_PARTIAL'')"

definition as_receipt_fields :: "task_outcome \<Rightarrow> pydict" where
  "as_receipt_fields t = obj
     [(''outcome_status'', PStr (status_text (status t))), (''execution_state'', PStr (execution_text (execution_state t))),
      (''acceptance_criteria'', PList (map (\<lambda>c. PDict (obj [(''criterion_id'', PStr (criterion_id c)),
         (''required_evidence'', PList (map PStr (required_evidence c)))])) (acceptance_criteria t))),
      (''satisfied_criterion_ids'', PList (map PStr (satisfied_ids t))),
      (''verified_evidence_refs'', PList (map PStr (verified_refs t))),
      (''missing_evidence_refs'', PList (map PStr (missing_refs t))), (''outcome_reason'', PStr (reason_text (outcome_reason t)))]"

lemma coerce_execution_text [simp]: "coerce_execution_state (execution_text st) = Inr st"
  by (cases st) (simp_all add: coerce_execution_state_def execution_text_def)

section \<open>Properties\<close>

lemma status_for_success: "fst (status_for st missing) = SUCCESS \<longleftrightarrow> st = ex_completed \<and> \<not> missing"
  by (cases st) (auto simp: status_for_def)

lemma coerce_completed: "coerce_execution_state s = Inr ex_completed \<longleftrightarrow> s = ''completed''"
  by (simp add: coerce_execution_state_def)

lemma missing_empty:
  "dedup (concat (map (criterion_missing evidence) cs)) = [] \<longleftrightarrow>
   (\<forall>c \<in> set cs. \<forall>ref \<in> set (required_evidence c). has_verified evidence ref)"
  by (auto simp: criterion_missing_def filter_empty_conv)

text \<open>
  Success cannot be claimed: an evaluation ends in success exactly when the observed execution
  state is \<^verbatim>\<open>completed\<close> and every evidence reference of every criterion has a record that is
  marked verified. The outcome lists as satisfied exactly the criteria whose references are all verified,
  as missing exactly the references that are not, and no reference both ways.
\<close>

theorem success_only_with_evidence:
  assumes "evaluate_outcome gate evidence state = Inr out"
  shows "(status out = SUCCESS \<longleftrightarrow> state = ''completed'' \<and>
      (\<forall>c \<in> set (gate_criteria gate). \<forall>ref \<in> set (required_evidence c). has_verified evidence ref)) \<and>
    set (missing_refs out) = {ref. \<exists>c \<in> set (gate_criteria gate). ref \<in> set (required_evidence c) \<and> \<not> has_verified evidence ref} \<and>
    set (verified_refs out) \<inter> set (missing_refs out) = {} \<and> distinct (missing_refs out) \<and> distinct (verified_refs out)"
proof -
  let ?cs = "gate_criteria gate"
  let ?missing = "dedup (concat (map (criterion_missing evidence) ?cs))"
  obtain st where st: "coerce_execution_state state = Inr st"
    and s: "status out = fst (status_for st (?missing \<noteq> []))" and m: "missing_refs out = ?missing"
    and v: "verified_refs out = dedup (concat (map required_evidence (filter (\<lambda>c. criterion_missing evidence c = []) ?cs)))"
    using assms by (auto simp: evaluate_outcome_def Let_def)
  have "status out = SUCCESS \<longleftrightarrow> state = ''completed'' \<and> ?missing = []"
    using st coerce_completed [of state] by (auto simp: s status_for_success)
  moreover have "set ?missing = {ref. \<exists>c \<in> set ?cs. ref \<in> set (required_evidence c) \<and> \<not> has_verified evidence ref}"
    by (auto simp: criterion_missing_def)
  ultimately show ?thesis
    unfolding m v missing_empty by (auto simp: criterion_missing_def filter_empty_conv)
qed

theorem success_only_with_evidence_witness:
  "\<exists>out. evaluate_outcome \<lparr>gate_task = ''t'', gate_criteria = [\<lparr>criterion_id = ''c'', required_evidence = [''e'']\<rparr>]\<rparr>
       [(''e'', \<lparr>evidence_id = ''1'', ev_reference = ''e'', ev_verified = False\<rparr>)] ''completed'' = Inr out \<and>
     status out \<noteq> SUCCESS \<and> set (missing_refs out) = {''e''}"
proof -
  let ?g = "\<lparr>gate_task = ''t'', gate_criteria = [\<lparr>criterion_id = ''c'', required_evidence = [''e'']\<rparr>]\<rparr>"
  let ?e = "[(''e'', \<lparr>evidence_id = ''1'', ev_reference = ''e'', ev_verified = False\<rparr>)]"
  have "\<not> isl (evaluate_outcome ?g ?e ''completed'')" by code_simp
  from not_isl_ex [OF this] obtain out where o: "evaluate_outcome ?g ?e ''completed'' = Inr out" by blast
  from success_only_with_evidence [OF o] o show ?thesis by (auto simp: has_verified_def)
qed

end
