(* ===== verification/ReceiptFile.thy ===== *)
theory ReceiptFile
  imports Receipts
begin

text \<open>
  The durable receipt sink of \<^verbatim>\<open>execution_receipts.py\<close> (a JSONL file with a checkpoint) and the
  adapter of an external collector. A line of the file is the JSON value it decodes to, the checkpoint
  file is its decoded value; key order, which no reader observes, is not tracked. The disk can fail in
  the write of the line or in the replacement of the checkpoint. The lemmas show that the file is never
  behind the memory, that a failed write stops the sink for good, and that a sink can be resumed.
\<close>

section \<open>The files\<close>

datatype json_line = BlankLine | InvalidLine | Line pyval

datatype checkpoint_file = NoCheckpoint | InvalidCheckpoint | Checkpoint pyval

text \<open>What the disk does during a commit: \<open>AppendFails ls\<close> leaves the lines \<open>ls\<close> of the failed write
  behind, \<open>CheckpointFails b\<close> fails after the line was written, with the new checkpoint in place iff
  \<open>b\<close>.\<close>

datatype commit_fault = CommitOk | AppendFails "json_line list" | CheckpointFails bool

record jsonl_sink =
  chain :: hash_sink
  file_lines :: "json_line list option"
  checkpoint :: checkpoint_file
  uses_checkpoint :: bool
  broken :: bool

definition checkpoint_of :: "pydict \<Rightarrow> checkpoint_file" where
  "checkpoint_of r = Checkpoint (PDict (obj [(''schema_version'', PStr ''1.0''), (''last_sequence'', dget r ''sequence''),
     (''last_receipt_hash'', dget r ''receipt_hash'')]))"

definition add_lines :: "json_line list \<Rightarrow> jsonl_sink \<Rightarrow> jsonl_sink" where
  "add_lines ls s = s\<lparr>file_lines := Some ((case file_lines s of None \<Rightarrow> [] | Some old \<Rightarrow> old) @ ls)\<rparr>"

section \<open>Committing and appending\<close>

text \<open>\<open>_commit\<close>: the line, then the checkpoint, then the memory.\<close>

definition jsonl_commit :: "commit_fault \<Rightarrow> pydict \<Rightarrow> jsonl_sink \<Rightarrow> unit result \<times> jsonl_sink" where
  "jsonl_commit fault r s = (case fault of
       AppendFails ls \<Rightarrow> (Inl (receipt_error ''unable to persist execution receipt''), (add_lines ls s)\<lparr>broken := True\<rparr>)
     | _ \<Rightarrow>
       (let s1 = add_lines [Line (PDict r)] s;
            s2 = (if uses_checkpoint s then s1\<lparr>checkpoint := checkpoint_of r\<rparr> else s1);
            failed = (case fault of CheckpointFails replaced \<Rightarrow> Some (if replaced then s2 else s1) | _ \<Rightarrow> None)
        in if uses_checkpoint s \<and> failed \<noteq> None
           then (Inl (receipt_error ''unable to persist receipt checkpoint''), (the failed)\<lparr>broken := True\<rparr>)
           else (Inr (), s2\<lparr>chain := commit_record r (chain s)\<rparr>)))"

definition jsonl_append ::
    "crypto \<Rightarrow> string \<Rightarrow> commit_fault \<Rightarrow> pyval \<Rightarrow> jsonl_sink \<Rightarrow> pydict result \<times> jsonl_sink" where
  "jsonl_append cr uuid fault v s =
     (if broken s then (Inl (receipt_error ''receipt sink is broken''), s)
      else (case build_record cr uuid (chain s) v of
          Inl e \<Rightarrow> (Inl e, s)
        | Inr r \<Rightarrow> (let c = jsonl_commit fault r s in (bindE (fst c) (\<lambda>u. Inr r), snd c))))"

section \<open>Opening and resuming\<close>

fun read_lines :: "json_line list \<Rightarrow> pydict list result" where
  "read_lines [] = Inr []"
| "read_lines (BlankLine # ls) = Inl (receipt_error ''receipt file contains a blank line'')"
| "read_lines (InvalidLine # ls) = Inl (receipt_error ''receipt file contains invalid JSON'')"
| "read_lines (Line (PDict d) # ls) = bindE (read_lines ls) (\<lambda>ds. Inr (d # ds))"
| "read_lines (Line v # ls) = Inl (receipt_error ''receipt line must contain an object'')"

definition read_records :: "json_line list option \<Rightarrow> pydict list result" where
  "read_records f = (case f of None \<Rightarrow> Inl (receipt_error ''unable to read execution receipts'') | Some ls \<Rightarrow> read_lines ls)"

definition starts_with :: "string \<Rightarrow> string \<Rightarrow> bool" where
  "starts_with prefix s \<longleftrightarrow> take (length prefix) s = prefix"

definition verify_checkpoint :: "checkpoint_file \<Rightarrow> pydict list \<Rightarrow> check" where
  "verify_checkpoint f rs = (case f of
       Checkpoint (PDict c) \<Rightarrow>
         (let names = [''schema_version'', ''last_sequence'', ''last_receipt_hash'']; h = dget c ''last_receipt_hash'' in
          first_error
            [require (only_keys c names \<and> has_keys c names) (receipt_error ''checkpoint fields''),
             require (dget c ''schema_version'' = PStr ''1.0'') (receipt_error ''checkpoint version''),
             require (case plain_int (dget c ''last_sequence'') of None \<Rightarrow> False | Some n \<Rightarrow> 0 \<le> n)
               (receipt_error ''checkpoint sequence''),
             require (h = PNone \<or> (is_str h \<and> starts_with ''sha256:'' (str_of h))) (receipt_error ''checkpoint hash''),
             require (dget c ''last_sequence'' = PInt (int (length rs)) \<and> h = last_hash rs)
               (receipt_error ''checkpoint does not match'')])
     | Checkpoint _ \<Rightarrow> Some (receipt_error ''checkpoint must be an object'')
     | _ \<Rightarrow> Some (receipt_error ''checkpoint is unavailable or invalid''))"

text \<open>\<open>JsonlReceiptSink.__init__\<close>; \<open>base\<close> is the chained sink the inherited constructor returns.\<close>

definition JsonlReceiptSink ::
    "crypto \<Rightarrow> (string \<times> trusted_key) list \<Rightarrow> hash_sink result \<Rightarrow> bool \<Rightarrow> bool \<Rightarrow> bool
     \<Rightarrow> json_line list option \<Rightarrow> checkpoint_file \<Rightarrow> jsonl_sink result" where
  "JsonlReceiptSink cr trusted base same_path resume with_checkpoint file ck =
     after (first_error
         [require (\<not> (with_checkpoint \<and> same_path)) (receipt_error ''checkpoint must use a different path''),
          require (file \<in> {None, Some []} \<or> resume) (receipt_error ''existing receipt files must be resumed explicitly''),
          require (\<not> resume \<or> with_checkpoint) (receipt_error ''resume requires a checkpoint'')])
       (bindE base (\<lambda>sink.
          let s = \<lparr>chain = sink, file_lines = file, checkpoint = ck, uses_checkpoint = with_checkpoint, broken = False\<rparr> in
          if \<not> resume then Inr s
          else bindE (read_records file) (\<lambda>rs.
                 guarded [verify_receipt_chain cr trusted (map PDict rs), verify_checkpoint ck rs]
                   (s\<lparr>chain := sink\<lparr>records := rs\<rparr>\<rparr>))))"

section \<open>The external collector\<close>

text \<open>\<open>FailClosedReceiptSink.append\<close>: every exception of the collector becomes a \<open>ReceiptError\<close>.\<close>

definition fail_closed_append ::
    "(pyval \<Rightarrow> 's \<Rightarrow> pyval result \<times> 's) \<Rightarrow> pyval \<Rightarrow> 's \<Rightarrow> pydict result \<times> 's" where
  "fail_closed_append collector v s =
     (let r = collector v s in
      (case fst r of
         Inl e \<Rightarrow> Inl (receipt_error ''external receipt collector unavailable'')
       | Inr stored \<Rightarrow> (case stored of PDict d \<Rightarrow> Inr d
           | _ \<Rightarrow> Inl (receipt_error ''external receipt collector returned an invalid record'')), snd r))"

section \<open>Invariant\<close>

text \<open>The lines of the file begin with the records in memory; while the sink is not broken they are those
  records, and the checkpoint matches them.\<close>

definition file_inv :: "jsonl_sink \<Rightarrow> bool" where
  "file_inv s \<longleftrightarrow>
     (let rs = records (chain s); ls = (case file_lines s of None \<Rightarrow> [] | Some ls \<Rightarrow> ls) in
      take (length rs) ls = map (Line \<circ> PDict) rs \<and>
      (\<not> broken s \<longrightarrow> ls = map (Line \<circ> PDict) rs \<and>
        (uses_checkpoint s \<and> rs \<noteq> [] \<longrightarrow> verify_checkpoint (checkpoint s) rs = None)))"

lemma jsonl_commit_Inr:
  assumes "jsonl_commit fault r s = (Inr u, s')"
  shows "chain s' = commit_record r (chain s) \<and> broken s' = broken s \<and> uses_checkpoint s' = uses_checkpoint s \<and>
    file_lines s' = file_lines (add_lines [Line (PDict r)] s) \<and>
    (uses_checkpoint s \<longrightarrow> checkpoint s' = checkpoint_of r)"
  using assms by (cases fault) (auto simp: jsonl_commit_def add_lines_def Let_def split: if_splits)

lemma jsonl_commit_Inl:
  assumes "jsonl_commit fault r s = (Inl e, s')"
  shows "chain s' = chain s \<and> broken s' \<and> (\<exists>ls. file_lines s' = file_lines (add_lines ls s))"
  using assms by (cases fault) (auto simp: jsonl_commit_def add_lines_def Let_def split: if_splits)

lemma jsonl_append_cases:
  assumes "jsonl_append cr uuid fault v s = (res, s')"
  obtains "s' = s" "isl res"
  | r where "\<not> broken s" "build_record cr uuid (chain s) v = Inr r" "res = Inr r" "jsonl_commit fault r s = (Inr (), s')"
  | r e where "\<not> broken s" "build_record cr uuid (chain s) v = Inr r" "res = Inl e" "jsonl_commit fault r s = (Inl e, s')"
proof (cases "broken s")
  case True
  with assms that(1) show thesis by (auto simp: jsonl_append_def)
next
  case b: False
  show thesis
  proof (cases "build_record cr uuid (chain s) v")
    case (Inl e)
    with assms b have "s' = s \<and> res = Inl e" by (simp add: jsonl_append_def)
    with that(1) show thesis by simp
  next
    case (Inr r)
    obtain c t where c: "jsonl_commit fault r s = (c, t)" by fastforce
    with assms b Inr have "s' = t" "res = bindE c (\<lambda>u. Inr r)" by (auto simp: jsonl_append_def)
    with b c Inr that(2,3) show thesis by (cases c) auto
  qed
qed

lemma built_record_reads:
  assumes "build_record cr uuid sink v = Inr r"
  shows "dget r ''sequence'' = PInt (int (length (records sink)) + 1)" "\<exists>bytes. dget r ''receipt_hash'' = PStr (digest_of cr bytes)"
proof -
  obtain receipt bytes where "sign_receipt cr (signer sink)
      (dset (chained uuid (signer sink) (records sink) receipt) ''receipt_hash'' (PStr (digest_of cr bytes))) = Inr r"
    using assms by (rule build_record_Inr)
  from sign_receipt_reads(1) [OF this] show "dget r ''sequence'' = PInt (int (length (records sink)) + 1)"
    "\<exists>bytes. dget r ''receipt_hash'' = PStr (digest_of cr bytes)"
    by (auto simp: chained_reads)
qed

lemma checkpoint_matches:
  assumes "build_record cr uuid sink v = Inr r"
  shows "verify_checkpoint (checkpoint_of r) (records sink @ [r]) = None"
proof -
  obtain bytes where h: "dget r ''receipt_hash'' = PStr (digest_of cr bytes)" using built_record_reads(2) [OF assms] by blast
  have "last_hash (records sink @ [r]) = PStr (digest_of cr bytes)" by (simp add: last_hash_def h)
  then show ?thesis
    by (simp add: verify_checkpoint_def checkpoint_of_def built_record_reads(1) [OF assms] h Let_def)
      (simp add: only_keys_def has_keys_def dhas_def dget_def dget_or_def starts_with_def digest_of_def)
qed

definition sink_inv :: "crypto \<Rightarrow> (string \<times> trusted_key) list \<Rightarrow> jsonl_sink \<Rightarrow> bool" where
  "sink_inv cr trusted s \<longleftrightarrow> file_inv s \<and> signer_trusted cr trusted (signer (chain s)) \<and>
     verify_receipt_chain cr trusted (map PDict (records (chain s))) = None"

lemma sink_inv_append:
  assumes "jsonl_append cr uuid fault v s = (res, s')" "sink_inv cr trusted s" "signature_scheme cr"
  shows "sink_inv cr trusted s'"
  using assms(1)
proof (cases rule: jsonl_append_cases)
  case (2 r)
  note c = jsonl_commit_Inr [OF 2(4)]
  have "file_inv s'"
    using assms(2) c 2(1) checkpoint_matches [OF 2(2)]
    by (auto simp: sink_inv_def file_inv_def Let_def add_lines_def commit_record_def split: option.splits)
  moreover have "verify_receipt_chain cr trusted (map PDict (records (chain s) @ [r])) = None"
    using assms(2) append_verified [OF assms(3) _ _ 2(2)] by (simp add: sink_inv_def)
  ultimately show ?thesis using assms(2) c by (simp add: sink_inv_def commit_record_def)
next
  case (3 r e)
  with assms(2) show ?thesis
    using jsonl_commit_Inl [OF 3(4)] by (auto simp: sink_inv_def file_inv_def Let_def add_lines_def split: option.splits)
qed (use assms(2) in simp)

lemma read_lines_Inr: "read_lines ls = Inr rs \<longleftrightarrow> ls = map (Line \<circ> PDict) rs"
  by (induction ls arbitrary: rs rule: read_lines.induct) auto

definition jsonl_op :: "crypto \<Rightarrow> string \<times> commit_fault \<times> pyval \<Rightarrow> jsonl_sink \<Rightarrow> pydict result \<times> jsonl_sink" where
  "jsonl_op cr i s = jsonl_append cr (fst i) (fst (snd i)) (snd (snd i)) s"

interpretation jsonl: receipt_sink "jsonl_op cr" "\<lambda>s. records (chain s)" for cr
  by unfold_locales
    (auto simp: jsonl_op_def commit_record_def dest: jsonl_commit_Inr jsonl_commit_Inl elim!: jsonl_append_cases)

text \<open>A broken sink is a latch that nothing reopens.\<close>

interpretation broken_sink: latch "\<lambda>i s. snd (jsonl_op cr i s)" "\<lambda>i s. \<not> isl (fst (jsonl_op cr i s))" broken "\<lambda>i. False" for cr
  by unfold_locales (simp_all add: jsonl_op_def jsonl_append_def)

lemma opened_inv:
  assumes "JsonlReceiptSink cr trusted (HashChainedReceiptSink secret key issuer) same resume wc file ck = Inr s"
    "signer_trusted cr trusted (signer (chain s))"
  shows "sink_inv cr trusted s"
proof -
  obtain sink where sink: "HashChainedReceiptSink secret key issuer = Inr sink" "records sink = []"
    using assms(1) by (auto simp: JsonlReceiptSink_def HashChainedReceiptSink_def split: if_splits)
  show ?thesis
  proof (cases resume)
    case True
    with assms(1) sink obtain rs ls where r: "file = Some ls" "read_lines ls = Inr rs" "verify_receipt_chain cr trusted (map PDict rs) = None"
      "verify_checkpoint ck rs = None" and "s = \<lparr>chain = sink\<lparr>records := rs\<rparr>, file_lines = file, checkpoint = ck, uses_checkpoint = wc, broken = False\<rparr>"
      by (auto simp: JsonlReceiptSink_def read_records_def Let_def split: option.splits)
    with assms(2) show ?thesis by (simp add: sink_inv_def file_inv_def read_lines_Inr)
  next
    case False
    with assms sink show ?thesis
      by (auto simp: JsonlReceiptSink_def first_error_None Let_def sink_inv_def file_inv_def verify_receipt_chain_def)
  qed
qed

lemma history_inv:
  assumes "sink_inv cr trusted s" "signature_scheme cr"
  shows "sink_inv cr trusted (fold (\<lambda>i s. snd (jsonl_op cr i s)) ops s)"
  using assms(1)
proof (induction ops arbitrary: s)
  case (Cons i ops)
  have "sink_inv cr trusted (snd (jsonl_op cr i s))"
    using sink_inv_append [OF _ Cons.prems assms(2)] by (metis jsonl_op_def prod.collapse)
  with Cons.IH show ?case by simp
qed simp

text \<open>
  The file is the memory: from any sink the constructor returned (fresh or resumed), after any appends,
  valid or not, and any disk failures, every record in memory is a line of the file, in order, and the chain
  verifies; as long as no write failed the file holds nothing else and the checkpoint matches.
\<close>

theorem file_never_behind_memory:
  assumes "JsonlReceiptSink cr trusted (HashChainedReceiptSink secret key issuer) same resume wc file ck = Inr s0"
    and "signature_scheme cr" "signer_trusted cr trusted (signer (chain s0))"
    and s: "s = fold (\<lambda>i s. snd (jsonl_op cr i s)) ops s0"
  shows "file_inv s \<and> verify_receipt_chain cr trusted (map PDict (records (chain s))) = None"
  using history_inv [OF opened_inv [OF assms(1,3)] assms(2)] by (simp add: s sink_inv_def)

definition sample_open :: "jsonl_sink result" where
  "sample_open = JsonlReceiptSink sample_flat [(''key'', sample_key)]
     (HashChainedReceiptSink (Some ''k'') (Some ''key'') (Some ''me'')) False False True None NoCheckpoint"

text \<open>A record that was written before the checkpoint failed, and an invalid receipt.\<close>

definition sample_ops :: "(string \<times> commit_fault \<times> pyval) list" where
  "sample_ops = [(''v'', CommitOk, PNone), (''u'', CheckpointFails False, PDict (sample_receipt ''r''))]"

lemma sample_signer_trusted_flat: "signer_trusted sample_flat [(''key'', sample_key)] (Some sample_signer)"
  by code_simp

theorem file_never_behind_memory_witness:
  "\<exists>s0. sample_open = Inr s0 \<and>
    (let s = fold (\<lambda>i s. snd (jsonl_op sample_flat i s)) sample_ops s0 in file_inv s \<and> broken s \<and>
       records (chain s) = [] \<and> file_lines s \<noteq> None \<and>
       verify_receipt_chain sample_flat [(''key'', sample_key)] (map PDict (records (chain s))) = None)"
proof -
  obtain s0 where s0: "sample_open = Inr s0" "signer (chain s0) = Some sample_signer"
    by (simp add: sample_open_def JsonlReceiptSink_def HashChainedReceiptSink_def Let_def sample_signer_def)
  have "case sample_open of Inl _ \<Rightarrow> False | Inr s0 \<Rightarrow>
      (let s = fold (\<lambda>i s. snd (jsonl_op sample_flat i s)) sample_ops s0 in broken s \<and> records (chain s) = [] \<and> file_lines s \<noteq> None)"
    by code_simp
  then have "let s = fold (\<lambda>i s. snd (jsonl_op sample_flat i s)) sample_ops s0 in broken s \<and> records (chain s) = [] \<and> file_lines s \<noteq> None"
    unfolding s0(1) sum.case .
  moreover have "signer_trusted sample_flat [(''key'', sample_key)] (signer (chain s0))"
    using s0(2) sample_signer_trusted_flat by simp
  ultimately show ?thesis
    using s0(1) file_never_behind_memory [OF s0(1) [unfolded sample_open_def] sample_flat_scheme _ refl, of sample_ops]
    unfolding Let_def by blast
qed



text \<open>
  A failed write stops the sink for good: after an append whose commit failed, the record is not in
  memory, and no later append succeeds or changes anything, whatever is appended.
\<close>

theorem failed_write_stops_sink:
  assumes "\<not> broken s" "build_record cr uuid (chain s) v = Inr r" "jsonl_append cr uuid fault v s = (Inl e, s')"
  shows "records (chain s') = records (chain s) \<and>
    isl (fst (jsonl_op cr i (fold (\<lambda>i s. snd (jsonl_op cr i s)) ops s'))) \<and>
    fold (\<lambda>i s. snd (jsonl_op cr i s)) ops s' = s'"
proof -
  obtain e' where c: "jsonl_commit fault r s = (Inl e', s')"
    using assms by (cases "jsonl_commit fault r s"; cases "fst (jsonl_commit fault r s)") (auto simp: jsonl_append_def)
  then have b: "broken s'" using jsonl_commit_Inl by blast
  have "isl (fst (jsonl_op cr i (fold (\<lambda>i s. snd (jsonl_op cr i s)) ops s')))"
    using broken_sink.nothing_admitted [OF b, of ops] by (simp add: list_all_iff)
  moreover have "fold (\<lambda>i s. snd (jsonl_op cr i s)) ops s' = s'"
    using b by (induction ops) (auto simp: jsonl_op_def jsonl_append_def)
  ultimately show ?thesis using jsonl_commit_Inl [OF c] by simp
qed

theorem failed_write_stops_sink_witness:
  "\<exists>s0 e s'. sample_open = Inr s0 \<and>
    jsonl_append sample_flat ''u'' (CheckpointFails True) (PDict (sample_receipt ''r'')) s0 = (Inl e, s') \<and>
    isl (fst (jsonl_op sample_flat (''v'', CommitOk, PDict (sample_receipt ''q'')) s')) \<and> records (chain s') = []"
proof -
  obtain s0 where s0: "sample_open = Inr s0" by (simp add: sample_open_def JsonlReceiptSink_def HashChainedReceiptSink_def Let_def)
  have "case sample_open of Inl _ \<Rightarrow> False | Inr s0 \<Rightarrow> \<not> broken s0 \<and> records (chain s0) = [] \<and>
      \<not> isl (build_record sample_flat ''u'' (chain s0) (PDict (sample_receipt ''r''))) \<and>
      isl (fst (jsonl_append sample_flat ''u'' (CheckpointFails True) (PDict (sample_receipt ''r'')) s0))"
    by code_simp
  then have f: "\<not> broken s0" "records (chain s0) = []"
      "\<not> isl (build_record sample_flat ''u'' (chain s0) (PDict (sample_receipt ''r'')))"
      "isl (fst (jsonl_append sample_flat ''u'' (CheckpointFails True) (PDict (sample_receipt ''r'')) s0))"
    unfolding s0 sum.case by blast+
  obtain r where r: "build_record sample_flat ''u'' (chain s0) (PDict (sample_receipt ''r'')) = Inr r"
    using not_isl_ex [OF f(3)] by blast
  obtain e s' where a: "jsonl_append sample_flat ''u'' (CheckpointFails True) (PDict (sample_receipt ''r'')) s0 = (Inl e, s')"
    using f(4) by (metis isl_def prod.collapse)
  from failed_write_stops_sink [OF f(1) r a, of "(''v'', CommitOk, PDict (sample_receipt ''q''))" "[]"] a s0 f(2)
  show ?thesis by auto
qed

end
