(* ===== verification/Messages.thy ===== *)
theory Messages
  imports SignedObjects ReplayGuard ActionRequest
begin

text \<open>
  Signed messages between agents, \<^verbatim>\<open>message_transport.py\<close>: signing, and the verification a recipient
  runs before it delivers a body. The lemmas show what an accepted message establishes, that it is delivered
  once, and that a signed message reaches its recipient.
\<close>

section \<open>Fields\<close>

definition message_error :: "string \<Rightarrow> exn" where
  "message_error code = Exc MessageVerificationError code"

definition message_text :: "pyval \<Rightarrow> check" where
  "message_text v = (if trimmed_str v then require (int (length (str_of v)) \<le> 256) (message_error ''MESSAGE_FIELD_INVALID'')
     else Some (message_error ''MESSAGE_FIELD_INVALID''))"

text \<open>Both texts are parsed and found aware before either is moved to UTC.\<close>

definition message_times :: "pyval \<Rightarrow> pyval \<Rightarrow> (int \<times> int) result" where
  "message_times issued_at expires_at =
     (let bad = message_error ''MESSAGE_TIME_INVALID''; parse = (\<lambda>v. fromisoformat (normalize_zulu ''Z'' (str_of v))) in
      if is_str issued_at \<and> is_str expires_at then
        (case (parse issued_at, parse expires_at) of
           (Some i, Some x) \<Rightarrow>
             if aware i \<and> aware x then bindE (astimezone_utc i) (\<lambda>i. bindE (astimezone_utc x) (\<lambda>x. Inr (i, x))) else Inl bad
         | _ \<Rightarrow> Inl bad)
      else Inl bad)"

definition message_window :: "pyval \<Rightarrow> pyval \<Rightarrow> datetime \<Rightarrow> int \<Rightarrow> check" where
  "message_window issued_at expires_at clock skew =
     (let times = message_times issued_at expires_at in
      window_check (message_error ''MESSAGE_TIME_INVALID'') (message_error ''MESSAGE_NOT_YET_VALID'') (message_error ''MESSAGE_EXPIRED'')
        (bindE times (\<lambda>t. Inr (fst t))) (bindE times (\<lambda>t. Inr (snd t))) clock skew)"

definition message_bytes :: "crypto \<Rightarrow> pyval \<Rightarrow> string result" where
  "message_bytes cr v = canonical cr (message_error ''MESSAGE_PAYLOAD_INVALID'') v"

text \<open>The signed payload is the message itself with the domain in front and the signature's value blank.\<close>

definition message_payload :: "crypto \<Rightarrow> pydict \<Rightarrow> string result" where
  "message_payload cr m = message_bytes cr (PDict (blank_signature
     (foldl (\<lambda>d (k, v). dset_key d k v) [(KStr ''domain'', PStr ''hlinor/scoped-message/v1'')] m)))"

definition message_scope :: "pyval \<Rightarrow> pyval \<Rightarrow> execution_scope result" where
  "message_scope project workspace = (case ExecutionScope project workspace of
       Inl _ \<Rightarrow> Inl (message_error ''MESSAGE_SCOPE_INVALID'') | Inr s \<Rightarrow> Inr s)"

definition message_body :: "crypto \<Rightarrow> pyval \<Rightarrow> check" where
  "message_body cr body = (case message_bytes cr body of
       Inl e \<Rightarrow> Some e | Inr bytes \<Rightarrow> require (int (length bytes) \<le> 1048576) (message_error ''MESSAGE_PAYLOAD_INVALID''))"

section \<open>Keys and verified facts\<close>

record message_key =
  mk_id :: string
  mk_agent :: string
  mk_public :: string
  mk_issuer :: "string option"

record verified_message =
  vm_id :: string
  vm_scope :: execution_scope
  vm_sender :: string
  vm_recipient :: string
  vm_body :: pyval
  vm_issued_at :: string
  vm_expires_at :: string
  vm_nonce :: string
  vm_key :: string
  vm_issuer :: string

definition body_digest :: "crypto \<Rightarrow> verified_message \<Rightarrow> string result" where
  "body_digest cr m = bindE (message_bytes cr (vm_body m)) (\<lambda>bytes. Inr (digest_of cr bytes))"

definition message_signal :: "crypto \<Rightarrow> verified_message \<Rightarrow> pyval result" where
  "message_signal cr m = bindE (body_digest cr m) (\<lambda>digest. Inr (PDict (obj
     [(''message_id'', PStr (vm_id m)), (''sender_agent_id'', PStr (vm_sender m)), (''recipient_agent_id'', PStr (vm_recipient m)),
      (''project_id'', PStr (project_id (vm_scope m))), (''workspace_id'', PStr (workspace_id (vm_scope m))),
      (''body_digest'', PStr digest), (''key_id'', PStr (vm_key m)), (''issuer'', PStr (vm_issuer m)), (''verified'', PBool True)])))"

section \<open>Signing\<close>

record message_request =
  mr_sender :: pyval
  mr_recipient :: pyval
  mr_scope :: execution_scope
  mr_body :: pyval
  mr_issued_at :: pyval
  mr_expires_at :: pyval
  mr_nonce :: pyval

definition unsigned_message :: "pyval \<Rightarrow> pyval \<Rightarrow> pyval \<Rightarrow> message_request \<Rightarrow> pydict" where
  "unsigned_message key issuer mid r = obj
     [(''schema_version'', PStr ''1.0''), (''message_id'', mid), (''project_id'', PStr (project_id (mr_scope r))),
      (''workspace_id'', PStr (workspace_id (mr_scope r))), (''sender_agent_id'', mr_sender r),
      (''recipient_agent_id'', mr_recipient r), (''body'', mr_body r), (''issued_at'', mr_issued_at r),
      (''expires_at'', mr_expires_at r), (''nonce'', mr_nonce r),
      (''signature'', PDict (obj [(''algorithm'', PStr ''Ed25519''), (''key_id'', key), (''issuer'', issuer),
         (''value'', PStr [])]))]"

text \<open>\<open>uuid\<close> is the fresh id used when none is given.\<close>

definition sign_scoped_message ::
    "crypto \<Rightarrow> string \<Rightarrow> string \<Rightarrow> pyval \<Rightarrow> pyval \<Rightarrow> pyval \<Rightarrow> message_request \<Rightarrow> datetime \<Rightarrow> pydict result" where
  "sign_scoped_message cr secret uuid key issuer message_id r clock =
     (let mid = (if message_id = PNone then PStr uuid else message_id); m = unsigned_message key issuer mid r in
      after (first_error (map message_text [key, issuer, mr_sender r, mr_recipient r, mr_nonce r, mid]
          @ [message_body cr (mr_body r), message_window (mr_issued_at r) (mr_expires_at r) clock 0]))
        (bindE (message_payload cr m) (\<lambda>bytes. Inr (with_signature m (ed25519_sign cr secret bytes)))))"

section \<open>Verification\<close>

definition message_fields :: "string list" where
  "message_fields = [''schema_version'', ''message_id'', ''project_id'', ''workspace_id'', ''sender_agent_id'',
     ''recipient_agent_id'', ''body'', ''issued_at'', ''expires_at'', ''nonce'', ''signature'']"

definition scope_check :: "pydict \<Rightarrow> execution_scope \<Rightarrow> check" where
  "scope_check m scope = (case message_scope (dget m ''project_id'') (dget m ''workspace_id'') of
       Inl e \<Rightarrow> Some e | Inr s \<Rightarrow> require (s = scope) (message_error ''MESSAGE_SCOPE_MISMATCH''))"

text \<open>Everything that does not need the sender's key.\<close>

definition message_checks :: "crypto \<Rightarrow> pydict \<Rightarrow> execution_scope \<Rightarrow> string \<Rightarrow> datetime \<Rightarrow> int \<Rightarrow> check list" where
  "message_checks cr m scope recipient clock skew =
     [message_text (PStr recipient), require (only_keys m message_fields) (message_error ''MESSAGE_INVALID''),
      require (has_keys m message_fields) (message_error ''MESSAGE_INVALID''),
      require (dget m ''schema_version'' = PStr ''1.0'') (message_error ''MESSAGE_VERSION_UNSUPPORTED'')]
     @ map (\<lambda>f. message_text (dget m f))
         [''message_id'', ''sender_agent_id'', ''recipient_agent_id'', ''issued_at'', ''expires_at'', ''nonce'']
     @ [require (dget m ''recipient_agent_id'' = PStr recipient) (message_error ''MESSAGE_RECIPIENT_MISMATCH''),
        scope_check m scope, message_body cr (dget m ''body''),
        message_window (dget m ''issued_at'') (dget m ''expires_at'') clock skew]
     @ signature_shape message_error ''MESSAGE_SIGNATURE_INVALID'' message_text m
     @ [require (is_str (dget (sig_of m) ''value'') \<and> truthy (dget (sig_of m) ''value'')) (message_error ''MESSAGE_SIGNATURE_INVALID'')]"

definition message_key_checks :: "crypto \<Rightarrow> pydict \<Rightarrow> (string \<times> message_key) list \<Rightarrow> check" where
  "message_key_checks cr m keys =
     (let key_id = dget (sig_of m) ''key_id''; untrusted = message_error ''MESSAGE_SENDER_UNTRUSTED'' in
      case map_of keys (str_of key_id) of
        None \<Rightarrow> Some untrusted
      | Some key \<Rightarrow> first_error
          [require (PStr (mk_id key) = key_id \<and> PStr (mk_agent key) = dget m ''sender_agent_id'') untrusted,
           require (mk_issuer key = None \<or> opt_str (mk_issuer key) = dget (sig_of m) ''issuer'') (message_error ''MESSAGE_ISSUER_INVALID''),
           encoded_signature cr (mk_public key) (message_error ''MESSAGE_SIGNATURE_INVALID'') (dget (sig_of m) ''value'') (message_payload cr m)])"

definition message_state_error :: "exn \<Rightarrow> exn" where
  "message_state_error e = (if exc_of e = MessageVerificationError then e else message_error ''MESSAGE_REPLAY_STATE_UNAVAILABLE'')"

definition message_replay :: "pydict \<Rightarrow> 's replay_ops option \<Rightarrow> 's \<Rightarrow> unit result \<times> 's" where
  "message_replay m guard = deliver_once message_state_error (message_error ''MESSAGE_REPLAY_GUARD_REQUIRED'')
     (message_error ''MESSAGE_REVOKED'') (message_error ''MESSAGE_REPLAYED'') guard
     (str_of (dget m ''message_id'')) (str_of (dget m ''nonce'')) (str_of (dget m ''expires_at''))"

definition verified_message_of :: "pydict \<Rightarrow> execution_scope \<Rightarrow> verified_message" where
  "verified_message_of m scope = (let s = (\<lambda>f. str_of (dget m f)) in
     \<lparr>vm_id = s ''message_id'', vm_scope = scope, vm_sender = s ''sender_agent_id'', vm_recipient = s ''recipient_agent_id'',
      vm_body = dget m ''body'', vm_issued_at = s ''issued_at'', vm_expires_at = s ''expires_at'', vm_nonce = s ''nonce'',
      vm_key = str_of (dget (sig_of m) ''key_id''), vm_issuer = str_of (dget (sig_of m) ''issuer'')\<rparr>)"

definition verify_scoped_message ::
    "crypto \<Rightarrow> pyval \<Rightarrow> (string \<times> message_key) list \<Rightarrow> execution_scope \<Rightarrow> string \<Rightarrow> 's replay_ops option \<Rightarrow> datetime \<Rightarrow> int
     \<Rightarrow> 's \<Rightarrow> verified_message result \<times> 's" where
  "verify_scoped_message cr v keys scope recipient guard clock skew s = (case v of
       PDict m \<Rightarrow> (case first_error (message_checks cr m scope recipient clock skew @ [message_key_checks cr m keys]) of
           Some e \<Rightarrow> (Inl e, s)
         | None \<Rightarrow> (let r = message_replay m guard s in (bindE (fst r) (\<lambda>u. Inr (verified_message_of m scope)), snd r)))
     | _ \<Rightarrow> (Inl (message_error ''MESSAGE_INVALID''), s))"

section \<open>What an accepted message establishes\<close>

lemma verify_message_Inr:
  assumes "verify_scoped_message cr v keys scope recipient guard clock skew s = (Inr vm, s')"
  obtains m where "v = PDict m" "\<forall>c \<in> set (message_checks cr m scope recipient clock skew). c = None"
    "message_key_checks cr m keys = None" "message_replay m guard s = (Inr (), s')" "vm = verified_message_of m scope"
proof (cases v)
  case (PDict m)
  with assms have c: "first_error (message_checks cr m scope recipient clock skew @ [message_key_checks cr m keys]) = None"
    by (auto simp: verify_scoped_message_def split: option.splits)
  with assms PDict have "fst (message_replay m guard s) = Inr ()" "snd (message_replay m guard s) = s'"
    "vm = verified_message_of m scope"
    by (auto simp: verify_scoped_message_def Let_def)
  with that PDict c show thesis by (metis first_error_None prod.collapse in_set_conv_decomp Un_iff set_append list.set_intros(1))
qed (use assms in \<open>auto simp: verify_scoped_message_def\<close>)

lemma message_text_None: "message_text v = None \<longleftrightarrow> trimmed_str v \<and> int (length (str_of v)) \<le> 256"
  by (simp add: message_text_def)

lemma scope_check_None:
  "scope_check m scope = None \<longleftrightarrow> ExecutionScope (dget m ''project_id'') (dget m ''workspace_id'') = Inr scope"
  by (auto simp: scope_check_def message_scope_def simp del: ExecutionScope_Inr split: sum.splits)

lemma message_key_checks_None:
  assumes "message_key_checks cr m keys = None"
  obtains key bytes signature where "map_of keys (str_of (dget (sig_of m) ''key_id'')) = Some key"
    "dget m ''sender_agent_id'' = PStr (mk_agent key)" "message_payload cr m = Inr bytes"
    "ed25519_verify cr (mk_public key) bytes signature"
proof -
  from assms obtain key where key: "map_of keys (str_of (dget (sig_of m) ''key_id'')) = Some key"
    "dget m ''sender_agent_id'' = PStr (mk_agent key)"
    "encoded_signature cr (mk_public key) (message_error ''MESSAGE_SIGNATURE_INVALID'') (dget (sig_of m) ''value'') (message_payload cr m) = None"
    by (auto simp: message_key_checks_def Let_def first_error_None split: option.splits)
  with that show thesis using encoded_signature_None by blast
qed

section \<open>Properties\<close>

text \<open>
  An accepted message is for this recipient and this scope, inside its window, and the trusted key its
  signature names belongs to its sender and verifies the message's bytes; the body delivered is the body signed.
\<close>

theorem accepted_message:
  assumes "verify_scoped_message cr v keys scope recipient guard clock skew s = (Inr vm, s')"
  shows "vm_scope vm = scope \<and> vm_recipient vm = recipient \<and>
    (\<exists>m key bytes signature. v = PDict m \<and> map_of keys (vm_key vm) = Some key \<and> mk_agent key = vm_sender vm \<and>
       message_payload cr m = Inr bytes \<and> ed25519_verify cr (mk_public key) bytes signature \<and>
       dget m ''project_id'' = PStr (project_id scope) \<and> dget m ''workspace_id'' = PStr (workspace_id scope) \<and>
       vm_body vm = dget m ''body'' \<and> message_window (dget m ''issued_at'') (dget m ''expires_at'') clock skew = None)"
proof -
  obtain m where v: "v = PDict m" and checks: "\<forall>c \<in> set (message_checks cr m scope recipient clock skew). c = None"
    and k: "message_key_checks cr m keys = None" and vm: "vm = verified_message_of m scope"
    using assms by (rule verify_message_Inr)
  obtain key bytes signature where key: "map_of keys (str_of (dget (sig_of m) ''key_id'')) = Some key"
    "dget m ''sender_agent_id'' = PStr (mk_agent key)" "message_payload cr m = Inr bytes"
    "ed25519_verify cr (mk_public key) bytes signature"
    using k by (rule message_key_checks_None)
  have "dget m ''recipient_agent_id'' = PStr recipient" "scope_check m scope = None"
    "message_window (dget m ''issued_at'') (dget m ''expires_at'') clock skew = None"
    using checks by (simp_all add: message_checks_def)
  moreover from this(2) have "dget m ''project_id'' = PStr (project_id scope)" "dget m ''workspace_id'' = PStr (workspace_id scope)"
    by (auto simp: scope_check_None)
  ultimately show ?thesis using v key by (auto simp: vm verified_message_of_def)
qed

text \<open>
  C38. A message is delivered once: after a delivery against the SQLite guard, no message with the same id and
  nonce is delivered before its expiry, whatever claims and revocations happen in between.
\<close>

theorem message_delivered_once:
  assumes first: "verify_scoped_message cr v keys scope recipient (Some (sql_ops now fault)) clock skew g = (Inr vm, g')"
    and "approval_time (PStr (vm_expires_at vm)) = Inr expires" "list_all (event_before expires) events" "later < expires"
    and "vm_id vm' = vm_id vm" "vm_nonce vm' = vm_nonce vm"
  shows "verify_scoped_message cr v' keys' scope' recipient' (Some (sql_ops later fault')) clock' skew'
      (fold (guard_step sql_claim revoke) events g') \<noteq> (Inr vm', g'')"
proof
  assume second: "verify_scoped_message cr v' keys' scope' recipient' (Some (sql_ops later fault')) clock' skew'
      (fold (guard_step sql_claim revoke) events g') = (Inr vm', g'')"
  obtain m where m: "message_replay m (Some (sql_ops now fault)) g = (Inr (), g')" "vm = verified_message_of m scope"
    using first by (rule verify_message_Inr)
  obtain m' where m': "message_replay m' (Some (sql_ops later fault')) (fold (guard_step sql_claim revoke) events g') = (Inr (), g'')"
      "vm' = verified_message_of m' scope'"
    using second by (rule verify_message_Inr)
  have k: "str_of (dget m' ''message_id'') = str_of (dget m ''message_id'')" "str_of (dget m' ''nonce'') = str_of (dget m ''nonce'')"
    "approval_time (PStr (str_of (dget m ''expires_at''))) = Inr expires"
    using assms(2,5,6) by (simp_all add: m(2) m'(2) verified_message_of_def)
  from delivered_once [OF m(1) [unfolded message_replay_def] k(3) assms(3,4)] m'(1) k(1,2)
  show False unfolding message_replay_def by simp
qed

section \<open>Signing, then verifying\<close>

lemma unsigned_message_reads:
  fixes key issuer mid r
  defines "m \<equiv> unsigned_message key issuer mid r"
  shows "dget m ''schema_version'' = PStr ''1.0''" "dget m ''message_id'' = mid" "dget m ''project_id'' = PStr (project_id (mr_scope r))"
    "dget m ''workspace_id'' = PStr (workspace_id (mr_scope r))" "dget m ''sender_agent_id'' = mr_sender r"
    "dget m ''recipient_agent_id'' = mr_recipient r" "dget m ''body'' = mr_body r" "dget m ''issued_at'' = mr_issued_at r"
    "dget m ''expires_at'' = mr_expires_at r" "dget m ''nonce'' = mr_nonce r"
    "dget m ''signature'' = PDict (obj [(''algorithm'', PStr ''Ed25519''), (''key_id'', key), (''issuer'', issuer), (''value'', PStr [])])"
  by (simp_all add: m_def unsigned_message_def dget_def dget_or_def)

text \<open>The object a signer fills in is the unsigned one with its signature, and has the same payload.\<close>

lemma signed_message:
  fixes key issuer mid r signature
  defines "m \<equiv> unsigned_message key issuer mid r" and
    "sg \<equiv> obj [(''algorithm'', PStr ''Ed25519''), (''key_id'', key), (''issuer'', issuer), (''value'', PStr (b64encode signature))]"
  shows "with_signature m signature = dset m ''signature'' (PDict sg)"
    "message_payload cr (with_signature m signature) = message_payload cr m"
    "only_keys (with_signature m signature) message_fields" "has_keys (with_signature m signature) message_fields"
  by (simp_all add: m_def sg_def with_signature_def unsigned_message_def dget_def dget_or_def dset_def dhas_def
      message_payload_def blank_signature_def only_keys_def has_keys_def message_fields_def)

lemma sign_message_Inr:
  assumes "sign_scoped_message cr secret uuid key issuer message_id r clock = Inr d"
  obtains mid bytes where "message_payload cr (unsigned_message key issuer mid r) = Inr bytes"
    "d = with_signature (unsigned_message key issuer mid r) (ed25519_sign cr secret bytes)"
    "\<forall>v \<in> {key, issuer, mr_sender r, mr_recipient r, mr_nonce r, mid}. message_text v = None"
    "message_body cr (mr_body r) = None"
  using assms by (auto simp: sign_scoped_message_def Let_def guards)

text \<open>
  What is signed is delivered: a message \<^verbatim>\<open>sign_scoped_message\<close> returned is accepted by its
  recipient, in its scope and inside its window, when the signer's key is trusted for the sender and the replay
  store has neither revoked nor claimed it; the body delivered is the body given to the signer.
\<close>

theorem message_sign_then_verify:
  assumes scheme: "signature_scheme cr"
    and signed: "sign_scoped_message cr secret uuid (PStr kid) (PStr issuer) message_id r clock0 = Inr d"
    and key: "map_of keys kid = Some key" "mk_id key = kid" "PStr (mk_agent key) = mr_sender r"
      "mk_public key = ed25519_public cr secret" "mk_issuer key = None \<or> mk_issuer key = Some issuer"
    and to: "mr_recipient r = PStr recipient" "wf_scope (mr_scope r)"
    and texts: "message_text (mr_issued_at r) = None" "message_text (mr_expires_at r) = None"
    and window: "message_window (mr_issued_at r) (mr_expires_at r) clock skew = None"
    and fresh: "approval_time (mr_expires_at r) = Inr expires"
      "\<not> is_revoked (str_of (dget d ''message_id'')) (str_of (mr_nonce r)) g"
      "map_of (live_claims now g) (str_of (dget d ''message_id''), str_of (mr_nonce r)) = None"
  shows "\<exists>vm g'. verify_scoped_message cr (PDict d) keys (mr_scope r) recipient (Some (sql_ops now NoFault)) clock skew g = (Inr vm, g') \<and>
    vm_body vm = mr_body r \<and> has_claim g' (vm_id vm, vm_nonce vm) expires"
proof -
  obtain mid bytes where bytes: "message_payload cr (unsigned_message (PStr kid) (PStr issuer) mid r) = Inr bytes"
    and d: "d = with_signature (unsigned_message (PStr kid) (PStr issuer) mid r) (ed25519_sign cr secret bytes)"
    and ok: "\<forall>v \<in> {PStr kid, PStr issuer, mr_sender r, mr_recipient r, mr_nonce r, mid}. message_text v = None"
    and body: "message_body cr (mr_body r) = None"
    using signed by (rule sign_message_Inr)
  let ?v = "b64encode (ed25519_sign cr secret bytes)"
  define sg where "sg = obj [(''algorithm'', PStr ''Ed25519''), (''key_id'', PStr kid), (''issuer'', PStr issuer), (''value'', PStr ?v)]"
  have sreads: "dget sg ''algorithm'' = PStr ''Ed25519''" "dget sg ''key_id'' = PStr kid" "dget sg ''issuer'' = PStr issuer"
      "dget sg ''value'' = PStr ?v" "only_keys sg [''algorithm'', ''key_id'', ''issuer'', ''value'']"
      "has_keys sg [''algorithm'', ''key_id'', ''issuer'', ''value'']"
    by (simp_all add: sg_def only_keys_def has_keys_def dhas_def dget_def dget_or_def)
  have d': "d = dset (unsigned_message (PStr kid) (PStr issuer) mid r) ''signature'' (PDict sg)"
    unfolding d sg_def by (rule signed_message(1))
  note reads = unsigned_message_reads [of "PStr kid" "PStr issuer" mid r]
  have dreads: "dget d k = (if k = ''signature'' then PDict sg else dget (unsigned_message (PStr kid) (PStr issuer) mid r) k)" for k
    by (simp add: d')
  have sig: "sig_of d = sg" by (simp add: sig_of_def d')
  have payload: "message_payload cr d = Inr bytes" unfolding d using bytes by (simp only: signed_message(2))
  have fields: "only_keys d message_fields" "has_keys d message_fields"
    unfolding d by (rule signed_message(3), rule signed_message(4))
  have signature: "is_str (PStr ?v) \<and> truthy (PStr ?v)"
    using scheme by (simp add: signature_scheme_def)
  have "scope_check d (mr_scope r) = None"
    using to(2) by (cases "mr_scope r") (simp add: scope_check_None dreads reads wf_scope_def)
  then have "\<forall>c \<in> set (message_checks cr d (mr_scope r) recipient clock skew). c = None"
    using fields ok to(1) texts window body signature
    by (simp add: message_checks_def signature_shape_def Let_def sig sreads dreads reads)
  moreover have "message_key_checks cr d keys = None"
    using key check_encoded_signed [OF scheme key(4)]
    by (auto simp: message_key_checks_def first_error_None encoded_signature_def sig sreads dreads reads payload)
  moreover obtain g' where replay: "message_replay d (Some (sql_ops now NoFault)) g = (Inr (), g')"
      and claim: "has_claim g' (str_of (dget d ''message_id''), str_of (mr_nonce r)) expires"
  proof -
    obtain xs where "mr_expires_at r = PStr xs" using texts(2) by (auto simp: message_text_None)
    with fresh that show thesis
      by (auto simp: message_replay_def deliver_once_sql dreads reads sql_claim_def has_claim_def)
  qed
  ultimately have "verify_scoped_message cr (PDict d) keys (mr_scope r) recipient (Some (sql_ops now NoFault)) clock skew g
      = (Inr (verified_message_of d (mr_scope r)), g')"
    by (subst verify_scoped_message_def) (simp add: first_error_append first_error_None [THEN iffD2] first_error_Cons)
  with claim show ?thesis by (simp add: verified_message_of_def dreads reads)
qed

section \<open>A sample message\<close>

definition sample_message_request :: message_request where
  "sample_message_request = \<lparr>mr_sender = PStr ''alice'', mr_recipient = PStr ''bob'',
     mr_scope = \<lparr>project_id = ''p'', workspace_id = ''w''\<rparr>, mr_body = PList [PInt 1], mr_issued_at = PStr ''2026-01-01T00:00:00Z'',
     mr_expires_at = PStr ''2026-02-01T00:00:00Z'', mr_nonce = PStr ''n''\<rparr>"

definition sample_signed_message :: "pydict result" where
  "sample_signed_message = sign_scoped_message sample_flat ''k'' ''u'' (PStr ''key'') (PStr ''me'') PNone sample_message_request sample_clock"

definition sample_message_keys :: "(string \<times> message_key) list" where
  "sample_message_keys = [(''key'', \<lparr>mk_id = ''key'', mk_agent = ''alice'', mk_public = ''k'', mk_issuer = Some ''me''\<rparr>)]"

definition sample_delivery :: "verified_message result \<times> guard_state" where
  "sample_delivery = verify_scoped_message sample_flat (case sample_signed_message of Inl _ \<Rightarrow> PNone | Inr d \<Rightarrow> PDict d)
     sample_message_keys (mr_scope sample_message_request) ''bob'' (Some (sql_ops 0 NoFault)) sample_clock 60 no_claims"

lemma sample_delivered:
  "case fst sample_delivery of Inl _ \<Rightarrow> False
   | Inr vm \<Rightarrow> (case approval_time (PStr (vm_expires_at vm)) of Inl _ \<Rightarrow> False | Inr x \<Rightarrow> 1 < x)"
  by code_simp

lemma sample_delivery_obtain:
  obtains vm g' e where "sample_delivery = (Inr vm, g')" "approval_time (PStr (vm_expires_at vm)) = Inr e" "1 < e"
proof -
  obtain r g' where r: "sample_delivery = (r, g')" by fastforce
  from case_InrD [OF sample_delivered] obtain vm where "r = Inr vm"
    "case approval_time (PStr (vm_expires_at vm)) of Inl _ \<Rightarrow> False | Inr x \<Rightarrow> 1 < x" by (auto simp: r)
  with that r show thesis by (blast dest: case_InrD)
qed

theorem accepted_message_witness:
  "\<exists>vm g'. sample_delivery = (Inr vm, g') \<and> vm_recipient vm = ''bob'' \<and> vm_scope vm = mr_scope sample_message_request"
proof -
  obtain vm g' where v: "sample_delivery = (Inr vm, g')" by (rule sample_delivery_obtain)
  with accepted_message [OF v [unfolded sample_delivery_def]] show ?thesis by blast
qed

theorem message_delivered_once_witness:
  "\<exists>vm g'. sample_delivery = (Inr vm, g') \<and>
    verify_scoped_message sample_flat (case sample_signed_message of Inl _ \<Rightarrow> PNone | Inr d \<Rightarrow> PDict d)
      sample_message_keys (mr_scope sample_message_request) ''bob'' (Some (sql_ops 1 NoFault)) sample_clock 60 g' \<noteq> (Inr vm, g')"
proof -
  obtain vm g' e where v: "sample_delivery = (Inr vm, g')" "approval_time (PStr (vm_expires_at vm)) = Inr e" "1 < e"
    by (rule sample_delivery_obtain)
  have "verify_scoped_message sample_flat (case sample_signed_message of Inl _ \<Rightarrow> PNone | Inr d \<Rightarrow> PDict d)
      sample_message_keys (mr_scope sample_message_request) ''bob'' (Some (sql_ops 1 NoFault)) sample_clock 60
      (fold (guard_step sql_claim revoke) [] g') \<noteq> (Inr vm, g')"
    by (rule message_delivered_once [OF v(1) [unfolded sample_delivery_def] v(2) _ v(3) refl refl]) simp
  then show ?thesis unfolding fold_simps using v(1) by blast
qed

theorem message_sign_then_verify_witness:
  "\<exists>d vm g'. sample_signed_message = Inr d \<and>
    verify_scoped_message sample_flat (PDict d) sample_message_keys (mr_scope sample_message_request) ''bob''
      (Some (sql_ops 0 NoFault)) sample_clock 60 no_claims = (Inr vm, g') \<and> vm_body vm = PList [PInt 1]"
proof -
  have "\<not> isl sample_signed_message" by code_simp
  then obtain d where d: "sample_signed_message = Inr d" using not_isl_ex by blast
  have w: "message_window (mr_issued_at sample_message_request) (mr_expires_at sample_message_request) sample_clock 60 = None" by code_simp
  have "\<not> isl (approval_time (mr_expires_at sample_message_request))" by code_simp
  then obtain e where e: "approval_time (mr_expires_at sample_message_request) = Inr e" using not_isl_ex by blast
  have t: "message_text (mr_issued_at sample_message_request) = None" "message_text (mr_expires_at sample_message_request) = None"
    "wf_scope (mr_scope sample_message_request)" by code_simp+
  let ?key = "\<lparr>mk_id = ''key'', mk_agent = ''alice'', mk_public = ''k'', mk_issuer = Some ''me''\<rparr>"
  have "\<exists>vm g'. verify_scoped_message sample_flat (PDict d) sample_message_keys (mr_scope sample_message_request) ''bob''
      (Some (sql_ops 0 NoFault)) sample_clock 60 no_claims = (Inr vm, g') \<and>
    vm_body vm = mr_body sample_message_request \<and> has_claim g' (vm_id vm, vm_nonce vm) e"
    by (rule message_sign_then_verify [OF sample_flat_scheme d [unfolded sample_signed_message_def] _ _ _ _ _ _ t(3) t(1,2) w e, where key = ?key])
      (simp_all add: sample_message_keys_def sample_message_request_def sample_flat_def sample_base_def no_claims_def is_revoked_def live_claims_def)
  with d show ?thesis by (auto simp: sample_message_request_def)
qed

end
