(* ===== verification/ScopedStore.thy ===== *)
theory ScopedStore
  imports ActionRequest "HOL-Library.AList"
begin

text \<open>
  The durable workspace store of \<^verbatim>\<open>scoped_store.py\<close>: JSON records and ordinary messages, each under
  one execution scope. A row holds the value its JSON text parses to, the two tables are lists, and a database
  failure is the fault of the operation. The lemmas show that scopes do not interfere, what a read returns after
  a write, the order and paging of a mailbox, and what a prefix listing selects.
\<close>

section \<open>Arguments\<close>

definition store_error :: "string \<Rightarrow> exn" where
  "store_error code = Exc ScopedStoreError code"

definition store_text :: "pyval \<Rightarrow> check" where
  "store_text v =
     (let bad = store_error ''SCOPED_STORE_INPUT_INVALID'' in first_error
       [require (nonblank_str v) bad, require (strip (str_of v) = str_of v) bad, require (int (length (str_of v)) \<le> 256) bad])"

text \<open>
  What \<open>json.loads(json.dumps(v, sort_keys=True, allow_nan=False))\<close> returns: tuples become lists, keys are
  sorted and become texts; \<open>None\<close> is a raised \<open>TypeError\<close> or \<open>ValueError\<close> (other classes, mixed
  keys, a float that is not finite).
\<close>

fun text_keys :: "(pykey \<times> 'a) list \<Rightarrow> (string \<times> 'a) list option" where
  "text_keys [] = Some []"
| "text_keys ((KStr k, v) # d) = map_option (\<lambda>e. (k, v) # e) (text_keys d)"
| "text_keys _ = None"

fun int_keys :: "(pykey \<times> 'a) list \<Rightarrow> (int \<times> 'a) list option" where
  "int_keys [] = Some []"
| "int_keys ((KInt k, v) # d) = map_option (\<lambda>e. (k, v) # e) (int_keys d)"
| "int_keys _ = None"

definition sorted_items :: "(pykey \<times> 'a) list \<Rightarrow> (string \<times> 'a) list option" where
  "sorted_items d = (case text_keys d of
       Some e \<Rightarrow> Some (sort_key fst e)
     | None \<Rightarrow> map_option (\<lambda>e. map (map_prod int_text id) (sort_key fst e)) (int_keys d))"

fun json_normal :: "pyval \<Rightarrow> pyval option" where
  "json_normal PNone = Some PNone"
| "json_normal (PBool b) = Some (PBool b)"
| "json_normal (PInt n) = Some (PInt n)"
| "json_normal (PFloat x) = (case x of Fin r \<Rightarrow> Some (PFloat (Fin r)) | _ \<Rightarrow> None)"
| "json_normal (PStr s) = Some (PStr s)"
| "json_normal (PList vs) = map_option PList (all_some (map json_normal vs))"
| "json_normal (PTuple vs) = map_option PList (all_some (map json_normal vs))"
| "json_normal (PDict d) = (case sorted_items (map (map_prod id json_normal) d) of
      None \<Rightarrow> None
    | Some e \<Rightarrow> map_option (\<lambda>vs. PDict (obj (zip (map fst e) vs))) (all_some (map snd e)))"
| "json_normal _ = None"

definition utf8_length :: "string \<Rightarrow> int" where
  "utf8_length s = sum_list (map (\<lambda>c. if (of_char c :: nat) < 128 then 1 else 2) s)"

definition encode_value :: "crypto \<Rightarrow> pyval \<Rightarrow> pyval result" where
  "encode_value cr v =
     (let bad = store_error ''SCOPED_STORE_VALUE_INVALID'' in
      case json_normal v of None \<Rightarrow> Inl bad
      | Some n \<Rightarrow> (case json_dumps cr False n of
            None \<Rightarrow> Inl bad | Some encoded \<Rightarrow> guarded [require (utf8_length encoded \<le> 1048576) bad] n))"

section \<open>State\<close>

type_synonym record_key = "execution_scope \<times> string"

record record_row =
  rr_value :: pyval
  rr_revision :: int
  rr_updated :: string

record scoped_message =
  sm_id :: string
  sm_scope :: execution_scope
  sm_sender :: string
  sm_recipient :: string
  sm_body :: pyval
  sm_sequence :: int
  sm_created :: string

text \<open>\<open>last_sequence\<close> is the counter behind \<open>AUTOINCREMENT\<close>.\<close>

record scoped_store =
  rows :: "(record_key \<times> record_row) list"
  messages :: "scoped_message list"
  last_sequence :: int
  is_closed :: bool

definition empty_store :: scoped_store where
  "empty_store = \<lparr>rows = [], messages = [], last_sequence = 0, is_closed = False\<rparr>"

definition ensure_open :: "scoped_store \<Rightarrow> check" where
  "ensure_open s = require (\<not> is_closed s) (store_error ''SCOPED_STORE_CLOSED'')"

record workspace_record =
  wr_scope :: execution_scope
  wr_key :: string
  wr_value :: pyval
  wr_revision :: int
  wr_updated :: string

definition record_of :: "record_key \<Rightarrow> record_row \<Rightarrow> workspace_record" where
  "record_of k r = \<lparr>wr_scope = fst k, wr_key = snd k, wr_value = rr_value r, wr_revision = rr_revision r, wr_updated = rr_updated r\<rparr>"

section \<open>Records\<close>

text \<open>The upsert: revision 1, or one more than the row's.\<close>

definition put_body :: "string \<Rightarrow> record_key \<Rightarrow> pyval \<Rightarrow> scoped_store \<Rightarrow> (workspace_record \<times> scoped_store) result" where
  "put_body now k v s =
     (let row = \<lparr>rr_value = v, rr_revision = (case map_of (rows s) k of None \<Rightarrow> 1 | Some r \<Rightarrow> rr_revision r + 1), rr_updated = now\<rparr>
      in Inr (record_of k row, s\<lparr>rows := AList.update k row (rows s)\<rparr>))"

definition put ::
    "crypto \<Rightarrow> string \<Rightarrow> db_fault \<Rightarrow> execution_scope \<Rightarrow> pyval \<Rightarrow> pyval \<Rightarrow> scoped_store \<Rightarrow> workspace_record result \<times> scoped_store" where
  "put cr now fault scope k v s = (case after (store_text k) (encode_value cr v) of
       Inl e \<Rightarrow> (Inl e, s)
     | Inr n \<Rightarrow> guarded_op [ensure_open s] fault (put_body now (scope, str_of k) n) (store_error ''SCOPED_STORE_WRITE_FAILED'') s)"

definition read_checks :: "db_fault \<Rightarrow> scoped_store \<Rightarrow> check list" where
  "read_checks fault s = [ensure_open s, require (fault = NoFault) (store_error ''SCOPED_STORE_READ_FAILED'')]"

definition get_record :: "db_fault \<Rightarrow> execution_scope \<Rightarrow> pyval \<Rightarrow> scoped_store \<Rightarrow> workspace_record option result" where
  "get_record fault scope k s = guarded (store_text k # read_checks fault s)
     (let key = (scope, str_of k) in map_option (record_of key) (map_of (rows s) key))"

text \<open>
  \<open>LIKE ... ESCAPE\<close> as SQLite matches it: the percent sign stands for any text, the underscore for one
  character, the escape character takes the next one literally, and ASCII letters match in either case.
\<close>

definition ascii_lower :: "char \<Rightarrow> char" where
  "ascii_lower c = (let n = (of_char c :: nat) in if 65 \<le> n \<and> n \<le> 90 then char_of (n + 32) else c)"

function like :: "string \<Rightarrow> string \<Rightarrow> bool" where
  "like [] s = (s = [])"
| "like (c # p) s =
     (if c = CHR ''%'' then (if like p s then True else if s = [] then False else like (c # p) (tl s))
      else if s = [] then False
      else if c = CHR 0x5C then p \<noteq> [] \<and> ascii_lower (hd p) = ascii_lower (hd s) \<and> like (tl p) (tl s)
      else (c = CHR ''_'' \<or> ascii_lower c = ascii_lower (hd s)) \<and> like p (tl s))"
  by pat_completeness auto
termination
  by (relation "measure (\<lambda>(p, s). length p + length s)") (auto simp: neq_Nil_conv)

declare like.simps(2) [simp del]

definition replace_char :: "char \<Rightarrow> string \<Rightarrow> string \<Rightarrow> string" where
  "replace_char c t s = concat (map (\<lambda>x. if x = c then t else [x]) s)"

definition escape_like :: "string \<Rightarrow> string" where
  "escape_like p = replace_char CHR ''_'' [CHR 0x5C, CHR ''_''] (replace_char CHR ''%'' [CHR 0x5C, CHR ''%'']
     (replace_char CHR 0x5C [CHR 0x5C, CHR 0x5C] p))"

definition scope_rows :: "execution_scope \<Rightarrow> scoped_store \<Rightarrow> (record_key \<times> record_row) list" where
  "scope_rows scope s = filter (\<lambda>(k, _). fst k = scope) (rows s)"

definition list_records ::
    "db_fault \<Rightarrow> execution_scope \<Rightarrow> pyval \<Rightarrow> scoped_store \<Rightarrow> workspace_record list result" where
  "list_records fault scope key_prefix s =
     guarded ((if key_prefix = PNone then None else store_text key_prefix) # read_checks fault s)
       (map (\<lambda>(k, r). record_of k r) (sort_key (\<lambda>(k, _). snd k)
         (filter (\<lambda>(k, _). key_prefix = PNone \<or> like (escape_like (str_of key_prefix) @ ''%'') (snd k)) (scope_rows scope s))))"

section \<open>Messages\<close>

definition send_body ::
    "string \<Rightarrow> execution_scope \<Rightarrow> string \<Rightarrow> string \<Rightarrow> pyval \<Rightarrow> string \<Rightarrow> scoped_store \<Rightarrow> (scoped_message \<times> scoped_store) result" where
  "send_body now scope sender recipient body mid s =
     (if List.member (map sm_id (messages s)) mid then Inl (store_error ''SCOPED_STORE_MESSAGE_CONFLICT'')
      else (let m = \<lparr>sm_id = mid, sm_scope = scope, sm_sender = sender, sm_recipient = recipient, sm_body = body,
                     sm_sequence = last_sequence s + 1, sm_created = now\<rparr>
        in Inr (m, s\<lparr>messages := messages s @ [m], last_sequence := last_sequence s + 1\<rparr>)))"

text \<open>\<open>message_id or str(uuid.uuid4())\<close>: an empty id is replaced like an absent one.\<close>

definition send_message ::
    "crypto \<Rightarrow> string \<Rightarrow> string \<Rightarrow> db_fault \<Rightarrow> execution_scope \<Rightarrow> pyval \<Rightarrow> pyval \<Rightarrow> pyval \<Rightarrow> pyval \<Rightarrow> scoped_store
     \<Rightarrow> scoped_message result \<times> scoped_store" where
  "send_message cr uuid now fault scope sender recipient body message_id s =
     (let mid = (if truthy message_id then message_id else PStr uuid) in
      case after (first_error [store_text sender, store_text recipient, store_text mid]) (encode_value cr body) of
        Inl e \<Rightarrow> (Inl e, s)
      | Inr b \<Rightarrow> guarded_op [ensure_open s] fault (send_body now scope (str_of sender) (str_of recipient) b (str_of mid))
                  (store_error ''SCOPED_STORE_WRITE_FAILED'') s)"

text \<open>\<open>isinstance(v, int)\<close> admits booleans; what is not an integer fails the bound that follows.\<close>

definition index_of :: "pyval \<Rightarrow> int" where
  "index_of v = (case v of PInt n \<Rightarrow> n | PBool b \<Rightarrow> (if b then 1 else 0) | _ \<Rightarrow> - 1)"

definition mailbox :: "execution_scope \<Rightarrow> string \<Rightarrow> scoped_store \<Rightarrow> scoped_message list" where
  "mailbox scope recipient s = filter (\<lambda>m. sm_scope m = scope \<and> sm_recipient m = recipient) (messages s)"

text \<open>An integer that does not fit SQLite's 64 bits is an \<open>OverflowError\<close> of the driver.\<close>

definition list_messages ::
    "db_fault \<Rightarrow> execution_scope \<Rightarrow> pyval \<Rightarrow> pyval \<Rightarrow> pyval \<Rightarrow> scoped_store \<Rightarrow> scoped_message list result" where
  "list_messages fault scope recipient after_sequence limit s =
     (let bad = store_error ''SCOPED_STORE_INPUT_INVALID'' in guarded
        [store_text recipient, require (0 \<le> index_of after_sequence) bad,
         require (1 \<le> index_of limit \<and> index_of limit \<le> 1000) bad, ensure_open s,
         require (index_of after_sequence < 2 ^ 63) (Exc OverflowError ''sqlite3''),
         require (fault = NoFault) (store_error ''SCOPED_STORE_READ_FAILED'')]
        (take (nat (index_of limit)) (sort_key sm_sequence
          (filter (\<lambda>m. index_of after_sequence < sm_sequence m) (mailbox scope (str_of recipient) s)))))"

definition close :: "scoped_store \<Rightarrow> scoped_store" where
  "close s = s\<lparr>is_closed := True\<rparr>"

section \<open>Operations as events\<close>

datatype store_event =
    Put execution_scope pyval pyval string db_fault
  | Send execution_scope pyval pyval pyval pyval string string db_fault
  | Close

fun store_step :: "crypto \<Rightarrow> store_event \<Rightarrow> scoped_store \<Rightarrow> scoped_store" where
  "store_step cr (Put scope k v now fault) s = snd (put cr now fault scope k v s)"
| "store_step cr (Send scope sender recipient body mid uuid now fault) s =
     snd (send_message cr uuid now fault scope sender recipient body mid s)"
| "store_step cr Close s = close s"

lemma put_cases:
  "snd (put cr now fault scope k v s) = s \<or>
   (\<exists>n r. put_body now (scope, str_of k) n s = Inr (r, snd (put cr now fault scope k v s)))"
  using guarded_op_state [of "[ensure_open s]" fault "put_body now (scope, str_of k) n" for n]
  by (fastforce simp: put_def split: sum.splits)

lemma send_cases:
  "snd (send_message cr uuid now fault scope sender recipient body mid s) = s \<or>
   (\<exists>b i m. send_body now scope (str_of sender) (str_of recipient) b i s
      = Inr (m, snd (send_message cr uuid now fault scope sender recipient body mid s)))"
  using guarded_op_state [of "[ensure_open s]" fault "send_body now scope (str_of sender) (str_of recipient) b i" for b i]
  by (fastforce simp: send_message_def Let_def split: sum.splits)

text \<open>A part of the state that an event does not touch is the same after it; then after a whole history.\<close>

locale untouched_view =
  fixes step :: "'e \<Rightarrow> 's \<Rightarrow> 's" and touches :: "'e \<Rightarrow> bool" and view :: "'s \<Rightarrow> 'v"
  assumes untouched: "\<not> touches e \<Longrightarrow> view (step e s) = view s"
begin

lemma untouched_history: "list_all (\<lambda>e. \<not> touches e) es \<Longrightarrow> view (fold step es s) = view s"
  by (induction es arbitrary: s) (simp_all add: untouched)

end

fun in_scope :: "execution_scope \<Rightarrow> store_event \<Rightarrow> bool" where
  "in_scope a (Put scope k v now fault) = (scope = a)"
| "in_scope a (Send scope sender recipient body mid uuid now fault) = (scope = a)"
| "in_scope a Close = True"

fun writes_key :: "record_key \<Rightarrow> store_event \<Rightarrow> bool" where
  "writes_key k (Put scope j v now fault) = (k = (scope, str_of j))"
| "writes_key k (Send scope sender recipient body mid uuid now fault) = False"
| "writes_key k Close = True"

definition scope_messages :: "execution_scope \<Rightarrow> scoped_store \<Rightarrow> scoped_message list" where
  "scope_messages a s = filter (\<lambda>m. sm_scope m = a) (messages s)"

lemma filter_update: "\<not> P k \<Longrightarrow> filter (\<lambda>(j, _). P j) (AList.update k r al) = filter (\<lambda>(j, _). P j) al"
  by (induction al) auto

lemma put_body_state:
  "put_body now k v s = Inr (r, s') \<Longrightarrow> \<exists>row. s' = s\<lparr>rows := AList.update k row (rows s)\<rparr>"
  by (auto simp: put_body_def Let_def)

lemma send_body_state:
  "send_body now scope sender recipient b i s = Inr (m, s') \<Longrightarrow> s' = s\<lparr>messages := messages s @ [m], last_sequence := last_sequence s + 1\<rparr>
     \<and> sm_scope m = scope \<and> sm_sequence m = last_sequence s + 1 \<and> sm_id m = i \<and> i \<notin> sm_id ` set (messages s)"
  by (auto simp: send_body_def Let_def split: if_splits)

interpretation scope_view: untouched_view "store_step cr" "in_scope a"
  "\<lambda>s. (scope_rows a s, scope_messages a s, is_closed s)" for cr a
proof
  fix e s assume "\<not> in_scope a e"
  then show "(scope_rows a (store_step cr e s), scope_messages a (store_step cr e s), is_closed (store_step cr e s))
      = (scope_rows a s, scope_messages a s, is_closed s)"
  proof (cases e)
    case (Put scope k v now fault)
    with \<open>\<not> in_scope a e\<close> show ?thesis
      using put_cases [of cr now fault scope k v s] put_body_state
      by (fastforce simp: scope_rows_def scope_messages_def filter_update)
  next
    case (Send scope sender recipient body mid uuid now fault)
    with \<open>\<not> in_scope a e\<close> show ?thesis
      using send_cases [of cr uuid now fault scope sender recipient body mid s] send_body_state
      by (fastforce simp: scope_rows_def scope_messages_def)
  qed simp
qed

interpretation key_view: untouched_view "store_step cr" "writes_key k" "\<lambda>s. (map_of (rows s) k, is_closed s)" for cr k
proof
  fix e s assume "\<not> writes_key k e"
  then show "(map_of (rows (store_step cr e s)) k, is_closed (store_step cr e s)) = (map_of (rows s) k, is_closed s)"
  proof (cases e)
    case (Put scope j v now fault)
    with \<open>\<not> writes_key k e\<close> show ?thesis
      using put_cases [of cr now fault scope j v s] put_body_state
      by (fastforce simp: update_conv')
  next
    case (Send scope sender recipient body mid uuid now fault)
    then show ?thesis
      using send_cases [of cr uuid now fault scope sender recipient body mid s] send_body_state by fastforce
  qed simp
qed

section \<open>What every history keeps\<close>

definition store_inv :: "scoped_store \<Rightarrow> bool" where
  "store_inv s \<longleftrightarrow> distinct (map fst (rows s)) \<and> distinct (map sm_id (messages s)) \<and>
     sorted_wrt (<) (map sm_sequence (messages s)) \<and> (\<forall>m \<in> set (messages s). sm_sequence m \<le> last_sequence s)"

lemma store_inv_step: "store_inv s \<Longrightarrow> store_inv (store_step cr e s)"
proof (cases e)
  case (Put scope k v now fault)
  assume "store_inv s"
  with Put show ?thesis
    using put_cases [of cr now fault scope k v s] put_body_state
    by (fastforce simp: store_inv_def distinct_update)
next
  case (Send scope sender recipient body mid uuid now fault)
  assume "store_inv s"
  with Send show ?thesis
    using send_cases [of cr uuid now fault scope sender recipient body mid s]
    by (auto simp: store_inv_def sorted_wrt_append dest!: send_body_state) fastforce+
qed (simp add: store_inv_def close_def)

lemma store_inv_history: "store_inv (fold (store_step cr) es empty_store)"
proof -
  have "store_inv s \<Longrightarrow> store_inv (fold (store_step cr) es s)" for s
    by (induction es arbitrary: s) (simp_all add: store_inv_step)
  then show ?thesis by (simp add: store_inv_def empty_store_def)
qed

lemma mailbox_strict: "store_inv s \<Longrightarrow> sorted_wrt (<) (map sm_sequence (filter P (messages s)))"
  by (simp add: store_inv_def sorted_wrt_map sorted_wrt_filter)

section \<open>Prefix listings\<close>

lemma like_percent: "like ''%'' s"
  by (induction s) (simp_all add: like.simps(2))

definition escape_char :: "char \<Rightarrow> string" where
  "escape_char c = (if c \<in> {CHR 0x5C, CHR ''%'', CHR ''_''} then [CHR 0x5C, c] else [c])"

lemma escape_like_Cons: "escape_like (c # p) = escape_char c @ escape_like p"
  by (auto simp: escape_like_def replace_char_def escape_char_def)

lemma escape_like_Nil: "escape_like [] = []"
  by (simp add: escape_like_def replace_char_def)

text \<open>An escaped prefix matches what starts with it, up to the case of ASCII letters.\<close>

lemma like_prefix: "like (escape_like p @ ''%'') s \<longleftrightarrow> map ascii_lower (take (length p) s) = map ascii_lower p"
proof (induction p arbitrary: s)
  case (Cons c p)
  show ?case
  proof (cases s)
    case s: (Cons x t)
    show ?thesis using Cons [of t] by (auto simp: s escape_like_Cons escape_char_def like.simps(2))
  qed (simp add: escape_like_Cons escape_char_def like.simps(2))
qed (simp add: escape_like_Nil like_percent)

text \<open>What follows a page is what lies above the last element of the page.\<close>

lemma filter_above_last:
  assumes "sorted_wrt (<) (map f (ps @ rs) :: int list)" "ps \<noteq> []"
  shows "filter (\<lambda>x. f (last ps) < f x) (ps @ rs) = rs"
proof -
  obtain qs p where ps: "ps = qs @ [p]" using assms(2) by (cases ps rule: rev_cases) simp_all
  with assms(1) have "\<forall>x \<in> set ps. \<not> f p < f x" "\<forall>x \<in> set rs. f p < f x"
    by (auto simp: sorted_wrt_append)
  then show ?thesis by (simp add: ps filter_id_conv filter_empty_conv)
qed

lemma next_page:
  fixes f :: "'a \<Rightarrow> int" and q :: int and n :: nat
  assumes strict: "sorted_wrt (<) (map f (filter (\<lambda>x. q < f x) xs))"
  defines "page \<equiv> take n (filter (\<lambda>x. q < f x) xs)"
  defines "q' \<equiv> if page = [] then q else f (last page)"
  assumes "n > 0"
  shows "filter (\<lambda>x. q' < f x) xs = drop n (filter (\<lambda>x. q < f x) xs)" "q \<le> q'"
proof -
  let ?above = "filter (\<lambda>x. q < f x) xs"
  have s: "?above = page @ drop n ?above" by (simp add: page_def)
  have "q \<le> q' \<and> filter (\<lambda>x. q' < f x) xs = drop n ?above"
  proof (cases "page = []")
    case True
    then have "?above = []" using assms(4) by (auto simp: page_def)
    with True show ?thesis by (simp add: q'_def)
  next
    case False
    then have "last page \<in> set page" by simp
    then have "last page \<in> set ?above" unfolding page_def by (rule in_set_takeD)
    then have le: "q < q'" using False by (simp add: q'_def)
    then have "filter (\<lambda>x. q' < f x) xs = filter (\<lambda>x. q' < f x) ?above" by (auto intro: filter_cong)
    also have "\<dots> = drop n ?above"
      using filter_above_last [of f page "drop n ?above"] strict False s by (simp add: q'_def)
    finally show ?thesis using le by simp
  qed
  then show "filter (\<lambda>x. q' < f x) xs = drop n ?above" "q \<le> q'" by simp_all
qed

section \<open>Properties\<close>

lemma map_of_scope_rows: "map_of (scope_rows a s) (a, k) = map_of (rows s) (a, k)"
proof -
  have "map_of (filter (\<lambda>(j, _). fst j = a) al) (a, k) = map_of al (a, k)" for al :: "(record_key \<times> record_row) list"
    by (induction al) auto
  then show ?thesis by (simp add: scope_rows_def)
qed

lemma mailbox_scope_messages: "mailbox a i s = filter (\<lambda>m. sm_recipient m = i) (scope_messages a s)"
  by (simp add: mailbox_def scope_messages_def conj_commute)

text \<open>
  C39. Scopes do not interfere: whatever is put and sent in other scopes, with whatever database failures, every read
  of a scope returns what it returned before: its records, its listings and the mailboxes of its recipients.
\<close>

theorem scopes_do_not_interfere:
  assumes "list_all (\<lambda>e. \<not> in_scope a e) es"
  shows "get_record fault a k (fold (store_step cr) es s) = get_record fault a k s \<and>
    list_records fault a p (fold (store_step cr) es s) = list_records fault a p s \<and>
    list_messages fault a i after_sequence limit (fold (store_step cr) es s) = list_messages fault a i after_sequence limit s"
proof -
  let ?t = "fold (store_step cr) es s"
  have v: "scope_rows a ?t = scope_rows a s" "scope_messages a ?t = scope_messages a s" "is_closed ?t = is_closed s"
    using scope_view.untouched_history [OF assms, of cr s] by simp_all
  then have "map_of (rows ?t) (a, j) = map_of (rows s) (a, j)" for j
    by (simp only: map_of_scope_rows [symmetric])
  with v show ?thesis
    by (simp add: get_record_def list_records_def list_messages_def mailbox_scope_messages read_checks_def ensure_open_def)
qed

definition sample_scope :: "string \<Rightarrow> execution_scope" where
  "sample_scope w = \<lparr>project_id = ''p'', workspace_id = w\<rparr>"

definition sample_store :: scoped_store where
  "sample_store = snd (put sample_crypto ''t'' NoFault (sample_scope ''a'') (PStr ''Key'') (PTuple [PInt 1]) empty_store)"

theorem scopes_do_not_interfere_witness:
  "\<exists>r. get_record NoFault (sample_scope ''a'') (PStr ''Key'') (fold (store_step sample_crypto)
     [Put (sample_scope ''b'') (PStr ''Key'') PNone ''t'' NoFault,
      Send (sample_scope ''b'') (PStr ''x'') (PStr ''y'') PNone PNone ''u'' ''t'' NoFault] sample_store) = Inr (Some r)"
proof -
  have "list_all (\<lambda>e. \<not> in_scope (sample_scope ''a'') e) [Put (sample_scope ''b'') (PStr ''Key'') PNone ''t'' NoFault,
      Send (sample_scope ''b'') (PStr ''x'') (PStr ''y'') PNone PNone ''u'' ''t'' NoFault]" by (simp add: sample_scope_def)
  from scopes_do_not_interfere [OF this, of NoFault "PStr ''Key''" sample_crypto sample_store PNone PNone PNone PNone]
  have "get_record NoFault (sample_scope ''a'') (PStr ''Key'') (fold (store_step sample_crypto)
     [Put (sample_scope ''b'') (PStr ''Key'') PNone ''t'' NoFault,
      Send (sample_scope ''b'') (PStr ''x'') (PStr ''y'') PNone PNone ''u'' ''t'' NoFault] sample_store)
     = get_record NoFault (sample_scope ''a'') (PStr ''Key'') sample_store" by blast
  moreover have "case get_record NoFault (sample_scope ''a'') (PStr ''Key'') sample_store of Inl _ \<Rightarrow> False | Inr x \<Rightarrow> x \<noteq> None" by code_simp
  ultimately show ?thesis by (auto split: sum.splits)
qed

text \<open>
  A stored record is read back: after a successful put, and through every history that does not write its key
  or close the store, a read of the key returns that record: its scope and key, the value in JSON form, and a
  revision one above the one that was there, or 1.
\<close>

theorem put_then_get:
  assumes put: "put cr now fault a k v s = (Inr r, s')"
    and es: "list_all (\<lambda>e. \<not> writes_key (a, str_of k) e) es"
  shows "get_record NoFault a k (fold (store_step cr) es s') = Inr (Some r) \<and>
    wr_scope r = a \<and> PStr (wr_key r) = k \<and> json_normal v = Some (wr_value r) \<and>
    wr_revision r = (case get_record NoFault a k s of Inr (Some old) \<Rightarrow> wr_revision old + 1 | _ \<Rightarrow> 1)"
proof -
  obtain n where tk: "store_text k = None" and n: "encode_value cr v = Inr n"
    and op: "guarded_op [ensure_open s] fault (put_body now (a, str_of k) n) (store_error ''SCOPED_STORE_WRITE_FAILED'') s = (Inr r, s')"
    using put by (auto simp: put_def split: sum.splits)
  from op guarded_op_Inr [of "[ensure_open s]" fault "put_body now (a, str_of k) n" "store_error ''SCOPED_STORE_WRITE_FAILED''" s r]
  have op: "\<not> is_closed s" and body: "put_body now (a, str_of k) n s = Inr (r, s')"
    by (auto simp: ensure_open_def first_error_None)
  let ?key = "(a, str_of k)" and ?t = "fold (store_step cr) es s'"
  have get: "get_record NoFault a k u = Inr (map_option (record_of ?key) (map_of (rows u) ?key))" if "\<not> is_closed u" for u
    using that tk by (simp add: get_record_def Let_def read_checks_def ensure_open_def)
  obtain row where row: "map_of (rows s') ?key = Some row" "r = record_of ?key row" "rr_value row = n" "\<not> is_closed s'"
    "rr_revision row = (case map_of (rows s) ?key of None \<Rightarrow> 1 | Some x \<Rightarrow> rr_revision x + 1)"
    using body op by (auto simp: put_body_def Let_def update_conv')
  have t: "map_of (rows ?t) ?key = map_of (rows s') ?key" "is_closed ?t = is_closed s'"
    using key_view.untouched_history [OF es, of cr s'] by simp_all
  moreover have "k = PStr (str_of k)" using tk by (auto simp: store_text_def Let_def first_error_None)
  moreover have "json_normal v = Some n" using n by (auto simp: encode_value_def Let_def split: option.splits)
  ultimately show ?thesis
    using row t by (simp add: get op record_of_def split: option.splits)
qed

theorem put_then_get_witness:
  "\<exists>r. get_record NoFault (sample_scope ''a'') (PStr ''Key'') sample_store = Inr (Some r) \<and> wr_value r = PList [PInt 1] \<and> wr_revision r = 1"
proof -
  have "\<not> isl (fst (put sample_crypto ''t'' NoFault (sample_scope ''a'') (PStr ''Key'') (PTuple [PInt 1]) empty_store))" by code_simp
  then obtain r where r: "put sample_crypto ''t'' NoFault (sample_scope ''a'') (PStr ''Key'') (PTuple [PInt 1]) empty_store = (Inr r, sample_store)"
    using not_isl_ex unfolding sample_store_def by (metis prod.collapse)
  have "get_record NoFault (sample_scope ''a'') (PStr ''Key'') (fold (store_step sample_crypto) [] sample_store) = Inr (Some r) \<and>
    wr_scope r = sample_scope ''a'' \<and> PStr (wr_key r) = PStr ''Key'' \<and> json_normal (PTuple [PInt 1]) = Some (wr_value r) \<and>
    wr_revision r = (case get_record NoFault (sample_scope ''a'') (PStr ''Key'') empty_store of Inr (Some old) \<Rightarrow> wr_revision old + 1 | _ \<Rightarrow> 1)"
    by (rule put_then_get [OF r]) simp
  moreover have "get_record NoFault (sample_scope ''a'') (PStr ''Key'') empty_store = Inr None" by code_simp
  ultimately show ?thesis by auto
qed

text \<open>
  A prefix listing selects exactly the records of the scope whose key starts with the prefix, up to the case of
  ASCII letters: percent signs, underscores and backslashes of the prefix stand for themselves.
\<close>

theorem prefix_listing:
  assumes "list_records fault a (PStr p) s = Inr rs"
  shows "set rs = {record_of k r | k r. (k, r) \<in> set (rows s) \<and> fst k = a \<and>
      map ascii_lower (take (length p) (snd k)) = map ascii_lower p} \<and> sorted (map wr_key rs)"
proof -
  have rs: "rs = map (\<lambda>(k, r). record_of k r) (sort_key (\<lambda>(k, _). snd k)
      (filter (\<lambda>(k, _). like (escape_like p @ ''%'') (snd k)) (scope_rows a s)))"
    using assms by (simp add: list_records_def)
  have "map wr_key rs = map (\<lambda>(k, _). snd k) (sort_key (\<lambda>(k, _). snd k)
      (filter (\<lambda>(k, _). like (escape_like p @ ''%'') (snd k)) (scope_rows a s)))"
    by (auto simp: rs record_of_def)
  then have "sorted (map wr_key rs)" by (simp only: sorted_sort_key)
  moreover have "set rs = {record_of k r | k r. (k, r) \<in> set (rows s) \<and> fst k = a \<and>
      map ascii_lower (take (length p) (snd k)) = map ascii_lower p}"
    by (simp add: rs scope_rows_def like_prefix image_def) blast
  ultimately show ?thesis by blast
qed

theorem prefix_listing_witness:
  "\<exists>rs. list_records NoFault (sample_scope ''a'') (PStr ''kE'') sample_store = Inr rs \<and> ''Key'' \<in> wr_key ` set rs"
proof -
  have "\<not> isl (list_records NoFault (sample_scope ''a'') (PStr ''kE'') sample_store)" by code_simp
  then obtain rs where rs: "list_records NoFault (sample_scope ''a'') (PStr ''kE'') sample_store = Inr rs" using not_isl_ex by blast
  have "list_all (\<lambda>(k, r). fst k = sample_scope ''a'' \<and> snd k = ''Key'') (rows sample_store) \<and> rows sample_store \<noteq> []" by code_simp
  then obtain k r where "(k, r) \<in> set (rows sample_store)" "fst k = sample_scope ''a''" "snd k = ''Key''"
    by (cases "rows sample_store") auto
  moreover have "map ascii_lower (take (length ''kE'') ''Key'') = map ascii_lower ''kE''" by code_simp
  ultimately have "record_of k r \<in> set rs" using prefix_listing [OF rs] by fastforce
  with rs \<open>snd k = ''Key''\<close> show ?thesis by (force simp: record_of_def)
qed

text \<open>
  A mailbox is read in order and without gaps: in every reachable store a page holds messages of the recipient in
  the scope with strictly increasing sequences above the given one; and reading a page and then the next one from
  the last sequence seen returns exactly what one read of both sizes returns.
\<close>

theorem mailbox_pages:
  assumes s: "s = fold (store_step cr) es empty_store" and "last_sequence s < 2 ^ 63" "1 \<le> n" "1 \<le> m"
    and both: "list_messages NoFault a i (PInt q) (PInt (n + m)) s = Inr ms"
  shows "sorted_wrt (<) (map sm_sequence ms) \<and> (\<forall>x \<in> set ms. q < sm_sequence x \<and> x \<in> set (mailbox a (str_of i) s)) \<and>
    (\<exists>p1 p2. list_messages NoFault a i (PInt q) (PInt n) s = Inr p1 \<and>
       list_messages NoFault a i (PInt (if p1 = [] then q else sm_sequence (last p1))) (PInt m) s = Inr p2 \<and> ms = p1 @ p2)"
proof -
  have inv: "store_inv s" unfolding s by (rule store_inv_history)
  let ?box = "\<lambda>q. filter (\<lambda>x. q < sm_sequence x) (mailbox a (str_of i) s)"
  have strict: "sorted_wrt (<) (map sm_sequence (?box q))" for q
    using mailbox_strict [OF inv] by (simp add: mailbox_def)
  have box: "sort_key sm_sequence (?box q) = ?box q" for q
    using strict [of q] by (intro sort_key_id_if_sorted strict_sorted_imp_sorted)
  have args: "store_text i = None" "0 \<le> q" "n + m \<le> 1000" "\<not> is_closed s" "q < 2 ^ 63" and ms: "ms = take (nat (n + m)) (?box q)"
    using both by (simp_all add: list_messages_def Let_def index_of_def box ensure_open_def)
  have page: "list_messages NoFault a i (PInt q') (PInt l) s = Inr (take (nat l) (?box q'))"
    if "0 \<le> q'" "q' < 2 ^ 63" "1 \<le> l" "l \<le> 1000" for q' l
    using that args by (simp add: list_messages_def Let_def index_of_def box ensure_open_def)
  let ?p = "take (nat n) (?box q)"
  let ?q = "if ?p = [] then q else sm_sequence (last ?p)"
  have p1: "list_messages NoFault a i (PInt q) (PInt n) s = Inr ?p" using assms(3,4) args by (intro page) simp_all
  have rest: "?box ?q = drop (nat n) (?box q)" "q \<le> ?q"
    using next_page [OF strict [of q], of "nat n"] assms(3) by simp_all
  have q: "?q < 2 ^ 63"
  proof (cases "?p = []")
    case False
    then have "last ?p \<in> set (?box q)" by (meson in_set_takeD last_in_set)
    then have "sm_sequence (last ?p) \<le> last_sequence s" using inv by (simp add: store_inv_def mailbox_def)
    with False assms(2) show ?thesis by simp
  qed (use args in simp)
  have "list_messages NoFault a i (PInt ?q) (PInt m) s = Inr (take (nat m) (drop (nat n) (?box q)))"
    using page [of ?q m] rest q assms(3,4) args by simp
  moreover have "ms = ?p @ take (nat m) (drop (nat n) (?box q))"
    using assms(3,4) by (simp add: ms nat_add_distrib take_add)
  moreover have "sorted_wrt (<) (map sm_sequence ms)" using strict [of q] by (simp add: ms take_map [symmetric] sorted_wrt_take)
  moreover have "set ms \<subseteq> set (?box q)" unfolding ms by (rule set_take_subset)
  ultimately show ?thesis using p1 by fastforce
qed

definition sample_mail :: "store_event list" where
  "sample_mail = [Send (sample_scope ''a'') (PStr ''x'') (PStr ''y'') PNone PNone ''u'' ''t'' NoFault,
     Send (sample_scope ''b'') (PStr ''x'') (PStr ''y'') PNone PNone ''v'' ''t'' NoFault,
     Send (sample_scope ''a'') (PStr ''x'') (PStr ''y'') PNone PNone ''w'' ''t'' NoFault]"

definition sample_mailed :: scoped_store where
  "sample_mailed = fold (store_step sample_crypto) sample_mail empty_store"

definition sample_page :: "int \<Rightarrow> scoped_message list result" where
  "sample_page n = list_messages NoFault (sample_scope ''a'') (PStr ''y'') (PInt 0) (PInt n) sample_mailed"

theorem mailbox_pages_witness:
  "\<exists>ms p1 p2. sample_page (1 + 1) = Inr ms \<and> map sm_sequence ms = [1, 3] \<and> sample_page 1 = Inr p1 \<and> ms = p1 @ p2"
proof -
  have l: "last_sequence sample_mailed < 2 ^ 63" by code_simp
  have "case sample_page (1 + 1) of Inl _ \<Rightarrow> False | Inr ms \<Rightarrow> map sm_sequence ms = [1, 3]" by code_simp
  then have "\<exists>ms. sample_page (1 + 1) = Inr ms \<and> map sm_sequence ms = [1, 3]" by (rule case_InrD)
  then obtain ms where ms: "sample_page (1 + 1) = Inr ms" "map sm_sequence ms = [1, 3]" by (elim exE conjE)
  have "\<exists>p1 p2. list_messages NoFault (sample_scope ''a'') (PStr ''y'') (PInt 0) (PInt 1) sample_mailed = Inr p1 \<and> ms = p1 @ p2"
    using mailbox_pages [OF sample_mailed_def l _ _ ms(1) [unfolded sample_page_def]] by (meson order_refl)
  with ms show ?thesis unfolding sample_page_def [symmetric] by (elim exE conjE) (intro exI conjI, assumption+)
qed

text \<open>
  Message ids are unique across the whole store, not inside a scope: a message of one scope makes the same id
  a conflict in every other scope.
\<close>

theorem message_id_of_another_scope_conflicts:
  assumes "send_message cr uuid now fault a sender recipient body mid s = (Inr m, s')" "truthy mid"
    and "\<not> isl (encode_value cr body')" "store_text sender' = None" "store_text recipient' = None"
  shows "fst (send_message cr uuid' now' NoFault b sender' recipient' body' mid s') = Inl (store_error ''SCOPED_STORE_MESSAGE_CONFLICT'')"
proof -
  obtain c where mid: "store_text mid = None"
    and op: "guarded_op [ensure_open s] fault (send_body now a (str_of sender) (str_of recipient) c (str_of mid))
      (store_error ''SCOPED_STORE_WRITE_FAILED'') s = (Inr m, s')"
    using assms(1,2) by (auto simp: send_message_def first_error_None split: sum.splits)
  from op guarded_op_Inr [of "[ensure_open s]" fault "send_body now a (str_of sender) (str_of recipient) c (str_of mid)"
      "store_error ''SCOPED_STORE_WRITE_FAILED''" s m]
  have "\<not> is_closed s" "send_body now a (str_of sender) (str_of recipient) c (str_of mid) s = Inr (m, s')"
    by (auto simp: ensure_open_def first_error_None)
  then have "\<not> is_closed s'" "List.member (map sm_id (messages s')) (str_of mid)"
    by (auto simp: send_body_def Let_def split: if_splits)
  moreover obtain c' where "encode_value cr body' = Inr c'" using assms(3) not_isl_ex by blast
  ultimately show ?thesis
    using assms(2,4,5) mid by (simp add: send_message_def guarded_op_def ensure_open_def send_body_def first_error_Cons)
qed

end
