(* ===== verification/Report.thy ===== *)
theory Report
  imports Receipts
begin

text \<open>
  Validators that report: they return the messages of everything that is wrong with a parsed file, or raise a
  \<^verbatim>\<open>TypeError\<close> when a value that cannot be hashed meets a set. The shared helpers of \<^verbatim>\<open>validator.py\<close> and of the
  contract modules, and the rules by which the acceptance of a whole file becomes the list of its conditions.
\<close>

section \<open>Reports\<close>

type_synonym report = "string list result"

text \<open>Statements that each append messages, in order; a raised exception ends the run.\<close>

fun gather :: "report list \<Rightarrow> report" where
  "gather [] = Inr []"
| "gather (r # rs) = bindE r (\<lambda>es. bindE (gather rs) (\<lambda>fs. Inr (es @ fs)))"

definition says :: "string list \<Rightarrow> report" where
  "says es = Inr es"

definition wrong_if :: "bool \<Rightarrow> string \<Rightarrow> report" where
  "wrong_if bad message = Inr (if bad then [message] else [])"

definition unhashable :: exn where
  "unhashable = Exc TypeError ''unhashable''"

text \<open>\<open>v in {...}\<close> for a set of texts.\<close>

definition in_set :: "pyval \<Rightarrow> string list \<Rightarrow> bool result" where
  "in_set v names = (if hashable v then Inr (v \<in> PStr ` set names) else Inl unhashable)"

definition wrong_unless_in :: "pyval \<Rightarrow> string list \<Rightarrow> string \<Rightarrow> report" where
  "wrong_unless_in v names message = bindE (in_set v names) (\<lambda>ok. wrong_if (\<not> ok) message)"

definition only_if :: "bool \<Rightarrow> report \<Rightarrow> report" where
  "only_if b r = (if b then r else Inr [])"

text \<open>How Python shows a parsed value, with \<^verbatim>\<open>str\<close> and with \<^verbatim>\<open>repr\<close>.\<close>

record shown =
  str_text :: "pyval \<Rightarrow> string"
  repr_text :: "pyval \<Rightarrow> string"

text \<open>A file as the loaders see it: whether it is there, and what reading, capping and parsing it gives.\<close>

record source_file =
  present :: bool
  parsed :: "pyval result"

definition load_yaml :: "source_file \<Rightarrow> pydict result" where
  "load_yaml f = (if \<not> present f then Inl (Exc FileNotFoundError ''File not found'')
     else bindE (parsed f) (\<lambda>v. case v of PDict d \<Rightarrow> Inr d | _ \<Rightarrow> Inl (Exc TypeError ''YAML root must be an object'')))"

section \<open>Shared checks\<close>

definition missing_fields :: "pydict \<Rightarrow> string list \<Rightarrow> string \<Rightarrow> string list" where
  "missing_fields d names prefix = map (\<lambda>f. prefix @ '': Missing required field: '' @ f) (filter (\<lambda>f. \<not> dhas d f) names)"

definition list_fields :: "pydict \<Rightarrow> string list \<Rightarrow> string \<Rightarrow> string list" where
  "list_fields d names prefix = map (\<lambda>f. prefix @ '': Field must be a list: '' @ f)
     (filter (\<lambda>f. dhas d f \<and> \<not> is_list (dget d f)) names)"

definition bool_fields :: "pydict \<Rightarrow> string list \<Rightarrow> string \<Rightarrow> string list" where
  "bool_fields d names prefix = map (\<lambda>f. prefix @ '': Field must be a boolean: '' @ f)
     (filter (\<lambda>f. dhas d f \<and> \<not> is_bool (dget d f)) names)"

definition text_fields :: "pydict \<Rightarrow> string list \<Rightarrow> string \<Rightarrow> string list" where
  "text_fields d names prefix = map (\<lambda>f. prefix @ '': Field must be a non-empty string: '' @ f)
     (filter (\<lambda>f. dhas d f \<and> \<not> nonblank_str (dget d f)) names)"

definition indexed :: "string \<Rightarrow> nat \<Rightarrow> string" where
  "indexed path i = path @ ''['' @ int_text (int i) @ '']''"

fun items_of :: "pyval \<Rightarrow> pyval list" where
  "items_of (PList vs) = vs" | "items_of _ = []"

definition numbered :: "(nat \<Rightarrow> 'a \<Rightarrow> 'b list) \<Rightarrow> 'a list \<Rightarrow> 'b list" where
  "numbered f vs = concat (map (\<lambda>(i, v). f i v) (enumerate 0 vs))"

definition string_list_values :: "pydict \<Rightarrow> string list \<Rightarrow> string \<Rightarrow> string list" where
  "string_list_values d names prefix = concat (map (\<lambda>f.
     if \<not> dhas d f then []
     else if \<not> is_list (dget d f) then [prefix @ '': Field must be a list: '' @ f]
     else numbered (\<lambda>i v. if nonblank_str v then [] else [prefix @ '': List item must be a non-empty string: '' @ indexed f i])
       (items_of (dget d f))) names)"

section \<open>Acceptance\<close>

text \<open>The collection \<open>accept\<close> rewrites ``this report is empty'' to the conditions it stands for.\<close>

named_theorems accept \<open>when a report is empty\<close>

lemma gather_accepts [accept]: "gather rs = Inr [] \<longleftrightarrow> (\<forall>r \<in> set rs. r = Inr [])"
  by (induction rs) auto

lemma says_accepts [accept]: "says es = Inr [] \<longleftrightarrow> es = []"
  by (simp add: says_def)

lemma wrong_if_accepts [accept]: "wrong_if bad message = Inr [] \<longleftrightarrow> \<not> bad"
  by (simp add: wrong_if_def)

lemma only_if_accepts [accept]: "only_if b r = Inr [] \<longleftrightarrow> (b \<longrightarrow> r = Inr [])"
  by (simp add: only_if_def)

lemma wrong_unless_in_accepts [accept]: "wrong_unless_in v names message = Inr [] \<longleftrightarrow> v \<in> PStr ` set names"
  by (auto simp: wrong_unless_in_def in_set_def wrong_if_def)

lemma missing_fields_accepts [accept]: "missing_fields d names prefix = [] \<longleftrightarrow> (\<forall>f \<in> set names. dhas d f)"
  by (simp add: missing_fields_def filter_empty_conv)

lemma list_fields_accepts [accept]: "list_fields d names prefix = [] \<longleftrightarrow> (\<forall>f \<in> set names. dhas d f \<longrightarrow> is_list (dget d f))"
  by (auto simp: list_fields_def filter_empty_conv)

lemma bool_fields_accepts [accept]: "bool_fields d names prefix = [] \<longleftrightarrow> (\<forall>f \<in> set names. dhas d f \<longrightarrow> is_bool (dget d f))"
  by (auto simp: bool_fields_def filter_empty_conv)

lemma text_fields_accepts [accept]: "text_fields d names prefix = [] \<longleftrightarrow> (\<forall>f \<in> set names. dhas d f \<longrightarrow> nonblank_str (dget d f))"
  by (auto simp: text_fields_def filter_empty_conv)

lemma numbered_accepts [accept]: "numbered f vs = [] \<longleftrightarrow> (\<forall>i < length vs. f i (vs ! i) = [])"
proof -
  have "numbered f vs = [] \<longleftrightarrow> (\<forall>p \<in> set (enumerate 0 vs). f (fst p) (snd p) = [])" by (simp add: numbered_def split_beta)
  then show ?thesis by (simp add: all_set_conv_all_nth nth_enumerate_eq)
qed

lemma numbered_if: "numbered (\<lambda>i v. if P v then [] else [m i v]) vs = [] \<longleftrightarrow> (\<forall>v \<in> set vs. P v)"
  by (auto simp: numbered_accepts all_set_conv_all_nth)

lemma string_list_values_accepts [accept]:
  "string_list_values d names prefix = [] \<longleftrightarrow>
     (\<forall>f \<in> set names. dhas d f \<longrightarrow> is_list (dget d f) \<and> (\<forall>v \<in> set (items_of (dget d f)). nonblank_str v))"
proof -
  have "(if \<not> dhas d f then [] else if \<not> is_list (dget d f) then [prefix @ '': Field must be a list: '' @ f]
       else numbered (\<lambda>i v. if nonblank_str v then [] else [prefix @ '': List item must be a non-empty string: '' @ indexed f i])
         (items_of (dget d f))) = [] \<longleftrightarrow>
      (dhas d f \<longrightarrow> is_list (dget d f) \<and> (\<forall>v \<in> set (items_of (dget d f)). nonblank_str v))" for f
    by (cases "dhas d f"; cases "is_list (dget d f)") (simp_all only: numbered_if if_True if_False not_True_eq_False not_False_eq_True simp_thms list.simps)
  then show ?thesis by (simp only: string_list_values_def concat_eq_Nil_conv set_map ball_simps)
qed

lemma gather_raises: "gather rs = Inl e \<Longrightarrow> \<exists>r \<in> set rs. r = Inl e"
  by (induction rs) (auto simp: bindE_def split: sum.splits)

lemma nonblank_text: "nonblank_str v \<Longrightarrow> v = PStr (str_of v) \<and> \<not> blank (str_of v)"
  by (auto dest: nonblank_strD)

lemma trimmed_text: "trimmed_str v \<Longrightarrow> v = PStr (str_of v) \<and> \<not> blank (str_of v)"
  by (auto dest: trimmed_strD)

text \<open>How one concrete Python shows a text and nothing else, for the witnesses.\<close>

definition sample_shown :: shown where
  "sample_shown = \<lparr>str_text = str_of, repr_text = str_of\<rparr>"

end
