(* ===== verification/Validators.thy ===== *)
theory Validators
  imports Report Policies
begin

text \<open>
  \<^verbatim>\<open>validator.py\<close>, first part: the validators of agents, policies, departments, skills and validators, of execution
  contexts, preflight checks, capabilities, boundaries, evidence bindings and breaker records, and of the runtime
  examples. The property is that of an accepted agent file.
\<close>

section \<open>Agents\<close>

definition quoted :: "string \<Rightarrow> string" where
  "quoted s = [CHR 0x27] @ s @ [CHR 0x27]"

definition token_meaning :: "string \<Rightarrow> string" where
  "token_meaning t = (if t = ''**'' then [CHR 0x72] @ ''ecursive wildcards; '' @ quoted ''*'' @ '' already crosses '' @ quoted '':''
     else if t = ''['' \<or> t = '']'' then ''character classes''
     else if t = ''!'' then ''negation; use blocked_actions instead'' else ''alternation'')"

definition problem_text :: "pattern_error \<Rightarrow> string" where
  "problem_text p = (case p of
       Unsupported t \<Rightarrow> ''unsupported '' @ token_meaning t @ '': '' @ quoted t
     | SurroundingWhitespace \<Rightarrow> ''surrounding whitespace'' | EmptyPattern \<Rightarrow> ''empty pattern'')"

definition action_list_errors :: "pydict \<Rightarrow> string \<Rightarrow> string list" where
  "action_list_errors d field =
     numbered (\<lambda>i v. if \<not> nonblank_str v then [''Invalid action in '' @ indexed field i @ '': expected a non-empty string'']
       else map (\<lambda>p. ''Invalid action in '' @ indexed field i @ '': '' @ problem_text p) (pattern_errors (str_of v)))
     (items_of (dget d field))"

text \<open>\<open>seen\<close> maps a folded name to its first spelling.\<close>

definition plain_action :: "pyval \<Rightarrow> bool" where
  "plain_action v = (is_str v \<and> strip (str_of v) = str_of v \<and> str_of v \<noteq> [])"

fun note_actions :: "string \<Rightarrow> string list \<Rightarrow> (string \<times> string) list \<Rightarrow> string list \<times> (string \<times> string) list" where
  "note_actions field [] seen = ([], seen)"
| "note_actions field (a # as) seen = (case map_of seen (casefold a) of
       Some previous \<Rightarrow>
         let r = note_actions field as seen
         in (if previous \<noteq> a then (''Action names in '' @ field @ '' differ only by case: '' @ quoted previous @ '' and '' @ quoted a) # fst r
             else fst r, snd r)
     | None \<Rightarrow> note_actions field as (seen @ [(casefold a, a)]))"

definition plain_actions :: "pydict \<Rightarrow> string \<Rightarrow> string list" where
  "plain_actions d field = map str_of (filter plain_action (items_of (dget d field)))"

definition action_name_collisions :: "pydict \<Rightarrow> string list" where
  "action_name_collisions d =
     (let allowed = note_actions ''allowed_actions'' (plain_actions d ''allowed_actions'') [];
          blocked = note_actions ''blocked_actions'' (plain_actions d ''blocked_actions'') []
      in fst allowed @ fst blocked @ concat (map (\<lambda>(folded, b). case map_of (snd allowed) folded of
            None \<Rightarrow> []
          | Some a \<Rightarrow> if a \<noteq> b then [''Action '' @ quoted b @ '' in blocked_actions differs only by case from '' @ quoted a @ '' in allowed_actions'']
              else []) (snd blocked)))"

definition agent_fields :: "string list" where
  "agent_fields = [''id'', ''name'', ''department'', ''description'', ''skills'', ''validators'', ''policies'', ''allowed_actions'',
     ''blocked_actions'']"

definition agent_lists :: "string list" where
  "agent_lists = [''skills'', ''validators'', ''policies'', ''allowed_actions'', ''blocked_actions'']"

definition validate_agent :: "pydict \<Rightarrow> report" where
  "validate_agent d = gather
     [says (map (\<lambda>f. ''Missing required field: '' @ f) (filter (\<lambda>f. \<not> dhas d f) agent_fields)),
      says (map (\<lambda>f. ''Field must be a list: '' @ f) (filter (\<lambda>f. dhas d f \<and> \<not> is_list (dget d f)) agent_lists)),
      wrong_if (dget_or d ''type'' (PStr ''agent'') \<noteq> PStr ''agent'') ''Field must equal agent: type'',
      wrong_unless_in (dget_or d ''enforcement_mode'' (PStr ''strict'')) [''strict'', ''permissive''] ''Invalid enforcement_mode'',
      says (action_list_errors d ''allowed_actions''), says (action_list_errors d ''blocked_actions''),
      says (action_name_collisions d)]"

section \<open>Other registry entities\<close>

definition department_fields :: "string list" where
  "department_fields = [''id'', ''name'', ''description'', ''agents'', ''shared_policies'', ''shared_validators'']"

definition validate_department :: "pydict \<Rightarrow> report" where
  "validate_department d = says
     (missing_fields d department_fields ''department''
      @ list_fields d [''agents'', ''shared_policies'', ''shared_validators''] ''department'')"

text \<open>\<open>explain\<close> renders an error of a policy definition.\<close>

definition policy_fields :: "string list" where
  "policy_fields = [''id'', ''name'', ''description'', ''enforcement'']"

definition validate_policy :: "(definition_error \<Rightarrow> string) \<Rightarrow> pydict \<Rightarrow> report" where
  "validate_policy explain d = says
     (missing_fields d policy_fields ''policy''
      @ text_fields d [''enforcement''] ''policy'' @ map explain (policy_definition_errors d))"

definition skill_fields :: "string list" where
  "skill_fields = [''id'', ''name'', ''description'', ''inputs'', ''outputs'', ''required_permissions'']"

definition validate_skill :: "pydict \<Rightarrow> report" where
  "validate_skill d = says
     (missing_fields d skill_fields ''skill''
      @ list_fields d [''inputs'', ''outputs'', ''required_permissions''] ''skill'')"

definition validator_fields :: "string list" where
  "validator_fields = [''id'', ''name'', ''description'', ''rules'']"

definition validate_validator :: "pydict \<Rightarrow> report" where
  "validate_validator d = says
     (missing_fields d validator_fields ''validator'' @ list_fields d [''rules''] ''validator'')"

section \<open>Execution contexts and preflight checks\<close>

definition execution_context_fields :: "string list" where
  "execution_context_fields = [''context_id'', ''context_type'', ''status'', ''network_access'', ''production_access'',
     ''verification_method'', ''allowed_operations'', ''blocked_operations'', ''verified_at'']"

definition execution_context_types :: "string list" where
  "execution_context_types = [''sandbox'', ''restricted'', ''host_native'', ''remote_approved'']"

definition execution_context_statuses :: "string list" where
  "execution_context_statuses = [''verified'', ''unverified'', ''invalid'']"

definition validate_execution_context :: "pydict \<Rightarrow> report" where
  "validate_execution_context d =
     (let p = ''execution_context''; ctx = dget d ''context_type''; st = dget d ''status''; methods = dget d ''verification_method'' in
      gather
       [says (missing_fields d execution_context_fields p),
        only_if (dhas d ''context_type'') (wrong_unless_in ctx execution_context_types
          ''execution_context: Invalid context_type''),
        only_if (dhas d ''status'') (wrong_unless_in st execution_context_statuses ''execution_context: Invalid status''),
        says (bool_fields d [''network_access'', ''production_access''] p),
        says (list_fields d [''verification_method'', ''allowed_operations'', ''blocked_operations''] p),
        wrong_if (st = PStr ''verified'' \<and> \<not> truthy methods) ''execution_context: Verified context requires verification_method'',
        bindE (in_set ctx [''sandbox'', ''restricted'']) (\<lambda>inside. wrong_if (inside \<and> dget d ''production_access'' = PBool True)
          ''execution_context: Sandbox or restricted context cannot declare production_access''),
        wrong_if (ctx = PStr ''host_native'' \<and> methods = PList [PStr ''environment_marker''])
          ''execution_context: Environment marker alone does not verify host_native context''])"

definition action_preflight_fields :: "string list" where
  "action_preflight_fields = [''preflight_id'', ''execution_context_status'', ''dependency_status'', ''capability_status'',
     ''budget_status'', ''decision'', ''checked_at'']"

definition validate_action_preflight :: "pydict \<Rightarrow> report" where
  "validate_action_preflight d = gather
     ([says (missing_fields d action_preflight_fields ''action_preflight''),
       wrong_unless_in (dget d ''decision'') [''allowed'', ''blocked'', ''reapproval_required''] ''action_preflight: Invalid decision'']
      @ map (\<lambda>f. only_if (dhas d f) (wrong_unless_in (dget d f) [''passed'', ''failed'', ''not_required'', ''unknown'']
          (''action_preflight: Invalid status: '' @ f)))
        [''execution_context_status'', ''dependency_status'', ''capability_status'', ''budget_status''])"

section \<open>Capabilities\<close>

definition capability_verification_fields :: "string list" where
  "capability_verification_fields = [''verification_id'', ''requested_capability'', ''observed_capabilities'',
     ''required_permissions'', ''matched'', ''status'', ''verified_at'']"

definition validate_capability_verification :: "pydict \<Rightarrow> report" where
  "validate_capability_verification d = gather
     [says (missing_fields d capability_verification_fields ''capability_verification''),
      says (list_fields d [''observed_capabilities'', ''required_permissions''] ''capability_verification''),
      says (bool_fields d [''matched''] ''capability_verification''),
      wrong_unless_in (dget d ''status'') execution_context_statuses ''capability_verification: Invalid status'',
      wrong_if (dget d ''status'' = PStr ''verified'' \<and> dget d ''matched'' \<noteq> PBool True)
        ''capability_verification: Verified capability must match'']"

definition interface_errors :: "string \<Rightarrow> nat \<Rightarrow> pyval \<Rightarrow> string list" where
  "interface_errors section_name i v =
     (let prefix = ''capability_registration: '' @ indexed section_name i in
      case v of
        PDict entry \<Rightarrow>
          map (\<lambda>f. prefix @ '': Missing or invalid field: '' @ f) (filter (\<lambda>f. \<not> nonblank_str (dget entry f)) [''name'', ''type''])
          @ bool_fields entry [''required''] prefix
      | _ \<Rightarrow> [prefix @ '' must be an object''])"

definition capability_severities :: "string list" where
  "capability_severities = [''low'', ''medium'', ''high'', ''critical'']"

definition policy_entry_report :: "nat \<Rightarrow> pyval \<Rightarrow> report" where
  "policy_entry_report i v =
     (let prefix = ''capability_registration: '' @ indexed ''policies'' i in
      case v of
        PDict policy \<Rightarrow> gather
          [says (map (\<lambda>f. prefix @ '': Missing or invalid field: '' @ f)
             (filter (\<lambda>f. \<not> nonblank_str (dget policy f)) [''id'', ''description'', ''severity''])),
           wrong_unless_in (dget policy ''severity'') capability_severities (prefix @ '': Invalid severity'')]
      | _ \<Rightarrow> says [prefix @ '' must be an object''])"

definition capability_registration_fields :: "string list" where
  "capability_registration_fields = [''id'', ''type'', ''name'', ''description'', ''repository'', ''version'',
     ''interfaces'', ''policies'', ''validators'', ''metadata'']"

definition validate_capability_registration :: "pydict \<Rightarrow> report" where
  "validate_capability_registration d =
     (let p = ''capability_registration'' in gather
       [says (missing_fields d capability_registration_fields p),
        says (text_fields d [''id'', ''name'', ''description'', ''repository'', ''version''] p),
        wrong_if (dget d ''type'' \<noteq> PStr ''capability'') ''capability_registration: Field must equal capability: type'',
        (case dget d ''interfaces'' of
           PDict interfaces \<Rightarrow> says (concat (map (\<lambda>s. case dget interfaces s of
               PList vs \<Rightarrow> numbered (interface_errors s) vs
             | _ \<Rightarrow> [''capability_registration: Interface section must be a list: '' @ s]) [''inputs'', ''outputs'']))
         | _ \<Rightarrow> says [''capability_registration: Field must be an object: interfaces'']),
        (if items_of (dget d ''policies'') = [] then says [''capability_registration: Policies must be a non-empty list'']
         else gather (map (\<lambda>(i, v). policy_entry_report i v) (enumerate 0 (items_of (dget d ''policies''))))),
        says (string_list_values (obj [(''validators'', dget d ''validators'')]) [''validators''] p),
        (case dget d ''metadata'' of
           PDict metadata \<Rightarrow> says (map (\<lambda>f. ''capability_registration: Missing or invalid metadata field: '' @ f)
             (filter (\<lambda>f. \<not> nonblank_str (dget metadata f)) [''owner'', ''compliance_level'', ''last_audit'']))
         | _ \<Rightarrow> says [''capability_registration: Field must be an object: metadata''])])"

section \<open>Boundaries, evidence and breakers\<close>

definition approval_levels :: "string list" where
  "approval_levels = [''automatic'', ''human_approval'', ''owner_approval'', ''denied_by_default'']"

definition object_fields :: "pydict \<Rightarrow> string list \<Rightarrow> string \<Rightarrow> string list" where
  "object_fields d names prefix = map (\<lambda>f. prefix @ '': Field must be an object: '' @ f)
     (filter (\<lambda>f. dhas d f \<and> \<not> is_mapping (dget d f)) names)"

definition protected_boundary_fields :: "string list" where
  "protected_boundary_fields = [''boundary_id'', ''resource_class'', ''resource_scope'', ''allowed_operations'',
     ''blocked_operations'', ''approval_level'', ''audit_required'']"

definition validate_protected_resource_boundary :: "pydict \<Rightarrow> report" where
  "validate_protected_resource_boundary d =
     (let p = ''protected_resource_boundary'' in gather
       [says (missing_fields d protected_boundary_fields p),
        says (object_fields d [''resource_scope''] p), says (list_fields d [''allowed_operations'', ''blocked_operations''] p),
        says (bool_fields d [''audit_required''] p),
        wrong_unless_in (dget d ''approval_level'') approval_levels ''protected_resource_boundary: Invalid approval_level''])"

definition evidence_binding_fields :: "string list" where
  "evidence_binding_fields = [''binding_id'', ''claim'', ''evidence_reference'', ''evidence_type'', ''observation_time'',
     ''freshness_status'', ''same_object_verified'', ''validator_result'']"

definition validate_evidence_claim_binding :: "pydict \<Rightarrow> report" where
  "validate_evidence_claim_binding d =
     (let p = ''evidence_claim_binding''; passed = (dget d ''validator_result'' = PStr ''passed'') in gather
       [says (missing_fields d evidence_binding_fields p),
        wrong_unless_in (dget d ''freshness_status'') [''fresh'', ''stale'', ''unknown''] ''evidence_claim_binding: Invalid freshness_status'',
        wrong_unless_in (dget d ''validator_result'') [''passed'', ''failed'', ''insufficient_evidence'']
          ''evidence_claim_binding: Invalid validator_result'',
        says (bool_fields d [''same_object_verified''] p),
        wrong_if (passed \<and> dget d ''freshness_status'' \<noteq> PStr ''fresh'')
          ''evidence_claim_binding: Passed claim requires fresh evidence'',
        wrong_if (passed \<and> dget d ''same_object_verified'' \<noteq> PBool True)
          ''evidence_claim_binding: Passed claim requires same-object verification''])"

text \<open>\<open>isinstance(v, int)\<close>, which a \<open>bool\<close> satisfies.\<close>

fun py_int :: "pyval \<Rightarrow> int option" where
  "py_int (PInt n) = Some n" | "py_int (PBool b) = Some (if b then 1 else 0)" | "py_int _ = None"

definition breaker_record_fields :: "string list" where
  "breaker_record_fields = [''breaker_id'', ''failure_fingerprint'', ''threshold'', ''current_count'', ''state'',
     ''next_action'', ''updated_at'']"

definition validate_failure_circuit_breaker :: "pydict \<Rightarrow> report" where
  "validate_failure_circuit_breaker d =
     (let st = dget d ''state''; next = dget d ''next_action'' in gather
       [says (missing_fields d breaker_record_fields ''failure_circuit_breaker''),
        wrong_unless_in st [''closed'', ''open'', ''half_open''] ''failure_circuit_breaker: Invalid state'',
        wrong_unless_in next [''continue'', ''stop'', ''retry_probe'', ''require_review''] ''failure_circuit_breaker: Invalid next_action'',
        says (map (\<lambda>f. ''failure_circuit_breaker: Field must be a non-negative integer: '' @ f)
          (filter (\<lambda>f. dhas d f \<and> (case py_int (dget d f) of None \<Rightarrow> True | Some n \<Rightarrow> n < 0)) [''threshold'', ''current_count''])),
        wrong_if ((case (py_int (dget d ''threshold''), py_int (dget d ''current_count'')) of
            (Some limit, Some count) \<Rightarrow> limit \<le> count | _ \<Rightarrow> False) \<and> st \<noteq> PStr ''open'')
          ''failure_circuit_breaker: Threshold reached requires open state'',
        wrong_if (st = PStr ''open'' \<and> next = PStr ''continue'') ''failure_circuit_breaker: Open breaker cannot continue''])"

section \<open>Runtime examples\<close>

text \<open>
  The sections are handed on unchecked. \<open>field in data\<close> also works on a list and on a text, raises on anything else,
  and then \<open>data[field]\<close> raises too; \<open>checked\<close> are the fields that are read.
\<close>

definition not_an_object :: exn where
  "not_an_object = Exc TypeError ''not an object''"

definition section_report :: "string list \<Rightarrow> string list \<Rightarrow> string \<Rightarrow> (pydict \<Rightarrow> report) \<Rightarrow> pyval \<Rightarrow> report" where
  "section_report names checked prefix f v =
     (let other = (\<lambda>has. if list_ex has checked then Inl not_an_object
          else says (map (\<lambda>n. prefix @ '': Missing required field: '' @ n) (filter (\<lambda>n. \<not> has n) names))) in
      case v of
        PDict d \<Rightarrow> f d
      | PList vs \<Rightarrow> other (\<lambda>n. PStr n \<in> set vs)
      | PTuple vs \<Rightarrow> other (\<lambda>n. PStr n \<in> set vs)
      | PStr s \<Rightarrow> other (\<lambda>n. contains n s)
      | _ \<Rightarrow> Inl not_an_object)"

definition runtime_binding_fields :: "string list" where
  "runtime_binding_fields = [''binding_id'', ''session_id'', ''project_id'', ''workspace_id'', ''agent_id'', ''registry_version'',
     ''policy_bundle_digest'', ''tool_name'', ''tool_descriptor_digest'', ''normalized_argument_digest'', ''target_resource_scope'',
     ''approval_id_or_lease_id'', ''status'', ''issued_at'', ''expires_at'']"

definition validate_runtime_binding :: "pyval \<Rightarrow> report" where
  "validate_runtime_binding = section_report runtime_binding_fields [''target_resource_scope''] ''binding'' (\<lambda>d. says
     (missing_fields d runtime_binding_fields ''binding'' @ object_fields d [''target_resource_scope''] ''binding''))"

definition pre_dispatch_fields :: "string list" where
  "pre_dispatch_fields = [''check_id'', ''session_id'', ''binding_id'', ''requested_tool_name'', ''observed_registry_version'',
     ''observed_policy_bundle_digest'', ''observed_tool_descriptor_digest'', ''observed_normalized_argument_digest'',
     ''observed_target_resource_scope'', ''matched_approved_binding'', ''decision'', ''checked_at'']"

definition validate_pre_dispatch_authorization_check :: "pyval \<Rightarrow> report" where
  "validate_pre_dispatch_authorization_check =
     (let p = ''pre_dispatch_authorization_check'' in
      section_report pre_dispatch_fields [''matched_approved_binding'', ''decision'', ''observed_target_resource_scope''] p (\<lambda>d. gather
       [says (missing_fields d pre_dispatch_fields p),
        says (bool_fields d [''matched_approved_binding''] p),
        only_if (dhas d ''decision'') (wrong_unless_in (dget d ''decision'') [''allowed'', ''denied'', ''expired'', ''reapproval_required'']
          ''pre_dispatch_authorization_check: Invalid decision''),
        says (object_fields d [''observed_target_resource_scope''] p)]))"

text \<open>A receipt is read with \<open>get\<close>, which only a mapping has.\<close>

definition receipt_section :: "pyval \<Rightarrow> report" where
  "receipt_section v = (case v of PDict d \<Rightarrow> validate_execution_receipt d | _ \<Rightarrow> Inl not_an_object)"

definition missing_sections :: "pydict \<Rightarrow> string list \<Rightarrow> string list" where
  "missing_sections d names = map (\<lambda>f. ''Missing required section: '' @ f) (filter (\<lambda>f. \<not> dhas d f) names)"

definition validate_runtime_example :: "pydict \<Rightarrow> report" where
  "validate_runtime_example d = gather
     [says (missing_sections d [''binding'', ''pre_dispatch_authorization_check'', ''execution_receipt'']),
      only_if (dhas d ''binding'') (validate_runtime_binding (dget d ''binding'')),
      only_if (dhas d ''pre_dispatch_authorization_check'')
        (validate_pre_dispatch_authorization_check (dget d ''pre_dispatch_authorization_check'')),
      only_if (dhas d ''execution_receipt'') (receipt_section (dget d ''execution_receipt''))]"

definition action_boundary_fields :: "string list" where
  "action_boundary_fields = [''boundary_id'', ''project_id'', ''workspace_id'', ''requested_action'',
     ''target_resource_scope'', ''approval_level'', ''pre_dispatch_check_required'', ''execution_receipt_required'']"

definition boundary_report :: "pydict \<Rightarrow> report" where
  "boundary_report b = gather
     [says (missing_fields b action_boundary_fields ''boundary''),
      says (object_fields b [''target_resource_scope''] ''boundary''),
      only_if (dhas b ''approval_level'') (wrong_unless_in (dget b ''approval_level'') approval_levels ''boundary: Invalid approval_level''),
      says (bool_fields b [''pre_dispatch_check_required'', ''execution_receipt_required''] ''boundary'')]"

definition validate_production_action_boundary_example :: "pydict \<Rightarrow> report" where
  "validate_production_action_boundary_example d = gather
     [says (missing_sections d [''privacy'', ''boundary'', ''side_effect_allowed_only_when'', ''blocked_outcomes'']),
      (case dget d ''boundary'' of
         PDict b \<Rightarrow> boundary_report b
       | _ \<Rightarrow> wrong_if (dhas d ''boundary'') ''boundary: Section must be an object''),
      (case dget d ''privacy'' of
         PDict privacy \<Rightarrow> says (map (\<lambda>f. ''privacy: Public example must set '' @ f @ '' to false'')
           (filter (\<lambda>f. dget privacy f \<noteq> PBool False) [''contains_customer_data'', ''contains_recipients'', ''contains_secrets'',
              ''contains_provider_specific_identifiers'', ''contains_production_paths'']))
       | _ \<Rightarrow> wrong_if (dhas d ''privacy'') ''privacy: Section must be an object''),
      says (map (\<lambda>f. ''Field must be a list: '' @ f) (filter (\<lambda>f. dhas d f \<and> \<not> is_list (dget d f))
        [''side_effect_allowed_only_when'', ''blocked_outcomes'']))]"

section \<open>Accepted agents\<close>

lemma object_fields_accepts [accept]:
  "object_fields d names prefix = [] \<longleftrightarrow> (\<forall>f \<in> set names. dhas d f \<longrightarrow> is_mapping (dget d f))"
  by (auto simp: object_fields_def filter_empty_conv)

lemma action_list_accepts [accept]:
  "action_list_errors d field = [] \<longleftrightarrow> (\<forall>v \<in> set (items_of (dget d field)). nonblank_str v \<and> pattern_errors (str_of v) = [])"
  by (auto simp: action_list_errors_def numbered_accepts all_set_conv_all_nth)

lemma note_actions_keeps: "map_of seen k = Some v \<Longrightarrow> map_of (snd (note_actions field as seen)) k = Some v"
proof (induction as arbitrary: seen)
  case (Cons a as)
  then show ?case by (cases "map_of seen (casefold a)") (auto simp: Let_def map_add_Some_iff)
qed simp

lemma note_actions_notes:
  assumes "fst (note_actions field as seen) = []" "a \<in> set as"
  shows "map_of (snd (note_actions field as seen)) (casefold a) = Some a"
  using assms
proof (induction as arbitrary: seen)
  case (Cons b as)
  show ?case
  proof (cases "map_of seen (casefold b)")
    case None
    have "map_of (seen @ [(casefold b, b)]) (casefold b) = Some b" using None by (simp add: map_add_Some_iff)
    from note_actions_keeps [OF this] Cons None show ?thesis by auto
  next
    case (Some previous)
    with Cons.prems have "previous = b" and rest: "fst (note_actions field as seen) = []" by (auto simp: Let_def split: if_splits)
    with Some note_actions_keeps [OF Some] Cons.IH [OF rest] Cons.prems(2) show ?thesis by (auto simp: Let_def)
  qed
qed simp

lemma collisions_accepts:
  assumes "action_name_collisions d = []" and a: "a \<in> set (plain_actions d f)" and b: "b \<in> set (plain_actions d g)"
    and fields: "f \<in> {''allowed_actions'', ''blocked_actions''}" "g \<in> {''allowed_actions'', ''blocked_actions''}"
    and fold: "casefold a = casefold b"
  shows "a = b"
proof -
  let ?notes = "\<lambda>f. note_actions f (plain_actions d f) []"
  have clean: "fst (?notes f) = []" if "f \<in> {''allowed_actions'', ''blocked_actions''}" for f
    using assms(1) that by (auto simp: action_name_collisions_def Let_def)
  have spelled: "map_of (snd (?notes f)) (casefold a) = Some a" if "a \<in> set (plain_actions d f)" "f \<in> {''allowed_actions'', ''blocked_actions''}" for a f
    using note_actions_notes [OF clean [OF that(2)] that(1)] .
  have across: "x = y" if "x \<in> set (plain_actions d ''allowed_actions'')" "y \<in> set (plain_actions d ''blocked_actions'')" "casefold x = casefold y" for x y
  proof -
    have y: "(casefold y, y) \<in> set (snd (?notes ''blocked_actions''))" using spelled [OF that(2)] by (auto dest: map_of_SomeD)
    have x: "map_of (snd (?notes ''allowed_actions'')) (casefold y) = Some x" using spelled [OF that(1)] that(3) by simp
    have "\<forall>q \<in> set (snd (?notes ''blocked_actions'')). (case q of (folded, b) \<Rightarrow>
        (case map_of (snd (?notes ''allowed_actions'')) folded of None \<Rightarrow> [] | Some a \<Rightarrow>
          if a \<noteq> b then [''Action '' @ quoted b @ '' in blocked_actions differs only by case from '' @ quoted a @ '' in allowed_actions'']
          else [])) = []"
      using assms(1) by (simp add: action_name_collisions_def Let_def)
    from bspec [OF this y] x show ?thesis by (cases "x = y") simp_all
  qed
  from fields consider (same) "f = g" | (ab) "f = ''allowed_actions''" "g = ''blocked_actions''" | (ba) "f = ''blocked_actions''" "g = ''allowed_actions''"
    by blast
  then show ?thesis
  proof cases
    case same
    have "Some a = map_of (snd (?notes f)) (casefold a)" using spelled [OF a fields(1)] by (rule sym)
    also have "\<dots> = map_of (snd (?notes g)) (casefold b)" unfolding same fold by (rule refl)
    also have "\<dots> = Some b" by (rule spelled [OF b fields(2)])
    finally show ?thesis by (rule option.inject [THEN iffD1])
  next
    case ab
    with across a b fold show ?thesis by blast
  next
    case ba
    with across [of b a] a b fold show ?thesis by simp
  qed
qed

lemma accepted_agentD:
  assumes "validate_agent d = Inr []"
  shows "is_list (dget d ''allowed_actions'')" "is_list (dget d ''blocked_actions'')"
    "action_list_errors d ''allowed_actions'' = []" "action_list_errors d ''blocked_actions'' = []" "action_name_collisions d = []"
proof -
  have e: "\<forall>f \<in> set agent_fields. dhas d f"
    "\<forall>f \<in> set agent_lists. dhas d f \<longrightarrow> is_list (dget d f)"
    using assms by (simp_all add: validate_agent_def gather_accepts says_accepts filter_empty_conv)
  then have "dhas d ''allowed_actions''" "dhas d ''blocked_actions''" by (simp_all add: agent_fields_def)
  with e(2) show "is_list (dget d ''allowed_actions'')" "is_list (dget d ''blocked_actions'')" by (simp_all add: agent_lists_def)
  show "action_list_errors d ''allowed_actions'' = []" "action_list_errors d ''blocked_actions'' = []" "action_name_collisions d = []"
    using assms by (simp_all add: validate_agent_def gather_accepts says_accepts)
qed

text \<open>
  An accepted agent file means what it says: both action lists are lists of trimmed, non-empty patterns of the
  supported syntax, and no action is written in two spellings that differ only by case, within a list or across the
  two, so an allowed entry and a blocked entry that fold to the same name are the same text.
\<close>

theorem accepted_agent:
  assumes "validate_agent d = Inr []" "f \<in> {''allowed_actions'', ''blocked_actions''}" "g \<in> {''allowed_actions'', ''blocked_actions''}"
  shows "(\<exists>vs. dget d f = PList vs \<and> (\<forall>v \<in> set vs. \<exists>s. v = PStr s \<and> pattern_errors s = [])) \<and>
    (\<forall>s t. PStr s \<in> set (items_of (dget d f)) \<and> PStr t \<in> set (items_of (dget d g)) \<and> casefold s = casefold t \<longrightarrow> s = t)"
proof -
  have acceptedD: "\<forall>h \<in> {''allowed_actions'', ''blocked_actions''}. is_list (dget d h) \<and> (\<forall>v \<in> set (items_of (dget d h)). nonblank_str v \<and> pattern_errors (str_of v) = [])"
    "action_name_collisions d = []"
    using accepted_agentD [OF assms(1)] by (simp_all add: action_list_accepts)
  have lists: "is_list (dget d h)" and items: "\<forall>v \<in> set (items_of (dget d h)). nonblank_str v \<and> pattern_errors (str_of v) = []"
    if "h \<in> {''allowed_actions'', ''blocked_actions''}" for h
    using acceptedD(1) that by blast+
  have plain: "s \<in> set (plain_actions d h)" if "PStr s \<in> set (items_of (dget d h))" "h \<in> {''allowed_actions'', ''blocked_actions''}" for s h
  proof -
    have "strip s = s" "\<not> blank s" using items [OF that(2)] that(1) by (auto simp: pattern_errors_def split: if_splits)
    then have "plain_action (PStr s)" by (auto simp: plain_action_def)
    with that(1) show ?thesis by (force simp: plain_actions_def)
  qed
  from collisions_accepts [OF acceptedD(2) plain [OF _ assms(2)] plain [OF _ assms(3)] assms(2,3)]
  have "s = t" if "PStr s \<in> set (items_of (dget d f))" "PStr t \<in> set (items_of (dget d g))" "casefold s = casefold t" for s t
    using that by blast
  moreover obtain vs where "dget d f = PList vs" using lists [OF assms(2)] by (cases "dget d f") auto
  ultimately show ?thesis using items [OF assms(2)] nonblank_strD by fastforce
qed

definition sample_agent :: pydict where
  "sample_agent = obj [(''id'', PStr ''a1''), (''name'', PStr ''A''), (''department'', PStr ''d''), (''description'', PStr ''x''),
     (''skills'', PList []), (''validators'', PList []), (''policies'', PList []), (''allowed_actions'', PList [PStr ''read:*'', PStr ''list'']),
     (''blocked_actions'', PList [PStr ''list'', PStr ''drop''])]"

theorem accepted_agent_witness:
  "\<exists>vs. dget sample_agent ''allowed_actions'' = PList vs \<and> (\<forall>v \<in> set vs. \<exists>s. v = PStr s \<and> pattern_errors s = [])"
proof -
  have "validate_agent sample_agent = Inr []" by code_simp
  from accepted_agent [OF this, of "''allowed_actions''" "''blocked_actions''"] show ?thesis by blast
qed

end
