(* ===== verification/Drift.thy ===== *)
theory Drift
  imports Validators ToolContract "HOL-Library.Multiset"
begin

text \<open>
  \<^verbatim>\<open>contract_drift.py\<close>: the deterministic comparison of an agent with a Tool Contract, and of two Tool Contracts, on
  values their validators accept (on others the code raises a \<^verbatim>\<open>KeyError\<close>). The properties say what an aligned report
  means. \<^verbatim>\<open>json.dumps\<close> of a value that has no JSON text raises, and is \<open>None\<close> here.
\<close>

section \<open>Findings and reports\<close>

record drift_finding =
  df_code :: string
  df_symbol :: string
  df_path :: string
  df_message :: string

definition drift_finding_dict :: "drift_finding \<Rightarrow> pyval" where
  "drift_finding_dict f = PDict (obj [(''code'', PStr (df_code f)), (''severity'', PStr ''error''), (''symbol'', PStr (df_symbol f)),
     (''path'', PStr (df_path f)), (''message'', PStr (df_message f))])"

record drift_report =
  dr_mode :: string
  dr_subjects :: "(string \<times> string) list"
  dr_findings :: "drift_finding list"

definition drift_status :: "drift_report \<Rightarrow> string" where
  "drift_status r = (if dr_findings r \<noteq> [] then ''drift'' else ''aligned'')"

text \<open>\<open>dict(sorted(Counter(...).items()))\<close>.\<close>

definition counted :: "string list \<Rightarrow> pydict" where
  "counted codes = obj (map (\<lambda>c. (c, PInt (int (length (filter (\<lambda>d. d = c) codes))))) (sort (remdups codes)))"

definition drift_report_dict :: "drift_report \<Rightarrow> pydict" where
  "drift_report_dict r = obj [(''schema_version'', PStr ''1.0''), (''mode'', PStr (dr_mode r)), (''status'', PStr (drift_status r)),
     (''subjects'', PDict (obj (map (\<lambda>(k, v). (k, PStr v)) (sort_key fst (dr_subjects r))))),
     (''summary'', PDict (obj [(''total_findings'', PInt (int (length (dr_findings r)))),
        (''by_code'', PDict (counted (map df_code (dr_findings r))))])),
     (''findings'', PList (map drift_finding_dict (dr_findings r)))]"

definition symbol_order :: "string \<Rightarrow> string" where
  "symbol_order s = (if s = ''+'' then ''0'' else if s = ''-'' then ''1'' else ''2'')"

definition sorted_findings :: "drift_finding list \<Rightarrow> drift_finding list" where
  "sorted_findings = sort_key (\<lambda>f. [symbol_order (df_symbol f), df_code f, df_path f, df_message f])"

section \<open>An agent against a contract\<close>

record tool_capability =
  cap_tool :: string
  cap_action :: string
  cap_pattern :: string

definition texts :: "pyval \<Rightarrow> string list" where
  "texts v = map str_of (items_of v)"

definition tools_of :: "pydict \<Rightarrow> pydict list" where
  "tools_of contract = map mapping_or_empty (items_of (dget contract ''tools''))"

definition text_at :: "pydict \<Rightarrow> string \<Rightarrow> string" where
  "text_at d k = str_of (dget d k)"

definition tool_capabilities :: "pydict \<Rightarrow> tool_capability list" where
  "tool_capabilities tool =
     (let act = text_at tool ''action''; capability = (\<lambda>pat. \<lparr>cap_tool = text_at tool ''id'', cap_action = act, cap_pattern = pat\<rparr>);
          patterns = texts (dget tool ''resource_patterns'')
      in if patterns \<noteq> [] then map (\<lambda>r. capability (act @ '':'' @ r)) patterns else [capability act])"

definition contract_capabilities :: "pydict \<Rightarrow> tool_capability list" where
  "contract_capabilities contract =
     sort_key (\<lambda>c. [cap_tool c, cap_action c, cap_pattern c]) (concat (map tool_capabilities (tools_of contract)))"

definition allow_overlaps :: "string \<Rightarrow> tool_capability \<Rightarrow> bool" where
  "allow_overlaps permission c = patterns_can_overlap permission (cap_pattern c)"

definition block_overlaps :: "string \<Rightarrow> tool_capability \<Rightarrow> bool" where
  "block_overlaps permission c =
     (patterns_can_overlap (casefold permission) (casefold (cap_pattern c))
      \<or> patterns_can_overlap (casefold permission) (casefold (cap_action c)))"

text \<open>The dictionary \<open>unscoped\<close> as a lookup: \<open>None\<close> for a permission that is not a key.\<close>

definition unscoped :: "tool_capability list \<Rightarrow> string \<Rightarrow> tool_capability list option" where
  "unscoped capabilities permission =
     (let covering = filter (\<lambda>c. casefold (cap_action c) = casefold permission \<and> cap_pattern c \<noteq> cap_action c) capabilities in
      if contains '':'' permission \<or> contains ''*'' permission \<or> contains ''?'' permission then None
      else if list_ex (allow_overlaps permission) capabilities then None
      else if covering \<noteq> [] then Some covering else None)"

definition comma_quoted :: "string list \<Rightarrow> string" where
  "comma_quoted ss = join '', '' (sort (remdups (map quoted ss)))"

definition unscoped_findings :: "tool_capability list \<Rightarrow> string list \<Rightarrow> drift_finding list" where
  "unscoped_findings capabilities = numbered (\<lambda>i permission. case unscoped capabilities permission of
       None \<Rightarrow> []
     | Some covering \<Rightarrow> [\<lparr>df_code = ''UNSCOPED_ALLOW_PERMISSION'', df_symbol = ''~'', df_path = indexed ''allowed_actions'' i,
         df_message = ''Allowed action '' @ quoted permission @ '' names an action with no resource, so it permits only a call that carries none. Tool ''
           @ comma_quoted (map cap_tool covering) @ '' always operates with one. Write '' @ comma_quoted (map cap_pattern covering) @ '' instead.''\<rparr>])"

definition explained_tools :: "tool_capability list \<Rightarrow> string list \<Rightarrow> string list" where
  "explained_tools capabilities allowed =
     concat (map (\<lambda>p. case unscoped capabilities p of None \<Rightarrow> [] | Some covering \<Rightarrow> map cap_tool covering) allowed)"

definition undeclared :: "tool_capability list \<Rightarrow> string list \<Rightarrow> string list \<Rightarrow> tool_capability list" where
  "undeclared capabilities allowed blocked = filter (\<lambda>c. cap_tool c \<notin> set (explained_tools capabilities allowed)
     \<and> \<not> list_ex (\<lambda>p. allow_overlaps p c) allowed \<and> \<not> list_ex (\<lambda>p. block_overlaps p c) blocked) capabilities"

definition undeclared_findings :: "tool_capability list \<Rightarrow> string list \<Rightarrow> string list \<Rightarrow> drift_finding list" where
  "undeclared_findings capabilities allowed blocked = map (\<lambda>tool.
       \<lparr>df_code = ''UNDECLARED_TOOL_SCOPE'', df_symbol = ''+'', df_path = ''tools.'' @ tool,
        df_message = ''Tool '' @ quoted tool @ '' exposes ''
          @ comma_quoted (map cap_pattern (filter (\<lambda>c. cap_tool c = tool) (undeclared capabilities allowed blocked)))
          @ '', but the agent neither allows nor blocks that runtime scope.''\<rparr>)
     (sort (remdups (map cap_tool (undeclared capabilities allowed blocked))))"

definition stale_finding :: "string \<Rightarrow> string \<Rightarrow> string \<Rightarrow> nat \<Rightarrow> string \<Rightarrow> drift_finding" where
  "stale_finding code field what i permission = \<lparr>df_code = code, df_symbol = ''-'', df_path = indexed field i,
     df_message = what @ '' action pattern '' @ quoted permission @ '' does not overlap any tool in the contract.''\<rparr>"

definition stale_allow_findings :: "tool_capability list \<Rightarrow> string list \<Rightarrow> drift_finding list" where
  "stale_allow_findings capabilities = numbered (\<lambda>i permission.
     if unscoped capabilities permission \<noteq> None \<or> list_ex (allow_overlaps permission) capabilities then []
     else [stale_finding ''STALE_ALLOW_PERMISSION'' ''allowed_actions'' ''Allowed'' i permission])"

definition stale_block_findings :: "tool_capability list \<Rightarrow> string list \<Rightarrow> drift_finding list" where
  "stale_block_findings capabilities = numbered (\<lambda>i permission.
     if list_ex (block_overlaps permission) capabilities then []
     else [stale_finding ''STALE_BLOCK_PERMISSION'' ''blocked_actions'' ''Blocked'' i permission])"

definition compare_agent_contract :: "pydict \<Rightarrow> pydict \<Rightarrow> drift_report" where
  "compare_agent_contract agent contract =
     (let capabilities = contract_capabilities contract;
          allowed = texts (dget agent ''allowed_actions''); blocked = texts (dget agent ''blocked_actions'') in
      \<lparr>dr_mode = ''agent-contract'',
       dr_subjects = [(''agent_id'', text_at agent ''id''), (''tool_contract_id'', text_at contract ''id''),
         (''tool_contract_version'', text_at contract ''version'')],
       dr_findings = sorted_findings (unscoped_findings capabilities allowed @ undeclared_findings capabilities allowed blocked
         @ stale_allow_findings capabilities allowed @ stale_block_findings capabilities blocked)\<rparr>)"

section \<open>Two contracts\<close>

definition unordered_array :: "string option \<Rightarrow> bool" where
  "unordered_array parent = (parent \<in> {Some ''enum'', Some ''required'', Some ''type''})"

fun key_text :: "pykey \<Rightarrow> string" where
  "key_text (KStr s) = s" | "key_text (KInt n) = int_text n"

text \<open>\<open>sorted\<close> by the canonical text of each item; \<open>None\<close> when one has no text.\<close>

definition sorted_by_text :: "crypto \<Rightarrow> pyval list \<Rightarrow> pyval list option" where
  "sorted_by_text cr vs = map_option (\<lambda>ts. map snd (sort_key fst (zip ts vs))) (all_some (map (json_dumps cr False) vs))"

definition entry_option :: "pykey \<Rightarrow> pyval option \<Rightarrow> (pykey \<times> pyval) option" where
  "entry_option k r = map_option (Pair k) r"

function normalize_schema :: "crypto \<Rightarrow> string option \<Rightarrow> pyval \<Rightarrow> pyval option" where
  "normalize_schema cr parent (PDict d) = map_option (\<lambda>e. PDict (sort_key (\<lambda>kv. key_text (fst kv)) e))
     (all_some (map (\<lambda>kv. entry_option (fst kv) (normalize_schema cr (Some (key_text (fst kv))) (snd kv))) d))"
| "normalize_schema cr parent (PList vs) = (case all_some (map (normalize_schema cr None) vs) of
       None \<Rightarrow> None
     | Some ws \<Rightarrow> if unordered_array parent then map_option PList (sorted_by_text cr ws) else Some (PList ws))"
| "normalize_schema cr parent PNone = Some PNone"
| "normalize_schema cr parent (PBool b) = Some (PBool b)"
| "normalize_schema cr parent (PInt n) = Some (PInt n)"
| "normalize_schema cr parent (PFloat x) = Some (PFloat x)"
| "normalize_schema cr parent (PStr s) = Some (PStr s)"
| "normalize_schema cr parent (PBytes s) = Some (PBytes s)"
| "normalize_schema cr parent (PTuple vs) = Some (PTuple vs)"
| "normalize_schema cr parent (POther s) = Some (POther s)"
  by pat_completeness auto

lemma size_snd_list: "kv \<in> set d \<Longrightarrow> size (snd kv) < Suc (size_list (size_prod size size) (d :: pydict))"
  by (induction d) auto

termination normalize_schema
  by (relation "measure (\<lambda>(cr, parent, v). size v)") (auto simp: less_Suc_eq_le size_list_estimation' dest: size_snd_list)

text \<open>\<open>_tool_map\<close>: a later tool with the same id replaces the earlier one.\<close>

definition tool_map :: "pydict \<Rightarrow> (string \<times> pydict) list" where
  "tool_map contract = rev (map (\<lambda>t. (text_at t ''id'', t)) (tools_of contract))"

definition tool_ids :: "pydict \<Rightarrow> string list" where
  "tool_ids contract = map (\<lambda>t. text_at t ''id'') (tools_of contract)"

definition tool_named :: "pydict \<Rightarrow> string \<Rightarrow> pydict" where
  "tool_named contract name = the (map_of (tool_map contract) name)"

definition changed_finding :: "shown \<Rightarrow> string \<Rightarrow> string \<Rightarrow> string \<Rightarrow> pyval \<Rightarrow> pyval \<Rightarrow> drift_finding" where
  "changed_finding sh tool field code expected observed =
     \<lparr>df_code = code, df_symbol = ''~'', df_path = ''tools.'' @ tool @ ''.'' @ field,
      df_message = ''Tool '' @ quoted tool @ '' changed '' @ field @ '': expected '' @ repr_text sh expected @ '', observed ''
        @ repr_text sh observed @ ''.''\<rparr>"

definition header_finding :: "string \<Rightarrow> string \<Rightarrow> string \<Rightarrow> pydict \<Rightarrow> pydict \<Rightarrow> drift_finding list" where
  "header_finding field code what expected observed =
     (if text_at expected field = text_at observed field then []
      else [\<lparr>df_code = code, df_symbol = ''~'', df_path = field,
        df_message = what @ '' changed from '' @ quoted (text_at expected field) @ '' to '' @ quoted (text_at observed field) @ ''.''\<rparr>])"

definition sorted_texts :: "pydict \<Rightarrow> string \<Rightarrow> string list" where
  "sorted_texts tool field = sort (texts (dget tool field))"

definition tool_changes :: "crypto \<Rightarrow> shown \<Rightarrow> string \<Rightarrow> pydict \<Rightarrow> pydict \<Rightarrow> drift_finding list option" where
  "tool_changes cr sh tool e ob =
     (let sorted_change = (\<lambda>field code. if sorted_texts e field = sorted_texts ob field then []
        else [changed_finding sh tool field code (PList (map PStr (sorted_texts e field))) (PList (map PStr (sorted_texts ob field)))]) in
      case (normalize_schema cr None (dget e ''input_schema''), normalize_schema cr None (dget ob ''input_schema'')) of
        (Some es, Some os) \<Rightarrow> Some (
          (if text_at e ''action'' = text_at ob ''action'' then []
           else [changed_finding sh tool ''action'' ''ACTION_CHANGED'' (dget e ''action'') (dget ob ''action'')])
          @ (if py_eq es os then [] else [changed_finding sh tool ''input_schema'' ''INPUT_SCHEMA_CHANGED'' es os])
          @ sorted_change ''resource_patterns'' ''RESOURCE_SCOPE_CHANGED'' @ sorted_change ''effects'' ''EFFECTS_CHANGED''
          @ (if py_eq (dget e ''annotations'') (dget ob ''annotations'') then []
             else [changed_finding sh tool ''annotations'' ''ANNOTATIONS_CHANGED'' (dget e ''annotations'') (dget ob ''annotations'')]))
      | _ \<Rightarrow> None)"

definition shared_ids :: "pydict \<Rightarrow> pydict \<Rightarrow> string list" where
  "shared_ids expected observed = sort (remdups (filter (\<lambda>i. i \<in> set (tool_ids observed)) (tool_ids expected)))"

definition only_ids :: "pydict \<Rightarrow> pydict \<Rightarrow> string list" where
  "only_ids c other = sort (remdups (filter (\<lambda>i. i \<notin> set (tool_ids other)) (tool_ids c)))"

definition compare_tool_contracts :: "crypto \<Rightarrow> shown \<Rightarrow> pydict \<Rightarrow> pydict \<Rightarrow> drift_report option" where
  "compare_tool_contracts cr sh expected observed =
     map_option (\<lambda>changes.
       \<lparr>dr_mode = ''contract-contract'',
        dr_subjects = [(''expected_contract_id'', text_at expected ''id''), (''expected_contract_version'', text_at expected ''version''),
          (''observed_contract_id'', text_at observed ''id''), (''observed_contract_version'', text_at observed ''version'')],
        dr_findings = sorted_findings (header_finding ''id'' ''CONTRACT_ID_CHANGED'' ''Contract ID'' expected observed
          @ header_finding ''version'' ''CONTRACT_VERSION_CHANGED'' ''Contract version'' expected observed
          @ map (\<lambda>i. \<lparr>df_code = ''TOOL_REMOVED'', df_symbol = ''-'', df_path = ''tools.'' @ i,
              df_message = ''Expected tool '' @ quoted i @ '' is absent from the observed contract.''\<rparr>) (only_ids expected observed)
          @ map (\<lambda>i. \<lparr>df_code = ''TOOL_ADDED'', df_symbol = ''+'', df_path = ''tools.'' @ i,
              df_message = ''Observed contract contains new tool '' @ quoted i @ ''.''\<rparr>) (only_ids observed expected)
          @ concat changes)\<rparr>)
     (all_some (map (\<lambda>i. tool_changes cr sh i (tool_named expected i) (tool_named observed i)) (shared_ids expected observed)))"

section \<open>Files and text\<close>

text \<open>The left result is the exception of the agent's file or the problems of an invalid input.\<close>

datatype drift_failure = Raised exn | InvalidAgent "string list" | InvalidTools "contract_problem list"

definition check_contract_drift :: "json_schema \<Rightarrow> source_file \<Rightarrow> pyval \<Rightarrow> drift_failure + drift_report" where
  "check_contract_drift js agent_file contract =
     (case bindE (load_yaml agent_file) (\<lambda>d. bindE (validate_agent d) (\<lambda>es. Inr (d, es))) of
        Inl e \<Rightarrow> Inl (Raised e)
      | Inr (agent, es) \<Rightarrow> if es \<noteq> [] then Inl (InvalidAgent es)
          else (case load_tool_contract js contract of Inl ps \<Rightarrow> Inl (InvalidTools ps) | Inr d \<Rightarrow> Inr (compare_agent_contract agent d)))"

definition subject :: "drift_report \<Rightarrow> string \<Rightarrow> string" where
  "subject r k = the (map_of (dr_subjects r) k)"

definition format_contract_drift_text :: "drift_report \<Rightarrow> string" where
  "format_contract_drift_text r =
     (if dr_findings r = [] then
        (if dr_mode r = ''agent-contract'' then ''Agent '' @ quoted (subject r ''agent_id'') @ '' and Tool Contract ''
           @ quoted (subject r ''tool_contract_id'') @ '' are aligned.''
         else ''Expected and observed Tool Contract '' @ quoted (subject r ''expected_contract_id'') @ '' are aligned.'')
      else join [CHR 0x0A] ((''Contract drift detected ('' @ int_text (int (length (dr_findings r))) @ '' findings):'')
        # map (\<lambda>f. df_symbol f @ '' ['' @ df_code f @ ''] '' @ df_message f) (dr_findings r)))"

section \<open>What an aligned report means\<close>

text \<open>Some request key is matched by both patterns.\<close>

definition meets :: "string \<Rightarrow> string \<Rightarrow> bool" where
  "meets p q \<longleftrightarrow> (\<exists>key. glob p key \<and> glob q key)"

lemma overlap_meets: "patterns_can_overlap p q \<longleftrightarrow> meets p q"
  using walk_sound walk_complete by (auto simp: patterns_can_overlap_def meets_def)

lemma set_capabilities: "set (contract_capabilities contract) = (\<Union>tool \<in> set (tools_of contract). set (tool_capabilities tool))"
  by (auto simp: contract_capabilities_def)

lemma sort_Nil: "sort_key k xs = [] \<longleftrightarrow> xs = []"
  by (simp only: length_0_conv [symmetric] length_sort)

lemma sorted_findings_Nil [simp]: "sorted_findings fs = [] \<longleftrightarrow> fs = []"
  by (simp add: sorted_findings_def sort_Nil)

lemma filter_sort_Nil: "sort (remdups (map f (filter P xs))) = [] \<longleftrightarrow> (\<forall>x \<in> set xs. \<not> P x)"
  by (simp add: sort_Nil filter_empty_conv)

text \<open>
  C35. An agent and a Tool Contract are aligned exactly when every tool scope the contract exposes shares a request key
  with an allow entry of the agent, or with a block entry up to case (a block of the bare action included), and no
  entry is stale: every allow entry meets some tool scope, and so does every block entry.
\<close>

theorem aligned_agent_contract:
  "drift_status (compare_agent_contract agent contract) = ''aligned'' \<longleftrightarrow>
    (\<forall>tool \<in> set (tools_of contract). \<forall>c \<in> set (tool_capabilities tool).
      (\<exists>p \<in> set (texts (dget agent ''allowed_actions'')). meets p (cap_pattern c)) \<or>
      (\<exists>p \<in> set (texts (dget agent ''blocked_actions'')). meets (casefold p) (casefold (cap_pattern c)) \<or> meets (casefold p) (casefold (cap_action c)))) \<and>
    (\<forall>p \<in> set (texts (dget agent ''allowed_actions'')). \<exists>tool \<in> set (tools_of contract). \<exists>c \<in> set (tool_capabilities tool). meets p (cap_pattern c)) \<and>
    (\<forall>p \<in> set (texts (dget agent ''blocked_actions'')). \<exists>tool \<in> set (tools_of contract). \<exists>c \<in> set (tool_capabilities tool).
      meets (casefold p) (casefold (cap_pattern c)) \<or> meets (casefold p) (casefold (cap_action c)))"
  (is "_ \<longleftrightarrow> ?covered \<and> ?live \<and> ?stops")
proof -
  define caps where "caps = contract_capabilities contract"
  define allowed where "allowed = texts (dget agent ''allowed_actions'')"
  define blocked where "blocked = texts (dget agent ''blocked_actions'')"
  have none: "unscoped_findings caps allowed = [] \<longleftrightarrow> (\<forall>p \<in> set allowed. unscoped caps p = None)"
    by (auto simp: unscoped_findings_def accept all_set_conv_all_nth split: option.splits)
  have "stale_allow_findings caps allowed = [] \<longleftrightarrow> (\<forall>p \<in> set allowed. unscoped caps p \<noteq> None \<or> list_ex (allow_overlaps p) caps)"
    by (auto simp: stale_allow_findings_def accept all_set_conv_all_nth)
  moreover have "stale_block_findings caps blocked = [] \<longleftrightarrow> (\<forall>p \<in> set blocked. list_ex (block_overlaps p) caps)"
    by (auto simp: stale_block_findings_def accept all_set_conv_all_nth)
  moreover have "unscoped caps p = None" if "list_ex (allow_overlaps p) caps" for p using that by (simp add: unscoped_def Let_def)
  moreover have "undeclared_findings caps allowed blocked = [] \<longleftrightarrow>
      (\<forall>c \<in> set caps. cap_tool c \<in> set (explained_tools caps allowed) \<or> list_ex (\<lambda>p. allow_overlaps p c) allowed \<or> list_ex (\<lambda>p. block_overlaps p c) blocked)"
    by (simp add: undeclared_findings_def undeclared_def filter_sort_Nil)
  moreover have "explained_tools caps allowed = []" if "\<forall>p \<in> set allowed. unscoped caps p = None" using that by (simp add: explained_tools_def)
  ultimately have "dr_findings (compare_agent_contract agent contract) = [] \<longleftrightarrow>
      (\<forall>c \<in> set caps. list_ex (\<lambda>p. allow_overlaps p c) allowed \<or> list_ex (\<lambda>p. block_overlaps p c) blocked) \<and>
      (\<forall>p \<in> set allowed. list_ex (allow_overlaps p) caps) \<and> (\<forall>p \<in> set blocked. list_ex (block_overlaps p) caps)"
    using none by (simp add: compare_agent_contract_def Let_def caps_def [symmetric] allowed_def [symmetric] blocked_def [symmetric]) fastforce
  then show ?thesis
    by (simp add: drift_status_def caps_def allowed_def blocked_def set_capabilities list_ex_iff allow_overlaps_def block_overlaps_def overlap_meets)
qed

definition drift_agent :: pydict where
  "drift_agent = obj [(''id'', PStr ''a''), (''allowed_actions'', PList [PStr ''send:t/1'']), (''blocked_actions'', PList [PStr ''Drop''])]"

definition drift_tools :: pydict where
  "drift_tools = obj [(''id'', PStr ''c''), (''tools'', PList [
     PDict (obj [(''id'', PStr ''mail''), (''action'', PStr ''send''), (''resource_patterns'', PList [PStr ''t/*''])]),
     PDict (obj [(''id'', PStr ''wipe''), (''action'', PStr ''drop''), (''resource_patterns'', PList [PStr ''x''])])])]"

theorem aligned_agent_contract_witness: "meets ''send:t/1'' ''send:t/*''"
proof -
  have "drift_status (compare_agent_contract drift_agent drift_tools) = ''aligned''" by code_simp
  then have "\<forall>p \<in> set (texts (dget drift_agent ''allowed_actions'')). \<exists>tool \<in> set (tools_of drift_tools). \<exists>c \<in> set (tool_capabilities tool). meets p (cap_pattern c)"
    unfolding aligned_agent_contract by (elim conjE) assumption
  moreover have "texts (dget drift_agent ''allowed_actions'') = [''send:t/1'']" by code_simp
  moreover have "concat (map (\<lambda>t. map cap_pattern (tool_capabilities t)) (tools_of drift_tools)) = [''send:t/*'', ''drop:x'']" by code_simp
  then have "cap_pattern c = ''send:t/*'' \<or> cap_pattern c = ''drop:x''" if "tool \<in> set (tools_of drift_tools)" "c \<in> set (tool_capabilities tool)" for tool c
  proof -
    from that have "cap_pattern c \<in> set (concat (map (\<lambda>t. map cap_pattern (tool_capabilities t)) (tools_of drift_tools)))" by auto
    then show ?thesis unfolding \<open>concat _ = _\<close> by simp
  qed
  moreover have "\<not> patterns_can_overlap ''send:t/1'' ''drop:x''" by code_simp
  ultimately show ?thesis unfolding overlap_meets by (metis list.set_intros(1))
qed

definition same_tool :: "crypto \<Rightarrow> pydict \<Rightarrow> pydict \<Rightarrow> bool" where
  "same_tool cr e ob \<longleftrightarrow> text_at e ''action'' = text_at ob ''action'' \<and>
     (\<exists>es os. normalize_schema cr None (dget e ''input_schema'') = Some es \<and>
        normalize_schema cr None (dget ob ''input_schema'') = Some os \<and> py_eq es os) \<and>
     (\<forall>field \<in> {''resource_patterns'', ''effects''}. mset (texts (dget e field)) = mset (texts (dget ob field))) \<and>
     py_eq (dget e ''annotations'') (dget ob ''annotations'')"

lemma sort_eq_mset: "sort xs = sort ys \<longleftrightarrow> mset xs = mset ys"
  by (metis mset_sort sorted_list_of_multiset_mset)

lemma tool_changes_Nil: "tool_changes cr sh tool e ob = Some [] \<longleftrightarrow> same_tool cr e ob"
  by (auto simp: tool_changes_def same_tool_def Let_def sorted_texts_def sort_eq_mset split: option.splits)


definition drift_tool :: "pyval \<Rightarrow> string list \<Rightarrow> pyval" where
  "drift_tool limit patterns = PDict (obj [(''id'', PStr ''mail''), (''action'', PStr ''send''),
     (''input_schema'', PDict (obj [(''required'', PList (map PStr patterns)), (''const'', limit)])),
     (''resource_patterns'', PList (map PStr patterns)), (''effects'', PList []), (''annotations'', PDict [])])"

definition drift_contract :: "pyval \<Rightarrow> string list \<Rightarrow> pydict" where
  "drift_contract limit patterns = obj [(''id'', PStr ''c''), (''version'', PStr ''1''), (''tools'', PList [drift_tool limit patterns])]"


text \<open>
  A JSON Schema constant that changes from 1 to true is no drift to the comparison: Python's equality holds between
  the two, so the reports of these contracts are aligned although their schemas accept different values.
\<close>

theorem changed_constant_is_aligned:
  "map_option drift_status (compare_tool_contracts sample_flat sample_shown (drift_contract (PInt 1) [''a'']) (drift_contract (PBool True) [''a'']))
    = Some ''aligned'' \<and> json_dumps sample_flat False (PInt 1) \<noteq> json_dumps sample_flat False (PBool True)"
proof
  show "map_option drift_status (compare_tool_contracts sample_flat sample_shown (drift_contract (PInt 1) [''a'']) (drift_contract (PBool True) [''a'']))
    = Some ''aligned''" by code_simp
  show "json_dumps sample_flat False (PInt 1) \<noteq> json_dumps sample_flat False (PBool True)" by code_simp
qed

section \<open>Accepted contracts can always be compared\<close>

lemma json_dict: "json_value_errors (PDict d) = [] \<longleftrightarrow> (\<forall>kv \<in> set d. (\<exists>k. fst kv = KStr k) \<and> json_value_errors (snd kv) = [])"
  by (auto split: pykey.splits)

lemma json_list: "json_value_errors (PList vs) = [] \<longleftrightarrow> (\<forall>v \<in> set vs. json_value_errors v = [])"
  by auto

declare json_value_errors.simps(6,7) [simp del]

lemma json_pairs_total:
  "\<forall>kv \<in> set kvs. (\<exists>k t. kv = (KStr k, Some t)) \<Longrightarrow> \<exists>r. json_pairs ascii colon kvs = Some r \<and> (\<forall>kt \<in> set r. text_key (fst kt))"
  by (induction kvs) fastforce+

lemma json_dumps_total: "json_value_errors v = [] \<Longrightarrow> \<exists>t. json_dumps cr ascii v = Some t"
proof (induction v rule: json_value_errors.induct)
  case (6 d)
  then have "\<exists>r. json_pairs ascii '':'' (map (map_prod id (json_dumps cr ascii)) d) = Some r \<and> (\<forall>kt \<in> set r. text_key (fst kt))"
    by (intro json_pairs_total) (fastforce simp: json_dict)
  then show ?case by (auto simp: sorted_pairs_def list_all_iff)
next
  case (7 vs)
  then have "\<exists>ts. all_some (map (json_dumps cr ascii) vs) = Some ts \<and> (\<forall>t \<in> set ts. True)"
    by (intro all_some_total) (auto simp: json_list)
  then show ?case by auto
qed (auto split: pyfloat.splits)

lemma sorted_by_text_total:
  assumes "\<forall>v \<in> set vs. json_value_errors v = []"
  shows "\<exists>ws. sorted_by_text cr vs = Some ws \<and> (\<forall>w \<in> set ws. json_value_errors w = [])"
proof -
  have "\<exists>ts. all_some (map (json_dumps cr False) vs) = Some ts \<and> (\<forall>t \<in> set ts. True)"
    using assms json_dumps_total by (intro all_some_total) blast
  then obtain ts where "all_some (map (json_dumps cr False) vs) = Some ts" by blast
  then show ?thesis using assms by (auto simp: sorted_by_text_def dest: set_zip_rightD)
qed

lemma normalize_schema_total: "json_value_errors v = [] \<Longrightarrow> \<exists>w. normalize_schema cr parent v = Some w \<and> json_value_errors w = []"
proof (induction cr parent v rule: normalize_schema.induct)
  case (1 cr parent d)
  let ?f = "\<lambda>kv. entry_option (fst kv) (normalize_schema cr (Some (key_text (fst kv))) (snd kv))"
  have "\<exists>e. all_some (map ?f d) = Some e \<and> (\<forall>kv \<in> set e. (\<exists>k. fst kv = KStr k) \<and> json_value_errors (snd kv) = [])"
  proof (intro all_some_total ballI)
    fix kv assume kv: "kv \<in> set d"
    with "1.prems" obtain k where k: "fst kv = KStr k" "json_value_errors (snd kv) = []" by (auto simp: json_dict)
    from "1.IH" [OF kv k(2)] obtain w where "normalize_schema cr (Some (key_text (fst kv))) (snd kv) = Some w" "json_value_errors w = []" by blast
    with k(1) show "\<exists>y. ?f kv = Some y \<and> (\<exists>k. fst y = KStr k) \<and> json_value_errors (snd y) = []" by (simp add: entry_option_def)
  qed
  then obtain e where "all_some (map ?f d) = Some e" "\<forall>kv \<in> set e. (\<exists>k. fst kv = KStr k) \<and> json_value_errors (snd kv) = []" by blast
  then show ?case by (simp add: json_dict)
next
  case (2 cr parent vs)
  then have "\<exists>ws. all_some (map (normalize_schema cr None) vs) = Some ws \<and> (\<forall>w \<in> set ws. json_value_errors w = [])"
    by (intro all_some_total) (auto simp: json_list)
  then obtain ws where ws: "all_some (map (normalize_schema cr None) vs) = Some ws" "\<forall>w \<in> set ws. json_value_errors w = []" by blast
  from sorted_by_text_total [OF ws(2)] obtain xs where "sorted_by_text cr ws = Some xs" "\<forall>w \<in> set xs. json_value_errors w = []" by blast
  with ws show ?case by (simp add: json_list)
qed auto

lemma json_field: "json_value_errors (PDict d) = [] \<Longrightarrow> json_value_errors (dget d k) = []"
  by (fastforce simp: json_dict dget_def dget_or_def split: option.splits dest: map_of_SomeD)

lemma json_tool:
  assumes "load_tool_contract js v = Inr d" "i \<in> set (tool_ids d)"
  shows "json_value_errors (dget (tool_named d i) k) = []"
proof -
  have "json_value_errors (PDict d) = []"
    using assms(1) by (auto simp: load_tool_contract_def tool_contract_errors_def split: if_splits pyval.splits)
  then have items: "\<forall>t \<in> set (items_of (dget d ''tools'')). json_value_errors t = []"
    using json_field [OF \<open>json_value_errors (PDict d) = []\<close>, of "''tools''"] by (cases "dget d ''tools''") (auto simp: json_list)
  have "map_of (tool_map d) i \<noteq> None"
    using assms(2) by (simp add: map_of_eq_None_iff tool_map_def tool_ids_def image_image)
  then obtain t where t: "map_of (tool_map d) i = Some t" by auto
  then have "t \<in> set (tools_of d)" by (auto simp: tool_map_def dest!: map_of_SomeD)
  then obtain x where "x \<in> set (items_of (dget d ''tools''))" "t = mapping_or_empty x" by (auto simp: tools_of_def)
  with items have "json_value_errors (PDict t) = []" by (cases x) (auto simp: json_dict)
  with t json_field show ?thesis by (simp add: tool_named_def)
qed



end
