(* ===== verification/AgentContract.thy ===== *)
theory AgentContract
  imports Drift
begin

text \<open>
  \<^verbatim>\<open>agent_contract.py\<close>: the validation of an Agent Contract and its comparison with the agent it names and a Tool
  Contract. The properties: what an aligned contract guarantees, and the overlap of autonomous and approval-required
  authority that the comparison does not see. An agent compared with a Tool Contract has passed its validator.
\<close>

section \<open>Validation\<close>

definition string_errors :: "pyval \<Rightarrow> string \<Rightarrow> string list" where
  "string_errors v path = (if \<not> is_str v then [''agent_contract: Field must be a string: '' @ path]
     else if blank (str_of v) then [''agent_contract: Field must be a non-empty string: '' @ path] else [])"

definition string_list_errors :: "pyval \<Rightarrow> string \<Rightarrow> bool \<Rightarrow> string list" where
  "string_list_errors v path non_empty =
     (if \<not> is_list v then [''agent_contract: Field must be a list: '' @ path]
      else (if non_empty \<and> items_of v = [] then [''agent_contract: List must not be empty: '' @ path] else [])
        @ numbered (\<lambda>i x. string_errors x (indexed path i)) (items_of v))"

definition action_errors :: "pyval \<Rightarrow> string \<Rightarrow> string list" where
  "action_errors v path = (if nonblank_str v
     then map (\<lambda>p. ''agent_contract: Invalid action in '' @ path @ '': '' @ problem_text p) (pattern_errors (str_of v)) else [])"

definition pattern_list_errors :: "pyval \<Rightarrow> string \<Rightarrow> string list" where
  "pattern_list_errors v path = string_list_errors v path False @ numbered (\<lambda>i x. action_errors x (indexed path i)) (items_of v)"

definition strings_at :: "pydict \<Rightarrow> string list \<Rightarrow> string \<Rightarrow> string list" where
  "strings_at d names prefix = concat (map (\<lambda>f. if dhas d f then string_errors (dget d f) (prefix @ f) else []) names)"

definition lists_at :: "pydict \<Rightarrow> string list \<Rightarrow> string \<Rightarrow> bool \<Rightarrow> string list" where
  "lists_at d names prefix non_empty = concat (map (\<lambda>f. if dhas d f then string_list_errors (dget d f) (prefix @ f) non_empty else []) names)"

definition approval_errors :: "nat \<Rightarrow> pyval \<Rightarrow> string list" where
  "approval_errors i v =
     (let path = indexed ''approval_required'' i in
      case v of
        PDict d \<Rightarrow> concat (map (\<lambda>f. if \<not> dhas d f then [''agent_contract: '' @ path @ '': Missing required field: '' @ f]
            else string_errors (dget d f) (path @ ''.'' @ f)) [''action'', ''approver''])
          @ action_errors (dget d ''action'') (path @ ''.action'')
      | _ \<Rightarrow> [''agent_contract: Approval must be an object: '' @ path])"

definition action_levels :: "string list" where
  "action_levels = [''READ'', ''DRAFT'', ''EXECUTE'', ''APPROVAL_REQUIRED'']"

text \<open>The key of an entry in \<open>seen_actions\<close>, for one that has both texts.\<close>

definition level_key :: "pydict \<Rightarrow> (string \<times> string) option" where
  "level_key d = (if nonblank_str (dget d ''action'') \<and> nonblank_str (dget d ''scope'')
     then Some (casefold (text_at d ''action''), casefold (text_at d ''scope'')) else None)"

definition level_report :: "string \<Rightarrow> (string \<times> string) list \<Rightarrow> pydict \<Rightarrow> report" where
  "level_report path seen d = gather
     [says (missing_fields d [''action'', ''level'', ''scope''] (''agent_contract: '' @ path)),
      says (if dhas d ''action'' then string_errors (dget d ''action'') (path @ ''.action'') @ action_errors (dget d ''action'') (path @ ''.action'')
        else []),
      only_if (dhas d ''level'') (wrong_unless_in (dget d ''level'') action_levels (''agent_contract: Invalid level: '' @ path @ ''.level'')),
      says (strings_at d [''scope'', ''notes''] (path @ ''.'')),
      wrong_if (case level_key d of None \<Rightarrow> False | Some k \<Rightarrow> k \<in> set seen) (''agent_contract: Duplicate action level: '' @ path @ ''.action'')]"

fun level_reports :: "nat \<Rightarrow> (string \<times> string) list \<Rightarrow> pyval list \<Rightarrow> report list" where
  "level_reports i seen [] = []"
| "level_reports i seen (v # vs) =
     (let path = indexed ''action_levels'' i in
      case v of
        PDict d \<Rightarrow> level_report path seen d
          # level_reports (Suc i) (case level_key d of None \<Rightarrow> seen | Some k \<Rightarrow> k # seen) vs
      | _ \<Rightarrow> says [''agent_contract: Action level must be an object: '' @ path] # level_reports (Suc i) seen vs)"

definition levels_report :: "pyval \<Rightarrow> report" where
  "levels_report v = (if \<not> is_list v then says [''agent_contract: Field must be a list: action_levels'']
     else if items_of v = [] then says [''agent_contract: List must not be empty: action_levels'']
     else gather (level_reports 0 [] (items_of v)))"

definition object_section :: "pydict \<Rightarrow> string \<Rightarrow> string list \<Rightarrow> (pydict \<Rightarrow> string list) \<Rightarrow> string list" where
  "object_section d field names f = (case dget d field of
       PDict e \<Rightarrow> missing_fields e names (''agent_contract.'' @ field) @ f e
     | _ \<Rightarrow> [''agent_contract: Field must be an object: '' @ field])"

definition agent_contract_fields :: "string list" where
  "agent_contract_fields = [''id'', ''version'', ''agent_id'', ''owner'', ''purpose'', ''allowed_goals'', ''out_of_scope'', ''action_levels'',
     ''autonomous_actions'', ''approval_required'', ''forbidden_actions'', ''stop_conditions'', ''data_access'', ''tool_permissions'',
     ''policy_ids'', ''audit_requirements'', ''versioning'', ''failure_mode'']"

definition tool_permission_fields :: "string list" where
  "tool_permission_fields = [''allowed_tools'', ''disallowed_tools'']"

definition failure_mode_fields :: "string list" where
  "failure_mode_fields = [''on_policy_failure'', ''on_approval_failure'', ''on_audit_failure'', ''on_external_uncertainty'',
     ''draft_approval_execution'']"

definition contract_head_errors :: "shown \<Rightarrow> pydict \<Rightarrow> string list" where
  "contract_head_errors sh d =
     (if dhas d ''type'' \<and> dget d ''type'' \<noteq> PStr ''agent_contract'' then [''agent_contract: Field must equal agent_contract: type''] else [])
     @ (if dhas d ''schema_version'' \<and> dget d ''schema_version'' \<noteq> PStr ''1.0''
        then [''agent_contract: Unsupported schema_version: '' @ repr_text sh (dget d ''schema_version'') @ ''; expected '' @ quoted ''1.0''] else [])"

definition validate_agent_contract_data :: "shown \<Rightarrow> pyval \<Rightarrow> report" where
  "validate_agent_contract_data sh v = (case v of
       PDict d \<Rightarrow> gather
         [says (missing_fields d agent_contract_fields ''agent_contract''
            @ strings_at d [''id'', ''version'', ''agent_id'', ''owner'', ''purpose''] [] @ contract_head_errors sh d
            @ lists_at d [''allowed_goals'', ''out_of_scope'', ''stop_conditions'', ''audit_requirements'', ''versioning''] [] True
            @ pattern_list_errors (dget d ''autonomous_actions'') ''autonomous_actions''
            @ pattern_list_errors (dget d ''forbidden_actions'') ''forbidden_actions''
            @ (if \<not> is_list (dget d ''approval_required'') then [''agent_contract: Field must be a list: approval_required'']
               else numbered approval_errors (items_of (dget d ''approval_required'')))),
          levels_report (dget d ''action_levels''),
          says (object_section d ''data_access'' [''readable'', ''writable'', ''retention'', ''sensitive_data_handling''] (\<lambda>e.
              lists_at e [''readable'', ''writable''] ''data_access.'' False @ strings_at e [''retention'', ''sensitive_data_handling''] ''data_access.'')
            @ object_section d ''tool_permissions'' tool_permission_fields (\<lambda>e. lists_at e tool_permission_fields ''tool_permissions.'' False)
            @ lists_at d [''policy_ids''] [] True
            @ object_section d ''failure_mode'' failure_mode_fields (\<lambda>e. strings_at e failure_mode_fields ''failure_mode.''))]
     | _ \<Rightarrow> says [''agent_contract: YAML root must be an object''])"

section \<open>Compatibility\<close>

record contract_finding =
  cf_code :: string
  cf_path :: string
  cf_message :: string

definition contract_finding_dict :: "contract_finding \<Rightarrow> pyval" where
  "contract_finding_dict f = PDict (obj [(''code'', PStr (cf_code f)), (''severity'', PStr ''error''), (''path'', PStr (cf_path f)),
     (''message'', PStr (cf_message f))])"

record contract_report =
  cr_contract :: string
  cr_agent :: string
  cr_tools :: "string option"
  cr_findings :: "contract_finding list"

definition contract_status :: "contract_report \<Rightarrow> string" where
  "contract_status r = (if cr_findings r \<noteq> [] then ''drift'' else ''aligned'')"

definition contract_report_dict :: "contract_report \<Rightarrow> pydict" where
  "contract_report_dict r = obj [(''schema_version'', PStr ''1.0''), (''mode'', PStr ''agent-contract-compatibility''),
     (''status'', PStr (contract_status r)),
     (''subjects'', PDict (obj [(''agent_contract_id'', PStr (cr_contract r)), (''agent_id'', PStr (cr_agent r)),
        (''tool_contract_id'', opt_str (cr_tools r))])),
     (''summary'', PDict (obj [(''total_findings'', PInt (int (length (cr_findings r)))),
        (''by_code'', PDict (counted (map cf_code (cr_findings r))))])),
     (''findings'', PList (map contract_finding_dict (cr_findings r)))]"

definition actions_in :: "pyval \<Rightarrow> string list" where
  "actions_in v = map str_of (filter is_str (items_of v))"

text \<open>The objects of a list whose \<open>action\<close> is a text.\<close>

definition action_entries :: "pyval list \<Rightarrow> pydict list" where
  "action_entries vs = filter (\<lambda>d. is_str (dget d ''action'')) (map mapping_or_empty (filter is_mapping vs))"

definition approval_actions :: "pyval \<Rightarrow> string list" where
  "approval_actions v = map (\<lambda>d. text_at d ''action'') (action_entries (items_of v))"

definition overlaps_any :: "string \<Rightarrow> string list \<Rightarrow> bool" where
  "overlaps_any pat candidates = list_ex (\<lambda>c. patterns_can_overlap (casefold pat) (casefold c)) candidates"

definition finding_at :: "string \<Rightarrow> string \<Rightarrow> string \<Rightarrow> contract_finding list" where
  "finding_at code path message = [\<lparr>cf_code = code, cf_path = path, cf_message = message\<rparr>]"

text \<open>An action is granted by one list of patterns and overlaps none of the other.\<close>

definition granted :: "string \<Rightarrow> string list \<Rightarrow> string list \<Rightarrow> bool" where
  "granted act for_it against = (overlaps_any act for_it \<and> \<not> overlaps_any act against)"

definition grant_findings :: "string \<Rightarrow> string \<Rightarrow> string \<Rightarrow> string \<Rightarrow> string \<Rightarrow> string list \<Rightarrow> string list \<Rightarrow> string list \<Rightarrow> contract_finding list" where
  "grant_findings code field suffix before rest for_it against = numbered (\<lambda>i act. if granted act for_it against then []
     else finding_at code (indexed field i @ suffix) (before @ '' action '' @ quoted act @ rest))"

text \<open>The levels whose action overlaps the given one.\<close>

definition matching_levels :: "string \<Rightarrow> pydict list \<Rightarrow> pydict list" where
  "matching_levels act = filter (\<lambda>d. patterns_can_overlap (casefold act) (casefold (text_at d ''action'')))"

definition needs_approval :: "pydict \<Rightarrow> bool" where
  "needs_approval d = (dget d ''level'' = PStr ''APPROVAL_REQUIRED'')"

definition level_findings :: "pydict list \<Rightarrow> string list \<Rightarrow> string list \<Rightarrow> contract_finding list" where
  "level_findings levels autonomous approvals =
     numbered (\<lambda>i act. if matching_levels act levels = [] \<or> list_ex needs_approval (matching_levels act levels)
        then finding_at ''AUTONOMOUS_LEVEL_MISMATCH'' (indexed ''autonomous_actions'' i)
          (''Autonomous action '' @ quoted act @ '' has no non-approval action level.'') else []) autonomous
     @ numbered (\<lambda>i act. if matching_levels act levels = [] \<or> \<not> list_ex needs_approval (matching_levels act levels)
        then finding_at ''APPROVAL_LEVEL_MISMATCH'' (indexed ''approval_required'' i @ ''.action'')
          (''Approval-required action '' @ quoted act @ '' has no APPROVAL_REQUIRED action level.'') else []) approvals"

definition modelled_findings :: "pyval list \<Rightarrow> string list \<Rightarrow> string list \<Rightarrow> contract_finding list" where
  "modelled_findings items autonomous approvals = numbered (\<lambda>i v.
     case v of
       PDict d \<Rightarrow> if \<not> is_str (dget d ''action'') then []
         else (if overlaps_any (text_at d ''action'') (autonomous @ approvals) then []
             else finding_at ''UNMODELED_ACTION_LEVEL'' (indexed ''action_levels'' i @ ''.action'')
               (''Action level '' @ quoted (text_at d ''action'') @ '' is not present in autonomous_actions or approval_required.''))
           @ (if needs_approval d \<and> \<not> overlaps_any (text_at d ''action'') approvals
             then finding_at ''APPROVAL_LEVEL_NOT_DECLARED'' (indexed ''action_levels'' i @ ''.level'')
               (''Action level '' @ quoted (text_at d ''action'') @ '' requires approval but has no approval_required entry.'') else [])
     | _ \<Rightarrow> []) items"

definition uncovered_findings :: "string \<Rightarrow> string \<Rightarrow> string \<Rightarrow> string \<Rightarrow> string list \<Rightarrow> string list \<Rightarrow> contract_finding list" where
  "uncovered_findings code field what rest declared = numbered (\<lambda>i act. if overlaps_any act declared then []
     else finding_at code (indexed field i) (''Agent '' @ what @ '' pattern '' @ quoted act @ rest))"

definition agent_findings :: "shown \<Rightarrow> pydict \<Rightarrow> pydict \<Rightarrow> contract_finding list" where
  "agent_findings sh contract agent =
     (let declared = actions_in (dget agent ''policies''); linked = actions_in (dget contract ''policy_ids'') in
      (if text_at contract ''agent_id'' = text_at agent ''id'' then []
       else finding_at ''AGENT_ID_MISMATCH'' ''agent_id'' (''Agent Contract names '' @ quoted (text_at contract ''agent_id'')
         @ '', but the agent declaration is '' @ quoted (text_at agent ''id'') @ ''.''))
      @ (if set declared = set linked then []
         else finding_at ''POLICY_LINK_MISMATCH'' ''policy_ids'' (''Agent Contract policies '' @ repr_text sh (PList (map PStr (sort linked)))
           @ '' do not equal agent declaration policies '' @ repr_text sh (PList (map PStr (sort declared))) @ ''.'')))"

definition authority_findings :: "pydict \<Rightarrow> pydict \<Rightarrow> contract_finding list" where
  "authority_findings contract agent =
     (let allowed = actions_in (dget agent ''allowed_actions''); blocked = actions_in (dget agent ''blocked_actions'');
          autonomous = actions_in (dget contract ''autonomous_actions''); approvals = approval_actions (dget contract ''approval_required'');
          forbidden = actions_in (dget contract ''forbidden_actions'');
          denied = '' is not allowed by the agent declaration or overlaps a blocked action.'';
          items = items_of (dget contract ''action_levels'') in
      grant_findings ''AUTONOMOUS_ACTION_NOT_ALLOWED'' ''autonomous_actions'' [] ''Autonomous'' denied allowed blocked autonomous
      @ grant_findings ''APPROVAL_ACTION_NOT_ALLOWED'' ''approval_required'' ''.action'' ''Approval-required'' denied allowed blocked approvals
      @ grant_findings ''FORBIDDEN_ACTION_NOT_BLOCKED'' ''forbidden_actions'' [] ''Forbidden''
          '' is not blocked by the agent declaration or overlaps an allowed action.'' blocked allowed forbidden
      @ (if set (map casefold autonomous) \<inter> set (map casefold approvals) = {} then []
         else finding_at ''ACTION_AUTHORITY_COLLISION'' ''approval_required'' ''An action cannot be both autonomous and approval-required.'')
      @ (if list_ex (\<lambda>act. overlaps_any act (autonomous @ approvals)) forbidden
         then finding_at ''FORBIDDEN_AUTHORITY_COLLISION'' ''forbidden_actions'' ''A forbidden action overlaps autonomous or approval-required authority.''
         else [])
      @ level_findings (action_entries items) autonomous approvals
      @ modelled_findings items autonomous approvals
      @ uncovered_findings ''UNMODELED_ALLOWED_ACTION'' ''agent.allowed_actions'' ''allow''
          '' is absent from autonomous_actions and approval_required.'' (autonomous @ approvals) allowed
      @ uncovered_findings ''UNMODELED_BLOCKED_ACTION'' ''agent.blocked_actions'' ''block'' '' is absent from forbidden_actions.'' forbidden blocked)"

definition tool_contract_id :: "pydict \<Rightarrow> string option" where
  "tool_contract_id tools = (case dget tools ''id'' of PStr s \<Rightarrow> Some s | _ \<Rightarrow> None)"

definition permission_findings :: "shown \<Rightarrow> pydict \<Rightarrow> pydict \<Rightarrow> contract_finding list" where
  "permission_findings sh contract tools =
     (let known = map (\<lambda>d. text_at d ''id'') (filter (\<lambda>d. is_str (dget d ''id'')) (tools_of tools)) in
      case dget contract ''tool_permissions'' of
        PDict permissions \<Rightarrow> concat (map (\<lambda>field. numbered (\<lambda>i tool. if tool \<in> set known then []
            else finding_at ''UNKNOWN_TOOL_PERMISSION'' (''tool_permissions.'' @ indexed field i) (''Tool '' @ quoted tool
              @ '' is not present in Tool Contract '' @ quoted (str_text sh (opt_str (tool_contract_id tools))) @ ''.''))
            (actions_in (dget permissions field))) tool_permission_fields)
      | _ \<Rightarrow> [])"

definition tool_findings :: "shown \<Rightarrow> pydict \<Rightarrow> pydict \<Rightarrow> pydict \<Rightarrow> contract_finding list" where
  "tool_findings sh contract agent tools = permission_findings sh contract tools
     @ map (\<lambda>f. \<lparr>cf_code = ''TOOL_'' @ df_code f, cf_path = df_path f, cf_message = df_message f\<rparr>)
         (dr_findings (compare_agent_contract agent tools))"

text \<open>The messages of an input error, or the exception the validation raises.\<close>

datatype contract_failure = ContractRaised exn | ContractInput "string list" | ContractTools "contract_problem list"

definition compare_agent_contract_compatibility ::
  "shown \<Rightarrow> pydict \<Rightarrow> pydict \<Rightarrow> pydict option \<Rightarrow> contract_failure + contract_report" where
  "compare_agent_contract_compatibility sh contract agent tools =
     (case validate_agent_contract_data sh (PDict contract) of
        Inl e \<Rightarrow> Inl (ContractRaised e)
      | Inr es \<Rightarrow> if es \<noteq> [] then Inl (ContractInput es)
          else if \<not> nonblank_str (dget agent ''id'') then Inl (ContractInput [''agent: missing non-empty id''])
          else Inr \<lparr>cr_contract = text_at contract ''id'', cr_agent = text_at agent ''id'',
            cr_tools = (case tools of None \<Rightarrow> None | Some t \<Rightarrow> tool_contract_id t),
            cr_findings = sort_key (\<lambda>f. [cf_code f, cf_path f, cf_message f])
              (agent_findings sh contract agent @ authority_findings contract agent
               @ (case tools of None \<Rightarrow> [] | Some t \<Rightarrow> tool_findings sh contract agent t))\<rparr>)"

definition check_agent_contract_files ::
  "json_schema \<Rightarrow> shown \<Rightarrow> source_file \<Rightarrow> source_file \<Rightarrow> pyval option \<Rightarrow> contract_failure + contract_report" where
  "check_agent_contract_files js sh contract_file agent_file tools =
     (case load_yaml contract_file of
        Inl e \<Rightarrow> Inl (ContractRaised e)
      | Inr contract \<Rightarrow> (case validate_agent_contract_data sh (PDict contract) of
          Inl e \<Rightarrow> Inl (ContractRaised e)
        | Inr es \<Rightarrow> if es \<noteq> [] then Inl (ContractInput es)
            else (case bindE (load_yaml agent_file) (\<lambda>d. bindE (validate_agent d) (\<lambda>es. Inr (d, es))) of
                Inl e \<Rightarrow> Inl (ContractRaised e)
              | Inr (agent, fs) \<Rightarrow> if fs \<noteq> [] then Inl (ContractInput (map (\<lambda>e. ''agent: '' @ e) fs))
                  else (case tools of
                      None \<Rightarrow> compare_agent_contract_compatibility sh contract agent None
                    | Some v \<Rightarrow> (case load_tool_contract js v of
                        Inl ps \<Rightarrow> Inl (ContractTools ps)
                      | Inr t \<Rightarrow> compare_agent_contract_compatibility sh contract agent (Some t))))))"

definition format_agent_contract_text :: "contract_report \<Rightarrow> string" where
  "format_agent_contract_text r = join [CHR 0x0A]
     ([''AGENT CONTRACT COMPATIBILITY'', ''Status: '' @ (if contract_status r = ''drift'' then ''DRIFT'' else ''ALIGNED''),
       ''Agent Contract: '' @ cr_contract r, ''Agent: '' @ cr_agent r]
      @ (case cr_tools r of None \<Rightarrow> [] | Some t \<Rightarrow> [''Tool Contract: '' @ t])
      @ (if cr_findings r = [] then [''No compatibility findings.'']
         else ''Findings:'' # map (\<lambda>f. ''- ['' @ cf_code f @ ''] '' @ cf_path f @ '': '' @ cf_message f) (cr_findings r)))"

section \<open>What an aligned contract guarantees\<close>

lemma casefold_char_bracket: "CHR ''['' \<in> set (casefold_char c) \<Longrightarrow> c = CHR ''[''"
proof -
  have "CHR ''['' \<noteq> char_of (n + 32 :: nat)" if "65 \<le> n \<and> n \<le> 90 \<or> 192 \<le> n \<and> n \<le> 222" for n
  proof
    assume "CHR ''['' = char_of (n + 32)"
    then have "(of_char CHR ''['' :: nat) = (n + 32) mod 256" by simp
    with that show False by auto
  qed
  then show "CHR ''['' \<in> set (casefold_char c) \<Longrightarrow> c = CHR ''[''"
    by (auto simp: casefold_char_def Let_def split: if_splits)
qed

lemma casefold_no_bracket: "CHR ''['' \<notin> set s \<Longrightarrow> CHR ''['' \<notin> set (casefold s)"
  by (auto simp: casefold_def dest: casefold_char_bracket)

lemma matches_glob: "pattern_errors p = [] \<Longrightarrow> matches p key True \<longleftrightarrow> glob (casefold p) (casefold key)"
  by (simp add: matches_def fnmatchcase_glob casefold_no_bracket accepted_no_bracket)

lemma overlaps_any_meets: "overlaps_any p cs \<longleftrightarrow> (\<exists>c \<in> set cs. meets (casefold p) (casefold c))"
  by (simp add: overlaps_any_def list_ex_iff overlap_meets)

lemma pattern_list_accepts:
  "pattern_list_errors v path = [] \<Longrightarrow> p \<in> set (actions_in v) \<Longrightarrow> pattern_errors p = []"
proof -
  assume e: "pattern_list_errors v path = []" and "p \<in> set (actions_in v)"
  then have p: "PStr p \<in> set (items_of v)" by (auto simp: actions_in_def elim!: is_str.elims)
  then obtain i where i: "i < length (items_of v)" "items_of v ! i = PStr p" by (auto simp: in_set_conv_nth)
  have "string_errors (PStr p) (indexed path i) = []" "action_errors (PStr p) (indexed path i) = []"
    using e i by (auto simp: pattern_list_errors_def string_list_errors_def numbered_accepts split: if_splits)
  then show ?thesis by (auto simp: string_errors_def action_errors_def split: if_splits)
qed

lemma grant_accepts: "grant_findings code field suffix before rest for_it against acts = [] \<longleftrightarrow> (\<forall>act \<in> set acts. granted act for_it against)"
  by (auto simp: grant_findings_def finding_at_def numbered_accepts all_set_conv_all_nth)

lemma uncovered_accepts: "uncovered_findings code field what rest declared acts = [] \<longleftrightarrow> (\<forall>act \<in> set acts. overlaps_any act declared)"
  by (auto simp: uncovered_findings_def finding_at_def numbered_accepts all_set_conv_all_nth)

lemma approval_accepts:
  assumes "numbered approval_errors (items_of v) = []" "p \<in> set (approval_actions v)"
  shows "pattern_errors p = []"
proof -
  from assms(2) obtain d where d: "PDict d \<in> set (items_of v)" "is_str (dget d ''action'')" "p = text_at d ''action''"
    by (auto simp: approval_actions_def action_entries_def elim!: is_mapping.elims)
  then obtain i where i: "i < length (items_of v)" "items_of v ! i = PDict d" by (auto simp: in_set_conv_nth)
  have "approval_errors i (PDict d) = []" using assms(1) i by (auto simp: numbered_accepts)
  then have "dhas d ''action''" and e: "string_errors (dget d ''action'') (indexed ''approval_required'' i @ ''.action'') = []"
    "action_errors (dget d ''action'') (indexed ''approval_required'' i @ ''.action'') = []"
    by (auto simp: approval_errors_def Let_def split: if_splits)
  from d(2) obtain s where "dget d ''action'' = PStr s" by (cases "dget d ''action''") auto
  with e d(3) show ?thesis by (auto simp: string_errors_def action_errors_def text_at_def split: if_splits)
qed

text \<open>What a valid contract says of its patterns.\<close>

definition authority :: "pydict \<Rightarrow> string list" where
  "authority contract = actions_in (dget contract ''autonomous_actions'') @ approval_actions (dget contract ''approval_required'')"

lemma valid_patterns:
  assumes "validate_agent_contract_data sh (PDict d) = Inr []"
    "p \<in> set (authority d) \<union> set (actions_in (dget d ''forbidden_actions''))"
  shows "pattern_errors p = []"
proof -
  have e: "pattern_list_errors (dget d ''autonomous_actions'') ''autonomous_actions'' = []"
    "pattern_list_errors (dget d ''forbidden_actions'') ''forbidden_actions'' = []"
    "(if \<not> is_list (dget d ''approval_required'') then [''agent_contract: Field must be a list: approval_required'']
      else numbered approval_errors (items_of (dget d ''approval_required''))) = []"
    using assms(1) by (simp_all only: validate_agent_contract_data_def pyval.case gather_accepts says_accepts set_simps ball_simps append_is_Nil_conv)
  then have "numbered approval_errors (items_of (dget d ''approval_required'')) = []" by (simp split: if_splits)
  from pattern_list_accepts [OF e(1)] pattern_list_accepts [OF e(2)] approval_accepts [OF this] assms(2)
  show ?thesis by (auto simp: authority_def)
qed

lemma aligned_contract_accepts:
  assumes "compare_agent_contract_compatibility sh contract agent tools = Inr r" "contract_status r = ''aligned''"
  shows "validate_agent_contract_data sh (PDict contract) = Inr []"
    and "agent_findings sh contract agent = []" and "authority_findings contract agent = []"
    and "tools = Some t \<Longrightarrow> tool_findings sh contract agent t = []"
  using assms by (auto simp: compare_agent_contract_compatibility_def contract_status_def sort_Nil split: sum.splits if_splits)

lemma authority_accepts:
  assumes "authority_findings contract agent = []"
  shows "\<forall>p \<in> set (authority contract). granted p (actions_in (dget agent ''allowed_actions'')) (actions_in (dget agent ''blocked_actions''))"
    and "\<forall>f \<in> set (actions_in (dget contract ''forbidden_actions'')).
      granted f (actions_in (dget agent ''blocked_actions'')) (actions_in (dget agent ''allowed_actions'')) \<and> \<not> overlaps_any f (authority contract)"
    and "\<forall>a \<in> set (actions_in (dget agent ''allowed_actions'')). overlaps_any a (authority contract)"
    and "\<forall>b \<in> set (actions_in (dget agent ''blocked_actions'')). overlaps_any b (actions_in (dget contract ''forbidden_actions''))"
  using assms
  by (auto simp: authority_findings_def Let_def grant_accepts uncovered_accepts authority_def list_ex_iff finding_at_def split: if_splits)

text \<open>
  C18. In an aligned Agent Contract authority and prohibition are disjoint for every request: no key is matched, up to
  case, both by an autonomous or approval-required action and by a forbidden one, every granted action meets an allow
  entry and no block entry of the agent, every forbidden action meets a block entry and no allow entry, and the agent
  has no allow or block entry that the contract does not account for.
\<close>

theorem aligned_contract_separates:
  assumes "compare_agent_contract_compatibility sh contract agent tools = Inr r" "contract_status r = ''aligned''"
  shows "(\<forall>p \<in> set (authority contract). \<forall>f \<in> set (actions_in (dget contract ''forbidden_actions'')). \<forall>key.
        \<not> (matches p key True \<and> matches f key True)) \<and>
    (\<forall>p \<in> set (authority contract). (\<exists>a \<in> set (actions_in (dget agent ''allowed_actions'')). meets (casefold p) (casefold a)) \<and>
       (\<forall>b \<in> set (actions_in (dget agent ''blocked_actions'')). \<not> meets (casefold p) (casefold b))) \<and>
    (\<forall>f \<in> set (actions_in (dget contract ''forbidden_actions'')). (\<exists>b \<in> set (actions_in (dget agent ''blocked_actions'')). meets (casefold f) (casefold b)) \<and>
       (\<forall>a \<in> set (actions_in (dget agent ''allowed_actions'')). \<not> meets (casefold f) (casefold a))) \<and>
    (\<forall>a \<in> set (actions_in (dget agent ''allowed_actions'')). \<exists>p \<in> set (authority contract). meets (casefold a) (casefold p)) \<and>
    (\<forall>b \<in> set (actions_in (dget agent ''blocked_actions'')). \<exists>f \<in> set (actions_in (dget contract ''forbidden_actions'')). meets (casefold b) (casefold f))"
proof -
  note valid = valid_patterns [OF aligned_contract_accepts(1) [OF assms]]
  note accepted = authority_accepts [OF aligned_contract_accepts(3) [OF assms]]
  have "\<not> (matches p key True \<and> matches f key True)"
    if "p \<in> set (authority contract)" "f \<in> set (actions_in (dget contract ''forbidden_actions''))" for p f key
  proof -
    have "\<not> meets (casefold f) (casefold p)" using accepted(2) that by (auto simp: overlaps_any_meets)
    moreover have "pattern_errors p = []" "pattern_errors f = []" using valid that by blast+
    ultimately show ?thesis by (auto simp: matches_glob meets_def)
  qed
  with accepted show ?thesis unfolding granted_def overlaps_any_meets by blast
qed

section \<open>What it does not\<close>

definition sample_level :: "string \<Rightarrow> string \<Rightarrow> pyval" where
  "sample_level act level = PDict (obj [(''action'', PStr act), (''level'', PStr level), (''scope'', PStr ''x'')])"

definition texts_value :: "string list \<Rightarrow> pyval" where
  "texts_value ss = PList (map PStr ss)"

definition sample_agent_contract :: pydict where
  "sample_agent_contract = obj ([(''id'', PStr ''c''), (''version'', PStr ''1''), (''agent_id'', PStr ''a''), (''owner'', PStr ''o''), (''purpose'', PStr ''p''),
     (''action_levels'', PList [sample_level ''send:a*'' ''EXECUTE'', sample_level ''send:b*'' ''APPROVAL_REQUIRED'']),
     (''autonomous_actions'', texts_value [''send:a*'']),
     (''approval_required'', PList [PDict (obj [(''action'', PStr ''send:*''), (''approver'', PStr ''o'')])]),
     (''forbidden_actions'', texts_value [''drop'']),
     (''data_access'', PDict (obj [(''readable'', PList []), (''writable'', PList []), (''retention'', PStr ''x''), (''sensitive_data_handling'', PStr ''x'')])),
     (''tool_permissions'', PDict (obj [(''allowed_tools'', PList []), (''disallowed_tools'', PList [])])),
     (''failure_mode'', PDict (obj (map (\<lambda>f. (f, PStr ''stop'')) failure_mode_fields)))]
     @ map (\<lambda>f. (f, texts_value [''x''])) [''allowed_goals'', ''out_of_scope'', ''stop_conditions'', ''audit_requirements'', ''versioning'', ''policy_ids''])"

definition contract_agent :: pydict where
  "contract_agent = obj [(''id'', PStr ''a''), (''policies'', texts_value [''x'']), (''allowed_actions'', texts_value [''send:*'']),
     (''blocked_actions'', texts_value [''drop''])]"

theorem aligned_contract_separates_witness:
  "\<not> (matches ''send:*'' ''drop'' True \<and> matches ''drop'' ''drop'' True)"
proof -
  have "case compare_agent_contract_compatibility sample_shown sample_agent_contract contract_agent None of
      Inl _ \<Rightarrow> False | Inr r \<Rightarrow> contract_status r = ''aligned''" by code_simp
  then obtain r where r: "compare_agent_contract_compatibility sample_shown sample_agent_contract contract_agent None = Inr r"
    "contract_status r = ''aligned''" by (rule case_InrD [THEN exE]) blast
  have "''send:*'' \<in> set (authority sample_agent_contract)" "''drop'' \<in> set (actions_in (dget sample_agent_contract ''forbidden_actions''))"
    by code_simp+
  with aligned_contract_separates [OF r] show ?thesis by blast
qed

text \<open>
  Autonomous and approval-required authority are only compared as spellings: this contract is aligned although
  the request send:ab is matched both by its autonomous action and by its approval-required action.
\<close>

theorem overlapping_authority_is_aligned:
  "map_sum (\<lambda>_. ()) contract_status (compare_agent_contract_compatibility sample_shown sample_agent_contract contract_agent None) = Inr ''aligned'' \<and>
   actions_in (dget sample_agent_contract ''autonomous_actions'') = [''send:a*''] \<and>
   approval_actions (dget sample_agent_contract ''approval_required'') = [''send:*''] \<and>
   matches ''send:a*'' ''send:ab'' True \<and> matches ''send:*'' ''send:ab'' True"
proof (intro conjI)
  show "map_sum (\<lambda>_. ()) contract_status (compare_agent_contract_compatibility sample_shown sample_agent_contract contract_agent None) = Inr ''aligned''"
    by code_simp
qed code_simp+

end
