(* ===== verification/Coverage.thy ===== *)
theory Coverage
  imports Drift
begin

text \<open>
  \<^verbatim>\<open>governance_coverage.py\<close>: the manifest of sensitive functions and the check of the source syntax that protects
  them. Syntax trees are the parts of \<^verbatim>\<open>ast\<close> the check reads; reading and parsing a file under the root is a
  parameter. The property is what a covered report means; the last theorem is a boundary that protects nothing.
\<close>

section \<open>Manifests\<close>

definition coverage_boundaries :: "string list" where
  "coverage_boundaries = [''governed_decorator'', ''governance_gate'', ''bound_tool_target'']"

definition sensitive_effects :: "string list" where
  "sensitive_effects = [''code_execution'', ''credential_access'', ''database_write'', ''external_system_change'',
     ''financial_transaction'', ''filesystem_write'', ''message_send'', ''network_read'', ''network_write'', ''personal_data_access'']"

definition coverage_string_errors :: "pyval \<Rightarrow> string \<Rightarrow> string list" where
  "coverage_string_errors v path = (if nonblank_str v then [] else [''governance_coverage: Field must be a non-empty string: '' @ path])"

definition coverage_list_errors :: "pyval \<Rightarrow> string \<Rightarrow> bool \<Rightarrow> string list" where
  "coverage_list_errors v path non_empty =
     (if \<not> is_list v then [''governance_coverage: Field must be a list: '' @ path]
      else (if non_empty \<and> items_of v = [] then [''governance_coverage: List must not be empty: '' @ path] else [])
        @ numbered (\<lambda>i x. coverage_string_errors x (indexed path i)) (items_of v))"

text \<open>The components of a path, between slashes.\<close>

fun split_slash :: "string \<Rightarrow> string list" where
  "split_slash [] = [[]]"
| "split_slash (c # s) = (if c = CHR ''/'' then [] # split_slash s
     else (case split_slash s of [] \<Rightarrow> [[c]] | part # parts \<Rightarrow> (c # part) # parts))"

definition relative_source_errors :: "pyval \<Rightarrow> string \<Rightarrow> string list" where
  "relative_source_errors v path =
     (if coverage_string_errors v path \<noteq> [] then coverage_string_errors v path
      else (if take 1 (str_of v) = ''/'' then [''governance_coverage: Source must be relative: '' @ path] else [])
        @ (if CHR 0x5C \<in> set (str_of v) then [''governance_coverage: Source must use '' @ quoted ''/'' @ '' separators: '' @ path] else [])
        @ (if ''..'' \<in> set (split_slash (str_of v)) then [''governance_coverage: Source must stay within root: '' @ path] else []))"

definition entry_id_key :: "pydict \<Rightarrow> string option" where
  "entry_id_key d = (if nonblank_str (dget d ''id'') then Some (casefold (text_at d ''id'')) else None)"

definition entry_path_key :: "pydict \<Rightarrow> (string \<times> string) option" where
  "entry_path_key d = (if is_str (dget d ''source'') \<and> is_str (dget d ''symbol'')
     then Some (casefold (text_at d ''source''), casefold (text_at d ''symbol'')) else None)"

definition seen_in :: "'a option \<Rightarrow> 'a list \<Rightarrow> bool" where
  "seen_in k seen = (case k of None \<Rightarrow> False | Some x \<Rightarrow> x \<in> set seen)"

definition see :: "'a option \<Rightarrow> 'a list \<Rightarrow> 'a list" where
  "see k seen = (case k of None \<Rightarrow> seen | Some x \<Rightarrow> x # seen)"

definition effect_errors :: "string \<Rightarrow> pyval \<Rightarrow> string list" where
  "effect_errors path v = coverage_list_errors v (path @ ''.effects'') True
     @ numbered (\<lambda>i e. if is_str e \<and> str_of e \<notin> set sensitive_effects
         then [''governance_coverage: Unsupported sensitive effect: '' @ indexed (path @ ''.effects'') i] else []) (items_of v)"

definition entry_report :: "string \<Rightarrow> string list \<Rightarrow> (string \<times> string) list \<Rightarrow> pydict \<Rightarrow> report" where
  "entry_report path ids paths d = gather
     [says (missing_fields d [''id'', ''source'', ''symbol'', ''effects'', ''boundary''] (''governance_coverage: '' @ path)
        @ concat (map (\<lambda>f. if dhas d f then coverage_string_errors (dget d f) (path @ ''.'' @ f) else []) [''id'', ''symbol''])
        @ (if dhas d ''source'' then relative_source_errors (dget d ''source'') (path @ ''.source'') else [])
        @ (if dhas d ''effects'' then effect_errors path (dget d ''effects'') else [])),
      only_if (dhas d ''boundary'') (wrong_unless_in (dget d ''boundary'') coverage_boundaries
        (''governance_coverage: Invalid boundary: '' @ path @ ''.boundary'')),
      wrong_if (seen_in (entry_id_key d) ids) (''governance_coverage: Duplicate entry id: '' @ path @ ''.id''),
      wrong_if (seen_in (entry_path_key d) paths) (''governance_coverage: Duplicate source symbol: '' @ path)]"

fun entry_reports :: "nat \<Rightarrow> string list \<Rightarrow> (string \<times> string) list \<Rightarrow> pyval list \<Rightarrow> report list" where
  "entry_reports i ids paths [] = []"
| "entry_reports i ids paths (v # vs) = (case v of
       PDict d \<Rightarrow> entry_report (indexed ''entries'' i) ids paths d
         # entry_reports (Suc i) (see (entry_id_key d) ids) (see (entry_path_key d) paths) vs
     | _ \<Rightarrow> says [''governance_coverage: Entry must be an object: '' @ indexed ''entries'' i] # entry_reports (Suc i) ids paths vs)"

definition validate_governance_coverage_data :: "shown \<Rightarrow> pyval \<Rightarrow> report" where
  "validate_governance_coverage_data sh v = (case v of
       PDict d \<Rightarrow> gather
         [says (map (\<lambda>f. ''governance_coverage: Missing required field: '' @ f)
              (filter (\<lambda>f. \<not> dhas d f) [''schema_version'', ''type'', ''id'', ''entries''])
            @ concat (map (\<lambda>f. if dhas d f then coverage_string_errors (dget d f) f else []) [''schema_version'', ''type'', ''id''])
            @ (if dget d ''schema_version'' = PStr ''1.0'' then []
               else [''governance_coverage: Unsupported schema_version: '' @ repr_text sh (dget d ''schema_version'')])
            @ (if dget d ''type'' = PStr ''governance_coverage'' then []
               else [''governance_coverage: Field must equal governance_coverage: type''])),
          (if \<not> is_list (dget d ''entries'') then says [''governance_coverage: Field must be a list: entries'']
           else if items_of (dget d ''entries'') = [] then says [''governance_coverage: List must not be empty: entries'']
           else gather (entry_reports 0 [] [] (items_of (dget d ''entries''))))]
     | _ \<Rightarrow> says [''governance_coverage: YAML root must be an object''])"

section \<open>Source syntax\<close>

text \<open>
  A call has its function, arguments and keywords; a function definition, plain or async, its name, its decorators
  and its other children; every other node is its children.
\<close>

datatype ast =
    Name string
  | Attribute ast string
  | Call ast "ast list" "(string option \<times> ast) list"
  | FunctionDef string "ast list" "ast list"
  | Other "ast list"

text \<open>\<open>ast.walk\<close>; the checks do not depend on its order.\<close>

fun walk_ast :: "ast \<Rightarrow> ast list" where
  "walk_ast (Name s) = [Name s]"
| "walk_ast (Attribute value attr) = Attribute value attr # walk_ast value"
| "walk_ast (Call func args keywords) =
     Call func args keywords # walk_ast func @ concat (map walk_ast args) @ concat (map snd (map (map_prod id walk_ast) keywords))"
| "walk_ast (FunctionDef name decorators body) =
     FunctionDef name decorators body # concat (map walk_ast decorators) @ concat (map walk_ast body)"
| "walk_ast (Other children) = Other children # concat (map walk_ast children)"

fun name_of_function :: "ast \<Rightarrow> string option" where
  "name_of_function (Name s) = Some s"
| "name_of_function (Attribute value attr) = Some attr"
| "name_of_function _ = None"

fun call_name :: "ast \<Rightarrow> string option" where
  "call_name (Call func args keywords) = name_of_function func" | "call_name _ = None"

fun decorator_name :: "ast \<Rightarrow> string option" where
  "decorator_name (Name s) = Some s"
| "decorator_name (Attribute value attr) = Some attr"
| "decorator_name (Call func args keywords) = decorator_name func"
| "decorator_name _ = None"

fun defines_symbol :: "string \<Rightarrow> ast \<Rightarrow> bool" where
  "defines_symbol symbol (FunctionDef name decorators body) = (name = symbol)" | "defines_symbol symbol _ = False"

definition function_nodes :: "ast \<Rightarrow> string \<Rightarrow> ast list" where
  "function_nodes tree symbol = filter (defines_symbol symbol) (walk_ast tree)"

fun has_governed_decorator :: "ast \<Rightarrow> bool" where
  "has_governed_decorator (FunctionDef name decorators body) = list_ex (\<lambda>d. decorator_name d = Some ''governed'') decorators"
| "has_governed_decorator _ = False"

fun authorizes :: "ast \<Rightarrow> bool" where
  "authorizes (Call (Attribute value attr) args keywords) = (attr = ''authorize'')" | "authorizes _ = False"

definition has_governance_gate :: "ast \<Rightarrow> bool" where
  "has_governance_gate node = (list_ex (\<lambda>c. call_name c = Some ''GovernanceGate'') (walk_ast node) \<and> list_ex authorizes (walk_ast node))"

fun binds :: "string \<Rightarrow> ast \<Rightarrow> bool" where
  "binds symbol (Call func args keywords) = (name_of_function func = Some ''bind_tool'' \<and>
     list_ex (\<lambda>(arg, value). arg = Some ''target'' \<and> value = Name symbol) keywords)"
| "binds symbol _ = False"

definition has_bound_tool_target :: "ast \<Rightarrow> string \<Rightarrow> bool" where
  "has_bound_tool_target tree symbol = list_ex (binds symbol) (walk_ast tree)"

fun function_name :: "ast \<Rightarrow> string" where
  "function_name (FunctionDef name decorators body) = name" | "function_name _ = []"

definition boundary_present :: "ast \<Rightarrow> ast \<Rightarrow> string \<Rightarrow> bool" where
  "boundary_present tree node boundary =
     (if boundary = ''governed_decorator'' then has_governed_decorator node
      else if boundary = ''governance_gate'' then has_governance_gate node
      else if boundary = ''bound_tool_target'' then has_bound_tool_target tree (function_name node)
      else False)"

section \<open>The check\<close>

text \<open>What a source path under the root resolves to.\<close>

datatype source_state = OutsideRoot | NotAFile | Unreadable string | Parsed ast

record coverage_finding =
  gf_code :: string
  gf_path :: string
  gf_message :: string

definition coverage_finding_dict :: "coverage_finding \<Rightarrow> pyval" where
  "coverage_finding_dict f = PDict (obj [(''code'', PStr (gf_code f)), (''severity'', PStr ''error''), (''path'', PStr (gf_path f)),
     (''message'', PStr (gf_message f))])"

definition one_finding :: "string \<Rightarrow> string \<Rightarrow> string \<Rightarrow> coverage_finding list" where
  "one_finding code path message = [\<lparr>gf_code = code, gf_path = path, gf_message = message\<rparr>]"

definition symbol_findings :: "string \<Rightarrow> string \<Rightarrow> string \<Rightarrow> string \<Rightarrow> ast \<Rightarrow> coverage_finding list" where
  "symbol_findings path source symbol boundary tree =
     (let nodes = function_nodes tree symbol in
      if nodes = [] then one_finding ''SYMBOL_NOT_FOUND'' (path @ ''.symbol'')
        (''Function '' @ quoted symbol @ '' was not found in '' @ quoted source @ ''.'')
      else if 1 < length nodes then one_finding ''SYMBOL_AMBIGUOUS'' (path @ ''.symbol'')
        (''Function '' @ quoted symbol @ '' occurs multiple times in '' @ quoted source @ ''; use a unique symbol before relying on coverage.'')
      else if \<not> list_ex (\<lambda>n. boundary_present tree n boundary) nodes then one_finding ''BOUNDARY_BYPASS'' path
        (''Sensitive function '' @ quoted symbol @ '' in '' @ quoted source @ '' has no '' @ quoted boundary @ '' boundary.'')
      else [])"

definition entry_findings :: "(string \<Rightarrow> source_state) \<Rightarrow> nat \<Rightarrow> pydict \<Rightarrow> coverage_finding list" where
  "entry_findings files i d =
     (let path = indexed ''entries'' i; source = text_at d ''source'' in
      if \<not> is_str (dget d ''source'') \<or> \<not> is_str (dget d ''symbol'') \<or> \<not> is_str (dget d ''boundary'') then []
      else (case files source of
          OutsideRoot \<Rightarrow> one_finding ''SOURCE_OUTSIDE_ROOT'' (path @ ''.source'')
            (''Source '' @ quoted source @ '' resolves outside the configured root.'')
        | NotAFile \<Rightarrow> one_finding ''SOURCE_NOT_FOUND'' (path @ ''.source'') (''Source file '' @ quoted source @ '' was not found.'')
        | Unreadable problem \<Rightarrow> one_finding ''SOURCE_UNREADABLE'' (path @ ''.source'')
            (''Source '' @ quoted source @ '' could not be parsed safely: '' @ problem)
        | Parsed tree \<Rightarrow> symbol_findings path source (text_at d ''symbol'') (text_at d ''boundary'') tree))"

record coverage_report =
  gr_manifest :: string
  gr_entries :: nat
  gr_findings :: "coverage_finding list"

definition coverage_status :: "coverage_report \<Rightarrow> string" where
  "coverage_status r = (if gr_findings r = [] then ''covered'' else ''bypass'')"

definition coverage_report_dict :: "coverage_report \<Rightarrow> pydict" where
  "coverage_report_dict r = obj [(''schema_version'', PStr ''1.0''), (''mode'', PStr ''governance-coverage''), (''status'', PStr (coverage_status r)),
     (''manifest_id'', PStr (gr_manifest r)),
     (''summary'', PDict (obj [(''entries_checked'', PInt (int (gr_entries r))), (''total_findings'', PInt (int (length (gr_findings r)))),
        (''by_code'', PDict (counted (map gf_code (gr_findings r))))])),
     (''findings'', PList (map coverage_finding_dict (gr_findings r)))]"

datatype coverage_failure = CoverageRaised exn | CoverageInput "string list"

definition check_governance_coverage :: "shown \<Rightarrow> (string \<Rightarrow> source_state) \<Rightarrow> pydict \<Rightarrow> coverage_failure + coverage_report" where
  "check_governance_coverage sh files d = (case validate_governance_coverage_data sh (PDict d) of
       Inl e \<Rightarrow> Inl (CoverageRaised e)
     | Inr es \<Rightarrow> if es \<noteq> [] then Inl (CoverageInput es)
         else Inr \<lparr>gr_manifest = text_at d ''id'', gr_entries = length (items_of (dget d ''entries'')),
           gr_findings = sort_key (\<lambda>f. [gf_code f, gf_path f, gf_message f])
             (numbered (\<lambda>i v. case v of PDict e \<Rightarrow> entry_findings files i e | _ \<Rightarrow> []) (items_of (dget d ''entries'')))\<rparr>)"

definition check_governance_coverage_file :: "shown \<Rightarrow> (string \<Rightarrow> source_state) \<Rightarrow> source_file \<Rightarrow> coverage_failure + coverage_report" where
  "check_governance_coverage_file sh files f = (case load_yaml f of
       Inl e \<Rightarrow> Inl (CoverageRaised e) | Inr d \<Rightarrow> check_governance_coverage sh files d)"

definition format_governance_coverage_text :: "coverage_report \<Rightarrow> string" where
  "format_governance_coverage_text r = join [CHR 0x0A]
     ([''GOVERNANCE COVERAGE'', ''Status: '' @ (if coverage_status r = ''covered'' then ''COVERED'' else ''BYPASS''),
       ''Manifest: '' @ gr_manifest r, ''Entries checked: '' @ int_text (int (gr_entries r))]
      @ (if gr_findings r = [] then [''No coverage findings.'']
         else ''Findings:'' # map (\<lambda>f. ''- ['' @ gf_code f @ ''] '' @ gf_path f @ '': '' @ gf_message f) (gr_findings r)))"

section \<open>What a covered report means\<close>

lemma entry_reports_accept:
  "gather (entry_reports i ids paths vs) = Inr [] \<Longrightarrow> v \<in> set vs \<Longrightarrow> \<exists>d path ids paths. v = PDict d \<and> entry_report path ids paths d = Inr []"
proof (induction vs arbitrary: i ids paths)
  case (Cons w ws)
  obtain d where w: "w = PDict d" using Cons.prems(1) by (cases w) (auto simp: says_accepts)
  from Cons.prems(1) have e: "entry_report (indexed ''entries'' i) ids paths d = Inr []"
    "gather (entry_reports (Suc i) (see (entry_id_key d) ids) (see (entry_path_key d) paths) ws) = Inr []" by (auto simp: w)
  show ?case
  proof (cases "v = w")
    case True
    with e(1) w show ?thesis by blast
  next
    case False
    with Cons.IH [OF e(2)] Cons.prems(2) show ?thesis by simp
  qed
qed simp

lemma entry_accepts:
  assumes "entry_report path ids paths d = Inr []"
  shows "\<exists>s y b. dget d ''source'' = PStr s \<and> dget d ''symbol'' = PStr y \<and> dget d ''boundary'' = PStr b \<and> b \<in> set coverage_boundaries \<and>
    take 1 s \<noteq> ''/'' \<and> ''..'' \<notin> set (split_slash s)"
proof -
  note parts = assms [unfolded entry_report_def gather_accepts set_simps ball_simps says_accepts append_is_Nil_conv missing_fields_accepts
      only_if_accepts wrong_unless_in_accepts]
  have has: "\<forall>f \<in> set [''id'', ''source'', ''symbol'', ''effects'', ''boundary'']. dhas d f"
    and strings: "concat (map (\<lambda>f. if dhas d f then coverage_string_errors (dget d f) (path @ ''.'' @ f) else []) [''id'', ''symbol'']) = []"
    and source: "(if dhas d ''source'' then relative_source_errors (dget d ''source'') (path @ ''.source'') else []) = []"
    and boundary: "dhas d ''boundary'' \<longrightarrow> dget d ''boundary'' \<in> PStr ` set coverage_boundaries"
    using parts unfolding set_simps ball_simps by blast+
  have "dhas d ''source''" "dhas d ''symbol''" "dhas d ''boundary''" using has by simp_all
  with strings source boundary have "nonblank_str (dget d ''symbol'')" "relative_source_errors (dget d ''source'') (path @ ''.source'') = []"
    "dget d ''boundary'' \<in> PStr ` set coverage_boundaries" by (simp_all add: coverage_string_errors_def split: if_splits)
  then show ?thesis by (auto simp: relative_source_errors_def coverage_string_errors_def split: if_splits dest!: nonblank_text)
qed

lemma symbol_accepts:
  assumes "symbol_findings path source symbol boundary tree = []"
  shows "\<exists>f. function_nodes tree symbol = [f] \<and> boundary_present tree f boundary"
proof -
  have "function_nodes tree symbol \<noteq> []" "\<not> 1 < length (function_nodes tree symbol)"
    "list_ex (\<lambda>n. boundary_present tree n boundary) (function_nodes tree symbol)"
    using assms by (auto simp: symbol_findings_def Let_def one_finding_def split: if_splits)
  then show ?thesis by (cases "function_nodes tree symbol"; cases "tl (function_nodes tree symbol)") auto
qed

text \<open>
  C29. A covered report accounts for every entry of the manifest: each is an object that names a relative source without
  \<^verbatim>\<open>..\<close> and a known boundary, the source parses under the root, exactly one function in it carries the symbol, and the
  boundary is present for that function. Nothing is skipped, and no unreadable or ambiguous source is taken as covered.
\<close>

theorem covered_entries_are_bounded:
  assumes "check_governance_coverage sh files d = Inr r" "coverage_status r = ''covered''" "v \<in> set (items_of (dget d ''entries''))"
  shows "\<exists>e s y b tree f. v = PDict e \<and> dget e ''source'' = PStr s \<and> dget e ''symbol'' = PStr y \<and> dget e ''boundary'' = PStr b \<and>
    take 1 s \<noteq> ''/'' \<and> ''..'' \<notin> set (split_slash s) \<and> b \<in> set coverage_boundaries \<and>
    files s = Parsed tree \<and> function_nodes tree y = [f] \<and> boundary_present tree f b"
proof -
  let ?vs = "items_of (dget d ''entries'')"
  have valid: "validate_governance_coverage_data sh (PDict d) = Inr []"
    and clean: "numbered (\<lambda>i v. case v of PDict e \<Rightarrow> entry_findings files i e | _ \<Rightarrow> []) ?vs = []"
    using assms(1,2) by (auto simp: check_governance_coverage_def coverage_status_def sort_Nil split: sum.splits if_splits)
  have "gather (entry_reports 0 [] [] ?vs) = Inr []"
    using valid assms(3) by (auto simp: validate_governance_coverage_data_def says_accepts split: if_splits)
  from entry_reports_accept [OF this assms(3)] obtain e path ids paths where v: "v = PDict e" and e: "entry_report path ids paths e = Inr []" by blast
  from entry_accepts [OF e] obtain s y b where f: "dget e ''source'' = PStr s" "dget e ''symbol'' = PStr y" "dget e ''boundary'' = PStr b"
    "b \<in> set coverage_boundaries" "take 1 s \<noteq> ''/''" "''..'' \<notin> set (split_slash s)" by blast
  from assms(3) obtain i where "i < length ?vs" "?vs ! i = v" by (auto simp: in_set_conv_nth)
  with clean have "entry_findings files i e = []" by (auto simp: numbered_accepts v)
  then have "\<exists>tree. files s = Parsed tree \<and> symbol_findings (indexed ''entries'' i) s y b tree = []"
    by (cases "files s") (simp_all add: entry_findings_def Let_def f text_at_def one_finding_def)
  then obtain tree where tree: "files s = Parsed tree" and t: "symbol_findings (indexed ''entries'' i) s y b tree = []" by (elim exE conjE)
  from symbol_accepts [OF t] obtain g where "function_nodes tree y = [g]" "boundary_present tree g b" by (elim exE conjE)
  with v f tree show ?thesis by (intro exI conjI) assumption+
qed

definition coverage_entry :: pyval where
  "coverage_entry = PDict (obj [(''id'', PStr ''e''), (''source'', PStr ''app/pay.py''), (''symbol'', PStr ''pay''),
     (''effects'', PList [PStr ''financial_transaction'']), (''boundary'', PStr ''governance_gate'')])"

definition coverage_manifest :: pydict where
  "coverage_manifest = obj [(''schema_version'', PStr ''1.0''), (''type'', PStr ''governance_coverage''), (''id'', PStr ''m''),
     (''entries'', PList [coverage_entry])]"

text \<open>\<^verbatim>\<open>def pay(): transfer()\<close> with an inner function that creates a gate and authorizes, and that nobody calls.\<close>

definition unguarded_pay :: ast where
  "unguarded_pay = FunctionDef ''pay'' []
     [Call (Name ''transfer'') [] [],
      FunctionDef ''unused'' [] [Call (Name ''GovernanceGate'') [] [], Call (Attribute (Name ''gate'') ''authorize'') [] []]]"

definition pay_files :: "string \<Rightarrow> source_state" where
  "pay_files s = (if s = ''app/pay.py'' then Parsed (Other [unguarded_pay]) else NotAFile)"

definition pay_report :: "coverage_failure + coverage_report" where
  "pay_report = check_governance_coverage sample_shown pay_files coverage_manifest"

theorem covered_entries_are_bounded_witness: "\<exists>tree f. function_nodes tree ''pay'' = [f] \<and> boundary_present tree f ''governance_gate''"
proof -
  have "case pay_report of Inl _ \<Rightarrow> False | Inr r \<Rightarrow> coverage_status r = ''covered''" by code_simp
  then obtain r where r: "check_governance_coverage sample_shown pay_files coverage_manifest = Inr r" "coverage_status r = ''covered''"
    unfolding pay_report_def by (rule case_InrD [THEN exE]) blast
  have "coverage_entry \<in> set (items_of (dget coverage_manifest ''entries''))" by code_simp
  from covered_entries_are_bounded [OF r this] obtain e y b tree f where "coverage_entry = PDict e" "dget e ''symbol'' = PStr y"
    "dget e ''boundary'' = PStr b" "function_nodes tree y = [f]" "boundary_present tree f b" by blast
  moreover from this(1-3) have "y = ''pay''" "b = ''governance_gate''" by (auto simp: coverage_entry_def dget_def dget_or_def)
  ultimately show ?thesis by blast
qed

text \<open>
  The boundary of a governance gate is looked for anywhere in the function: a payment that is made without any
  check is covered when a nested function nobody calls creates a gate and authorizes.
\<close>

theorem unguarded_call_is_covered:
  "map_sum (\<lambda>_. ()) coverage_status pay_report = Inr ''covered'' \<and>
   (\<exists>rest. unguarded_pay = FunctionDef ''pay'' [] (Call (Name ''transfer'') [] [] # rest))"
proof
  show "map_sum (\<lambda>_. ()) coverage_status pay_report = Inr ''covered''" by code_simp
qed (simp add: unguarded_pay_def)

end
