(* ===== verification/Lifecycle.thy ===== *)
theory Lifecycle
  imports Validators Outcome
begin

text \<open>
  \<^verbatim>\<open>validator.py\<close>, second part: lifecycle maps, receipts and schemas, the outcome fields of a receipt, and process
  contracts. The outcome gate and this validator agree on the receipts the gate produces; an accepted process
  contract is a closed graph of stages.
\<close>

section \<open>Lifecycle modes\<close>

definition lifecycle_modes :: "string list" where
  "lifecycle_modes = [''prototyper'', ''builder'', ''sweeper'', ''grower'', ''maintainer'']"

definition lifecycle_mode_fields :: "string list" where
  "lifecycle_mode_fields = [''mode'', ''role_name'', ''mission'', ''allowed_inputs'', ''required_outputs'', ''hard_rules'',
     ''failure_conditions'', ''evidence_requirements'', ''never_do'', ''valid_handoff_targets'']"

definition lifecycle_mode_object :: "shown \<Rightarrow> pydict \<Rightarrow> string \<Rightarrow> report" where
  "lifecycle_mode_object sh d prefix = gather
     ([says (missing_fields d lifecycle_mode_fields prefix),
       says (string_list_values d [''allowed_inputs'', ''required_outputs'', ''hard_rules'', ''failure_conditions'',
         ''evidence_requirements'', ''never_do'', ''valid_handoff_targets''] prefix),
       only_if (dget d ''mode'' \<noteq> PNone) (wrong_unless_in (dget d ''mode'') lifecycle_modes
         (prefix @ '': Invalid lifecycle mode: '' @ str_text sh (dget d ''mode'')))]
      @ map (\<lambda>v. wrong_unless_in v lifecycle_modes (prefix @ '': Invalid handoff target: '' @ str_text sh v))
          (items_of (dget d ''valid_handoff_targets''))
      @ [says (text_fields d [''role_name'', ''mission''] prefix)])"

text \<open>\<open>seen\<close> holds the modes, which are texts; \<open>mode in seen\<close> raises for a value that cannot be hashed.\<close>

fun lifecycle_entries :: "shown \<Rightarrow> nat \<Rightarrow> string list \<Rightarrow> pyval list \<Rightarrow> (string list \<times> string list) result" where
  "lifecycle_entries sh i seen [] = Inr ([], seen)"
| "lifecycle_entries sh i seen (v # vs) =
     (let prefix = indexed ''lifecycle_modes'' i in
      case v of
        PDict d \<Rightarrow>
          bindE (gather [lifecycle_mode_object sh d prefix,
              bindE (in_set (dget d ''mode'') seen) (\<lambda>again. wrong_if again
                (prefix @ '': Duplicate lifecycle mode: '' @ str_text sh (dget d ''mode'')))]) (\<lambda>es.
            bindE (lifecycle_entries sh (Suc i) (case dget d ''mode'' of PStr m \<Rightarrow> m # seen | _ \<Rightarrow> seen) vs) (\<lambda>(fs, seen').
              Inr (es @ fs, seen')))
      | _ \<Rightarrow> bindE (lifecycle_entries sh (Suc i) seen vs) (\<lambda>(fs, seen'). Inr ((prefix @ '': Mode contract must be an object'') # fs, seen')))"

definition validate_lifecycle_map :: "shown \<Rightarrow> pydict \<Rightarrow> report" where
  "validate_lifecycle_map sh d =
     (if items_of (dget d ''lifecycle_modes'') = [] then says [''lifecycle_map: Missing or invalid required section: lifecycle_modes'']
      else bindE (lifecycle_entries sh 0 [] (items_of (dget d ''lifecycle_modes''))) (\<lambda>(es, seen).
        let missing = sort (filter (\<lambda>m. m \<notin> set seen) lifecycle_modes) in
        says (es @ (if missing = [] then [] else [''lifecycle_map: Missing lifecycle modes: '' @ join '', '' missing]))))"

section \<open>Outcome fields\<close>

definition outcome_statuses :: "string list" where
  "outcome_statuses = [''SUCCESS'', ''FAILED'', ''BLOCKED'', ''AWAITING_APPROVAL'', ''PARTIAL'']"

definition execution_states :: "string list" where
  "execution_states = [''completed'', ''failed'', ''blocked'', ''awaiting_approval'', ''partial'', ''timed_out'', ''interrupted'']"

definition outcome_reasons :: "string list" where
  "outcome_reasons = [''ACCEPTANCE_VERIFIED'', ''ACCEPTANCE_EVIDENCE_MISSING'', ''EXECUTION_FAILED'', ''EXECUTION_BLOCKED'',
     ''APPROVAL_PENDING'', ''EXECUTION_PARTIAL'']"

definition text_list :: "pyval \<Rightarrow> bool" where
  "text_list v = (is_list v \<and> list_all nonblank_str (items_of v))"

definition outcome_lists :: "string list" where
  "outcome_lists = [''satisfied_criterion_ids'', ''verified_evidence_refs'', ''missing_evidence_refs'']"

definition criterion_errors :: "nat \<Rightarrow> pyval \<Rightarrow> string list" where
  "criterion_errors i v =
     (let prefix = ''lifecycle_receipt: '' @ indexed ''acceptance_criteria'' i in
      case v of
        PDict c \<Rightarrow>
          (let refs = items_of (dget c ''required_evidence'') in
           (if nonblank_str (dget c ''criterion_id'') then [] else [prefix @ '': criterion_id must be a non-empty string''])
           @ (if refs = [] then [prefix @ '': required_evidence must be a non-empty list'']
              else if list_ex (\<lambda>r. \<not> nonblank_str r) refs then [prefix @ '': required_evidence must contain non-empty strings'']
              else if \<not> distinct refs then [prefix @ '': required_evidence must be unique''] else []))
      | _ \<Rightarrow> [prefix @ '' must be an object''])"

definition declared_criteria :: "pyval \<Rightarrow> string list" where
  "declared_criteria v = concat (map (\<lambda>c. case c of
     PDict d \<Rightarrow> if nonblank_str (dget d ''criterion_id'') then [str_of (dget d ''criterion_id'')] else [] | _ \<Rightarrow> []) (items_of v))"

text \<open>
  \<open>sorted(set(...))\<close> joined with commas: a value that cannot be hashed raises, and so does, when anything is left,
  a value that is no text.
\<close>

definition listed :: "string \<Rightarrow> pyval list \<Rightarrow> report" where
  "listed message vs =
     (if vs = [] then says []
      else if list_all is_str vs then says [message @ join '', '' (sort (remdups (map str_of vs)))]
      else Inl (Exc TypeError ''join''))"

definition hashed :: "pyval list \<Rightarrow> report \<Rightarrow> report" where
  "hashed vs r = (if list_all hashable vs then r else Inl unhashable)"

definition success_report :: "pydict \<Rightarrow> string list \<Rightarrow> report" where
  "success_report d ids =
     (let satisfied = dget d ''satisfied_criterion_ids'' in gather
       [wrong_if (dget d ''execution_state'' \<noteq> PStr ''completed'') ''lifecycle_receipt: SUCCESS requires execution_state completed'',
        wrong_if (dget d ''stop_reason'' \<noteq> PStr ''completed'') ''lifecycle_receipt: SUCCESS requires stop_reason completed'',
        wrong_if (dget d ''missing_evidence_refs'' \<noteq> PList []) ''lifecycle_receipt: SUCCESS cannot have missing evidence'',
        only_if (is_list satisfied) (hashed (items_of satisfied) (wrong_if (set (items_of satisfied) \<noteq> PStr ` set ids)
          ''lifecycle_receipt: SUCCESS requires every criterion to be satisfied''))])"

definition outcome_fields :: "pydict \<Rightarrow> report" where
  "outcome_fields d =
     (let ids = declared_criteria (dget d ''acceptance_criteria'');
          satisfied = dget d ''satisfied_criterion_ids'';
          verified = dget d ''verified_evidence_refs''; missing = dget d ''missing_evidence_refs'' in
      only_if (dhas d ''outcome_status'') (gather
       [says (missing_fields d [''execution_state'', ''acceptance_criteria'', ''satisfied_criterion_ids'', ''verified_evidence_refs'',
          ''missing_evidence_refs'', ''outcome_reason''] ''lifecycle_receipt.outcome''),
        wrong_unless_in (dget d ''outcome_status'') outcome_statuses ''lifecycle_receipt: Invalid outcome_status'',
        wrong_unless_in (dget d ''execution_state'') execution_states ''lifecycle_receipt: Invalid execution_state'',
        wrong_unless_in (dget d ''outcome_reason'') outcome_reasons ''lifecycle_receipt: Invalid outcome_reason'',
        says (if items_of (dget d ''acceptance_criteria'') = [] then [''lifecycle_receipt: acceptance_criteria must be a non-empty list'']
          else numbered criterion_errors (items_of (dget d ''acceptance_criteria''))),
        wrong_if (\<not> distinct ids) ''lifecycle_receipt: acceptance criterion IDs must be unique'',
        says (map (\<lambda>f. ''lifecycle_receipt: '' @ f @ '' must be a list of non-empty strings'')
          (filter (\<lambda>f. \<not> text_list (dget d f)) outcome_lists)),
        only_if (is_list satisfied \<and> ids \<noteq> []) (hashed (items_of satisfied)
          (listed ''lifecycle_receipt: satisfied_criterion_ids contains unknown IDs: ''
            (filter (\<lambda>v. v \<notin> PStr ` set ids) (items_of satisfied)))),
        only_if (is_list verified \<and> is_list missing) (hashed (items_of verified @ items_of missing)
          (listed ''lifecycle_receipt: evidence cannot be both verified and missing: ''
            (filter (\<lambda>v. list_ex (py_eq v) (items_of missing)) (items_of verified)))),
        only_if (dget d ''outcome_status'' = PStr ''SUCCESS'') (success_report d ids),
        wrong_if (dget d ''stop_reason'' = PStr ''completed'' \<and> dget d ''outcome_status'' \<noteq> PStr ''SUCCESS'')
          ''lifecycle_receipt: completed stop_reason requires SUCCESS outcome'']))"

section \<open>Lifecycle receipts and schemas\<close>

definition lifecycle_receipt_fields :: "string list" where
  "lifecycle_receipt_fields = [''task_id'', ''lifecycle_mode'', ''input_refs'', ''output_refs'', ''changed_files'',
     ''checks_run'', ''risks_detected'', ''next_recommended_mode'', ''stop_reason'', ''secrets_touched'',
     ''production_behavior_changed'', ''external_messages_sent'', ''services_restarted'']"

definition lifecycle_stop_reasons :: "string list" where
  "lifecycle_stop_reasons = [''completed'', ''blocked'', ''failed'', ''needs_approval'', ''handed_off'']"

definition validate_lifecycle_receipt :: "shown \<Rightarrow> pydict \<Rightarrow> report" where
  "validate_lifecycle_receipt sh d =
     (let p = ''lifecycle_receipt''; optional = (\<lambda>f names what. only_if (dget d f \<noteq> PNone)
        (wrong_unless_in (dget d f) names (''lifecycle_receipt: Invalid '' @ what @ '': '' @ str_text sh (dget d f)))) in gather
       [says (missing_fields d lifecycle_receipt_fields p),
        optional ''lifecycle_mode'' lifecycle_modes ''lifecycle_mode'',
        optional ''next_recommended_mode'' lifecycle_modes ''next_recommended_mode'',
        optional ''stop_reason'' lifecycle_stop_reasons ''stop_reason'',
        says (list_fields d [''input_refs'', ''output_refs'', ''changed_files'', ''checks_run'', ''risks_detected''] p),
        says (bool_fields d [''secrets_touched'', ''production_behavior_changed'', ''external_messages_sent'', ''services_restarted''] p),
        outcome_fields d])"

definition lifecycle_schema_fields :: "string list" where
  "lifecycle_schema_fields = [''$schema'', ''title'', ''type'', ''required'', ''properties'']"

definition validate_lifecycle_schema :: "pydict \<Rightarrow> report" where
  "validate_lifecycle_schema d = says
     (missing_fields d lifecycle_schema_fields ''lifecycle_schema''
      @ missing_fields d [''$defs''] ''lifecycle_schema''
      @ (if dhas d ''type'' \<and> dget d ''type'' \<noteq> PStr ''object'' then [''lifecycle_schema: Field must equal object: type''] else [])
      @ list_fields d [''required''] ''lifecycle_schema'' @ object_fields d [''properties'', ''$defs''] ''lifecycle_schema'')"

section \<open>Process contracts\<close>

definition stage_id_errors :: "string \<Rightarrow> string list \<Rightarrow> pydict \<Rightarrow> string list" where
  "stage_id_errors prefix ids stage =
     (if \<not> nonblank_str (dget stage ''id'') then [prefix @ '': id must be a non-empty string'']
      else if str_of (dget stage ''id'') \<in> set ids then [prefix @ '': Duplicate stage id: '' @ str_of (dget stage ''id'')] else [])"

definition stage_errors :: "string \<Rightarrow> string list \<Rightarrow> pydict \<Rightarrow> string list" where
  "stage_errors prefix ids stage =
     missing_fields stage [''id'', ''name'', ''purpose'', ''required_evidence'', ''outputs'', ''next_stages''] prefix
     @ stage_id_errors prefix ids stage
     @ map (\<lambda>f. prefix @ '': '' @ f @ '' must be a non-empty string'')
         (filter (\<lambda>f. dhas stage f \<and> \<not> nonblank_str (dget stage f)) [''name'', ''purpose''])
     @ map (\<lambda>f. prefix @ '': '' @ f @ '' must be a string list'')
         (filter (\<lambda>f. \<not> text_list (dget stage f)) [''required_evidence'', ''outputs'', ''next_stages''])"

text \<open>The first pass collects the stage ids it has accepted.\<close>

fun stages_pass :: "nat \<Rightarrow> string list \<Rightarrow> pyval list \<Rightarrow> string list \<times> string list" where
  "stages_pass i ids [] = ([], ids)"
| "stages_pass i ids (v # vs) =
     (let prefix = indexed ''process_contract.stages'' i in
      case v of
        PDict stage \<Rightarrow>
          (let r = stages_pass (Suc i) (if nonblank_str (dget stage ''id'') \<and> str_of (dget stage ''id'') \<notin> set ids
               then ids @ [str_of (dget stage ''id'')] else ids) vs
           in (stage_errors prefix ids stage @ fst r, snd r))
      | _ \<Rightarrow> (let r = stages_pass (Suc i) ids vs in ((prefix @ '': Stage must be an object'') # fst r, snd r)))"

definition next_stage_report :: "shown \<Rightarrow> string list \<Rightarrow> nat \<Rightarrow> pyval \<Rightarrow> report" where
  "next_stage_report sh ids i v = (case v of
       PDict stage \<Rightarrow> gather (map (\<lambda>target. wrong_unless_in target ids
         (indexed ''process_contract.stages'' i @ '': Unknown next stage: '' @ str_text sh target)) (items_of (dget stage ''next_stages'')))
     | _ \<Rightarrow> says [])"

definition stages_report :: "shown \<Rightarrow> pyval list \<Rightarrow> report" where
  "stages_report sh stages =
     (if stages = [] then says [''process_contract: Field must be a non-empty list: stages'']
      else gather (says (fst (stages_pass 0 [] stages))
        # map (\<lambda>(i, v). next_stage_report sh (snd (stages_pass 0 [] stages)) i v) (enumerate 0 stages)))"

definition process_contract_fields :: "string list" where
  "process_contract_fields = [''schema_version'', ''type'', ''id'', ''version'', ''owner'', ''purpose'',
     ''entry_condition'', ''terminal_outcomes'', ''stages'', ''handoffs'', ''metrics'', ''forbidden_shortcuts'']"

definition validate_process_contract :: "shown \<Rightarrow> pydict \<Rightarrow> report" where
  "validate_process_contract sh d = gather
     [says (missing_fields d process_contract_fields ''process_contract''),
      wrong_if (dget d ''schema_version'' \<noteq> PStr ''1.0'') (''process_contract: Unsupported schema_version: ''
        @ repr_text sh (dget d ''schema_version'') @ ''; expected '' @ quoted ''1.0''),
      wrong_if (dget d ''type'' \<noteq> PStr ''process_contract'') ''process_contract: Field must equal process_contract: type'',
      says (text_fields d [''id'', ''version'', ''owner'', ''purpose'', ''entry_condition''] ''process_contract''),
      says (map (\<lambda>f. ''process_contract: Field must be a non-empty string list: '' @ f)
        (filter (\<lambda>f. \<not> text_list (dget d f) \<or> items_of (dget d f) = []) [''terminal_outcomes'', ''handoffs'', ''metrics'', ''forbidden_shortcuts''])),
      stages_report sh (items_of (dget d ''stages''))]"

section \<open>Accepted process contracts\<close>

lemma stage_id_accepts: "stage_id_errors prefix ids stage = [] \<longleftrightarrow>
    nonblank_str (dget stage ''id'') \<and> str_of (dget stage ''id'') \<notin> set ids"
  by (simp add: stage_id_errors_def)

lemma stage_accepts:
  assumes "stage_errors prefix ids stage = []"
  shows "nonblank_str (dget stage ''id'')" "str_of (dget stage ''id'') \<notin> set ids" "text_list (dget stage ''next_stages'')"
  using assms by (simp_all add: stage_errors_def stage_id_accepts split: if_splits)

lemma stages_pass_accepts:
  "fst (stages_pass i ids vs) = [] \<Longrightarrow> distinct ids \<Longrightarrow>
    \<exists>ds. vs = map PDict ds \<and> snd (stages_pass i ids vs) = ids @ map (\<lambda>d. str_of (dget d ''id'')) ds \<and>
      distinct (ids @ map (\<lambda>d. str_of (dget d ''id'')) ds) \<and>
      (\<forall>d \<in> set ds. nonblank_str (dget d ''id'') \<and> text_list (dget d ''next_stages''))"
proof (induction vs arbitrary: i ids)
  case (Cons v vs)
  from Cons.prems(1) obtain stage where v: "v = PDict stage" by (cases v) (simp_all add: Let_def)
  let ?ids = "ids @ [str_of (dget stage ''id'')]"
  from Cons.prems(1) have e: "stage_errors (indexed ''process_contract.stages'' i) ids stage = []" by (simp add: v Let_def)
  note ok = stage_accepts [OF e]
  have step: "stages_pass i ids (v # vs) = (stage_errors (indexed ''process_contract.stages'' i) ids stage @ fst (stages_pass (Suc i) ?ids vs),
      snd (stages_pass (Suc i) ?ids vs))" using ok by (simp add: v Let_def)
  have "\<exists>ds. vs = map PDict ds \<and> snd (stages_pass (Suc i) ?ids vs) = ?ids @ map (\<lambda>d. str_of (dget d ''id'')) ds \<and>
      distinct (?ids @ map (\<lambda>d. str_of (dget d ''id'')) ds) \<and>
      (\<forall>d \<in> set ds. nonblank_str (dget d ''id'') \<and> text_list (dget d ''next_stages''))"
    using Cons.IH [of "Suc i" ?ids] Cons.prems ok step by simp
  then obtain ds where "vs = map PDict ds" "snd (stages_pass (Suc i) ?ids vs) = ?ids @ map (\<lambda>d. str_of (dget d ''id'')) ds"
    "distinct (?ids @ map (\<lambda>d. str_of (dget d ''id'')) ds)"
    "\<forall>d \<in> set ds. nonblank_str (dget d ''id'') \<and> text_list (dget d ''next_stages'')" by blast
  with ok show ?case unfolding step by (intro exI [of _ "stage # ds"]) (simp add: v)
qed simp

lemma next_stage_accepts:
  "next_stage_report sh ids i (PDict stage) = Inr [] \<longleftrightarrow> set (items_of (dget stage ''next_stages'')) \<subseteq> PStr ` set ids"
  by (auto simp: next_stage_report_def gather_accepts wrong_unless_in_accepts)

text \<open>
  An accepted process contract is a closed graph: its stages are objects with distinct, non-blank ids, and every
  entry of a \<^verbatim>\<open>next_stages\<close> list is the id of one of them.
\<close>

theorem accepted_process_contract:
  assumes "validate_process_contract sh d = Inr []"
  shows "\<exists>stages. dget d ''stages'' = PList (map PDict stages) \<and> stages \<noteq> [] \<and> distinct (map (\<lambda>s. dget s ''id'') stages) \<and>
    (\<forall>s \<in> set stages. nonblank_str (dget s ''id'') \<and>
      (\<exists>targets. dget s ''next_stages'' = PList targets \<and> set targets \<subseteq> (\<lambda>t. dget t ''id'') ` set stages))"
proof -
  let ?vs = "items_of (dget d ''stages'')" and ?id = "\<lambda>s. str_of (dget s ''id'')"
  have "stages_report sh ?vs = Inr []"
    using assms unfolding validate_process_contract_def gather_accepts by simp
  then have ne: "?vs \<noteq> []" and clean: "fst (stages_pass 0 [] ?vs) = []"
    and nexts: "\<forall>p \<in> set (enumerate 0 ?vs). next_stage_report sh (snd (stages_pass 0 [] ?vs)) (fst p) (snd p) = Inr []"
    by (auto simp: stages_report_def gather_accepts says_accepts split: if_splits)
  from stages_pass_accepts [OF clean] obtain ds where ds: "?vs = map PDict ds" "snd (stages_pass 0 [] ?vs) = map ?id ds"
    "distinct (map ?id ds)" "\<forall>s \<in> set ds. nonblank_str (dget s ''id'') \<and> text_list (dget s ''next_stages'')" by auto
  have id: "dget s ''id'' = PStr (?id s)" if "s \<in> set ds" for s using ds(4) that nonblank_text by blast
  have "dget d ''stages'' = PList (map PDict ds)" using ds(1) ne by (cases "dget d ''stages''") auto
  moreover have "distinct (map (\<lambda>s. dget s ''id'') ds)"
  proof (rule distinct_map [THEN iffD1, THEN conjunct1])
    show "distinct (map str_of (map (\<lambda>s. dget s ''id'') ds))" using ds(3) by (simp add: comp_def)
  qed
  moreover have "\<exists>targets. dget s ''next_stages'' = PList targets \<and> set targets \<subseteq> (\<lambda>t. dget t ''id'') ` set ds" if s: "s \<in> set ds" for s
  proof -
    from s obtain i where "i < length ds" "ds ! i = s" by (auto simp: in_set_conv_nth)
    then have "(i, PDict s) \<in> set (enumerate 0 ?vs)" unfolding ds(1) by (simp add: in_set_enumerate_eq)
    with nexts have "next_stage_report sh (snd (stages_pass 0 [] ?vs)) i (PDict s) = Inr []" by fastforce
    then have "set (items_of (dget s ''next_stages'')) \<subseteq> (\<lambda>t. PStr (?id t)) ` set ds"
      unfolding next_stage_accepts ds(2) by (simp add: image_image)
    moreover have "(\<lambda>t. PStr (?id t)) ` set ds = (\<lambda>t. dget t ''id'') ` set ds" using id by (auto simp: image_iff)
    moreover have "is_list (dget s ''next_stages'')" using ds(4) s by (simp add: text_list_def)
    ultimately show ?thesis by (cases "dget s ''next_stages''") auto
  qed
  ultimately show ?thesis using ds(1,4) ne by (intro exI [of _ ds]) auto
qed

section \<open>The gate and the receipt validator agree\<close>

lemma criterion_accepts:
  assumes "AcceptanceCriterion cid refs = Inr c"
  shows "\<not> blank (criterion_id c)" "required_evidence c \<noteq> []" "distinct (required_evidence c)"
    "\<forall>r \<in> set (required_evidence c). \<not> blank r"
  using assms by (auto simp: AcceptanceCriterion_def outcome_text_def dest: trimmed_text)

definition criterion_value :: "criterion \<Rightarrow> pyval" where
  "criterion_value c = PDict (obj [(''criterion_id'', PStr (criterion_id c)), (''required_evidence'', PList (map PStr (required_evidence c)))])"

lemma criterion_value_accepts:
  assumes "AcceptanceCriterion cid refs = Inr c"
  shows "criterion_errors i (criterion_value c) = []"
  using criterion_accepts [OF assms]
  by (auto simp: criterion_errors_def criterion_value_def dget_def dget_or_def Let_def list_ex_iff distinct_map inj_on_def)

lemma receipt_field:
  "dget (as_receipt_fields out @ rest) k = (case map_of [(''outcome_status'', PStr (status_text (status out))),
      (''execution_state'', PStr (execution_text (execution_state out))),
      (''acceptance_criteria'', PList (map criterion_value (acceptance_criteria out))),
      (''satisfied_criterion_ids'', PList (map PStr (satisfied_ids out))), (''verified_evidence_refs'', PList (map PStr (verified_refs out))),
      (''missing_evidence_refs'', PList (map PStr (missing_refs out))), (''outcome_reason'', PStr (reason_text (outcome_reason out)))] k of
    Some v \<Rightarrow> v | None \<Rightarrow> dget rest k)"
  by (simp add: as_receipt_fields_def criterion_value_def [abs_def] dget_def dget_or_def)

lemma receipt_has: "dhas (as_receipt_fields out @ rest) k \<longleftrightarrow> k \<in> {''outcome_status'', ''execution_state'', ''acceptance_criteria'',
    ''satisfied_criterion_ids'', ''verified_evidence_refs'', ''missing_evidence_refs'', ''outcome_reason''} \<or> dhas rest k"
  by (simp add: as_receipt_fields_def dhas_def)

lemma texts_of_enums:
  "status_text st \<in> set outcome_statuses" "execution_text ex \<in> set execution_states" "reason_text rs \<in> set outcome_reasons"
proof -
  show "status_text st \<in> set outcome_statuses" by (cases st) (simp_all add: status_text_def outcome_statuses_def)
  show "execution_text ex \<in> set execution_states" by (cases ex) (simp_all add: execution_text_def execution_states_def)
  show "reason_text rs \<in> set outcome_reasons" by (cases rs) (simp_all add: reason_text_def outcome_reasons_def)
qed

text \<open>What an evaluation of a well-formed gate produces.\<close>

lemma evaluated:
  assumes "OutcomeAcceptanceGate task criteria = Inr gate" "\<forall>c \<in> set criteria. \<exists>cid refs. AcceptanceCriterion cid refs = Inr c"
    "evaluate_outcome gate evidence state = Inr out"
  shows "acceptance_criteria out \<noteq> []" "distinct (map criterion_id (acceptance_criteria out))"
    "\<forall>c \<in> set (acceptance_criteria out). \<exists>cid refs. AcceptanceCriterion cid refs = Inr c"
    "set (satisfied_ids out) \<subseteq> criterion_id ` set (acceptance_criteria out)"
    "set (verified_refs out) \<inter> set (missing_refs out) = {}"
    "\<forall>r \<in> set (verified_refs out) \<union> set (missing_refs out). \<not> blank r"
    "status out = SUCCESS \<Longrightarrow> execution_state out = ex_completed \<and> missing_refs out = [] \<and>
       set (satisfied_ids out) = criterion_id ` set (acceptance_criteria out)"
proof -
  have gate: "gate_criteria gate = criteria" "criteria \<noteq> []" "distinct (map criterion_id criteria)"
    using assms(1) by (auto simp: OutcomeAcceptanceGate_def)
  let ?missing = "dedup (concat (map (criterion_missing evidence) criteria))" and ?met = "filter (\<lambda>c. criterion_missing evidence c = []) criteria"
  obtain st where out: "coerce_execution_state state = Inr st" "status out = fst (status_for st (?missing \<noteq> []))" "execution_state out = st"
    "acceptance_criteria out = criteria" "satisfied_ids out = map criterion_id ?met"
    "verified_refs out = dedup (concat (map required_evidence ?met))" "missing_refs out = ?missing"
    using assms(3) gate(1) by (auto simp: evaluate_outcome_def Let_def)
  show "acceptance_criteria out \<noteq> []" "distinct (map criterion_id (acceptance_criteria out))"
    "\<forall>c \<in> set (acceptance_criteria out). \<exists>cid refs. AcceptanceCriterion cid refs = Inr c"
    "set (satisfied_ids out) \<subseteq> criterion_id ` set (acceptance_criteria out)"
    using out(4,5) gate assms(2) by auto
  show "set (verified_refs out) \<inter> set (missing_refs out) = {}"
    unfolding out(6,7) by (auto simp: criterion_missing_def filter_empty_conv)
  have "\<not> blank r" if "c \<in> set criteria" "r \<in> set (required_evidence c)" for c r
    using assms(2) criterion_accepts(4) that by blast
  then show "\<forall>r \<in> set (verified_refs out) \<union> set (missing_refs out). \<not> blank r"
    unfolding out(6,7) by (auto simp: criterion_missing_def)
  show "status out = SUCCESS \<Longrightarrow> execution_state out = ex_completed \<and> missing_refs out = [] \<and>
       set (satisfied_ids out) = criterion_id ` set (acceptance_criteria out)"
    unfolding out(2-5,7) status_for_success by (auto simp: filter_id_conv)
qed

lemma declared_values: "\<forall>c \<in> set cs. \<not> blank (criterion_id c) \<Longrightarrow> declared_criteria (PList (map criterion_value cs)) = map criterion_id cs"
proof -
  have "(case criterion_value c of PDict d \<Rightarrow> if nonblank_str (dget d ''criterion_id'') then [str_of (dget d ''criterion_id'')] else [] | _ \<Rightarrow> [])
      = (if blank (criterion_id c) then [] else [criterion_id c])" for c
    by (simp add: criterion_value_def dget_def dget_or_def)
  then show "\<forall>c \<in> set cs. \<not> blank (criterion_id c) \<Longrightarrow> declared_criteria (PList (map criterion_value cs)) = map criterion_id cs"
    by (induction cs) (simp_all add: declared_criteria_def)
qed

text \<open>
  C30. The gate and the receipt validator agree: whatever a well-formed gate evaluates, a receipt that carries the
  outcome's fields and says \<^verbatim>\<open>completed\<close> exactly when the outcome is a success has no outcome error.
\<close>

theorem gate_receipts_validate:
  assumes "OutcomeAcceptanceGate task criteria = Inr gate" "\<forall>c \<in> set criteria. \<exists>cid refs. AcceptanceCriterion cid refs = Inr c"
    "evaluate_outcome gate evidence state = Inr out" "dget rest ''stop_reason'' = PStr ''completed'' \<longleftrightarrow> status out = SUCCESS"
  shows "outcome_fields (as_receipt_fields out @ rest) = Inr []"
proof -
  let ?d = "as_receipt_fields out @ rest" and ?ids = "map criterion_id (acceptance_criteria out)"
  note e = evaluated [OF assms(1-3)]
  have d: "dget ?d ''outcome_status'' = PStr (status_text (status out))" "dget ?d ''execution_state'' = PStr (execution_text (execution_state out))"
    "dget ?d ''acceptance_criteria'' = PList (map criterion_value (acceptance_criteria out))"
    "dget ?d ''satisfied_criterion_ids'' = PList (map PStr (satisfied_ids out))" "dget ?d ''verified_evidence_refs'' = PList (map PStr (verified_refs out))"
    "dget ?d ''missing_evidence_refs'' = PList (map PStr (missing_refs out))" "dget ?d ''outcome_reason'' = PStr (reason_text (outcome_reason out))"
    "dget ?d ''stop_reason'' = dget rest ''stop_reason''" by (simp_all add: receipt_field)
  have good: "\<not> blank (criterion_id c)" "criterion_errors i (criterion_value c) = []" if "c \<in> set (acceptance_criteria out)" for c i
    using e(3) that criterion_accepts(1) criterion_value_accepts by blast+
  then have ids: "declared_criteria (PList (map criterion_value (acceptance_criteria out))) = ?ids" by (intro declared_values) blast
  have criteria: "numbered criterion_errors (map criterion_value (acceptance_criteria out)) = []"
    using good(2) by (simp add: numbered_accepts)
  have lists: "filter (\<lambda>f. \<not> text_list (dget ?d f)) outcome_lists = []"
    using e(4,6) good(1) by (auto simp: d outcome_lists_def text_list_def list_all_iff)
  have success: "success_report ?d ?ids = Inr []" if "status out = SUCCESS"
    using e(7) [OF that] assms(4) that
    by (simp add: success_report_def d gather_accepts wrong_if_accepts only_if_accepts hashed_def list_all_iff Let_def execution_text_def image_image [symmetric])
  have hash: "hashed (map PStr ss) r = r" "hashed (map PStr ss @ map PStr ts) r = r" for ss ts r by (auto simp: hashed_def list_all_iff)
  have "filter (\<lambda>v. v \<notin> PStr ` set ?ids) (map PStr (satisfied_ids out)) = []" using e(4) by (auto simp: filter_empty_conv)
  then have unknown: "listed m (filter (\<lambda>v. v \<notin> PStr ` set ?ids) (map PStr (satisfied_ids out))) = Inr []" for m
    by (simp only: listed_def says_def if_True simp_thms)
  have "filter (\<lambda>v. list_ex (py_eq v) (map PStr (missing_refs out))) (map PStr (verified_refs out)) = []"
    using e(5) by (auto simp: filter_empty_conv list_ex_iff)
  then have overlap: "listed m (filter (\<lambda>v. list_ex (py_eq v) (map PStr (missing_refs out))) (map PStr (verified_refs out))) = Inr []" for m
    by (simp only: listed_def says_def if_True simp_thms)
  have named: "PStr (status_text (status out)) = PStr ''SUCCESS'' \<longleftrightarrow> status out = SUCCESS" by (cases "status out") (simp_all add: status_text_def)
  have missing: "missing_fields ?d [''execution_state'', ''acceptance_criteria'', ''satisfied_criterion_ids'', ''verified_evidence_refs'',
      ''missing_evidence_refs'', ''outcome_reason''] p = []" for p by (simp add: missing_fields_accepts receipt_has)
  have enum: "wrong_unless_in (PStr (status_text (status out))) outcome_statuses m = Inr []"
    "wrong_unless_in (PStr (execution_text (execution_state out))) execution_states m = Inr []"
    "wrong_unless_in (PStr (reason_text (outcome_reason out))) outcome_reasons m = Inr []" for m
    using texts_of_enums by (simp_all add: wrong_unless_in_accepts)
  show ?thesis
    unfolding outcome_fields_def Let_def d ids
    using e(1,2) success
    by (simp only: only_if_accepts gather_accepts set_simps ball_simps says_accepts missing enum criteria lists items_of.simps hash unknown
      overlap named wrong_if_accepts list.map_disc_iff if_False list.simps simp_thms) (use assms(4) in blast)
qed

section \<open>Witnesses\<close>

definition sample_stage :: "string \<Rightarrow> string list \<Rightarrow> pyval" where
  "sample_stage name targets = PDict (obj [(''id'', PStr name), (''name'', PStr name), (''purpose'', PStr ''p''), (''required_evidence'', PList []),
     (''outputs'', PList []), (''next_stages'', PList (map PStr targets))])"

definition sample_process :: pydict where
  "sample_process = obj ([(''schema_version'', PStr ''1.0''), (''type'', PStr ''process_contract''),
     (''stages'', PList [sample_stage ''draft'' [''review'', ''draft''], sample_stage ''review'' []])]
     @ map (\<lambda>f. (f, PStr ''x'')) [''id'', ''version'', ''owner'', ''purpose'', ''entry_condition'']
     @ map (\<lambda>f. (f, PList [PStr ''x''])) [''terminal_outcomes'', ''handoffs'', ''metrics'', ''forbidden_shortcuts''])"

theorem accepted_process_contract_witness:
  "\<exists>stages. dget sample_process ''stages'' = PList (map PDict stages) \<and> distinct (map (\<lambda>s. dget s ''id'') stages)"
proof -
  have "validate_process_contract sample_shown sample_process = Inr []" by code_simp
  from accepted_process_contract [OF this] show ?thesis by blast
qed

definition sample_criterion :: criterion where
  "sample_criterion = \<lparr>criterion_id = ''c'', required_evidence = [''e'']\<rparr>"

definition sample_outcome :: "task_outcome result" where
  "sample_outcome = bindE (OutcomeAcceptanceGate (PStr ''t'') [sample_criterion]) (\<lambda>gate.
     evaluate_outcome gate [(''e'', \<lparr>evidence_id = ''1'', ev_reference = ''e'', ev_verified = True\<rparr>)] ''completed'')"

theorem gate_receipts_validate_witness:
  "\<exists>out. sample_outcome = Inr out \<and> status out = SUCCESS \<and>
     outcome_fields (as_receipt_fields out @ obj [(''stop_reason'', PStr ''completed'')]) = Inr []"
proof -
  have "case sample_outcome of Inl _ \<Rightarrow> False | Inr out \<Rightarrow> status out = SUCCESS" by code_simp
  then obtain out where out: "sample_outcome = Inr out" "status out = SUCCESS" by (rule case_InrD [THEN exE]) blast
  then obtain gate where gate: "OutcomeAcceptanceGate (PStr ''t'') [sample_criterion] = Inr gate"
    "evaluate_outcome gate [(''e'', \<lparr>evidence_id = ''1'', ev_reference = ''e'', ev_verified = True\<rparr>)] ''completed'' = Inr out"
    by (auto simp: sample_outcome_def)
  have "AcceptanceCriterion (PStr ''c'') [PStr ''e''] = Inr sample_criterion" by code_simp
  then have c: "\<forall>c \<in> set [sample_criterion]. \<exists>cid refs. AcceptanceCriterion cid refs = Inr c" by auto
  have "dget (obj [(''stop_reason'', PStr ''completed'')]) ''stop_reason'' = PStr ''completed'' \<longleftrightarrow> status out = SUCCESS"
    using out(2) by (simp add: dget_def dget_or_def)
  from gate_receipts_validate [OF gate(1) c gate(2) this] out show ?thesis by blast
qed

end
