(* ===== verification/RegistryFile.thy ===== *)
theory RegistryFile
  imports AgentContract Coverage Lifecycle
begin

text \<open>
  The dispatch of \<^verbatim>\<open>validate_registry_file\<close>, over the validators of the file kinds. A kind nobody knows is an error, not
  an accepted file.
\<close>

text \<open>\<^verbatim>\<open>validate_tool_contract\<close>; its problems are rendered by \<open>problem_of\<close>.\<close>

record rendering =
  how_shown :: shown
  schema_rules :: json_schema
  explained :: "definition_error \<Rightarrow> string"
  problem_of :: "contract_problem \<Rightarrow> string"

definition load_source :: "source_file \<Rightarrow> pyval result" where
  "load_source f = (if \<not> present f then Inl (Exc FileNotFoundError ''File not found'') else parsed f)"

definition validate_tool_contract :: "rendering \<Rightarrow> source_file \<Rightarrow> report" where
  "validate_tool_contract re f = bindE (load_source f) (\<lambda>v. says (map (problem_of re) (tool_contract_errors (schema_rules re) v)))"

definition on_yaml :: "(pydict \<Rightarrow> report) \<Rightarrow> source_file \<Rightarrow> report" where
  "on_yaml validate f = bindE (load_yaml f) validate"

definition registry_validators :: "rendering \<Rightarrow> (string \<times> (source_file \<Rightarrow> report)) list" where
  "registry_validators re =
     [(''agent'', on_yaml validate_agent),
      (''agent-contract'', on_yaml (\<lambda>d. validate_agent_contract_data (how_shown re) (PDict d))),
      (''governance-coverage'', on_yaml (\<lambda>d. validate_governance_coverage_data (how_shown re) (PDict d))),
      (''tool-contract'', validate_tool_contract re),
      (''execution-context'', on_yaml validate_execution_context),
      (''department'', on_yaml validate_department),
      (''policy'', on_yaml (validate_policy (explained re))),
      (''skill'', on_yaml validate_skill),
      (''validator'', on_yaml validate_validator),
      (''runtime-example'', on_yaml validate_runtime_example),
      (''production-action-boundary-example'', on_yaml validate_production_action_boundary_example),
      (''process-contract'', on_yaml (validate_process_contract (how_shown re)))]"

definition validate_registry_file :: "rendering \<Rightarrow> string \<Rightarrow> source_file \<Rightarrow> report" where
  "validate_registry_file re entity_type f = (case map_of (registry_validators re) entity_type of
       None \<Rightarrow> says [''Unsupported entity type: '' @ entity_type] | Some validate \<Rightarrow> validate f)"

lemma accepted_kind: "validate_registry_file re entity_type f = Inr [] \<Longrightarrow> entity_type \<in> fst ` set (registry_validators re)"
  by (auto simp: validate_registry_file_def says_accepts split: option.splits dest: map_of_SomeD intro: rev_image_eqI)

lemma accepted_agent_file:
  "validate_registry_file re ''agent'' f = Inr [] \<Longrightarrow> \<exists>d. load_yaml f = Inr d \<and> validate_agent d = Inr []"
  by (simp add: validate_registry_file_def registry_validators_def on_yaml_def)

end
