(* ===== verification/PolicyTests.thy ===== *)
theory PolicyTests
  imports Gate Report
begin

text \<open>
  \<^verbatim>\<open>policy_tests.py\<close>: the strict loading of a policy-test suite and the run that compares each decision of a checker
  with the expected one. A suite that loaded is well formed, and a report passes exactly when every decision is the
  expected one. What the checker observes at each evaluation is an argument.
\<close>

section \<open>datetime.isoformat\<close>

definition digit_of :: "int \<Rightarrow> char" where
  "digit_of n = char_of (48 + nat n)"

fun padded :: "nat \<Rightarrow> int \<Rightarrow> string" where
  "padded 0 n = []" | "padded (Suc k) n = padded k (n div 10) @ [digit_of (n mod 10)]"

fun month_day :: "int \<Rightarrow> int \<Rightarrow> int list \<Rightarrow> int \<times> int" where
  "month_day m d [] = (m, d)"
| "month_day m d (l # ls) = (if d < l then (m, d + 1) else month_day (m + 1) (d - l) ls)"

text \<open>Day \<open>n\<close> after 1 January of year 1, by cycles of 400, 100, 4 and 1 years.\<close>

definition ymd_of :: "int \<Rightarrow> int \<times> int \<times> int" where
  "ymd_of n =
     (let n400 = n div 146097; r = n mod 146097; n100 = r div 36524; s = r mod 36524; n4 = s div 1461; t = s mod 1461;
          n1 = t div 365; u = t mod 365; y = 400 * n400 + 100 * n100 + 4 * n4 + n1 + 1
      in if n1 = 4 \<or> n100 = 4 then (y - 1, 12, 31) else (let md = month_day 1 u (month_lengths y) in (y, fst md, snd md)))"

definition clock_text :: "int \<Rightarrow> string" where
  "clock_text t = padded 2 (t div 3600000000) @ '':'' @ padded 2 (t div 60000000 mod 60) @ '':'' @ padded 2 (t div 1000000 mod 60)
     @ (if t mod 1000000 = 0 then [] else ''.'' @ padded 6 (t mod 1000000))"

definition offset_text :: "int \<Rightarrow> string" where
  "offset_text off = (let n = \<bar>off\<bar> in (if off < 0 then ''-'' else ''+'') @ padded 2 (n div 3600000000) @ '':'' @ padded 2 (n div 60000000 mod 60)
     @ (if n mod 60000000 = 0 then [] else '':'' @ padded 2 (n div 1000000 mod 60)
          @ (if n mod 1000000 = 0 then [] else ''.'' @ padded 6 (n mod 1000000))))"

definition isoformat :: "datetime \<Rightarrow> string" where
  "isoformat d = (let ymd = ymd_of (local_us d div 86400000000) in
     padded 4 (fst ymd) @ ''-'' @ padded 2 (fst (snd ymd)) @ ''-'' @ padded 2 (snd (snd ymd)) @ ''T'' @ clock_text (local_us d mod 86400000000)
     @ (case utc_offset d of None \<Rightarrow> [] | Some off \<Rightarrow> offset_text off))"

section \<open>Suites\<close>

record expectation =
  ex_result :: decision_result
  ex_reason :: reason_code
  ex_policies :: "string list"

record test_case =
  tc_id :: string
  tc_request :: action_request
  tc_expected :: expectation

record test_suite =
  ts_version :: string
  ts_time :: datetime
  ts_cases :: "test_case list"

definition result_text :: "decision_result \<Rightarrow> string" where
  "result_text r = (case r of ALLOWED \<Rightarrow> ''allowed'' | DENIED \<Rightarrow> ''denied'')"

definition expectation_dict :: "expectation \<Rightarrow> pyval" where
  "expectation_dict e = PDict (obj [(''result'', PStr (result_text (ex_result e))), (''reason_code'', PStr (reason_code_text (ex_reason e))),
     (''matched_policy_ids'', PList (map PStr (ex_policies e)))])"

definition value_error :: "string \<Rightarrow> exn" where
  "value_error what = Exc ValueError what"

definition mapping_at :: "pyval \<Rightarrow> pydict result" where
  "mapping_at v = (case v of
       PDict d \<Rightarrow> if list_all (\<lambda>(k, _). case k of KStr _ \<Rightarrow> True | KInt _ \<Rightarrow> False) d then Inr d else Inl (Exc TypeError ''keys'')
     | _ \<Rightarrow> Inl (Exc TypeError ''object''))"

definition known_fields :: "string list \<Rightarrow> pyval \<Rightarrow> pydict result" where
  "known_fields names v = bindE (mapping_at v) (\<lambda>d. if only_keys d names then Inr d else Inl (value_error ''unknown fields''))"

definition required_string :: "pyval \<Rightarrow> string result" where
  "required_string v = guarded [require (nonblank_str v) (value_error ''empty''),
     require (strip (str_of v) = str_of v) (value_error ''outer whitespace'')] (str_of v)"

definition fixed_time :: "pyval \<Rightarrow> datetime result" where
  "fixed_time v = bindE (required_string v) (\<lambda>s. case fromisoformat (normalize_zulu ''Zz'' s) of
       None \<Rightarrow> Inl (value_error ''timestamp'')
     | Some d \<Rightarrow> if aware d then Inr d else Inl (value_error ''timezone''))"

definition all_results :: "decision_result list" where
  "all_results = [ALLOWED, DENIED]"

definition all_reasons :: "reason_code list" where
  "all_reasons = [EXPLICITLY_ALLOWED, ALLOWED_NOT_BLOCKLISTED, ACTION_BLOCKLISTED, ACTION_NOT_ALLOWLISTED, UNKNOWN_AGENT,
     POLICY_SIGNAL_MISSING, APPROVAL_REQUIRED, EVIDENCE_REQUIRED, FAILURE_THRESHOLD_REACHED, BUNDLE_INTEGRITY_FAILED,
     SIGNATURE_INVALID, POLICY_EVALUATION_ERROR]"

definition enum_of :: "('a \<Rightarrow> string) \<Rightarrow> 'a list \<Rightarrow> pyval \<Rightarrow> 'a result" where
  "enum_of text_of members v = bindE (required_string v) (\<lambda>s. case find (\<lambda>m. text_of m = s) members of
       None \<Rightarrow> Inl (value_error ''member'') | Some m \<Rightarrow> Inr m)"

definition allowed_reasons :: "reason_code list" where
  "allowed_reasons = [EXPLICITLY_ALLOWED, ALLOWED_NOT_BLOCKLISTED]"

fun strings_of :: "pyval list \<Rightarrow> string list result" where
  "strings_of [] = Inr []"
| "strings_of (v # vs) = bindE (required_string v) (\<lambda>s. bindE (strings_of vs) (\<lambda>ss. Inr (s # ss)))"

definition expected_of :: "pyval \<Rightarrow> expectation result" where
  "expected_of v =
     bindE (known_fields [''result'', ''reason_code'', ''matched_policy_ids''] v) (\<lambda>d.
     bindE (enum_of result_text all_results (dget d ''result'')) (\<lambda>r.
     bindE (enum_of reason_code_text all_reasons (dget d ''reason_code'')) (\<lambda>reason.
     bindE (case dget d ''matched_policy_ids'' of PList vs \<Rightarrow> strings_of vs | _ \<Rightarrow> Inl (Exc TypeError ''list'')) (\<lambda>ids.
       guarded [require (distinct ids) (value_error ''duplicates''),
         require (\<not> (r = ALLOWED \<and> reason \<notin> set allowed_reasons)) (value_error ''allowed with a denial reason''),
         require (\<not> (r = DENIED \<and> reason \<in> set allowed_reasons)) (value_error ''denied with an allowance reason'')]
         \<lparr>ex_result = r, ex_reason = reason, ex_policies = ids\<rparr>))))"

text \<open>The optional fields in sorted order.\<close>

definition optional_string_fields :: "string list" where
  "optional_string_fields = [''actor_id'', ''approval_id'', ''arguments_digest'', ''environment'', ''resource'', ''session_id'',
     ''tenant_id'', ''tool_id'']"

definition request_names :: "string list" where
  "request_names = [''agent_id'', ''action'', ''attributes'', ''signals''] @ optional_string_fields"

definition request_keywords :: "string \<Rightarrow> datetime \<Rightarrow> pydict \<Rightarrow> pydict" where
  "request_keywords case_id fixed d = obj ([(''request_id'', PStr (''policy-test:'' @ case_id)), (''agent_id'', dget d ''agent_id''),
     (''action'', dget d ''action''), (''attributes'', dget_or d ''attributes'' (PDict [])), (''signals'', dget_or d ''signals'' (PDict [])),
     (''requested_at'', PStr (isoformat fixed))] @ map (\<lambda>f. (f, dget d f)) optional_string_fields)"

definition request_of :: "string \<Rightarrow> datetime \<Rightarrow> pyval \<Rightarrow> action_request result" where
  "request_of case_id fixed v =
     bindE (known_fields request_names v) (\<lambda>d.
     after (first_error (map (\<lambda>f. if dget d f = PNone then None else check_of (required_string (dget d f))) optional_string_fields
       @ map (\<lambda>f. require (is_mapping (dget_or d f (PDict []))) (Exc TypeError ''object'')) [''attributes'', ''signals'']
       @ map (\<lambda>f. check_of (required_string (dget d f))) [''agent_id'', ''action'']))
     (ActionRequest [] [] (request_keywords case_id fixed d)))"

fun load_cases :: "datetime \<Rightarrow> string list \<Rightarrow> pyval list \<Rightarrow> test_case list result" where
  "load_cases fixed seen [] = Inr []"
| "load_cases fixed seen (v # vs) =
     bindE (known_fields [''id'', ''request'', ''expect''] v) (\<lambda>d.
     bindE (required_string (dget d ''id'')) (\<lambda>name.
       if name \<in> set seen then Inl (value_error ''duplicate id'')
       else bindE (request_of name fixed (dget d ''request'')) (\<lambda>r. bindE (expected_of (dget d ''expect'')) (\<lambda>e.
         bindE (load_cases fixed (name # seen) vs) (\<lambda>cs. Inr (\<lparr>tc_id = name, tc_request = r, tc_expected = e\<rparr> # cs))))))"

text \<open>The argument is what reading, capping and parsing the file gives.\<close>

definition load_policy_test_suite :: "pyval result \<Rightarrow> test_suite result" where
  "load_policy_test_suite raw =
     bindE raw (\<lambda>v. bindE (known_fields [''schema_version'', ''fixed_time'', ''cases''] v) (\<lambda>d.
     bindE (required_string (dget d ''schema_version'')) (\<lambda>version.
       if before_dot version \<noteq> ''1'' then Inl (value_error ''schema'')
       else bindE (fixed_time (dget d ''fixed_time'')) (\<lambda>fixed.
         if items_of (dget d ''cases'') = [] then Inl (value_error ''cases'')
         else bindE (load_cases fixed [] (items_of (dget d ''cases''))) (\<lambda>cs.
           Inr \<lparr>ts_version = version, ts_time = fixed, ts_cases = cs\<rparr>)))))"

section \<open>Running a suite\<close>

record test_result =
  tr_id :: string
  tr_passed :: bool
  tr_expected :: expectation
  tr_actual :: expectation
  tr_mismatches :: "string list"

definition actual_of :: "policy_decision \<Rightarrow> expectation" where
  "actual_of d = \<lparr>ex_result = dec_result d, ex_reason = dec_reason d, ex_policies = matched_policy_ids d\<rparr>"

definition mismatches :: "shown \<Rightarrow> expectation \<Rightarrow> expectation \<Rightarrow> string list" where
  "mismatches sh expected actual =
     (let list_text = (\<lambda>ids. repr_text sh (PList (map PStr ids))) in
      (if ex_result actual = ex_result expected then []
       else [''result: expected '' @ result_text (ex_result expected) @ '', got '' @ result_text (ex_result actual)])
      @ (if ex_reason actual = ex_reason expected then []
         else [''reason_code: expected '' @ reason_code_text (ex_reason expected) @ '', got '' @ reason_code_text (ex_reason actual)])
      @ (if ex_policies actual = ex_policies expected then []
         else [''matched_policy_ids: expected '' @ list_text (ex_policies expected) @ '', got '' @ list_text (ex_policies actual)]))"

definition test_result_of :: "shown \<Rightarrow> test_case \<Rightarrow> policy_decision \<Rightarrow> test_result" where
  "test_result_of sh c d = (let found = mismatches sh (tc_expected c) (actual_of d) in
     \<lparr>tr_id = tc_id c, tr_passed = (found = []), tr_expected = tc_expected c, tr_actual = actual_of d, tr_mismatches = found\<rparr>)"

text \<open>The disk, the clock and the fresh id that evaluation \<open>i\<close> observes.\<close>

type_synonym observations = "nat \<Rightarrow> bundle_io \<times> datetime \<times> string"

fun run_cases :: "crypto \<Rightarrow> shown \<Rightarrow> observations \<Rightarrow> nat \<Rightarrow> test_case list \<Rightarrow> checker \<Rightarrow> test_result list result \<times> checker" where
  "run_cases cr sh obs i [] = raise_or (Inr [])"
| "run_cases cr sh obs i (c # cs) =
     bind_op (evaluate cr (fst (obs i)) (fst (snd (obs i))) (snd (snd (obs i))) (tc_request c)) (\<lambda>d.
     bind_op (run_cases cr sh obs (Suc i) cs) (\<lambda>rs. raise_or (Inr (test_result_of sh c d # rs))))"

record test_report =
  rp_version :: string
  rp_time :: string
  rp_digest :: string
  rp_revision :: string
  rp_results :: "test_result list"

definition run_policy_tests :: "crypto \<Rightarrow> shown \<Rightarrow> observations \<Rightarrow> test_suite \<Rightarrow> checker \<Rightarrow> test_report result \<times> checker" where
  "run_policy_tests cr sh obs suite = bind_op (run_cases cr sh obs 0 (ts_cases suite)) (\<lambda>rs ck. (Inr
     \<lparr>rp_version = ts_version suite, rp_time = isoformat (ts_time suite),
      rp_digest = (case active ck of None \<Rightarrow> [] | Some st \<Rightarrow> bundle_digest st),
      rp_revision = (case active ck of None \<Rightarrow> [] | Some st \<Rightarrow> str_text sh (policy_revision st)),
      rp_results = rs\<rparr>, ck))"

definition report_passed :: "test_report \<Rightarrow> bool" where
  "report_passed rp = list_all tr_passed (rp_results rp)"

definition passed_count :: "test_report \<Rightarrow> int" where
  "passed_count rp = int (length (filter tr_passed (rp_results rp)))"

definition failed_count :: "test_report \<Rightarrow> int" where
  "failed_count rp = int (length (rp_results rp)) - passed_count rp"

definition test_result_dict :: "test_result \<Rightarrow> pyval" where
  "test_result_dict r = PDict (obj [(''id'', PStr (tr_id r)), (''passed'', PBool (tr_passed r)), (''expected'', expectation_dict (tr_expected r)),
     (''actual'', expectation_dict (tr_actual r)), (''mismatches'', PList (map PStr (tr_mismatches r)))])"

definition test_report_dict :: "test_report \<Rightarrow> pydict" where
  "test_report_dict rp = obj [(''schema_version'', PStr (rp_version rp)), (''fixed_time'', PStr (rp_time rp)),
     (''bundle_digest'', PStr (rp_digest rp)), (''policy_revision'', PStr (rp_revision rp)),
     (''status'', PStr (if report_passed rp then ''passed'' else ''failed'')),
     (''summary'', PDict (obj [(''total'', PInt (int (length (rp_results rp)))), (''passed'', PInt (passed_count rp)),
        (''failed'', PInt (failed_count rp))])),
     (''cases'', PList (map test_result_dict (rp_results rp)))]"

section \<open>What a report means\<close>

text \<open>The decisions of the checker alone, one per case and in order.\<close>

fun evaluate_cases :: "crypto \<Rightarrow> observations \<Rightarrow> nat \<Rightarrow> test_case list \<Rightarrow> checker \<Rightarrow> policy_decision list result \<times> checker" where
  "evaluate_cases cr obs i [] = raise_or (Inr [])"
| "evaluate_cases cr obs i (c # cs) =
     bind_op (evaluate cr (fst (obs i)) (fst (snd (obs i))) (snd (snd (obs i))) (tc_request c)) (\<lambda>d.
     bind_op (evaluate_cases cr obs (Suc i) cs) (\<lambda>ds. raise_or (Inr (d # ds))))"

lemma mismatches_Nil: "mismatches sh e a = [] \<longleftrightarrow> a = e"
  by (cases e; cases a) (simp add: mismatches_def Let_def)

lemma run_cases_evaluate:
  "run_cases cr sh obs i cs ck = (Inr rs, ck') \<Longrightarrow>
    \<exists>ds. evaluate_cases cr obs i cs ck = (Inr ds, ck') \<and> length ds = length cs \<and> rs = map2 (test_result_of sh) cs ds"
proof (induction cs arbitrary: i ck rs)
  case (Cons c cs)
  from Cons.prems obtain d u rs' where "evaluate cr (fst (obs i)) (fst (snd (obs i))) (snd (snd (obs i))) (tc_request c) ck = (Inr d, u)"
    "run_cases cr sh obs (Suc i) cs u = (Inr rs', ck')" "rs = test_result_of sh c d # rs'" by (auto simp: ops)
  with Cons.IH [of "Suc i" u rs'] show ?case by (auto simp: ops)
qed (simp add: ops)

text \<open>
  A policy-test report passes exactly when the checker's decisions, taken in the order of the suite from one
  checker state, agree with every expectation in result, reason and consulted policies; an evaluation that raises ends
  the run without a report.
\<close>

theorem passing_report:
  assumes "run_policy_tests cr sh obs suite ck = (Inr rp, ck')"
  shows "\<exists>ds. evaluate_cases cr obs 0 (ts_cases suite) ck = (Inr ds, ck') \<and> length ds = length (ts_cases suite) \<and>
    (report_passed rp \<longleftrightarrow> map actual_of ds = map tc_expected (ts_cases suite)) \<and>
    failed_count rp = int (length (filter (\<lambda>(c, d). actual_of d \<noteq> tc_expected c) (zip (ts_cases suite) ds)))"
proof -
  from assms obtain rs where rs: "run_cases cr sh obs 0 (ts_cases suite) ck = (Inr rs, ck')" "rp_results rp = rs"
    by (auto simp: run_policy_tests_def ops)
  from run_cases_evaluate [OF rs(1)] obtain ds where ds: "evaluate_cases cr obs 0 (ts_cases suite) ck = (Inr ds, ck')"
    "length ds = length (ts_cases suite)" "rs = map2 (test_result_of sh) (ts_cases suite) ds" by blast
  have passed: "tr_passed (test_result_of sh c d) \<longleftrightarrow> actual_of d = tc_expected c" for c d
    by (simp add: test_result_of_def mismatches_Nil Let_def)
  have "list_all tr_passed (map2 (test_result_of sh) cs ds) \<longleftrightarrow> map actual_of ds = map tc_expected cs" if "length ds = length cs" for cs
    using that [symmetric] by (induction cs ds rule: list_induct2) (simp_all add: passed)
  moreover have "length (filter tr_passed (map2 (test_result_of sh) cs ds)) + length (filter (\<lambda>(c, d). actual_of d \<noteq> tc_expected c) (zip cs ds))
      = length (map2 (test_result_of sh) cs ds)" for cs
    by (induction cs ds rule: list_induct2') (simp_all add: passed)
  ultimately show ?thesis using ds rs(2)
    by (auto simp: report_passed_def failed_count_def passed_count_def algebra_simps simp flip: of_nat_add)
qed

lemma request_of_wf:
  assumes "request_of name fixed v = Inr r"
  shows "request_id r = ''policy-test:'' @ name \<and> wf_request r"
proof -
  from assms obtain d where r: "ActionRequest [] [] (request_keywords name fixed d) = Inr r" by (auto simp: request_of_def)
  have "dhas (request_keywords name fixed d) ''request_id''"
    "dget (with_default ''requested_at'' v (request_keywords name fixed d)) ''request_id'' = PStr (''policy-test:'' @ name)" for v
    by (simp_all add: request_keywords_def dhas_def dget_def dget_or_def with_default_def)
  with r have "request_id r = ''policy-test:'' @ name"
    by (auto simp: ActionRequest_def post_init_def request_fields_def with_default_def split: if_splits)
  moreover have "wf_request r" using ActionRequest_post_init [OF r] post_init_wf by blast
  ultimately show ?thesis ..
qed

lemma load_cases_wf:
  "load_cases fixed seen vs = Inr cs \<Longrightarrow> distinct (map tc_id cs) \<and> set (map tc_id cs) \<inter> set seen = {} \<and>
    (\<forall>c \<in> set cs. distinct (ex_policies (tc_expected c)) \<and>
      (ex_result (tc_expected c) = ALLOWED \<longleftrightarrow> ex_reason (tc_expected c) \<in> set allowed_reasons) \<and>
      request_id (tc_request c) = ''policy-test:'' @ tc_id c \<and> wf_request (tc_request c))"
proof (induction vs arbitrary: seen cs)
  case (Cons v vs)
  from Cons.prems obtain d name r e cs' where c: "name \<notin> set seen" "request_of name fixed (dget d ''request'') = Inr r"
    "expected_of (dget d ''expect'') = Inr e" "load_cases fixed (name # seen) vs = Inr cs'"
    "cs = \<lparr>tc_id = name, tc_request = r, tc_expected = e\<rparr> # cs'" by (auto split: if_splits)
  from c(3) have "distinct (ex_policies e) \<and> (ex_result e = ALLOWED \<longleftrightarrow> ex_reason e \<in> set allowed_reasons)"
    by (cases "ex_result e") (auto simp: expected_of_def)
  moreover from c(2) have "request_id r = ''policy-test:'' @ name \<and> wf_request r"
    by (rule request_of_wf)
  ultimately show ?case using Cons.IH [OF c(4)] c(1) by (auto simp: c(5))
qed simp

text \<open>
  A suite that loads is one whose expectations a checker could produce: it is not empty, its instant has an offset,
  its case ids are distinct and name its requests, every request is well formed, and every expectation pairs an allowance
  with an allowance reason and a denial with a denial reason.
\<close>

theorem loaded_suite:
  assumes "load_policy_test_suite raw = Inr suite"
  shows "ts_cases suite \<noteq> [] \<and> aware (ts_time suite) \<and> distinct (map tc_id (ts_cases suite)) \<and>
    (\<forall>c \<in> set (ts_cases suite). distinct (ex_policies (tc_expected c)) \<and>
      (ex_result (tc_expected c) = ALLOWED \<longleftrightarrow> ex_reason (tc_expected c) \<in> set allowed_reasons) \<and>
      request_id (tc_request c) = ''policy-test:'' @ tc_id c \<and> wf_request (tc_request c))"
proof -
  from assms obtain d vs fixed where f: "fixed_time (dget d ''fixed_time'') = Inr fixed" "items_of (dget d ''cases'') = vs" "vs \<noteq> []"
    "load_cases fixed [] vs = Inr (ts_cases suite)" "ts_time suite = fixed" by (auto simp: load_policy_test_suite_def split: if_splits)
  have "aware fixed" using f(1) by (auto simp: fixed_time_def split: option.splits if_splits)
  moreover have "ts_cases suite \<noteq> []" using f(3,4) by (cases vs) (auto split: if_splits)
  ultimately show ?thesis using load_cases_wf [OF f(4)] f(5) by blast
qed

definition sample_time :: datetime where
  "sample_time = (case fixed_time (PStr ''2026-01-10T00:00:00Z'') of Inl _ \<Rightarrow> sample_clock | Inr t \<Rightarrow> t)"

definition sample_case_value :: pyval where
  "sample_case_value = PDict (obj [(''agent_id'', PStr ''nobody''), (''action'', PStr ''read'')])"

definition sample_case_request :: action_request where
  "sample_case_request = (case request_of ''t1'' sample_time sample_case_value of Inl _ \<Rightarrow> sample_request | Inr r \<Rightarrow> r)"

definition sample_expect :: pyval where
  "sample_expect = PDict (obj [(''result'', PStr ''denied''), (''reason_code'', PStr ''UNKNOWN_AGENT''), (''matched_policy_ids'', PList [])])"

definition sample_expectation :: expectation where
  "sample_expectation = \<lparr>ex_result = DENIED, ex_reason = UNKNOWN_AGENT, ex_policies = []\<rparr>"

definition sample_suite_dict :: pydict where
  "sample_suite_dict = obj [(''schema_version'', PStr ''1.0''), (''fixed_time'', PStr ''2026-01-10T00:00:00Z''),
     (''cases'', PList [PDict (obj [(''id'', PStr ''t1''), (''request'', sample_case_value), (''expect'', sample_expect)])])]"

definition sample_suite :: test_suite where
  "sample_suite = \<lparr>ts_version = ''1.0'', ts_time = sample_time,
     ts_cases = [\<lparr>tc_id = ''t1'', tc_request = sample_case_request, tc_expected = sample_expectation\<rparr>]\<rparr>"

lemma sample_suite_loads: "load_policy_test_suite (Inr (PDict sample_suite_dict)) = Inr sample_suite"
proof -
  have request: "request_of ''t1'' sample_time sample_case_value = Inr sample_case_request" by code_simp
  have expect: "expected_of sample_expect = Inr sample_expectation" by code_simp
  have f: "fixed_time (dget sample_suite_dict ''fixed_time'') = Inr sample_time" by code_simp
  have d: "known_fields [''schema_version'', ''fixed_time'', ''cases''] (PDict sample_suite_dict) = Inr sample_suite_dict" by code_simp
  have v: "required_string (dget sample_suite_dict ''schema_version'') = Inr ''1.0''" "before_dot ''1.0'' = ''1''" by code_simp+
  let ?c = "obj [(''id'', PStr ''t1''), (''request'', sample_case_value), (''expect'', sample_expect)]"
  have cs: "items_of (dget sample_suite_dict ''cases'') = [PDict ?c]" by (simp add: sample_suite_dict_def dget_def dget_or_def)
  have c: "known_fields [''id'', ''request'', ''expect''] (PDict ?c) = Inr ?c"
    by (simp add: known_fields_def mapping_at_def only_keys_def)
  have fields: "dget ?c ''id'' = PStr ''t1''" "dget ?c ''request'' = sample_case_value" "dget ?c ''expect'' = sample_expect"
    by (simp_all add: dget_def dget_or_def)
  have n: "required_string (PStr ''t1'') = Inr ''t1''" by code_simp
  have "load_cases sample_time [] [PDict ?c] = Inr [\<lparr>tc_id = ''t1'', tc_request = sample_case_request, tc_expected = sample_expectation\<rparr>]"
    unfolding load_cases.simps c bindE_simps fields n request expect by simp
  then show ?thesis unfolding load_policy_test_suite_def bindE_simps d v f cs by (simp add: sample_suite_def)
qed

definition sample_observations :: observations where
  "sample_observations i = (sample_io [], sample_clock, ''x'')"

theorem loaded_suite_witness: "\<exists>suite. load_policy_test_suite (Inr (PDict sample_suite_dict)) = Inr suite \<and> ts_cases suite \<noteq> [] \<and> aware (ts_time suite)"
  using loaded_suite [OF sample_suite_loads] sample_suite_loads by blast

theorem passing_report_witness:
  "\<exists>ds ck ck'. evaluate_cases sample_flat sample_observations 0 (ts_cases sample_suite) ck = (Inr ds, ck') \<and> map actual_of ds = [sample_expectation]"
proof -
  let ?ck = "sample_checker\<lparr>active := Some (sample_state\<lparr>verified := None\<rparr>)\<rparr>"
  have "case fst (evaluate sample_flat (sample_io []) sample_clock ''x'' sample_case_request ?ck) of
      Inl _ \<Rightarrow> False | Inr d \<Rightarrow> actual_of d = sample_expectation" by code_simp
  then obtain d where "fst (evaluate sample_flat (sample_io []) sample_clock ''x'' sample_case_request ?ck) = Inr d"
    and d: "actual_of d = sample_expectation" by (rule case_InrD [THEN exE]) blast
  then obtain u where "evaluate sample_flat (sample_io []) sample_clock ''x'' sample_case_request ?ck = (Inr d, u)"
    by (cases "evaluate sample_flat (sample_io []) sample_clock ''x'' sample_case_request ?ck") simp
  then have "\<exists>rp. run_policy_tests sample_flat sample_shown sample_observations sample_suite ?ck = (Inr rp, u) \<and> report_passed rp"
    by (simp add: run_policy_tests_def sample_suite_def sample_observations_def ops report_passed_def test_result_of_def mismatches_Nil Let_def d)
  then obtain rp where run: "run_policy_tests sample_flat sample_shown sample_observations sample_suite ?ck = (Inr rp, u)" "report_passed rp" by blast
  have "map tc_expected (ts_cases sample_suite) = [sample_expectation]" by (simp add: sample_suite_def)
  with passing_report [OF run(1)] run(2) show ?thesis by metis
qed

end
