(* ===== verification/McpConformance.thy ===== *)
theory McpConformance
  imports ToolContract Report
begin

text \<open>
  \<^verbatim>\<open>mcp_conformance.py\<close>: the validation of one \<^verbatim>\<open>tools/call\<close> request, of a response and of a conformance fixture. The
  JSON Schema library is the parameter of the tool contracts; constructing its validator does not check the schema, so
  a schema that is none raises when it is evaluated. The properties: what an accepted fixture states, and the success
  response it does not check.
\<close>

section \<open>Fields\<close>

definition mcp_error :: "string \<Rightarrow> exn" where
  "mcp_error code = Exc MCPToolsCallValidationError code"

definition require_object :: "pyval \<Rightarrow> pydict result" where
  "require_object v = (case v of PDict d \<Rightarrow> Inr d | _ \<Rightarrow> Inl (mcp_error ''MCP_OBJECT_REQUIRED''))"

definition require_text :: "pyval \<Rightarrow> check" where
  "require_text v = require (trimmed_str v) (mcp_error ''MCP_TEXT_INVALID'')"

definition check_fields :: "pydict \<Rightarrow> string list \<Rightarrow> string list \<Rightarrow> check list" where
  "check_fields d allowed required =
     [require (list_all (\<lambda>(k, _). case k of KStr _ \<Rightarrow> True | KInt _ \<Rightarrow> False) d) (mcp_error ''MCP_FIELDS_INVALID''),
      require (only_keys d allowed) (mcp_error ''MCP_UNKNOWN_FIELD''),
      require (has_keys d required) (mcp_error ''MCP_REQUIRED_FIELD_MISSING'')]"

definition check_request_id :: "pyval \<Rightarrow> check" where
  "check_request_id v = require (is_str v \<or> plain_int v \<noteq> None) (mcp_error ''MCP_REQUEST_ID_INVALID'')"

definition check_arguments_schema :: "json_schema \<Rightarrow> pydict \<Rightarrow> pydict \<Rightarrow> check" where
  "check_arguments_schema js arguments schema = (case violations js (PDict schema) (PDict arguments) of
       None \<Rightarrow> Some (Exc RuntimeError ''jsonschema'')
     | Some es \<Rightarrow> require (es = []) (mcp_error ''MCP_ARGUMENTS_INVALID''))"

section \<open>Requests\<close>

definition mcp_request_fields :: "string list" where
  "mcp_request_fields = [''jsonrpc'', ''id'', ''method'', ''params'']"

definition param_fields :: "string list" where
  "param_fields = [''name'', ''arguments'', ''_meta'', ''task'']"

definition object_field :: "pydict \<Rightarrow> string \<Rightarrow> check" where
  "object_field d f = (if dhas d f then check_of (require_object (dget d f)) else None)"

definition params_checks :: "json_schema \<Rightarrow> string option \<Rightarrow> pydict option \<Rightarrow> pydict \<Rightarrow> check list" where
  "params_checks js expected_name schema p = check_fields p param_fields [''name'']
     @ [require_text (dget p ''name''),
        require (case expected_name of None \<Rightarrow> True | Some s \<Rightarrow> dget p ''name'' = PStr s) (mcp_error ''MCP_TOOL_NAME_MISMATCH''),
        object_field p ''arguments'', object_field p ''_meta'', object_field p ''task'',
        (case schema of None \<Rightarrow> None | Some sc \<Rightarrow> check_arguments_schema js (mapping_or_empty (dget p ''arguments'')) sc)]"

definition validate_mcp_tools_call_request :: "json_schema \<Rightarrow> string option \<Rightarrow> pydict option \<Rightarrow> pyval \<Rightarrow> pydict result" where
  "validate_mcp_tools_call_request js expected_name schema request =
     bindE (require_object request) (\<lambda>d.
     after (first_error (check_fields d mcp_request_fields mcp_request_fields
       @ [require (dget d ''jsonrpc'' = PStr ''2.0'') (mcp_error ''MCP_JSONRPC_VERSION_UNSUPPORTED''),
          check_request_id (dget d ''id''),
          require (dget d ''method'' = PStr ''tools/call'') (mcp_error ''MCP_METHOD_INVALID'')]))
     (bindE (require_object (dget d ''params'')) (\<lambda>p. guarded (params_checks js expected_name schema p) d)))"

section \<open>Responses\<close>

definition response_fields :: "string list" where
  "response_fields = [''jsonrpc'', ''id'', ''result'', ''error'']"

definition error_fields :: "string list" where
  "error_fields = [''code'', ''message'', ''data'']"

definition content_check :: "pyval \<Rightarrow> check" where
  "content_check v = check_of (bindE (require_object v) (\<lambda>d. guarded
     [require_text (dget d ''type''), require (2 \<le> length d) (mcp_error ''MCP_CONTENT_INVALID'')] ()))"

definition validate_content :: "pyval \<Rightarrow> check" where
  "validate_content v = (case v of PList vs \<Rightarrow> first_error (map content_check vs) | _ \<Rightarrow> Some (mcp_error ''MCP_CONTENT_INVALID''))"

text \<open>The defined members are checked in the order of a set; one order is fixed here.\<close>

definition result_checks :: "pydict \<Rightarrow> check list" where
  "result_checks r =
     [object_field r ''_meta'', object_field r ''structuredContent'',
      require (dhas r ''isError'' \<longrightarrow> is_bool (dget r ''isError'')) (mcp_error ''MCP_RESULT_FLAG_INVALID''),
      require (dhas r ''content'') (mcp_error ''MCP_REQUIRED_FIELD_MISSING''), validate_content (dget r ''content'')]"

definition error_checks :: "pydict \<Rightarrow> check list" where
  "error_checks e = check_fields e error_fields [''code'', ''message'']
     @ [require (plain_int (dget e ''code'') \<noteq> None) (mcp_error ''MCP_ERROR_CODE_INVALID''), require_text (dget e ''message'')]"

definition validate_mcp_tools_call_response :: "pyval option \<Rightarrow> pyval \<Rightarrow> pydict result" where
  "validate_mcp_tools_call_response expected_id response =
     bindE (require_object response) (\<lambda>d.
     after (first_error (check_fields d response_fields [''jsonrpc'', ''id'']
       @ [require (dget d ''jsonrpc'' = PStr ''2.0'') (mcp_error ''MCP_JSONRPC_VERSION_UNSUPPORTED''),
          check_request_id (dget d ''id''),
          require (case expected_id of None \<Rightarrow> True | Some i \<Rightarrow> dget d ''id'' = i) (mcp_error ''MCP_RESPONSE_ID_MISMATCH''),
          require (dhas d ''result'' \<noteq> dhas d ''error'') (mcp_error ''MCP_RESPONSE_SHAPE_INVALID'')]))
     (if dhas d ''error'' then bindE (require_object (dget d ''error'')) (\<lambda>e. guarded (error_checks e) d)
      else bindE (require_object (dget d ''result'')) (\<lambda>r. guarded (result_checks r) d)))"

section \<open>Fixtures\<close>

definition fixture_fields :: "string list" where
  "fixture_fields = [''schema_version'', ''type'', ''id'', ''tool_name'', ''argument_schema'', ''request'', ''success_response'',
     ''tool_error_response'', ''protocol_error_response'']"

definition response_at :: "pydict \<Rightarrow> pyval \<Rightarrow> string \<Rightarrow> check" where
  "response_at d rid field = check_of (validate_mcp_tools_call_response (Some rid) (dget d field))"

text \<open>\<open>fixture["tool_error_response"]["result"]\<close> raises a \<open>KeyError\<close> when the response carries an error.\<close>

definition tool_error_check :: "pydict \<Rightarrow> check" where
  "tool_error_check d = (let response = mapping_or_empty (dget d ''tool_error_response'') in
     if \<not> dhas response ''result'' then Some (Exc KeyError ''result'')
     else require (case dget response ''result'' of PDict r \<Rightarrow> dget r ''isError'' = PBool True | _ \<Rightarrow> False)
       (mcp_error ''MCP_TOOL_ERROR_SHAPE_INVALID''))"

definition validate_mcp_tools_call_fixture :: "json_schema \<Rightarrow> pyval \<Rightarrow> pydict result" where
  "validate_mcp_tools_call_fixture js data =
     bindE (require_object data) (\<lambda>d.
     after (first_error (check_fields d fixture_fields fixture_fields
       @ [require (dget d ''schema_version'' = PStr ''1.0'') (mcp_error ''MCP_FIXTURE_VERSION_UNSUPPORTED''),
          require (dget d ''type'' = PStr ''mcp_tools_call_conformance'') (mcp_error ''MCP_FIXTURE_TYPE_INVALID''),
          require_text (dget d ''id''), require_text (dget d ''tool_name'')]))
     (bindE (require_object (dget d ''argument_schema'')) (\<lambda>schema.
      bindE (validate_mcp_tools_call_request js (Some (str_of (dget d ''tool_name''))) (Some schema) (dget d ''request'')) (\<lambda>request.
        guarded ([check_request_id (dget request ''id'')]
          @ map (response_at d (dget request ''id'')) [''success_response'', ''tool_error_response'', ''protocol_error_response'']
          @ [tool_error_check d,
             require (dhas (mapping_or_empty (dget d ''protocol_error_response'')) ''error'') (mcp_error ''MCP_PROTOCOL_ERROR_SHAPE_INVALID'')]) d))))"

text \<open>\<open>None\<close> is a file that cannot be read or parsed.\<close>

definition load_mcp_tools_call_fixture :: "json_schema \<Rightarrow> pyval option \<Rightarrow> pydict result" where
  "load_mcp_tools_call_fixture js raw = (case raw of
       None \<Rightarrow> Inl (mcp_error ''MCP_FIXTURE_UNREADABLE'') | Some v \<Rightarrow> validate_mcp_tools_call_fixture js v)"

section \<open>What an accepted fixture states\<close>

lemma require_object_Inr [simp]: "require_object v = Inr d \<longleftrightarrow> v = PDict d"
  by (cases v) (auto simp: require_object_def)

lemma accepted_request:
  assumes "validate_mcp_tools_call_request js name schema v = Inr d"
  shows "v = PDict d" "dget d ''method'' = PStr ''tools/call''" "check_request_id (dget d ''id'') = None"
    "\<exists>p. dget d ''params'' = PDict p \<and> (\<forall>s. name = Some s \<longrightarrow> dget p ''name'' = PStr s) \<and>
      (\<forall>sc. schema = Some sc \<longrightarrow> violations js (PDict sc) (PDict (mapping_or_empty (dget p ''arguments''))) = Some [])"
proof -
  from assms obtain p where p: "dget d ''params'' = PDict p" "\<forall>c \<in> set (params_checks js name schema p). c = None"
    and d: "v = PDict d" "dget d ''method'' = PStr ''tools/call''" "check_request_id (dget d ''id'') = None"
    by (auto simp: validate_mcp_tools_call_request_def guards simp del: first_error_append)
  have "require (case name of None \<Rightarrow> True | Some s \<Rightarrow> dget p ''name'' = PStr s) (mcp_error ''MCP_TOOL_NAME_MISMATCH'') = None"
    "(case schema of None \<Rightarrow> None | Some sc \<Rightarrow> check_arguments_schema js (mapping_or_empty (dget p ''arguments'')) sc) = None"
    using p(2) by (simp_all add: params_checks_def)
  then have "\<forall>s. name = Some s \<longrightarrow> dget p ''name'' = PStr s"
    "\<forall>sc. schema = Some sc \<longrightarrow> violations js (PDict sc) (PDict (mapping_or_empty (dget p ''arguments''))) = Some []"
    by (auto simp: check_arguments_schema_def split: option.splits)
  with p(1) show "\<exists>p. dget d ''params'' = PDict p \<and> (\<forall>s. name = Some s \<longrightarrow> dget p ''name'' = PStr s) \<and>
      (\<forall>sc. schema = Some sc \<longrightarrow> violations js (PDict sc) (PDict (mapping_or_empty (dget p ''arguments''))) = Some [])" by blast
qed (use assms in \<open>auto simp: validate_mcp_tools_call_request_def guards simp del: first_error_append\<close>)

lemma validate_content_None: "validate_content v = None \<longleftrightarrow> (\<exists>vs. v = PList vs \<and> (\<forall>x \<in> set vs. content_check x = None))"
  by (cases v) (auto simp: validate_content_def first_error_None)

lemma accepted_response:
  assumes "validate_mcp_tools_call_response (Some i) v = Inr d"
  shows "v = PDict d" "dget d ''id'' = i" "dhas d ''result'' \<noteq> dhas d ''error''"
    "dhas d ''result'' \<Longrightarrow> \<exists>r vs. dget d ''result'' = PDict r \<and> dget r ''content'' = PList vs"
  using assms by (auto simp: validate_mcp_tools_call_response_def result_checks_def validate_content_None guards simp del: first_error_append split: if_splits)

text \<open>
  An accepted fixture binds its parts: the request is a \<^verbatim>\<open>tools/call\<close> of the fixture's tool whose arguments satisfy
  the fixture's schema, every response carries the request's id and is either a result or an error, a result has a list
  of contents, the tool error is a result that says so, and the protocol error is an error and no result.
\<close>

theorem accepted_fixture:
  assumes "validate_mcp_tools_call_fixture js (PDict d) = Inr d'"
  shows "\<exists>q p schema. dget d ''request'' = PDict q \<and> dget q ''method'' = PStr ''tools/call'' \<and> dget q ''params'' = PDict p \<and>
    dget p ''name'' = dget d ''tool_name'' \<and> dget d ''argument_schema'' = PDict schema \<and>
    violations js (PDict schema) (PDict (mapping_or_empty (dget p ''arguments''))) = Some [] \<and>
    (\<forall>f \<in> {''success_response'', ''tool_error_response'', ''protocol_error_response''}. \<exists>r. dget d f = PDict r \<and>
      dget r ''id'' = dget q ''id'' \<and> dhas r ''result'' \<noteq> dhas r ''error'' \<and>
      (dhas r ''result'' \<longrightarrow> (\<exists>b vs. dget r ''result'' = PDict b \<and> dget b ''content'' = PList vs)) \<and>
      (f = ''tool_error_response'' \<longrightarrow> (\<exists>b. dget r ''result'' = PDict b \<and> dget b ''isError'' = PBool True)) \<and>
      (f = ''protocol_error_response'' \<longrightarrow> dhas r ''error''))"
proof -
  from assms obtain schema q where name: "trimmed_str (dget d ''tool_name'')" and schema: "dget d ''argument_schema'' = PDict schema"
    and q: "validate_mcp_tools_call_request js (Some (str_of (dget d ''tool_name''))) (Some schema) (dget d ''request'') = Inr q"
    and responses: "\<forall>f \<in> {''success_response'', ''tool_error_response'', ''protocol_error_response''}. response_at d (dget q ''id'') f = None"
    and tool: "tool_error_check d = None" and protocol: "dhas (mapping_or_empty (dget d ''protocol_error_response'')) ''error''"
    by (auto simp: validate_mcp_tools_call_fixture_def require_text_def guards simp del: first_error_append)
  have each: "\<exists>r. dget d f = PDict r \<and> dget r ''id'' = dget q ''id'' \<and> dhas r ''result'' \<noteq> dhas r ''error'' \<and>
      (dhas r ''result'' \<longrightarrow> (\<exists>b vs. dget r ''result'' = PDict b \<and> dget b ''content'' = PList vs)) \<and>
      (f = ''tool_error_response'' \<longrightarrow> (\<exists>b. dget r ''result'' = PDict b \<and> dget b ''isError'' = PBool True)) \<and>
      (f = ''protocol_error_response'' \<longrightarrow> dhas r ''error'')"
    if f: "f \<in> {''success_response'', ''tool_error_response'', ''protocol_error_response''}" for f
  proof -
    from bspec [OF responses f] obtain r where r: "validate_mcp_tools_call_response (Some (dget q ''id'')) (dget d f) = Inr r"
      by (auto simp: response_at_def check_of_None)
    note facts = accepted_response [OF r]
    have "\<exists>b. dget r ''result'' = PDict b \<and> dget b ''isError'' = PBool True" if "f = ''tool_error_response''"
      using tool facts(1) that by (auto simp: tool_error_check_def Let_def split: if_splits pyval.splits)
    moreover have "dhas r ''error''" if "f = ''protocol_error_response''" using protocol facts(1) that by simp
    ultimately show ?thesis using facts by (intro exI [of _ r]) blast
  qed
  obtain p where p: "dget q ''params'' = PDict p" "dget p ''name'' = PStr (str_of (dget d ''tool_name''))"
    "violations js (PDict schema) (PDict (mapping_or_empty (dget p ''arguments''))) = Some []" using accepted_request(4) [OF q] by blast
  have named: "dget p ''name'' = dget d ''tool_name''" using trimmed_text [OF name] p(2) by simp
  show ?thesis
    by (rule exI [of _ q], rule exI [of _ p], rule exI [of _ schema]) (intro conjI ballI, rule accepted_request(1) [OF q],
      rule accepted_request(2) [OF q], rule p(1), rule named, rule schema, rule p(3), erule each)
qed

section \<open>Witness and what is not checked\<close>

definition mcp_message :: "(string \<times> pyval) list \<Rightarrow> pyval" where
  "mcp_message body = PDict (obj ([(''jsonrpc'', PStr ''2.0''), (''id'', PInt 1)] @ body))"

definition mcp_failure :: pyval where
  "mcp_failure = mcp_message [(''error'', PDict (obj [(''code'', PInt (- 32602)), (''message'', PStr ''no such tool'')]))]"

definition mcp_result :: "bool \<Rightarrow> pyval" where
  "mcp_result failed = mcp_message [(''result'', PDict (obj [(''content'', PList []), (''isError'', PBool failed)]))]"

definition mcp_fixture :: "pyval \<Rightarrow> pyval \<Rightarrow> pydict" where
  "mcp_fixture success tool_error = obj [(''schema_version'', PStr ''1.0''), (''type'', PStr ''mcp_tools_call_conformance''), (''id'', PStr ''f''),
     (''tool_name'', PStr ''mail''), (''argument_schema'', PDict []),
     (''request'', mcp_message [(''method'', PStr ''tools/call''), (''params'', PDict (obj [(''name'', PStr ''mail'')]))]),
     (''success_response'', success), (''tool_error_response'', tool_error), (''protocol_error_response'', mcp_failure)]"

theorem accepted_fixture_witness:
  "\<exists>r. dget (mcp_fixture (mcp_result False) (mcp_result True)) ''tool_error_response'' = PDict r \<and> dhas r ''result'' \<noteq> dhas r ''error''"
proof -
  let ?d = "mcp_fixture (mcp_result False) (mcp_result True)"
  have "\<not> isl (validate_mcp_tools_call_fixture sample_schema (PDict ?d))" by code_simp
  then obtain d' where d: "validate_mcp_tools_call_fixture sample_schema (PDict ?d) = Inr d'" using not_isl_ex by blast
  from accepted_fixture [OF d] show ?thesis by blast
qed

text \<open>
  The fixture does not cover what it is meant to: one whose success response is a protocol error is accepted, and one
  whose tool error is a protocol error is refused with a \<^verbatim>\<open>KeyError\<close> that is no validation error.
\<close>

theorem fixture_success_may_fail:
  "\<not> isl (validate_mcp_tools_call_fixture sample_schema (PDict (mcp_fixture mcp_failure (mcp_result True)))) \<and>
   validate_mcp_tools_call_fixture sample_schema (PDict (mcp_fixture (mcp_result False) mcp_failure)) = Inl (Exc KeyError ''result'')"
proof
  show "\<not> isl (validate_mcp_tools_call_fixture sample_schema (PDict (mcp_fixture mcp_failure (mcp_result True))))" by code_simp
  show "validate_mcp_tools_call_fixture sample_schema (PDict (mcp_fixture (mcp_result False) mcp_failure)) = Inl (Exc KeyError ''result'')" by code_simp
qed

end
