(* ===== verification/ToolExport.thy ===== *)
theory ToolExport
  imports Coverage
begin

text \<open>
  \<^verbatim>\<open>tool_export.py\<close>: the export of framework tools as a Tool Contract, and the atomic write of a contract. A framework
  tool is what the exporter reads of it; \<^verbatim>\<open>yaml.safe_dump\<close> is a parameter. The properties: an exported contract is valid,
  complete and no stricter than the tools, and a failed write leaves the old file.
\<close>

section \<open>Framework tools\<close>

text \<open>A flag is whatever value the caller set; the contract's validation judges it.\<close>

record tool_governance =
  tg_read_only :: pyval
  tg_destructive :: pyval
  tg_idempotent :: pyval
  tg_patterns :: "string list"
  tg_effects :: "string list"
  tg_action :: "string option"
  tg_id :: "string option"

text \<open>A mapping, an object with a schema method (what the call gives), or neither.\<close>

datatype schema_source = MappingSource pydict | MethodSource "pyval result" | NoSource

text \<open>The attributes of a tool: \<open>getattr\<close> with \<open>None\<close>, for the action with the name as default.\<close>

record framework_object =
  fo_name :: pyval
  fo_description :: pyval
  fo_action :: "pyval option"
  fo_schema :: schema_source

record framework_tool =
  ft_name :: string
  ft_description :: string
  ft_schema :: schema_source
  ft_action :: string

datatype export_failure = ExportRaised exn | InvalidContract "contract_problem list"

definition export_error :: "string \<Rightarrow> exn" where
  "export_error what = Exc ToolContractExportError what"

definition usable_text :: "pyval \<Rightarrow> string \<Rightarrow> string result" where
  "usable_text v field = (if nonblank_str v then Inr (str_of v) else Inl (export_error field))"

definition framework_tool_of :: "framework_object \<Rightarrow> framework_tool result" where
  "framework_tool_of t =
     bindE (usable_text (fo_name t) ''name'') (\<lambda>name.
     bindE (usable_text (fo_description t) ''description'') (\<lambda>about.
     bindE (usable_text (case fo_action t of None \<Rightarrow> PStr name | Some v \<Rightarrow> v) ''action name'') (\<lambda>act.
       Inr \<lparr>ft_name = name, ft_description = about, ft_schema = fo_schema t, ft_action = act\<rparr>)))"

definition source_value :: "schema_source \<Rightarrow> pyval result" where
  "source_value s = (case s of MappingSource d \<Rightarrow> Inr (PDict d) | MethodSource r \<Rightarrow> r | NoSource \<Rightarrow> Inl (export_error ''no schema''))"

definition defaulted :: "string \<Rightarrow> pyval \<Rightarrow> pydict \<Rightarrow> pydict" where
  "defaulted k v d = (if dget d k = PNone then dset d k v else d)"

definition schema_from_source :: "schema_source \<Rightarrow> pydict result" where
  "schema_from_source s = bindE (source_value s) (\<lambda>v. case v of
       PDict d \<Rightarrow> guarded
         [require (dget d ''type'' = PStr ''object'') (export_error ''type''),
          require (dget d ''properties'' = PNone \<or> is_mapping (dget d ''properties'')) (export_error ''properties''),
          require (dget d ''required'' = PNone \<or> is_list (dget d ''required'')) (export_error ''required''),
          require (dget d ''additionalProperties'' = PNone \<or> is_bool (dget d ''additionalProperties'')) (export_error ''additionalProperties'')]
         (defaulted ''additionalProperties'' (PBool True) (defaulted ''required'' (PList []) (defaulted ''properties'' (PDict []) d)))
     | _ \<Rightarrow> Inl (export_error ''object''))"

section \<open>Export\<close>

fun each :: "('a \<Rightarrow> 'b result) \<Rightarrow> 'a list \<Rightarrow> 'b list result" where
  "each f [] = Inr []"
| "each f (x # xs) = bindE (f x) (\<lambda>y. bindE (each f xs) (\<lambda>ys. Inr (y # ys)))"

text \<open>\<open>configured or found\<close>: an empty text counts as not configured.\<close>

definition configured :: "string option \<Rightarrow> string \<Rightarrow> string" where
  "configured c found = (case c of None \<Rightarrow> found | Some s \<Rightarrow> if s = [] then found else s)"

definition sorted_set :: "string list \<Rightarrow> pyval" where
  "sorted_set ss = PList (map PStr (sort (remdups ss)))"

text \<open>The governance of a name: \<open>None\<close> when the configured value is no \<^verbatim>\<open>ToolGovernance\<close>.\<close>

type_synonym governance_map = "(string \<times> tool_governance option) list"

definition exported_tool :: "governance_map \<Rightarrow> framework_tool \<Rightarrow> pydict result" where
  "exported_tool governance t = (case map_of governance (ft_name t) of
       Some (Some g) \<Rightarrow> bindE (schema_from_source (ft_schema t)) (\<lambda>schema. Inr (obj
         [(''id'', PStr (configured (tg_id g) (ft_name t))), (''action'', PStr (configured (tg_action g) (ft_action t))),
          (''description'', PStr (ft_description t)), (''input_schema'', PDict schema),
          (''resource_patterns'', sorted_set (tg_patterns g)), (''effects'', sorted_set (tg_effects g)),
          (''annotations'', PDict (obj [(''read_only'', tg_read_only g), (''destructive'', tg_destructive g), (''idempotent'', tg_idempotent g)]))]))
     | _ \<Rightarrow> Inl (export_error ''governance''))"

record export_header =
  eh_id :: string
  eh_name :: string
  eh_description :: string
  eh_version :: string
  eh_owner :: string
  eh_framework :: string
  eh_repository :: "string option"
  eh_revision :: "string option"

definition optional_entry :: "string \<Rightarrow> string option \<Rightarrow> (string \<times> pyval) list" where
  "optional_entry k v = (case v of None \<Rightarrow> [] | Some s \<Rightarrow> [(k, PStr s)])"

definition contract_dict :: "export_header \<Rightarrow> pydict list \<Rightarrow> pydict" where
  "contract_dict h tools = obj
     [(''schema_version'', PStr ''1.0''), (''type'', PStr ''tool_contract''), (''id'', PStr (eh_id h)), (''name'', PStr (eh_name h)),
      (''description'', PStr (eh_description h)), (''version'', PStr (eh_version h)),
      (''tools'', PList (map PDict (sort_key (\<lambda>t. text_at t ''id'') tools))),
      (''metadata'', PDict (obj ([(''owner'', PStr (eh_owner h)), (''source'', PStr (eh_framework h))]
         @ optional_entry ''repository'' (eh_repository h) @ optional_entry ''revision'' (eh_revision h))))]"

definition name_checks :: "governance_map \<Rightarrow> string list \<Rightarrow> check list" where
  "name_checks governance names =
     [require (distinct names) (export_error ''names must be unique''),
      require (set names = fst ` set governance) (export_error ''configuration is incomplete'')]"

text \<open>The descriptor reads a tool of one framework, whatever such a tool is.\<close>

definition export_framework_tool_contract ::
  "('tool \<Rightarrow> framework_tool result) \<Rightarrow> json_schema \<Rightarrow> export_header \<Rightarrow> governance_map \<Rightarrow> 'tool list \<Rightarrow> export_failure + pydict" where
  "export_framework_tool_contract descriptor js h governance tools =
     (case bindE (each descriptor tools) (\<lambda>records. after (first_error (name_checks governance (map ft_name records)))
          (each (exported_tool governance) records)) of
        Inl e \<Rightarrow> Inl (ExportRaised e)
      | Inr ts \<Rightarrow> (let contract = contract_dict h ts; es = tool_contract_errors js (PDict contract) in
          if es \<noteq> [] then Inl (InvalidContract es) else Inr contract))"

section \<open>Writing a contract\<close>

definition new_line :: "nat \<Rightarrow> string" where
  "new_line n = CHR 0x0A # replicate n CHR '' ''"

text \<open>\<open>json.dumps(v, indent=2, sort_keys=True)\<close> at a depth of \<open>n\<close> spaces.\<close>

definition block_text :: "nat \<Rightarrow> string \<Rightarrow> string \<Rightarrow> string list \<Rightarrow> string" where
  "block_text n before behind ts = (if ts = [] then before @ behind
     else before @ new_line (n + 2) @ join ('','' @ new_line (n + 2)) ts @ new_line n @ behind)"

definition float_text :: "crypto \<Rightarrow> pyfloat \<Rightarrow> string" where
  "float_text cr x = (case x of Fin r \<Rightarrow> float_repr cr r | PosInf \<Rightarrow> ''Infinity'' | NegInf \<Rightarrow> ''-Infinity'' | NaN \<Rightarrow> ''NaN'')"

fun json_indented :: "crypto \<Rightarrow> nat \<Rightarrow> pyval \<Rightarrow> string option" where
  "json_indented cr n (PList vs) = map_option (block_text n ''['' '']'') (all_some (map (json_indented cr (n + 2)) vs))"
| "json_indented cr n (PTuple vs) = map_option (block_text n ''['' '']'') (all_some (map (json_indented cr (n + 2)) vs))"
| "json_indented cr n (PDict d) = map_option (block_text n ''{'' ''}'' \<circ> map snd)
     (Option.bind (json_pairs True '': '' (map (map_prod id (json_indented cr (n + 2))) d)) sorted_pairs)"
| "json_indented cr n (PFloat x) = Some (float_text cr x)"
| "json_indented cr n v = json_dumps cr True v"

text \<open>\<open>Path(path).suffix\<close>.\<close>

definition suffix_of :: "string \<Rightarrow> string" where
  "suffix_of path = (let file = last (split_slash path); ext = rev (takeWhile (\<lambda>c. c \<noteq> CHR ''.'') (rev file)) in
     if ext \<noteq> [] \<and> length ext + 1 < length file then CHR ''.'' # ext else [])"

definition serialized :: "crypto \<Rightarrow> (pydict \<Rightarrow> string) \<Rightarrow> string \<Rightarrow> pydict \<Rightarrow> string result" where
  "serialized cr safe_dump path d =
     (let kind = casefold (suffix_of path) in
      if kind \<notin> {''.json'', ''.yaml'', ''.yml''} then Inl (export_error ''output'')
      else if kind = ''.json'' then (case json_indented cr 0 (PDict d) of
          None \<Rightarrow> Inl (Exc TypeError ''json'') | Some t \<Rightarrow> Inr (t @ [CHR 0x0A]))
      else Inr (safe_dump d))"

text \<open>
  What happens on the way: nothing, the temporary file cannot be made, it is written in part, or the replacement
  fails; or the process is killed, which skips the clean-up.
\<close>

datatype write_event = Written | CannotCreate | PartlyWritten string | CannotReplace | Killed string

type_synonym files = "string \<Rightarrow> string option"

definition place :: "string \<Rightarrow> string \<Rightarrow> string \<Rightarrow> write_event \<Rightarrow> files \<Rightarrow> bool \<times> files" where
  "place temporary path text_now event fs = (case event of
       Written \<Rightarrow> (True, (fs(temporary \<mapsto> text_now))(path \<mapsto> text_now, temporary := None))
     | CannotCreate \<Rightarrow> (False, fs)
     | PartlyWritten part \<Rightarrow> (False, (fs(temporary \<mapsto> part))(temporary := None))
     | CannotReplace \<Rightarrow> (False, (fs(temporary \<mapsto> text_now))(temporary := None))
     | Killed part \<Rightarrow> (False, fs(temporary \<mapsto> part)))"

definition write_tool_contract ::
  "json_schema \<Rightarrow> crypto \<Rightarrow> (pydict \<Rightarrow> string) \<Rightarrow> string \<Rightarrow> string \<Rightarrow> write_event \<Rightarrow> pydict \<Rightarrow> files \<Rightarrow> (export_failure + string) \<times> files" where
  "write_tool_contract js cr safe_dump temporary path event d fs =
     (if tool_contract_errors js (PDict d) \<noteq> [] then (Inl (InvalidContract (tool_contract_errors js (PDict d))), fs)
      else (case serialized cr safe_dump path d of
          Inl e \<Rightarrow> (Inl (ExportRaised e), fs)
        | Inr t \<Rightarrow> (let done_fs = place temporary path t event fs in
            (if fst done_fs then Inr path else Inl (ExportRaised (Exc OSError ''write'')), snd done_fs))))"

section \<open>Properties\<close>

lemma each_Inr: "each f xs = Inr ys \<longleftrightarrow> list_all2 (\<lambda>x y. f x = Inr y) xs ys"
  by (induction xs arbitrary: ys) (auto simp: list_all2_Cons1)

lemma defaulted_read: "dget (defaulted k v d) j = (if j = k \<and> dget d k = PNone then v else dget d j)"
  by (simp add: defaulted_def)

lemma schema_kept:
  assumes "schema_from_source s = Inr schema"
  shows "\<exists>d. source_value s = Inr (PDict d) \<and> dget schema ''type'' = PStr ''object'' \<and>
    dget schema ''additionalProperties'' = (if dget d ''additionalProperties'' = PNone then PBool True else dget d ''additionalProperties'') \<and>
    (\<forall>k. k \<notin> {''properties'', ''required'', ''additionalProperties''} \<longrightarrow> dget schema k = dget d k)"
proof -
  from assms obtain v where v: "source_value s = Inr v" by (auto simp: schema_from_source_def)
  obtain d where d: "v = PDict d" using assms v by (cases v) (auto simp: schema_from_source_def)
  have schema: "schema = defaulted ''additionalProperties'' (PBool True) (defaulted ''required'' (PList []) (defaulted ''properties'' (PDict []) d))"
    and t: "dget d ''type'' = PStr ''object''" using assms by (simp_all add: schema_from_source_def v d)
  show ?thesis by (intro exI [of _ d]) (simp add: v d schema defaulted_read t)
qed

text \<open>The schema of an exported tool is the declared one, and as open to further properties.\<close>

definition as_declared :: "framework_tool \<Rightarrow> pydict \<Rightarrow> bool" where
  "as_declared t e \<longleftrightarrow> dget e ''description'' = PStr (ft_description t) \<and>
     (\<exists>s src. dget e ''input_schema'' = PDict s \<and> source_value (ft_schema t) = Inr (PDict src) \<and>
        (\<forall>k. k \<notin> {''properties'', ''required'', ''additionalProperties''} \<longrightarrow> dget s k = dget src k) \<and>
        dget s ''additionalProperties'' = (if dget src ''additionalProperties'' = PNone then PBool True else dget src ''additionalProperties''))"

lemma exported_as_declared: "exported_tool governance t = Inr e \<Longrightarrow> as_declared t e"
proof -
  assume "exported_tool governance t = Inr e"
  then obtain s where s: "schema_from_source (ft_schema t) = Inr s" and e: "dget e ''description'' = PStr (ft_description t)" "dget e ''input_schema'' = PDict s"
    by (auto simp: exported_tool_def dget_def dget_or_def split: option.splits)
  from schema_kept [OF s] obtain src where "source_value (ft_schema t) = Inr (PDict src)"
    "\<forall>k. k \<notin> {''properties'', ''required'', ''additionalProperties''} \<longrightarrow> dget s k = dget src k"
    "dget s ''additionalProperties'' = (if dget src ''additionalProperties'' = PNone then PBool True else dget src ''additionalProperties'')" by blast
  with e show ?thesis unfolding as_declared_def by (intro conjI exI [of _ s] exI [of _ src]) assumption+
qed

text \<open>
  What is exported is trustworthy: the contract passes the contract validation, its tools are exactly the framework's,
  each under a governance entry of its own name with nothing missing and nothing stale, and the input schema of a tool is
  the one the framework declares, never stricter: additional properties stay allowed unless the framework forbids them.
\<close>

theorem exported_contract:
  assumes "export_framework_tool_contract descriptor js h governance tools = Inr d"
  shows "tool_contract_errors js (PDict d) = [] \<and>
    (\<exists>records exported. list_all2 (\<lambda>t r. descriptor t = Inr r) tools records \<and> distinct (map ft_name records) \<and>
      set (map ft_name records) = fst ` set governance \<and> list_all2 as_declared records exported \<and>
      dget d ''tools'' = PList (map PDict (sort_key (\<lambda>t. text_at t ''id'') exported)))"
proof -
  from assms obtain records exported where r: "each descriptor tools = Inr records" "distinct (map ft_name records)"
    "set (map ft_name records) = fst ` set governance" "each (exported_tool governance) records = Inr exported"
    and d: "d = contract_dict h exported" "tool_contract_errors js (PDict d) = []"
    by (auto simp: export_framework_tool_contract_def name_checks_def Let_def guards split: sum.splits if_splits)
  have "list_all2 as_declared records exported"
    using r(4) unfolding each_Inr by (rule list_all2_mono) (rule exported_as_declared)
  moreover have "dget d ''tools'' = PList (map PDict (sort_key (\<lambda>t. text_at t ''id'') exported))"
    by (simp add: d(1) contract_dict_def dget_def dget_or_def)
  moreover note r(1) [unfolded each_Inr] r(2,3) d(2)
  ultimately show ?thesis by (intro conjI exI [of _ records] exI [of _ exported])
qed

text \<open>
  A contract file is replaced as a whole or not at all: whatever fails on the way, also a kill of the process, every
  file but the temporary one keeps its content unless the write is reported done, and then the target holds the whole
  text of a contract that passed validation.
\<close>

theorem contract_written_whole:
  assumes "write_tool_contract js cr safe_dump temporary path event d fs = (r, fs')" "temporary \<noteq> path" "p \<noteq> temporary"
  shows "(fs' p = fs p \<or> p = path \<and> r = Inr path) \<and>
    (r = Inr path \<longrightarrow> tool_contract_errors js (PDict d) = [] \<and> (\<exists>t. serialized cr safe_dump path d = Inr t \<and> fs' path = Some t \<and> fs' temporary = None))"
  using assms by (auto simp: write_tool_contract_def place_def Let_def split: if_splits sum.splits write_event.splits)

section \<open>Witnesses\<close>

definition sample_framework_tool :: framework_object where
  "sample_framework_tool = \<lparr>fo_name = PStr ''post'', fo_description = PStr ''sends'', fo_action = Some (PStr ''send''),
     fo_schema = MappingSource (obj [(''type'', PStr ''object'')])\<rparr>"

definition sample_governance :: governance_map where
  "sample_governance = [(''post'', Some \<lparr>tg_read_only = PBool False, tg_destructive = PBool True, tg_idempotent = PBool False,
     tg_patterns = [''r*''], tg_effects = [''message_send''], tg_action = None, tg_id = None\<rparr>)]"

definition sample_header :: export_header where
  "sample_header = \<lparr>eh_id = ''tools'', eh_name = ''Tools'', eh_description = ''All tools'', eh_version = ''1.0.0'', eh_owner = ''me'',
     eh_framework = ''mine'', eh_repository = None, eh_revision = None\<rparr>"

theorem exported_contract_witness:
  "\<exists>d. tool_contract_errors sample_schema (PDict d) = [] \<and>
     export_framework_tool_contract framework_tool_of sample_schema sample_header sample_governance [sample_framework_tool] = Inr d"
proof -
  have "\<not> isl (export_framework_tool_contract framework_tool_of sample_schema sample_header sample_governance [sample_framework_tool])" by code_simp
  then obtain d where d: "export_framework_tool_contract framework_tool_of sample_schema sample_header sample_governance [sample_framework_tool] = Inr d"
    using not_isl_ex by blast
  from exported_contract [OF d] d show ?thesis by blast
qed

text \<open>The text of the contract is whatever the dumper gives; the temporary file disappears.\<close>

theorem contract_written_whole_witness:
  "\<exists>fs'. write_tool_contract sample_schema sample_flat (\<lambda>d. ''text'') ''a.tmp'' ''a.yaml'' (CannotReplace) sample_contract (\<lambda>p. None)
     = (Inl (ExportRaised (Exc OSError ''write'')), fs') \<and> fs' ''a.yaml'' = None"
proof -
  have valid: "tool_contract_errors sample_schema (PDict sample_contract) = []" by code_simp
  have t: "serialized sample_flat (\<lambda>d. ''text'') ''a.yaml'' sample_contract = Inr ''text''"
  proof -
    have "casefold (suffix_of ''a.yaml'') = ''.yaml''" by code_simp
    then show ?thesis by (simp add: serialized_def Let_def)
  qed
  let ?w = "write_tool_contract sample_schema sample_flat (\<lambda>d. ''text'') ''a.tmp'' ''a.yaml'' CannotReplace sample_contract (\<lambda>p. None)"
  obtain fs' where w: "?w = (Inl (ExportRaised (Exc OSError ''write'')), fs')"
    by (simp add: write_tool_contract_def valid t place_def)
  from contract_written_whole [OF w, of "''a.yaml''"] w show ?thesis by auto
qed

end
