(* ===== verification/Reread.thy ===== *)
theory Reread
  imports ToolExport
begin

text \<open>
  What \<open>json.load\<close> gives for the text \<open>json.dump\<close> wrote with sorted keys: tuples come back as lists, objects with
  their keys as texts and in order. A dictionary whose keys are all texts reads the same afterwards, and so does a
  name that is no number in any dictionary that could be written.
\<close>

section \<open>The value that is read back\<close>

definition read_pairs :: "(pykey \<times> pyval) list \<Rightarrow> pydict" where
  "read_pairs kvs = (case sorted_pairs kvs of None \<Rightarrow> [] | Some es \<Rightarrow> map (\<lambda>kv. (KStr (key_text (fst kv)), snd kv)) es)"

fun reread :: "pyval \<Rightarrow> pyval" where
  "reread (PList vs) = PList (map reread vs)"
| "reread (PTuple vs) = PList (map reread vs)"
| "reread (PDict d) = PDict (read_pairs (map (map_prod id reread) d))"
| "reread v = v"

definition reread_dict :: "pydict \<Rightarrow> pydict" where
  "reread_dict d = read_pairs (map (map_prod id reread) d)"

lemma reread_PDict: "reread (PDict d) = PDict (reread_dict d)"
  by (simp add: reread_dict_def)

declare reread.simps(3) [simp del] reread_PDict [simp]

named_theorems unread \<open>what reading back does not change\<close>

lemma reread_tests [unread]:
  "nonblank_str (reread v) = nonblank_str v" "trimmed_str (reread v) = trimmed_str v" "is_str (reread v) = is_str v"
  "is_bool (reread v) = is_bool v" "is_mapping (reread v) = is_mapping v" "plain_int (reread v) = plain_int v"
  "str_of (reread v) = str_of v" "reread v = PNone \<longleftrightarrow> v = PNone" "reread v = PStr s \<longleftrightarrow> v = PStr s"
  by (cases v; simp add: nonblank_str_def trimmed_str_def)+

lemma reread_lists [unread]:
  "entries_of (reread v) = map reread (entries_of v)" "is_list v \<Longrightarrow> is_list (reread v)" "items_of v \<noteq> [] \<Longrightarrow> items_of (reread v) = map reread (items_of v)"
  "is_list v \<Longrightarrow> reread v = PList (map reread (items_of v))"
  by (cases v; simp)+

lemma reread_empty [simp]: "reread_dict [] = []"
  by (simp add: reread_dict_def read_pairs_def sorted_pairs_def)

lemma reread_mapping [unread]: "mapping_or_empty (reread v) = reread_dict (mapping_or_empty v)"
  by (cases v) simp_all

section \<open>Dictionaries\<close>

definition homogeneous :: "(pykey \<times> 'a) list \<Rightarrow> bool" where
  "homogeneous d \<longleftrightarrow> (\<forall>kv \<in> set d. text_key (fst kv)) \<or> (\<forall>kv \<in> set d. \<not> text_key (fst kv))"

text \<open>A name that is no number.\<close>

fun named :: "string \<Rightarrow> bool" where
  "named [] = False" | "named (c # cs) = (\<not> is_digit c \<and> c \<noteq> CHR ''-'')"

lemma hex_digit_decimal: "0 \<le> n \<Longrightarrow> n < 10 \<Longrightarrow> is_digit (hex_digit (nat n))"
  by (simp add: hex_digit_def is_digit_def of_char_of take_bit_eq_mod nat_less_iff Let_def)

lemma nat_text_digit: "0 \<le> n \<Longrightarrow> \<exists>c cs. nat_text n = c # cs \<and> is_digit c"
proof (induction n rule: nat_text.induct)
  case (1 n)
  show ?case
  proof (cases "n < 10")
    case True
    with 1 show ?thesis by (subst nat_text.simps) (simp add: hex_digit_decimal)
  next
    case False
    with 1 have "\<exists>c cs. nat_text (n div 10) = c # cs \<and> is_digit c" by (simp add: pos_imp_zdiv_nonneg_iff)
    with False show ?thesis by (subst nat_text.simps) auto
  qed
qed

lemma int_text_unnamed: "\<not> named (int_text n)"
proof (cases "n < 0")
  case False
  with nat_text_digit [of n] obtain c cs where "nat_text n = c # cs" "is_digit c" by auto
  with False show ?thesis by (simp add: int_text_def)
qed (simp add: int_text_def)

lemma map_of_filter: "map_of xs k = (case filter (\<lambda>kv. fst kv = k) xs of [] \<Rightarrow> None | kv # kvs \<Rightarrow> Some (snd kv))"
  by (induction xs) auto

lemma map_of_sort_key: "map_of (sort_key (\<lambda>kv. f (fst kv)) xs) k = map_of xs k"
proof -
  have "filter (\<lambda>kv. fst kv = k) ys = filter (\<lambda>kv. fst kv = k) (filter (\<lambda>kv. f (fst kv) = f k) ys)" for ys
    by (induction ys) auto
  then have "filter (\<lambda>kv. fst kv = k) (sort_key (\<lambda>kv. f (fst kv)) xs) = filter (\<lambda>kv. fst kv = k) xs"
    by (metis sort_key_stable)
  then show ?thesis by (simp only: map_of_filter)
qed

lemma sorted_pairs_same:
  assumes "homogeneous d"
  obtains es where "sorted_pairs d = Some es" "map_of es = map_of d" "set es = set d"
proof (cases "\<forall>kv \<in> set d. text_key (fst kv)")
  case True
  then have "sorted_pairs d = Some (sort_key (\<lambda>kt. key_string (fst kt)) d)" by (simp add: sorted_pairs_def list_all_iff)
  with that show ?thesis by (simp add: map_of_sort_key fun_eq_iff)
next
  case False
  with assms have none: "\<forall>kv \<in> set d. \<not> text_key (fst kv)" by (auto simp: homogeneous_def)
  with False have "sorted_pairs d = Some (sort_key (\<lambda>kt. key_number (fst kt)) d)"
    unfolding sorted_pairs_def list_all_iff list_ex_iff by (simp only: if_False bex_simps) auto
  with that show ?thesis by (simp add: map_of_sort_key fun_eq_iff)
qed

lemma map_of_texts:
  "named k \<Longrightarrow> map_of (map (\<lambda>kv. (KStr (key_text (fst kv)), snd kv)) es) (KStr k) = map_of es (KStr k)"
proof (induction es)
  case (Cons e es)
  have "key_text (fst e) = k \<longleftrightarrow> fst e = KStr k" using Cons.prems int_text_unnamed by (cases "fst e") auto
  with Cons show ?case by auto
qed simp

lemma homogeneous_map: "homogeneous (map (map_prod id f) d) = homogeneous d"
  by (simp add: homogeneous_def)

lemma map_of_map_prod: "map_of (map (map_prod id f) d) k = map_option f (map_of d k)"
  by (induction d) auto

lemma reread_map_of:
  assumes "homogeneous d" "named k"
  shows "map_of (reread_dict d) (KStr k) = map_option reread (map_of d (KStr k))"
proof -
  from assms(1) obtain es where "sorted_pairs (map (map_prod id reread) d) = Some es" "map_of es = map_of (map (map_prod id reread) d)"
    by (metis homogeneous_map sorted_pairs_same)
  with assms(2) show ?thesis by (simp add: reread_dict_def read_pairs_def map_of_texts map_of_map_prod)
qed

lemma reread_reads:
  assumes "homogeneous d" "named k"
  shows "dget (reread_dict d) k = reread (dget d k)" "dhas (reread_dict d) k = dhas d k"
    "dget_or (reread_dict d) k v = (if dhas d k then reread (dget d k) else v)"
  using reread_map_of [OF assms] by (simp_all add: dget_def dget_or_def dhas_def split: option.splits)

text \<open>The entries of a dictionary with text keys.\<close>

lemma reread_entries:
  assumes "\<forall>kv \<in> set d. text_key (fst kv)"
  shows "set (reread_dict d) = map_prod id reread ` set d"
proof -
  have "homogeneous (map (map_prod id reread) d)" using assms by (simp add: homogeneous_def)
  then obtain es where es: "sorted_pairs (map (map_prod id reread) d) = Some es" "set es = map_prod id reread ` set d"
    by (auto elim!: sorted_pairs_same)
  have "(KStr (key_text (fst kv)), snd kv) = kv" if "kv \<in> set es" for kv
    using that es(2) assms by (cases "fst kv") (auto simp: prod_eq_iff)
  then have "(\<lambda>kv. (KStr (key_text (fst kv)), snd kv)) ` set es = set es" by simp
  then show ?thesis by (simp add: reread_dict_def read_pairs_def es)
qed

section \<open>What could be written\<close>

definition writable :: "crypto \<Rightarrow> pyval \<Rightarrow> bool" where
  "writable cr v \<longleftrightarrow> (\<exists>n t. json_indented cr n v = Some t)"

lemma json_pairs_Some:
  "json_pairs ascii colon kvs = Some es \<Longrightarrow> map fst es = map fst kvs \<and> (\<forall>kv \<in> set kvs. snd kv \<noteq> None)"
  by (induction ascii colon kvs arbitrary: es rule: json_pairs.induct) auto

lemma sorted_pairs_homogeneous: "sorted_pairs d = Some es \<Longrightarrow> homogeneous d"
  by (auto simp: sorted_pairs_def homogeneous_def list_all_iff list_ex_iff split: if_splits)

lemma homogeneous_iff: "homogeneous d \<longleftrightarrow> (\<forall>k \<in> set (map fst d). text_key k) \<or> (\<forall>k \<in> set (map fst d). \<not> text_key k)"
  by (simp add: homogeneous_def)

lemma homogeneous_keys: "map fst d = map fst e \<Longrightarrow> homogeneous d = homogeneous e"
  by (simp only: homogeneous_iff)

lemma writable_dict:
  assumes "writable cr (PDict d)"
  shows "homogeneous d" "kv \<in> set d \<Longrightarrow> writable cr (snd kv)"
proof -
  from assms obtain n ps es where ps: "json_pairs True '': '' (map (map_prod id (json_indented cr (n + 2))) d) = Some ps"
    and es: "sorted_pairs ps = Some es" by (auto simp: writable_def bind_eq_Some_conv)
  note keys = json_pairs_Some [OF ps]
  have "map fst ps = map fst d" using keys by simp
  then have "homogeneous ps = homogeneous d" by (rule homogeneous_keys)
  with sorted_pairs_homogeneous [OF es] show "homogeneous d" by simp
  show "writable cr (snd kv)" if "kv \<in> set d"
  proof -
    from that have "map_prod id (json_indented cr (n + 2)) kv \<in> set (map (map_prod id (json_indented cr (n + 2))) d)" by simp
    with keys have "snd (map_prod id (json_indented cr (n + 2)) kv) \<noteq> None" by blast
    then have "json_indented cr (n + 2) (snd kv) \<noteq> None" by simp
    then show ?thesis unfolding writable_def by blast
  qed
qed

lemma writable_field:
  assumes "writable cr (PDict d)" "dget d k = v" "v \<noteq> PNone"
  shows "writable cr v"
proof -
  from assms(2,3) have "(KStr k, v) \<in> set d" by (auto simp: dget_def dget_or_def split: option.splits dest: map_of_SomeD)
  from writable_dict(2) [OF assms(1) this] show ?thesis by simp
qed

lemma homogeneous_Nil [simp]: "homogeneous []"
  by (simp add: homogeneous_def)

lemma writable_mapping:
  assumes "writable cr (PDict d)"
  shows "homogeneous (mapping_or_empty (dget d k))"
proof (cases "dget d k")
  case (PDict e)
  with writable_field [OF assms, of k] have "writable cr (PDict e)" by simp
  from writable_dict(1) [OF this] PDict show ?thesis by simp
qed simp_all

text \<open>Every JSON value can be written.\<close>

lemma json_writable: "json_value_errors v = [] \<Longrightarrow> \<exists>t. json_indented cr n v = Some t"
proof (induction v arbitrary: n rule: json_value_errors.induct)
  case (6 d)
  then have "\<exists>r. json_pairs True '': '' (map (map_prod id (json_indented cr (n + 2))) d) = Some r \<and> (\<forall>kt \<in> set r. text_key (fst kt))"
    by (intro json_pairs_total) (fastforce simp: json_dict)
  then show ?case by (auto simp: sorted_pairs_def list_all_iff)
next
  case (7 vs)
  then have "\<exists>ts. all_some (map (json_indented cr (n + 2)) vs) = Some ts \<and> (\<forall>t \<in> set ts. True)"
    by (intro all_some_total) (auto simp: json_list)
  then show ?case by auto
qed (auto split: pyfloat.splits)

end
