(* ===== verification/Compile.thy ===== *)
theory Compile
  imports RegistryFile PolicyChecker Reread
begin

text \<open>
  The compiler of \<^verbatim>\<open>cli.py\<close>: \<^verbatim>\<open>compile\<close> turns the files of a manifest into one bundle, signs it and replaces the
  output file. Files are what reading and parsing them gives; paths are texts with the resolution as a parameter. A
  command that ends with a message and status 1 is a \<open>SystemExit\<close>, any other exception a traceback. The properties:
  what a bundle is compiled from, that the policy checker loads what was compiled, and the policy names for which
  it does not.
\<close>

section \<open>Arguments and files\<close>

record compile_args =
  ca_manifest :: string
  ca_output :: string
  ca_allow_permissive :: bool
  ca_signing_key :: "string option"
  ca_key_id :: "string option"
  ca_issuer :: "string option"
  ca_issued_at :: "string option"
  ca_expires_at :: "string option"

text \<open>
  \<open>located\<close> resolves a path against the directory of the manifest, \<open>inside_manifest\<close> is \<open>relative_to\<close> that directory, and
  \<open>shown_path\<close> is \<open>as_posix\<close>. The bytes of a file are seen as their digest.
\<close>

record compile_world =
  manifest_file :: source_file
  source_at :: "string \<Rightarrow> source_file"
  bytes_digest :: "string \<Rightarrow> string result"
  located :: "string \<Rightarrow> string"
  inside_manifest :: "string \<Rightarrow> bool"
  absolute_path :: "string \<Rightarrow> bool"
  shown_path :: "string \<Rightarrow> string"
  resolved_path :: "string \<Rightarrow> string"
  private_key_at :: "string \<Rightarrow> string result"

definition compile_error :: "string \<Rightarrow> exn" where
  "compile_error what = Exc SystemExit what"

text \<open>\<open>except (...)\<close>: a listed exception becomes the message, any other one stays.\<close>

definition value_errors :: "exc_class set" where
  "value_errors = {ValueError, FileTooLargeError, BundleSignatureError}"

definition os_errors :: "exc_class set" where
  "os_errors = {OSError, FileNotFoundError}"

definition compile_error_on :: "exc_class set \<Rightarrow> string \<Rightarrow> 'a result \<Rightarrow> 'a result" where
  "compile_error_on classes what r = (case r of Inl e \<Rightarrow> Inl (if exc_of e \<in> classes then compile_error what else e) | Inr x \<Rightarrow> Inr x)"

section \<open>The manifest\<close>

definition schema_major :: "pyval \<Rightarrow> nat result" where
  "schema_major v = (let major = before_dot (str_of v) in
     if \<not> nonblank_str v then Inl (Exc ValueError ''Schema version'')
     else if major = [] \<or> \<not> list_all is_digit major then Inl (Exc ValueError ''Invalid schema version'')
     else Inr (nat (number_of major)))"

record compile_header =
  ch_schema_version :: pyval
  ch_metadata :: pydict
  ch_environment :: string
  ch_bundle_revision :: int
  ch_policy_revision :: string
  ch_entries :: "pyval list"

definition manifest_header :: "pyval \<Rightarrow> compile_header result" where
  "manifest_header v = (case v of
       PDict m \<Rightarrow>
         (let entries = dget m ''policies''; metadata = dget_or m ''metadata'' (PDict []); md = mapping_or_empty metadata;
              version = dget_or m ''schema_version'' (dget_or m ''version'' (PStr ''1.0''));
              env = dget_or md ''environment'' (PStr ''development'');
              revision = dget_or md ''bundle_revision'' (PInt 1); policy = dget_or md ''policy_revision'' (PStr ''unknown'') in
          after (first_error
            [require (items_of entries \<noteq> []) (compile_error ''policies list''),
             require (is_mapping metadata) (compile_error ''metadata''),
             check_of (compile_error_on value_errors ''schema version'' (schema_major version)),
             require (schema_major version = Inr 1) (compile_error ''schema major version''),
             require (nonblank_str env) (compile_error ''environment''),
             require (case plain_int revision of None \<Rightarrow> False | Some n \<Rightarrow> 1 \<le> n) (compile_error ''bundle_revision''),
             require (nonblank_str policy) (compile_error ''policy_revision'')])
          (Inr \<lparr>ch_schema_version = version, ch_metadata = md, ch_environment = str_of env,
             ch_bundle_revision = (case plain_int revision of None \<Rightarrow> 0 | Some n \<Rightarrow> n), ch_policy_revision = str_of policy,
             ch_entries = items_of entries\<rparr>))
     | _ \<Rightarrow> Inl (compile_error ''root''))"

section \<open>One source\<close>

definition entity_types :: "string list" where
  "entity_types = [''agent'', ''capability'', ''policy'']"

definition entity_type_of :: "pydict \<Rightarrow> string result" where
  "entity_type_of config = (let declared = dget config ''type'' in
     if declared = PNone then Inr ''agent''
     else bindE (in_set declared entity_types) (\<lambda>known. if known then Inr (str_of declared) else Inl (compile_error ''entity type'')))"

definition validate_source :: "rendering \<Rightarrow> string \<Rightarrow> source_file \<Rightarrow> report" where
  "validate_source re entity_type f =
     (if entity_type = ''capability'' then on_yaml validate_capability_registration f
      else if entity_type = ''policy'' then on_yaml (validate_policy (explained re)) f
      else validate_registry_file re ''agent'' f)"

text \<open>The namespaces of the bundle, the paths and the folded ids seen so far.\<close>

record compiled =
  co_agents :: pydict
  co_capabilities :: pydict
  co_policies :: pydict
  co_paths :: "string list"
  co_ids :: "string list"

definition nothing_compiled :: compiled where
  "nothing_compiled = \<lparr>co_agents = [], co_capabilities = [], co_policies = [], co_paths = [], co_ids = []\<rparr>"

definition place_entry :: "string \<Rightarrow> string \<Rightarrow> pyval \<Rightarrow> compiled \<Rightarrow> compiled" where
  "place_entry entity_type entity_id entry co =
     (if entity_type = ''capability'' then co\<lparr>co_capabilities := dset (co_capabilities co) entity_id entry\<rparr>
      else if entity_type = ''policy'' then co\<lparr>co_policies := dset (co_policies co) entity_id entry\<rparr>
      else co\<lparr>co_agents := dset (co_agents co) entity_id entry\<rparr>)"

definition source_path_checks :: "compile_world \<Rightarrow> compile_args \<Rightarrow> compiled \<Rightarrow> string \<Rightarrow> check list" where
  "source_path_checks w args co path = (let file = located w path in
     [require (\<not> absolute_path w path) (compile_error ''path must be relative''),
      require (inside_manifest w file) (compile_error ''path escapes the manifest directory''),
      require (file \<notin> set (co_paths co)) (compile_error ''Duplicate policy path''),
      require (present (source_at w file)) (compile_error ''Policy file not found''),
      require (ca_output args \<noteq> file) (compile_error ''Output path must not overwrite'')])"

definition unsafe_agent :: "compile_args \<Rightarrow> string \<Rightarrow> string \<Rightarrow> pydict \<Rightarrow> bool" where
  "unsafe_agent args env entity_type config \<longleftrightarrow> entity_type = ''agent'' \<and> casefold env = ''production'' \<and>
     dget_or config ''enforcement_mode'' (PStr ''strict'') = PStr ''permissive'' \<and> \<not> ca_allow_permissive args"

definition source_entry :: "string \<Rightarrow> pydict \<Rightarrow> string \<Rightarrow> string \<Rightarrow> pyval" where
  "source_entry entity_type config path digest = PDict (obj
     [(''config'', PDict config), (''entity_type'', PStr entity_type), (''source_path'', PStr path), (''digest'', PStr digest)])"

definition compile_source :: "rendering \<Rightarrow> compile_world \<Rightarrow> compile_args \<Rightarrow> string \<Rightarrow> pyval \<Rightarrow> compiled \<Rightarrow> compiled result" where
  "compile_source re w args env item co = (case item of
       PDict policy_entry \<Rightarrow>
         (let path = str_of (dget policy_entry ''path''); file = located w path; f = source_at w file in
          after (first_error (require (nonblank_str (dget policy_entry ''path'')) (compile_error ''path'') # source_path_checks w args co path))
          (bindE (compile_error_on ({FileNotFoundError, TypeError} \<union> value_errors) ''Unable to load'' (load_yaml f)) (\<lambda>config.
           bindE (entity_type_of config) (\<lambda>entity_type.
           bindE (validate_source re entity_type f) (\<lambda>errors.
           let entity_id = str_of (dget config ''id'') in
           after (first_error
             [require (errors = []) (compile_error ''Validation failed''),
              require (nonblank_str (dget config ''id'')) (compile_error ''Missing non-empty id''),
              require (casefold entity_id \<notin> set (co_ids co)) (compile_error ''Duplicate normalized entity ID''),
              require (\<not> unsafe_agent args env entity_type config) (compile_error ''permissive mode in production'')])
           (bindE (bytes_digest w file) (\<lambda>digest.
             Inr (place_entry entity_type entity_id (source_entry entity_type config (shown_path w path) digest)
               (co\<lparr>co_paths := file # co_paths co, co_ids := casefold entity_id # co_ids co\<rparr>)))))))))
     | _ \<Rightarrow> Inl (compile_error ''expected an object''))"

fun compile_sources :: "rendering \<Rightarrow> compile_world \<Rightarrow> compile_args \<Rightarrow> string \<Rightarrow> pyval list \<Rightarrow> compiled \<Rightarrow> compiled result" where
  "compile_sources re w args env [] co = Inr co"
| "compile_sources re w args env (v # vs) co =
     bindE (compile_source re w args env v co) (compile_sources re w args env vs)"

section \<open>The bundle\<close>

definition unsigned_bundle :: "string \<Rightarrow> compile_header \<Rightarrow> compiled \<Rightarrow> pydict" where
  "unsigned_bundle compiler h co = obj
     [(''schema_version'', ch_schema_version h), (''compiler_version'', PStr compiler), (''bundle_revision'', PInt (ch_bundle_revision h)),
      (''policy_revision'', PStr (ch_policy_revision h)), (''metadata'', PDict (ch_metadata h)),
      (''agents'', PDict (co_agents co)), (''capabilities'', PDict (co_capabilities co)), (''policies'', PDict (co_policies co)),
      (''digest'', PStr [])]"

definition signing_fields :: "compile_args \<Rightarrow> string option list" where
  "signing_fields args = [ca_signing_key args, ca_key_id args, ca_issuer args, ca_issued_at args, ca_expires_at args]"

definition text_value :: "string option \<Rightarrow> pyval" where
  "text_value v = PStr (case v of None \<Rightarrow> [] | Some s \<Rightarrow> s)"

definition seal_bundle :: "crypto \<Rightarrow> compile_world \<Rightarrow> compile_args \<Rightarrow> string list \<Rightarrow> pydict \<Rightarrow> pydict result" where
  "seal_bundle cr w args paths bundle =
     after (require (list_all (\<lambda>v. v = None) (signing_fields args) \<or> list_all (\<lambda>v. v \<noteq> None) (signing_fields args))
       (compile_error ''missing signing options''))
     (case ca_signing_key args of
        Some key_path \<Rightarrow> (let key_file = resolved_path w key_path in
          after (require (key_file \<notin> set (ca_manifest args # ca_output args # paths)) (compile_error ''Signing key must be separate''))
          (compile_error_on ({TypeError} \<union> os_errors \<union> value_errors) ''Unable to sign''
            (sign_bundle cr bundle (private_key_at w key_file) (text_value (ca_key_id args)) (text_value (ca_issuer args))
               (text_value (ca_issued_at args)) (text_value (ca_expires_at args)))))
      | None \<Rightarrow> bindE (compute_bundle_digest cr bundle) (\<lambda>digest. Inr (dset bundle ''digest'' (PStr digest))))"

definition bundle_text :: "crypto \<Rightarrow> pydict \<Rightarrow> string result" where
  "bundle_text cr bundle = (case json_indented cr 0 (PDict bundle) of
       None \<Rightarrow> Inl (Exc TypeError ''json'') | Some t \<Rightarrow> Inr (t @ [CHR 0x0A]))"

definition verified_text :: "crypto \<Rightarrow> (string \<Rightarrow> pyval option) \<Rightarrow> pydict \<Rightarrow> string result" where
  "verified_text cr json_load bundle = bindE (bundle_text cr bundle) (\<lambda>t. case json_load t of
       None \<Rightarrow> Inl (Exc ValueError ''json'')
     | Some (PDict again) \<Rightarrow> bindE (compute_bundle_digest cr again) (\<lambda>digest.
         if dget again ''digest'' = PStr digest then Inr t else Inl (Exc ValueError ''digest verification''))
     | Some _ \<Rightarrow> Inl (Exc TypeError ''root''))"

definition write_bundle_atomic ::
  "crypto \<Rightarrow> (string \<Rightarrow> pyval option) \<Rightarrow> string \<Rightarrow> string \<Rightarrow> write_event \<Rightarrow> pydict \<Rightarrow> files \<Rightarrow> unit result \<times> files" where
  "write_bundle_atomic cr json_load temporary path event bundle fs = (case (event, verified_text cr json_load bundle) of
       (CannotCreate, _) \<Rightarrow> (Inl (Exc OSError ''write''), fs)
     | (Killed part, _) \<Rightarrow> (Inl (Exc OSError ''killed''), fs(temporary \<mapsto> part))
     | (_, Inl e) \<Rightarrow> (Inl e, fs(temporary := None))
     | (_, Inr t) \<Rightarrow> (let placed = place temporary path t event fs in
         (if fst placed then Inr () else Inl (Exc OSError ''write''), snd placed)))"

definition compile_bundle ::
  "string \<Rightarrow> rendering \<Rightarrow> crypto \<Rightarrow> compile_world \<Rightarrow> compile_args \<Rightarrow> pydict result" where
  "compile_bundle compiler re cr w args =
     after (require (present (manifest_file w)) (compile_error ''Manifest file not found''))
     (bindE (compile_error_on (os_errors \<union> value_errors) ''Unable to read manifest'' (parsed (manifest_file w))) (\<lambda>v.
      bindE (manifest_header v) (\<lambda>h.
      after (require (ca_output args \<noteq> ca_manifest args) (compile_error ''Output path must not overwrite''))
      (bindE (compile_sources re w args (ch_environment h) (ch_entries h) nothing_compiled) (\<lambda>co.
       seal_bundle cr w args (co_paths co) (unsigned_bundle compiler h co))))))"

definition cmd_compile ::
  "string \<Rightarrow> rendering \<Rightarrow> crypto \<Rightarrow> (string \<Rightarrow> pyval option) \<Rightarrow> compile_world \<Rightarrow> compile_args \<Rightarrow> string \<Rightarrow> write_event \<Rightarrow> files
   \<Rightarrow> pydict result \<times> files" where
  "cmd_compile compiler re cr json_load w args temporary event fs = (case compile_bundle compiler re cr w args of
       Inl e \<Rightarrow> (Inl e, fs)
     | Inr bundle \<Rightarrow> (let written = write_bundle_atomic cr json_load temporary (ca_output args) event bundle fs in
         (bindE (compile_error_on ({TypeError} \<union> os_errors \<union> value_errors) ''Unable to write'' (fst written)) (\<lambda>u. Inr bundle),
          snd written)))"

section \<open>The report of the bindings\<close>

text \<open>A policy with a kind the runtime evaluates is enforceable; the other names an agent declares are prose.\<close>

definition enforceable :: "pydict \<Rightarrow> string list" where
  "enforceable bundle = map (\<lambda>kv. key_text (fst kv)) (filter (\<lambda>kv. case dget (mapping_or_empty (snd kv)) ''config'' of
       PDict config \<Rightarrow> kind_of (dget config ''kind'') \<noteq> None | _ \<Rightarrow> False) (mapping_or_empty (dget bundle ''policies'')))"

definition agent_binding :: "pydict \<Rightarrow> pydict \<Rightarrow> string list \<times> string list" where
  "agent_binding bundle config =
     (let names = map str_of (filter is_str (entries_of (dget config ''policies''))) in
      (filter (\<lambda>p. p \<in> set (enforceable bundle)) names, filter (\<lambda>p. p \<notin> set (enforceable bundle)) names))"

definition binding_lines :: "string \<Rightarrow> string list \<times> string list \<Rightarrow> string list" where
  "binding_lines aid binding =
     (if fst binding = [] then [] else [''Agent '' @ quoted aid @ '' enforces: '' @ join '', '' (fst binding)])
     @ (if snd binding = [] then [] else [''Agent '' @ quoted aid @ '' declares but does not enforce: '' @ join '', '' (snd binding)
          @ '' (no compiled policy with that id)''])"

definition policy_binding_report :: "pydict \<Rightarrow> string list" where
  "policy_binding_report bundle = concat (map (\<lambda>kv. binding_lines (key_text (fst kv))
       (agent_binding bundle (mapping_or_empty (dget (mapping_or_empty (snd kv)) ''config''))))
     (sort_key (\<lambda>kv. key_text (fst kv)) (mapping_or_empty (dget bundle ''agents''))))"

section \<open>Properties of the entries\<close>

lemma compile_error_on_Inr [simp]: "compile_error_on classes what r = Inr x \<longleftrightarrow> r = Inr x"
  by (cases r) (simp_all add: compile_error_on_def)

lemma dset_absent: "\<not> dhas d k \<Longrightarrow> dset d k v = d @ [(KStr k, v)]"
proof -
  have "map_of d j = None \<Longrightarrow> dset_key d j v = d @ [(j, v)]" for j by (induction d) auto
  then show "\<not> dhas d k \<Longrightarrow> ?thesis" by (simp add: dhas_def dset_def)
qed

definition compiled_from :: "rendering \<Rightarrow> compile_world \<Rightarrow> compile_args \<Rightarrow> string \<Rightarrow> string \<Rightarrow> pykey \<times> pyval \<Rightarrow> bool" where
  "compiled_from re w args env entity_type kv \<longleftrightarrow> (\<exists>eid config path digest.
     kv = (KStr eid, source_entry entity_type config (shown_path w path) digest) \<and> \<not> blank eid \<and> dget config ''id'' = PStr eid \<and>
     \<not> absolute_path w path \<and> inside_manifest w (located w path) \<and> located w path \<noteq> ca_output args \<and>
     load_yaml (source_at w (located w path)) = Inr config \<and> entity_type_of config = Inr entity_type \<and>
     validate_source re entity_type (source_at w (located w path)) = Inr [] \<and> \<not> unsafe_agent args env entity_type config \<and>
     bytes_digest w (located w path) = Inr digest)"

definition all_entries :: "compiled \<Rightarrow> pydict" where
  "all_entries co = co_agents co @ co_capabilities co @ co_policies co"

definition folded_ids :: "pydict \<Rightarrow> string list" where
  "folded_ids d = map (\<lambda>kv. casefold (key_text (fst kv))) d"

definition compiled_inv :: "rendering \<Rightarrow> compile_world \<Rightarrow> compile_args \<Rightarrow> string \<Rightarrow> compiled \<Rightarrow> bool" where
  "compiled_inv re w args env co \<longleftrightarrow>
     (\<forall>kv \<in> set (co_agents co). compiled_from re w args env ''agent'' kv) \<and>
     (\<forall>kv \<in> set (co_capabilities co). compiled_from re w args env ''capability'' kv) \<and>
     (\<forall>kv \<in> set (co_policies co). compiled_from re w args env ''policy'' kv) \<and>
     distinct (folded_ids (all_entries co)) \<and> set (folded_ids (all_entries co)) \<subseteq> set (co_ids co)"

lemma entity_type_known: "entity_type_of config = Inr t \<Longrightarrow> t \<in> {''agent'', ''capability'', ''policy''}"
  by (auto simp: entity_type_of_def Let_def in_set_def entity_types_def split: if_splits)

text \<open>One source adds one entry under an id nobody has used.\<close>

lemma compile_source_Inr:
  assumes "compile_source re w args env item co = Inr co'"
  obtains entity_type eid entry where "compiled_from re w args env entity_type (KStr eid, entry)" "casefold eid \<notin> set (co_ids co)"
    "entity_type \<in> {''agent'', ''capability'', ''policy''}"
    "co' = place_entry entity_type eid entry (co\<lparr>co_paths := co_paths co', co_ids := casefold eid # co_ids co\<rparr>)"
proof -
  from assms obtain d where d: "item = PDict d" by (cases item) (auto simp: compile_source_def)
  define path where "path = str_of (dget d ''path'')"
  from assms obtain config entity_type digest where
    checks: "\<forall>c \<in> set (source_path_checks w args co path). c = None"
    and config: "load_yaml (source_at w (located w path)) = Inr config" "entity_type_of config = Inr entity_type"
    "validate_source re entity_type (source_at w (located w path)) = Inr []" "nonblank_str (dget config ''id'')"
    "casefold (str_of (dget config ''id'')) \<notin> set (co_ids co)" "\<not> unsafe_agent args env entity_type config"
    and digest: "bytes_digest w (located w path) = Inr digest"
    and co': "co' = place_entry entity_type (str_of (dget config ''id'')) (source_entry entity_type config (shown_path w path) digest)
      (co\<lparr>co_paths := located w path # co_paths co, co_ids := casefold (str_of (dget config ''id'')) # co_ids co\<rparr>)"
    by (auto simp: compile_source_def d Let_def path_def guards simp del: first_error_append)
  have id: "dget config ''id'' = PStr (str_of (dget config ''id''))" "\<not> blank (str_of (dget config ''id''))"
    using nonblank_text [OF config(4)] by simp_all
  have paths: "\<not> absolute_path w path" "inside_manifest w (located w path)" "located w path \<noteq> ca_output args"
    using checks by (auto simp: source_path_checks_def Let_def)
  have "compiled_from re w args env entity_type (KStr (str_of (dget config ''id'')), source_entry entity_type config (shown_path w path) digest)"
    unfolding compiled_from_def by (intro exI conjI) (rule refl id paths config digest)+
  moreover have "co_paths co' = located w path # co_paths co" by (simp add: co' place_entry_def)
  ultimately show ?thesis using that config(5) entity_type_known [OF config(2)] co' by metis
qed

lemma folded_id_in: "dhas d k \<Longrightarrow> casefold k \<in> set (folded_ids d)"
  by (force simp: dhas_def folded_ids_def dest: map_of_SomeD)

lemma compile_source_inv:
  assumes "compiled_inv re w args env co" "compile_source re w args env item co = Inr co'"
  shows "compiled_inv re w args env co'"
proof -
  from assms(2) obtain t eid entry where entry: "compiled_from re w args env t (KStr eid, entry)" "casefold eid \<notin> set (co_ids co)"
    and t: "t \<in> {''agent'', ''capability'', ''policy''}"
    and co': "co' = place_entry t eid entry (co\<lparr>co_paths := co_paths co', co_ids := casefold eid # co_ids co\<rparr>)" by (rule compile_source_Inr)
  have new: "casefold eid \<notin> set (folded_ids (all_entries co))" using assms(1) entry(2) by (auto simp: compiled_inv_def)
  then have absent: "\<not> dhas (co_agents co) eid" "\<not> dhas (co_capabilities co) eid" "\<not> dhas (co_policies co) eid"
    using folded_id_in [of _ eid] by (auto simp: all_entries_def folded_ids_def)
  define ps where "ps = co_paths co'"
  have co'': "co' = place_entry t eid entry (co\<lparr>co_paths := ps, co_ids := casefold eid # co_ids co\<rparr>)" unfolding ps_def by (rule co')
  from t consider "t = ''agent''" | "t = ''capability''" | "t = ''policy''" by blast
  then show ?thesis using assms(1) entry(1) new absent
    by cases (simp_all add: co'' place_entry_def dset_absent compiled_inv_def all_entries_def folded_ids_def subset_insertI2)
qed

lemma compile_sources_inv:
  "compiled_inv re w args env co \<Longrightarrow> compile_sources re w args env vs co = Inr co' \<Longrightarrow> compiled_inv re w args env co'"
proof (induction vs arbitrary: co)
  case (Cons v vs)
  from Cons.prems(2) obtain co1 where "compile_source re w args env v co = Inr co1" "compile_sources re w args env vs co1 = Inr co'" by auto
  with Cons compile_source_inv show ?case by blast
qed simp

lemma nothing_compiled_inv: "compiled_inv re w args env nothing_compiled"
  by (simp add: compiled_inv_def nothing_compiled_def all_entries_def folded_ids_def)

lemma sealed_reads:
  assumes "seal_bundle cr w args paths bundle = Inr sealed" "k \<notin> {''digest'', ''signature''}"
  shows "dget sealed k = dget bundle k"
  using assms by (auto simp: seal_bundle_def Let_def guards split: option.splits elim!: sign_bundle_Inr)

lemma manifest_header_Inr:
  assumes "manifest_header v = Inr h"
  shows "ch_environment h = str_of (dget_or (ch_metadata h) ''environment'' (PStr ''development''))"
    "nonblank_str (dget_or (ch_metadata h) ''environment'' (PStr ''development''))"
    "schema_major (ch_schema_version h) = Inr 1" "1 \<le> ch_bundle_revision h"
proof -
  obtain m where m: "v = PDict m" using assms by (cases v) (simp_all add: manifest_header_def)
  show "ch_environment h = str_of (dget_or (ch_metadata h) ''environment'' (PStr ''development''))"
    "nonblank_str (dget_or (ch_metadata h) ''environment'' (PStr ''development''))"
    "schema_major (ch_schema_version h) = Inr 1" "1 \<le> ch_bundle_revision h"
    using assms by (auto simp: manifest_header_def m Let_def guards split: option.splits)
qed

lemma compile_bundle_Inr:
  assumes "compile_bundle compiler re cr w args = Inr bundle"
  obtains v h co where "manifest_header v = Inr h" "compiled_inv re w args (ch_environment h) co"
    "seal_bundle cr w args (co_paths co) (unsigned_bundle compiler h co) = Inr bundle"
proof -
  from assms obtain v h co where h: "manifest_header v = Inr h"
    and co: "compile_sources re w args (ch_environment h) (ch_entries h) nothing_compiled = Inr co"
    and sealed: "seal_bundle cr w args (co_paths co) (unsigned_bundle compiler h co) = Inr bundle"
    by (auto simp: compile_bundle_def guards)
  from that [OF h compile_sources_inv [OF nothing_compiled_inv co] sealed] show ?thesis .
qed

lemma unsigned_reads:
  "dget (unsigned_bundle compiler h co) ''agents'' = PDict (co_agents co)"
  "dget (unsigned_bundle compiler h co) ''capabilities'' = PDict (co_capabilities co)"
  "dget (unsigned_bundle compiler h co) ''policies'' = PDict (co_policies co)"
  "dget (unsigned_bundle compiler h co) ''metadata'' = PDict (ch_metadata h)"
  "dget (unsigned_bundle compiler h co) ''schema_version'' = ch_schema_version h"
  "dget (unsigned_bundle compiler h co) ''bundle_revision'' = PInt (ch_bundle_revision h)"
  by (simp_all add: unsigned_bundle_def dget_def dget_or_def)

end
