(* ===== verification/CompiledLoads.thy ===== *)
theory CompiledLoads
  imports Compile
begin

text \<open>
  The compiler and the policy checker agree: what \<^verbatim>\<open>compile\<close> wrote is a bundle the loader of \<^verbatim>\<open>policy_checker.py\<close>
  accepts, with the agents, configurations and policy bindings the compiler reported. The files are read back as
  \<open>Reread\<close> says. An agent whose policy names are no texts is the exception.
\<close>

section \<open>What a bundle is compiled from\<close>


section \<open>Accepted entries survive\<close>

lemma text_key_has: "homogeneous d \<Longrightarrow> dhas d k \<Longrightarrow> \<forall>kv \<in> set d. text_key (fst kv)"
  by (force simp: homogeneous_def dhas_def dest: map_of_SomeD)

lemma list_all_reread: "list_all nonblank_str (map reread vs) = list_all nonblank_str vs"
  by (simp add: list_all_iff unread)

lemma kind_reread [unread]: "kind_of (reread v) = kind_of v"
  by (simp add: kind_of_def unread)

lemma positive_reread [unread]: "is_finite_positive (reread v) = is_finite_positive v"
  by (cases v) (simp_all add: is_finite_positive_def)

lemma trigger_reread: "trigger_errors v = [] \<Longrightarrow> trigger_errors (reread v) = []"
  by (cases v) (simp_all add: trigger_errors_Nil unread list_all_iff)

lemma spec_fields_reread:
  assumes "homogeneous d" "spec_field_errors k d = []"
  shows "spec_field_errors k (reread_dict d) = []"
proof -
  note reads = reread_reads [OF assms(1)]
  show ?thesis using assms(2)
    by (cases k) (auto simp: spec_field_errors_def reads unread list_all_reread is_digit_def split: if_splits)
qed

lemma policy_reread:
  assumes "writable cr (PDict d)" "policy_definition_errors d = []"
  shows "policy_definition_errors (reread_dict d) = []"
proof (cases "dget d ''kind'' = PNone")
  note hom = writable_dict(1) [OF assms(1)]
  note reads = reread_reads [OF hom]
  case True
  then show ?thesis by (simp add: policy_definition_errors_def reads is_digit_def)
next
  note hom = writable_dict(1) [OF assms(1)]
  note reads = reread_reads [OF hom]
  case False
  with assms(2) obtain k where k: "kind_of (dget d ''kind'') = Some k" by (auto simp: policy_definition_errors_def split: option.splits)
  let ?section = "dget d (spec_section k)"
  have section_read: "dget (reread_dict d) (spec_section k) = reread ?section" by (cases k) (simp_all add: reads is_digit_def)
  from assms(2) False k have parts: "trigger_errors (dget d ''trigger'') = []" "?section = PNone \<or> is_mapping ?section"
    "\<forall>f \<in> set (required_fields k). dhas (mapping_or_empty ?section) f" "spec_field_errors k (mapping_or_empty ?section) = []"
    by (auto simp: policy_definition_errors_def Let_def filter_empty_conv split: if_splits)
  have inner: "homogeneous (mapping_or_empty ?section)" by (rule writable_mapping [OF assms(1)])
  have fields: "\<forall>f \<in> set (required_fields k). dhas (reread_dict (mapping_or_empty ?section)) f"
    using parts(3) reread_reads(2) [OF inner] by (cases k) (simp_all add: is_digit_def)
  have "kind_of (dget (reread_dict d) ''kind'') = Some k" "dget (reread_dict d) ''kind'' \<noteq> PNone"
    "trigger_errors (dget (reread_dict d) ''trigger'') = []"
    using k False trigger_reread [OF parts(1)] by (simp_all add: reads unread is_digit_def)
  with fields parts(2) spec_fields_reread [OF inner parts(4)] show ?thesis
    by (auto simp: policy_definition_errors_def Let_def section_read unread filter_empty_conv)
qed

section \<open>The entries load\<close>

lemma entry_reads:
  assumes "source_entry t config path digest = PDict e"
  shows "homogeneous e" "dget e ''config'' = PDict config"
  using assms by (auto simp: source_entry_def homogeneous_def dget_def dget_or_def)

lemma reread_entry:
  "\<exists>e. reread (source_entry t config path digest) = PDict e \<and> dget e ''config'' = PDict (reread_dict config)"
proof -
  obtain e where e: "source_entry t config path digest = PDict e" by (simp add: source_entry_def)
  note read = entry_reads [OF e]
  have "dget (reread_dict e) ''config'' = PDict (reread_dict config)" by (simp add: reread_reads [OF read(1)] read(2) is_digit_def)
  then show ?thesis by (simp add: e)
qed

definition policies_named :: "pydict \<Rightarrow> bool" where
  "policies_named config \<longleftrightarrow> list_all nonblank_str (entries_of (dget config ''policies''))"

lemma dget_or_dget: "dget_or d k v = (if dhas d k then dget d k else v)"
  by (simp add: dget_def dget_or_def dhas_def split: option.splits)

lemma accepted_agent_lists:
  assumes "validate_agent config = Inr []" "f \<in> {''allowed_actions'', ''blocked_actions'', ''policies''}"
  shows "dhas config f" "is_list (dget config f)"
proof -
  from assms(1) have "filter (\<lambda>f. \<not> dhas config f) agent_fields = []"
    "filter (\<lambda>f. dhas config f \<and> \<not> is_list (dget config f)) agent_lists = []" by (simp_all add: validate_agent_def accept)
  moreover have "f \<in> set agent_fields" "f \<in> set agent_lists" using assms(2) by (auto simp: agent_fields_def agent_lists_def)
  ultimately show "dhas config f" "is_list (dget config f)" unfolding filter_empty_conv by blast+
qed

lemma accepted_agent_mode:
  assumes "validate_agent config = Inr []"
  shows "dget_or config ''enforcement_mode'' (PStr ''strict'') \<in> {PStr ''strict'', PStr ''permissive''}"
  using assms by (auto simp: validate_agent_def accept)

lemma agent_loads:
  assumes "validate_agent config = Inr []" "homogeneous config" "\<not> blank aid"
  shows "\<exists>a. load_agent (KStr aid) (reread (source_entry t config path digest)) = Inr (aid, a) \<and> ae_config a = reread_dict config \<and>
    ae_rules a = [] \<and> ae_declarative a = []"
proof -
  obtain e where e: "reread (source_entry t config path digest) = PDict e" "dget e ''config'' = PDict (reread_dict config)"
    using reread_entry by blast
  note reads = reread_reads [OF assms(2)]
  have mode: "dget_or (reread_dict config) ''enforcement_mode'' (PStr ''strict'') \<in> {PStr ''strict'', PStr ''permissive''}"
    using accepted_agent_mode [OF assms(1)] by (simp add: reads is_digit_def unread dget_or_dget split: if_splits)
  have listed: "is_list (dget_or (reread_dict config) f (PList []))" if "f \<in> {''allowed_actions'', ''blocked_actions''}" for f
    using that accepted_agent_lists [OF assms(1), of f] by (auto simp: reads is_digit_def unread)
  note lists = listed [of "''allowed_actions''", simplified] listed [of "''blocked_actions''", simplified]
  have "aid \<noteq> []" using assms(3) by auto
  with mode lists show ?thesis by (simp only: load_agent_def e prod.case pykey.case pyval.case Let_def guarded_def first_error.simps require_True simp_thms
    option.case if_True if_False bool_simps) simp
qed

lemma agents_load:
  "\<forall>kv \<in> set d. \<exists>a. load_agent (fst kv) (snd kv) = Inr a \<and> P (fst kv) a \<Longrightarrow>
   \<exists>as. load_agents d = Inr as \<and> list_all2 (\<lambda>kv a. P (fst kv) a) d as"
  by (induction d) auto

lemma capabilities_load:
  "\<forall>kv \<in> set d. \<exists>cid e. kv = (KStr cid, PDict e) \<and> cid \<noteq> [] \<Longrightarrow> \<exists>cs. load_capabilities d = Inr cs"
  by (induction d) auto

text \<open>The rules that load are those of the policies with a kind, each under its own id.\<close>

lemma rules_load:
  assumes "\<forall>kv \<in> set d. \<exists>pid e config. kv = (KStr pid, PDict e) \<and> \<not> blank pid \<and> dget e ''config'' = PDict config \<and> policy_definition_errors config = []"
  shows "\<exists>rules. load_rules d = Inr rules \<and> (\<forall>(pid, rule) \<in> set rules. policy_id rule = pid) \<and>
    fst ` set rules = {pid. \<exists>e config. (KStr pid, PDict e) \<in> set d \<and> dget e ''config'' = PDict config \<and> kind_of (dget config ''kind'') \<noteq> None}"
  using assms
proof (induction d)
  case (Cons kv d)
  then obtain rules where rules: "load_rules d = Inr rules" "\<forall>(pid, rule) \<in> set rules. policy_id rule = pid"
    "fst ` set rules = {pid. \<exists>e config. (KStr pid, PDict e) \<in> set d \<and> dget e ''config'' = PDict config \<and> kind_of (dget config ''kind'') \<noteq> None}" by auto
  obtain pid e config where kv: "kv = (KStr pid, PDict e)" "\<not> blank pid" "dget e ''config'' = PDict config" "policy_definition_errors config = []"
    using Cons.prems by auto
  show ?case
  proof (cases "kind_of (dget config ''kind'')")
    case None
    then have "load_rule pid (PDict e) = Inr None"
      using kv(3,4) by (auto simp: load_rule_def policy_definition_errors_def split: if_splits)
    with rules kv None show ?thesis by auto
  next
    case (Some k)
    then have "dget config ''kind'' \<noteq> PNone" by (auto simp: kind_of_def)
    with Some kv(3,4) obtain rule where "load_rule pid (PDict e) = Inr (Some rule)" "policy_id rule = pid" by (auto simp: load_rule_def)
    with rules kv Some show ?thesis by auto
  qed
qed simp

text \<open>Binding an agent whose policy names are texts.\<close>

lemma agent_binds:
  assumes "is_list (dget (ae_config e) ''policies'')" "policies_named (ae_config e)" "ae_rules e = []" "ae_declarative e = []"
    "\<forall>(pid, rule) \<in> set rules. policy_id rule = pid"
  shows "\<exists>b. bind_rules rules (aid, e) = Inr (aid, b) \<and> ae_config b = ae_config e \<and>
    map policy_id (ae_rules b) = filter (\<lambda>p. p \<in> fst ` set rules) (map str_of (entries_of (dget (ae_config e) ''policies''))) \<and>
    ae_declarative b = filter (\<lambda>p. p \<notin> fst ` set rules) (map str_of (entries_of (dget (ae_config e) ''policies'')))"
proof -
  have found: "map_of rules p \<noteq> None \<longleftrightarrow> p \<in> fst ` set rules" for p by (metis map_of_eq_None_iff)
  have ids: "map_of rules p = Some r \<Longrightarrow> policy_id r = p" for p r using assms(5) by (auto dest!: map_of_SomeD)
  have "map policy_id (map (\<lambda>p. the (map_of rules p)) (filter (\<lambda>p. map_of rules p \<noteq> None) ns)) = filter (\<lambda>p. map_of rules p \<noteq> None) ns" for ns
    by (induction ns) (auto dest: ids)
  moreover have "\<not> truthy (dget (ae_config e) ''policies'') \<Longrightarrow> entries_of (dget (ae_config e) ''policies'') = []"
    using assms(1) by (cases "dget (ae_config e) ''policies''") auto
  ultimately show ?thesis using assms by (auto simp: bind_rules_def Let_def policies_named_def found [symmetric])
qed

lemma all_bind:
  "\<forall>a \<in> set as. \<exists>b. bind_rules rules a = Inr (fst a, b) \<and> Q a b \<Longrightarrow>
   \<exists>bs. bind_agents rules as = Inr bs \<and> list_all2 (\<lambda>a b. fst b = fst a \<and> Q a (snd b)) as bs"
  by (induction as) fastforce+

section \<open>The compiled bundle loads\<close>

lemma cmd_compile_Inr:
  assumes "cmd_compile compiler re cr json_load w args temporary event fs = (Inr bundle, fs')"
  obtains t where "compile_bundle compiler re cr w args = Inr bundle" "verified_text cr json_load bundle = Inr t"
    "fs' = (fs(temporary \<mapsto> t))(ca_output args \<mapsto> t, temporary := None)"
proof -
  from assms have b: "compile_bundle compiler re cr w args = Inr bundle"
    and written: "write_bundle_atomic cr json_load temporary (ca_output args) event bundle fs = (Inr (), fs')"
    by (auto simp: cmd_compile_def Let_def prod_eq_iff split: sum.splits)
  from written obtain t where "verified_text cr json_load bundle = Inr t" "fs' = (fs(temporary \<mapsto> t))(ca_output args \<mapsto> t, temporary := None)"
    by (auto simp: write_bundle_atomic_def place_def Let_def split: write_event.splits sum.splits if_splits)
  from that [OF b this] show ?thesis .
qed

lemma verified_text_Inr:
  assumes "verified_text cr json_load bundle = Inr t" "json_load t = Some (reread (PDict bundle))"
  obtains digest where "writable cr (PDict bundle)" "compute_bundle_digest cr (reread_dict bundle) = Inr digest"
    "dget (reread_dict bundle) ''digest'' = PStr digest"
proof -
  from assms(1) obtain t' where t': "bundle_text cr bundle = Inr t'" and rest: "(case json_load t' of
       None \<Rightarrow> Inl (Exc ValueError ''json'')
     | Some (PDict again) \<Rightarrow> bindE (compute_bundle_digest cr again) (\<lambda>digest.
         if dget again ''digest'' = PStr digest then Inr t' else Inl (Exc ValueError ''digest verification''))
     | Some _ \<Rightarrow> Inl (Exc TypeError ''root'')) = Inr t" unfolding verified_text_def bindE_Inr by blast
  obtain v where v: "json_load t' = Some v" using rest by (cases "json_load t'") simp_all
  then have "t' = t" using rest by (cases v) (auto split: if_splits)
  with t' have t: "bundle_text cr bundle = Inr t" by simp
  then have "json_indented cr 0 (PDict bundle) \<noteq> None" by (auto simp: bundle_text_def split: option.splits)
  then have "writable cr (PDict bundle)" by (auto simp: writable_def)
  moreover from assms obtain digest where "compute_bundle_digest cr (reread_dict bundle) = Inr digest"
    "dget (reread_dict bundle) ''digest'' = PStr digest"
    by (auto simp: verified_text_def t split: if_splits)
  ultimately show ?thesis by (rule that)
qed

lemma schema_major_one:
  "schema_major v = Inr 1 \<Longrightarrow> nonblank_str v \<and> before_dot (str_of v) \<noteq> [] \<and> list_all is_digit (before_dot (str_of v)) \<and> number_of (before_dot (str_of v)) = 1"
  by (auto simp: schema_major_def Let_def split: if_splits)

lemma schema_checks_pass:
  assumes "homogeneous bundle" "dget bundle ''schema_version'' = v" "schema_major v = Inr 1"
  shows "\<forall>c \<in> set (schema_checks (reread_dict bundle)). c = None"
proof -
  note v = schema_major_one [OF assms(3)]
  then have "v \<noteq> PNone" by auto
  then have "dhas bundle ''schema_version''" using assms(2) dget_absent [of "bundle" "''schema_version''"] by auto
  with assms(1,2) have "dget_or (reread_dict bundle) ''schema_version'' (dget (reread_dict bundle) ''version'') = reread v"
    by (simp add: reread_reads is_digit_def)
  with v show ?thesis by (simp add: schema_checks_def Let_def unread)
qed

lemma digest_checks_pass:
  assumes "compute_bundle_digest cr b = Inr digest" "dget b ''digest'' = PStr digest" "\<forall>p. sha256_hex cr p \<noteq> []"
  shows "\<forall>c \<in> set (digest_checks cr b). c = None"
proof -
  have "digest \<noteq> []" using assms(1,3) by (auto simp: compute_bundle_digest_def)
  with assms(1,2) show ?thesis by (simp add: digest_checks_def)
qed

lemma metadata_checks_pass:
  assumes "homogeneous bundle" "dget bundle ''metadata'' = PDict md" "homogeneous md"
    "nonblank_str (dget_or md ''environment'' (PStr ''development''))" "dget bundle ''bundle_revision'' = PInt n" "1 \<le> n" "minimum_revision s \<le> n"
  shows "\<forall>c \<in> set (metadata_checks s (reread_dict bundle)). c = None"
proof -
  have "dhas bundle ''metadata''" "dhas bundle ''bundle_revision''" using assms(2,5) dget_absent [of "bundle" "''metadata''"] dget_absent [of "bundle" "''bundle_revision''"] by auto
  with assms(1,2,5) have "dget_or (reread_dict bundle) ''metadata'' (PDict []) = PDict (reread_dict md)"
    "dget_or (reread_dict bundle) ''bundle_revision'' (PInt 0) = PInt n" by (simp_all add: reread_reads is_digit_def)
  moreover have "nonblank_str (dget_or (reread_dict md) ''environment'' (PStr ''development''))"
    using assms(3,4) by (simp add: reread_reads is_digit_def dget_or_dget unread split: if_splits)
  ultimately show ?thesis using assms(6,7) by (simp add: metadata_checks_def bundle_env_def Let_def)
qed

definition agents_of :: "pydict \<Rightarrow> pydict" where
  "agents_of bndl = mapping_or_empty (dget bndl ''agents'')"

definition compiled_config :: "pydict \<Rightarrow> string \<Rightarrow> pydict" where
  "compiled_config bndl aid = mapping_or_empty (dget (mapping_or_empty (dget (agents_of bndl) aid)) ''config'')"

lemma compiled_entry:
  assumes "compiled_from re w args env t kv" "writable cr (PDict d)" "kv \<in> set d"
  obtains eid config path digest where "kv = (KStr eid, source_entry t config path digest)" "\<not> blank eid" "homogeneous config"
    "writable cr (PDict config)"
    "\<exists>f. load_yaml f = Inr config \<and> validate_source re t f = Inr []"
proof -
  from assms(1) obtain eid config path digest where kv: "kv = (KStr eid, source_entry t config (shown_path w path) digest)" "\<not> blank eid"
    and f: "load_yaml (source_at w (located w path)) = Inr config" "validate_source re t (source_at w (located w path)) = Inr []"
    unfolding compiled_from_def by blast
  obtain e where e: "source_entry t config (shown_path w path) digest = PDict e" by (simp add: source_entry_def)
  have "writable cr (PDict e)" using writable_dict(2) [OF assms(2,3)] by (simp add: kv(1) e)
  then have c: "writable cr (PDict config)" using writable_field [of cr e "''config''" "PDict config"] entry_reads(2) [OF e] by simp
  from that [OF kv writable_dict(1) [OF c] c] f show ?thesis by blast
qed

lemma compiled_agent:
  "load_yaml f = Inr config \<Longrightarrow> validate_source re ''agent'' f = Inr [] \<Longrightarrow> validate_agent config = Inr []"
  by (auto simp: validate_source_def dest!: accepted_agent_file)

lemma compiled_policy:
  "load_yaml f = Inr config \<Longrightarrow> validate_source re ''policy'' f = Inr [] \<Longrightarrow> policy_definition_errors config = []"
  by (auto simp: validate_source_def on_yaml_def validate_policy_def accept)

lemma text_keys_compiled: "\<forall>kv \<in> set d. compiled_from re w args env t kv \<Longrightarrow> \<forall>kv \<in> set d. text_key (fst kv)"
  by (auto simp: compiled_from_def)

lemma dget_in: "distinct (map fst d) \<Longrightarrow> (KStr k, v) \<in> set d \<Longrightarrow> dget d k = v \<and> dhas d k"
  by (simp add: dget_def dget_or_def dhas_def)

lemma folded_distinct: "distinct (folded_ids d) \<Longrightarrow> distinct (map fst d)"
  by (auto simp: folded_ids_def distinct_map inj_on_def)

definition loaded_from :: "pydict \<Rightarrow> string \<times> agent_entry \<Rightarrow> bool" where
  "loaded_from d x \<longleftrightarrow> ae_rules (snd x) = [] \<and> ae_declarative (snd x) = [] \<and> (\<exists>config path digest.
     (KStr (fst x), source_entry ''agent'' config path digest) \<in> set d \<and> ae_config (snd x) = reread_dict config \<and>
     homogeneous config \<and> validate_agent config = Inr [])"

lemma compiled_agents_load:
  assumes "\<forall>kv \<in> set d. compiled_from re w args env ''agent'' kv" "writable cr (PDict d)"
  shows "\<exists>as. load_agents (reread_dict d) = Inr as \<and> fst ` set as = {aid. dhas d aid} \<and> (\<forall>x \<in> set as. loaded_from d x)"
proof -
  note entries = reread_entries [OF text_keys_compiled [OF assms(1)]]
  have "\<forall>kv \<in> set (reread_dict d). \<exists>a. load_agent (fst kv) (snd kv) = Inr a \<and> (fst kv = KStr (fst a) \<and> loaded_from d a)"
  proof
    fix kv assume "kv \<in> set (reread_dict d)"
    then obtain kv0 where kv0: "kv0 \<in> set d" "kv = map_prod id reread kv0" by (auto simp: entries)
    from assms(1) kv0(1) have "compiled_from re w args env ''agent'' kv0" by blast
    then obtain eid config path digest where c: "kv0 = (KStr eid, source_entry ''agent'' config path digest)" "\<not> blank eid" "homogeneous config"
      "\<exists>f. load_yaml f = Inr config \<and> validate_source re ''agent'' f = Inr []" by (rule compiled_entry [OF _ assms(2) kv0(1)])
    have ok: "validate_agent config = Inr []" using c(4) compiled_agent by blast
    from agent_loads [OF ok c(3,2)] obtain a where "load_agent (KStr eid) (reread (source_entry ''agent'' config path digest)) = Inr (eid, a)"
      "ae_config a = reread_dict config" "ae_rules a = []" "ae_declarative a = []" by blast
    with ok c(1,3) kv0 show "\<exists>a. load_agent (fst kv) (snd kv) = Inr a \<and> (fst kv = KStr (fst a) \<and> loaded_from d a)"
      by (auto simp: loaded_from_def)
  qed
  from agents_load [OF this] obtain as where as: "load_agents (reread_dict d) = Inr as"
    "list_all2 (\<lambda>kv a. fst kv = KStr (fst a) \<and> loaded_from d a) (reread_dict d) as" by (elim exE conjE)
  have from_d: "\<forall>x \<in> set as. loaded_from d x"
    using as(2) by (metis (no_types, lifting) in_set_conv_nth list_all2_conv_all_nth)
  have "map fst (reread_dict d) = map (\<lambda>x. KStr (fst x)) as" using as(2) by (auto simp: list_all2_conv_all_nth list_eq_iff_nth_eq)
  from arg_cong [OF this, of set] have "KStr ` fst ` set as = fst ` set (reread_dict d)" by (simp add: image_image)
  also have "\<dots> = fst ` set d" by (simp add: entries image_image)
  finally have eq: "KStr ` fst ` set as = fst ` set d" .
  have "fst ` set as = {aid. KStr aid \<in> fst ` set d}" unfolding eq [symmetric] by auto
  also have "\<dots> = {aid. dhas d aid}" by (simp add: dhas_def dom_map_of_conv_image_fst [symmetric] dom_def)
  finally show ?thesis using as(1) from_d by blast
qed

lemma compiled_capabilities_load:
  assumes "\<forall>kv \<in> set d. compiled_from re w args env ''capability'' kv"
  shows "\<exists>cs. load_capabilities (reread_dict d) = Inr cs"
proof (rule capabilities_load, rule ballI)
  fix kv assume "kv \<in> set (reread_dict d)"
  then obtain kv0 where kv0: "kv0 \<in> set d" "kv = map_prod id reread kv0" by (auto simp: reread_entries [OF text_keys_compiled [OF assms]])
  with assms obtain cid config path digest where "kv0 = (KStr cid, source_entry ''capability'' config path digest)" "\<not> blank cid"
    unfolding compiled_from_def by blast
  with reread_entry [of "''capability''" config path digest] kv0(2) show "\<exists>cid e. kv = (KStr cid, PDict e) \<and> cid \<noteq> []" by auto
qed

lemma compiled_policies_load:
  assumes "\<forall>kv \<in> set d. compiled_from re w args env ''policy'' kv" "writable cr (PDict d)" "dget bndl ''policies'' = PDict d"
  shows "\<exists>rules. load_rules (reread_dict d) = Inr rules \<and> (\<forall>(pid, rule) \<in> set rules. policy_id rule = pid) \<and> fst ` set rules = set (enforceable bndl)"
proof -
  note entries = reread_entries [OF text_keys_compiled [OF assms(1)]]
  have good: "\<exists>pid config path digest. kv = (KStr pid, source_entry ''policy'' config path digest) \<and> \<not> blank pid \<and>
      homogeneous config \<and> writable cr (PDict config) \<and> policy_definition_errors config = []" if kv: "kv \<in> set d" for kv
  proof -
    from assms(1) kv have "compiled_from re w args env ''policy'' kv" by blast
    then obtain pid config path digest where c: "kv = (KStr pid, source_entry ''policy'' config path digest)" "\<not> blank pid" "homogeneous config"
      "writable cr (PDict config)" "\<exists>f. load_yaml f = Inr config \<and> validate_source re ''policy'' f = Inr []"
      by (rule compiled_entry [OF _ assms(2) kv])
    moreover have "policy_definition_errors config = []" using c(5) compiled_policy by blast
    ultimately show ?thesis by blast
  qed
  have "\<forall>kv \<in> set (reread_dict d). \<exists>pid e config. kv = (KStr pid, PDict e) \<and> \<not> blank pid \<and> dget e ''config'' = PDict config \<and>
      policy_definition_errors config = []"
  proof
    fix kv assume "kv \<in> set (reread_dict d)"
    then obtain kv0 where kv0: "kv0 \<in> set d" "kv = map_prod id reread kv0" by (auto simp: entries)
    from good [OF kv0(1)] obtain pid config path digest where c: "kv0 = (KStr pid, source_entry ''policy'' config path digest)" "\<not> blank pid"
      "writable cr (PDict config)" "policy_definition_errors config = []" by blast
    from reread_entry [of "''policy''" config path digest] obtain e where "reread (source_entry ''policy'' config path digest) = PDict e"
      "dget e ''config'' = PDict (reread_dict config)" by blast
    with c kv0(2) policy_reread [OF c(3,4)] show "\<exists>pid e config. kv = (KStr pid, PDict e) \<and> \<not> blank pid \<and> dget e ''config'' = PDict config \<and>
      policy_definition_errors config = []" by auto
  qed
  from rules_load [OF this] obtain rules where rules: "load_rules (reread_dict d) = Inr rules" "\<forall>(pid, rule) \<in> set rules. policy_id rule = pid"
    "fst ` set rules = {pid. \<exists>e config. (KStr pid, PDict e) \<in> set (reread_dict d) \<and> dget e ''config'' = PDict config \<and>
      kind_of (dget config ''kind'') \<noteq> None}" by (elim exE conjE)
  have "(\<exists>e config. (KStr pid, PDict e) \<in> set (reread_dict d) \<and> dget e ''config'' = PDict config \<and> kind_of (dget config ''kind'') \<noteq> None)
      \<longleftrightarrow> (\<exists>config path digest. (KStr pid, source_entry ''policy'' config path digest) \<in> set d \<and> kind_of (dget config ''kind'') \<noteq> None)" for pid
  proof -
    have same: "(\<exists>e c. reread v = PDict e \<and> dget e ''config'' = PDict c \<and> kind_of (dget c ''kind'') \<noteq> None)
        \<longleftrightarrow> (\<exists>config path digest. v = source_entry ''policy'' config path digest \<and> kind_of (dget config ''kind'') \<noteq> None)"
      if v: "(KStr pid, v) \<in> set d" for v
    proof -
      from good [OF v] obtain config path digest where c: "v = source_entry ''policy'' config path digest" "homogeneous config" by blast
      obtain e where e: "v = PDict e" "dget e ''config'' = PDict config" "homogeneous e" using entry_reads c(1) by (auto simp: source_entry_def)
      have "dget (reread_dict e) ''config'' = PDict (reread_dict config)" "dget (reread_dict config) ''kind'' = reread (dget config ''kind'')"
        by (simp_all add: reread_reads [OF e(3)] reread_reads [OF c(2)] e(2) is_digit_def)
      moreover have "v = source_entry ''policy'' config' path' digest' \<longleftrightarrow> config' = config \<and> path' = path \<and> digest' = digest" for config' path' digest'
        using c(1) by (auto simp: source_entry_def)
      ultimately show ?thesis by (auto simp: e(1) unread)
    qed
    have in_reread: "(KStr pid, PDict e) \<in> set (reread_dict d) \<longleftrightarrow> (\<exists>v. (KStr pid, v) \<in> set d \<and> reread v = PDict e)" for e
    proof -
      have "(KStr pid, PDict e) = map_prod id reread kv \<longleftrightarrow> fst kv = KStr pid \<and> reread (snd kv) = PDict e" for kv by (cases kv) auto
      then show ?thesis unfolding entries image_iff by (metis fst_conv prod.collapse snd_conv)
    qed
    have "?thesis \<longleftrightarrow> ((\<exists>v. (KStr pid, v) \<in> set d \<and> (\<exists>e c. reread v = PDict e \<and> dget e ''config'' = PDict c \<and> kind_of (dget c ''kind'') \<noteq> None))
      \<longleftrightarrow> (\<exists>v. (KStr pid, v) \<in> set d \<and> (\<exists>config path digest. v = source_entry ''policy'' config path digest \<and> kind_of (dget config ''kind'') \<noteq> None)))"
      unfolding in_reread by blast
    then show ?thesis by (simp only: same cong: conj_cong)
  qed
  moreover have "set (enforceable bndl) = {pid. \<exists>config path digest. (KStr pid, source_entry ''policy'' config path digest) \<in> set d \<and>
      kind_of (dget config ''kind'') \<noteq> None}"
  proof -
    have "(case dget (mapping_or_empty (snd kv)) ''config'' of PDict config \<Rightarrow> kind_of (dget config ''kind'') \<noteq> None | _ \<Rightarrow> False)
        \<longleftrightarrow> (\<exists>config path digest. snd kv = source_entry ''policy'' config path digest \<and> kind_of (dget config ''kind'') \<noteq> None)"
      if "kv \<in> set d" for kv
      using good [OF that] by (auto simp: source_entry_def dget_def dget_or_def)
    moreover have "\<exists>pid. kv = (KStr pid, snd kv)" if "kv \<in> set d" for kv using good [OF that] by auto
    ultimately show ?thesis unfolding enforceable_def assms(3) by (auto simp: image_iff) (metis fst_conv key_text.simps(1) snd_conv)+
  qed
  ultimately have "fst ` set rules = set (enforceable bndl)" using rules(3) by simp
  with rules(1,2) show ?thesis by blast
qed

text \<open>What the report of the compiler says of an agent is what the loader binds.\<close>

lemma binding_agrees:
  assumes "validate_agent config = Inr []" "homogeneous config" "policies_named config" "ids = set (enforceable bndl)"
  shows "agent_binding bndl config = (filter (\<lambda>p. p \<in> ids) (map str_of (entries_of (dget (reread_dict config) ''policies''))),
    filter (\<lambda>p. p \<notin> ids) (map str_of (entries_of (dget (reread_dict config) ''policies''))))"
proof -
  have read: "dget (reread_dict config) ''policies'' = reread (dget config ''policies'')" by (simp add: reread_reads [OF assms(2)] is_digit_def)
  have "filter is_str (entries_of (dget config ''policies'')) = entries_of (dget config ''policies'')"
    using assms(3) by (force simp: policies_named_def list_all_iff filter_id_conv dest: nonblank_strD)
  then show ?thesis using assms(4) by (simp add: agent_binding_def Let_def read unread comp_def)
qed

lemma list_all2_right: "list_all2 (\<lambda>x. P) xs ys \<Longrightarrow> \<forall>y \<in> set ys. P y"
  by (induction xs ys rule: list_all2_induct) auto

lemma compiled_agents_bind:
  assumes "\<forall>x \<in> set as. loaded_from d x" "\<forall>x \<in> set as. policies_named (compiled_config bndl (fst x))" "agents_of bndl = d"
    "distinct (map fst d)" "\<forall>(pid, rule) \<in> set rules. policy_id rule = pid" "fst ` set rules = set (enforceable bndl)"
  shows "\<exists>bs. bind_agents rules as = Inr bs \<and> map fst bs = map fst as \<and>
    (\<forall>(aid, e) \<in> set bs. ae_config e = reread_dict (compiled_config bndl aid) \<and>
      agent_binding bndl (compiled_config bndl aid) = (map policy_id (ae_rules e), ae_declarative e))"
proof -
  let ?Q = "\<lambda>x b. ae_config b = reread_dict (compiled_config bndl (fst x)) \<and>
      agent_binding bndl (compiled_config bndl (fst x)) = (map policy_id (ae_rules b), ae_declarative b)"
  have "\<forall>x \<in> set as. \<exists>b. bind_rules rules x = Inr (fst x, b) \<and> ?Q x b"
  proof
    fix x assume x: "x \<in> set as"
    with assms(1) obtain config path digest where c: "ae_rules (snd x) = []" "ae_declarative (snd x) = []"
      "(KStr (fst x), source_entry ''agent'' config path digest) \<in> set d" "ae_config (snd x) = reread_dict config" "homogeneous config"
      "validate_agent config = Inr []" unfolding loaded_from_def by blast
    obtain e where e: "source_entry ''agent'' config path digest = PDict e" by (simp add: source_entry_def)
    have config: "compiled_config bndl (fst x) = config"
      using dget_in [OF assms(4) c(3)] entry_reads(2) [OF e] by (simp add: compiled_config_def assms(3) e)
    have named: "policies_named config" using assms(2) x config by auto
    have read: "dget (reread_dict config) ''policies'' = reread (dget config ''policies'')" by (simp add: reread_reads [OF c(5)] is_digit_def)
    have "is_list (dget (ae_config (snd x)) ''policies'')" using accepted_agent_lists(2) [OF c(6), of "''policies''"] by (simp add: c(4) read unread)
    moreover have "policies_named (ae_config (snd x))" using named by (simp add: policies_named_def c(4) read unread list_all_reread)
    ultimately obtain b where "bind_rules rules (fst x, snd x) = Inr (fst x, b)" "ae_config b = ae_config (snd x)"
      "map policy_id (ae_rules b) = filter (\<lambda>p. p \<in> fst ` set rules) (map str_of (entries_of (dget (ae_config (snd x)) ''policies'')))"
      "ae_declarative b = filter (\<lambda>p. p \<notin> fst ` set rules) (map str_of (entries_of (dget (ae_config (snd x)) ''policies'')))"
      using agent_binds [OF _ _ c(1,2) assms(5), of "fst x"] by blast
    with binding_agrees [OF c(6,5) named assms(6)] show "\<exists>b. bind_rules rules x = Inr (fst x, b) \<and> ?Q x b"
      by (intro exI [of _ b]) (simp add: config c(4))
  qed
  from all_bind [OF this] obtain bs where bs: "bind_agents rules as = Inr bs" "list_all2 (\<lambda>x b. fst b = fst x \<and> ?Q x (snd b)) as bs" by (elim exE conjE)
  have "map fst bs = map fst as" using bs(2) by (auto simp: list_all2_conv_all_nth list_eq_iff_nth_eq)
  moreover have "list_all2 (\<lambda>x b. ae_config (snd b) = reread_dict (compiled_config bndl (fst b)) \<and>
      agent_binding bndl (compiled_config bndl (fst b)) = (map policy_id (ae_rules (snd b)), ae_declarative (snd b))) as bs"
    using bs(2) by (rule list_all2_mono) simp
  then have "\<forall>(aid, e) \<in> set bs. ae_config e = reread_dict (compiled_config bndl aid) \<and>
      agent_binding bndl (compiled_config bndl aid) = (map policy_id (ae_rules e), ae_declarative e)"
    unfolding split_beta by (rule list_all2_right)
  ultimately show ?thesis using bs(1) by blast
qed


section \<open>Witnesses\<close>

definition sample_agent_file :: "pyval list \<Rightarrow> pydict" where
  "sample_agent_file names = obj [(''id'', PStr ''a''), (''name'', PStr ''A''), (''department'', PStr ''d''), (''description'', PStr ''d''),
     (''skills'', PList []), (''validators'', PList []), (''policies'', PList names), (''allowed_actions'', PList [PStr ''send:*'']),
     (''blocked_actions'', PList [])]"

definition sample_manifest :: pyval where
  "sample_manifest = PDict (obj [(''policies'', PList [PDict (obj [(''path'', PStr ''x'')])])])"

definition sample_world :: "pyval list \<Rightarrow> compile_world" where
  "sample_world names = \<lparr>manifest_file = \<lparr>present = True, parsed = Inr sample_manifest\<rparr>,
     source_at = (\<lambda>f. \<lparr>present = True, parsed = Inr (PDict (sample_agent_file names))\<rparr>),
     bytes_digest = (\<lambda>f. Inr ''b''), located = (\<lambda>p. p), inside_manifest = (\<lambda>f. True), absolute_path = (\<lambda>p. False), shown_path = (\<lambda>p. p),
     resolved_path = (\<lambda>p. p), private_key_at = (\<lambda>p. Inr [])\<rparr>"

definition sample_args :: compile_args where
  "sample_args = \<lparr>ca_manifest = ''m'', ca_output = ''o'', ca_allow_permissive = False, ca_signing_key = None, ca_key_id = None,
     ca_issuer = None, ca_issued_at = None, ca_expires_at = None\<rparr>"

definition sample_rendering :: rendering where
  "sample_rendering = \<lparr>how_shown = sample_shown, schema_rules = sample_schema, explained = (\<lambda>e. []), problem_of = (\<lambda>p. [])\<rparr>"

definition sample_hash :: crypto where
  "sample_hash = sample_flat\<lparr>sha256_hex := (\<lambda>s. ''h'')\<rparr>"

definition sample_bundle :: "pyval list \<Rightarrow> pydict" where
  "sample_bundle names = obj [(''schema_version'', PStr ''1.0''), (''compiler_version'', PStr ''1''), (''bundle_revision'', PInt 1),
     (''policy_revision'', PStr ''unknown''), (''metadata'', PDict []),
     (''agents'', PDict (obj [(''a'', source_entry ''agent'' (sample_agent_file names) ''x'' ''b'')])), (''capabilities'', PDict []),
     (''policies'', PDict []), (''digest'', PStr ''h'')]"

definition sample_text :: "pyval list \<Rightarrow> string" where
  "sample_text names = (case bundle_text sample_hash (sample_bundle names) of Inr t \<Rightarrow> t | Inl e \<Rightarrow> [])"

lemma set_dset: "set (dset d k v) \<subseteq> insert (KStr k, v) (set d)"
proof -
  have "set (dset_key d j v) \<subseteq> insert (j, v) (set d)" for j by (induction d j v rule: dset_key.induct) auto
  then show ?thesis by (simp add: dset_def)
qed

lemma sample_digest:
  assumes "json_value_errors (PDict b) = []" "dget b ''signature'' = PNone"
  shows "compute_bundle_digest sample_hash b = Inr ''h''"
proof -
  have "json_value_errors (PDict (dset b ''digest'' (PStr []))) = []"
    using assms(1) set_dset [of b "''digest''" "PStr []"] by (force simp: json_dict)
  from json_dumps_total [OF this] obtain t where "json_dumps sample_hash False (PDict (dset b ''digest'' (PStr []))) = Some t" by blast
  then show ?thesis
    by (simp add: compute_bundle_digest_def canonical_digest_payload_def without_signature_value_def assms(2) canonical_json_def del: json_dumps.simps)
      (simp add: sample_hash_def)
qed

lemma sample_header: "manifest_header sample_manifest = Inr \<lparr>ch_schema_version = PStr ''1.0'', ch_metadata = [], ch_environment = ''development'',
    ch_bundle_revision = 1, ch_policy_revision = ''unknown'', ch_entries = [PDict (obj [(''path'', PStr ''x'')])]\<rparr>"
  by code_simp

definition sample_compiled :: "pyval list \<Rightarrow> compiled" where
  "sample_compiled names = \<lparr>co_agents = obj [(''a'', source_entry ''agent'' (sample_agent_file names) ''x'' ''b'')], co_capabilities = [],
     co_policies = [], co_paths = [''x''], co_ids = [''a'']\<rparr>"

text \<open>The parts of the sample that are evaluated, for a good and for a blank policy name.\<close>

definition sample_parts :: "pyval list \<Rightarrow> bool" where
  "sample_parts names \<longleftrightarrow>
     compile_sources sample_rendering (sample_world names) sample_args ''development'' [PDict (obj [(''path'', PStr ''x'')])] nothing_compiled
       = Inr (sample_compiled names) \<and>
     json_value_errors (PDict (sample_bundle names)) = [] \<and> json_value_errors (PDict (reread_dict (sample_bundle names))) = []"

lemma sample_named_parts: "sample_parts [PStr ''p'']"
  unfolding sample_parts_def by (intro conjI; code_simp)

lemma sample_blank_parts: "sample_parts [PStr [] ]"
  unfolding sample_parts_def by (intro conjI; code_simp)

lemma sample_compiles:
  assumes "sample_parts names"
  shows "compile_bundle ''1'' sample_rendering sample_hash (sample_world names) sample_args = Inr (sample_bundle names)"
proof -
  let ?h = "\<lparr>ch_schema_version = PStr ''1.0'', ch_metadata = [], ch_environment = ''development'',
    ch_bundle_revision = 1, ch_policy_revision = ''unknown'', ch_entries = [PDict (obj [(''path'', PStr ''x'')])]\<rparr>"
  let ?u = "unsigned_bundle ''1'' ?h (sample_compiled names)"
  have sealed: "dset ?u ''digest'' (PStr ''h'') = sample_bundle names"
    by (simp add: unsigned_bundle_def sample_compiled_def sample_bundle_def dset_def)
  have "set ?u \<subseteq> insert (KStr ''digest'', PStr []) (set (sample_bundle names))"
    by (auto simp: unsigned_bundle_def sample_compiled_def sample_bundle_def)
  moreover have "json_value_errors (PDict (sample_bundle names)) = []" using assms by (simp add: sample_parts_def)
  ultimately have "json_value_errors (PDict ?u) = []" by (force simp: json_dict)
  then have "compute_bundle_digest sample_hash ?u = Inr ''h''"
    by (rule sample_digest) (simp add: unsigned_bundle_def dget_def dget_or_def)
  then have "seal_bundle sample_hash (sample_world names) sample_args (co_paths (sample_compiled names)) ?u = Inr (sample_bundle names)"
    using sealed by (simp add: seal_bundle_def signing_fields_def sample_args_def)
  moreover have "ca_output sample_args \<noteq> ca_manifest sample_args" by (simp add: sample_args_def)
  ultimately show ?thesis using assms by (simp add: compile_bundle_def sample_world_def [of names] sample_header sample_parts_def)
qed

lemma sample_text_written:
  assumes "sample_parts names"
  shows "bundle_text sample_hash (sample_bundle names) = Inr (sample_text names)"
  using json_writable [of "PDict (sample_bundle names)" sample_hash 0] assms by (auto simp: bundle_text_def sample_text_def sample_parts_def)

lemma sample_reads:
  "homogeneous (sample_bundle names)" "dget (sample_bundle names) ''bundle_revision'' = PInt 1" "dget (sample_bundle names) ''digest'' = PStr ''h''"
  "dget (sample_bundle names) ''signature'' = PNone" "dget (sample_bundle names) ''metadata'' = PDict []" "dhas (sample_bundle names) ''metadata''"
  "dget (sample_bundle names) ''schema_version'' = PStr ''1.0''" "dget (sample_bundle names) ''capabilities'' = PDict []" "dhas (sample_bundle names) ''capabilities''"
  "dget (sample_bundle names) ''policies'' = PDict []" "dhas (sample_bundle names) ''policies''"
  "agents_of (sample_bundle names) = obj [(''a'', source_entry ''agent'' (sample_agent_file names) ''x'' ''b'')]"
  "dget (sample_bundle names) ''agents'' = PDict (obj [(''a'', source_entry ''agent'' (sample_agent_file names) ''x'' ''b'')])"
  by (simp_all add: sample_bundle_def homogeneous_def dget_def dget_or_def dhas_def agents_of_def)

lemmas sample_again = reread_reads [OF sample_reads(1)]

lemma sample_checks:
  assumes "sample_parts names"
  shows "compute_bundle_digest sample_hash (reread_dict (sample_bundle names)) = Inr ''h''"
    "dget (reread_dict (sample_bundle names)) ''digest'' = PStr ''h''"
    "check_signature sample_hash (sample_io (reread_dict (sample_bundle names))) (sample_settings []) [] (reread_dict (sample_bundle names)) = Inr None"
proof -
  have unsigned: "dget (reread_dict (sample_bundle names)) ''signature'' = PNone" by (simp add: sample_again sample_reads is_digit_def)
  show "compute_bundle_digest sample_hash (reread_dict (sample_bundle names)) = Inr ''h''"
    by (rule sample_digest [OF _ unsigned]) (use assms in \<open>simp add: sample_parts_def\<close>)
  show "dget (reread_dict (sample_bundle names)) ''digest'' = PStr ''h''" by (simp add: sample_again sample_reads is_digit_def)
  have "bundle_env (reread_dict (sample_bundle names)) = PStr ''development''"
    by (simp add: bundle_env_def sample_again sample_reads is_digit_def) (simp add: dget_or_def)
  moreover have "casefold ''development'' = ''development''" by code_simp
  ultimately show "check_signature sample_hash (sample_io (reread_dict (sample_bundle names))) (sample_settings []) [] (reread_dict (sample_bundle names)) = Inr None"
    using unsigned by (simp add: check_signature_def sample_settings_def)
qed

lemma sample_written:
  assumes "sample_parts names"
  shows "\<exists>fs'. cmd_compile ''1'' sample_rendering sample_hash (io_json (sample_io (reread_dict (sample_bundle names)))) (sample_world names)
    sample_args ''t'' Written (\<lambda>p. None) = (Inr (sample_bundle names), fs') \<and> fs' (ca_output sample_args) = Some (sample_text names)"
proof -
  have "verified_text sample_hash (io_json (sample_io (reread_dict (sample_bundle names)))) (sample_bundle names) = Inr (sample_text names)"
    by (simp add: verified_text_def sample_text_written [OF assms] sample_checks [OF assms] sample_io_def)
  moreover have "ca_output sample_args = ''o''" by (simp add: sample_args_def)
  ultimately show ?thesis by (simp add: cmd_compile_def sample_compiles [OF assms] write_bundle_atomic_def place_def Let_def)
qed



text \<open>
  The agent validator does not look at the names of policies, the compiler neither: an agent that lists a blank one
  is compiled and written, and no checker loads the bundle.
\<close>

theorem compiled_bundle_refused:
  "(\<exists>fs'. cmd_compile ''1'' sample_rendering sample_hash (io_json (sample_io (reread_dict (sample_bundle [PStr [] ])))) (sample_world [PStr [] ])
     sample_args ''t'' Written (\<lambda>p. None) = (Inr (sample_bundle [PStr [] ]), fs') \<and> fs' (ca_output sample_args) = Some (sample_text [PStr [] ])) \<and>
   parse_bundle sample_hash (sample_io (reread_dict (sample_bundle [PStr [] ]))) (sample_settings []) [] (sample_text [PStr [] ])
     = Inl (Exc TypeError ''policies entry'')"
proof
  let ?b = "sample_bundle [PStr [] ]"
  note ok = sample_checks [OF sample_blank_parts]
  show "\<exists>fs'. cmd_compile ''1'' sample_rendering sample_hash (io_json (sample_io (reread_dict (sample_bundle [PStr [] ])))) (sample_world [PStr [] ])
     sample_args ''t'' Written (\<lambda>p. None) = (Inr (sample_bundle [PStr [] ]), fs') \<and> fs' (ca_output sample_args) = Some (sample_text [PStr [] ])"
    by (rule sample_written [OF sample_blank_parts])
  have "schema_major (PStr ''1.0'') = Inr 1" "nonblank_str (dget_or [] ''environment'' (PStr ''development''))" by code_simp+
  then have "first_error (schema_checks (reread_dict ?b) @ digest_checks sample_hash (reread_dict ?b) @ metadata_checks (sample_settings []) (reread_dict ?b)) = None"
    using schema_checks_pass [OF sample_reads(1,7)] digest_checks_pass [OF ok(1,2)]
      metadata_checks_pass [OF sample_reads(1,5) homogeneous_Nil _ sample_reads(2), of "sample_settings []"]
    unfolding first_error_None set_append by (simp add: ball_Un sample_hash_def sample_settings_def)
  moreover have "\<not> isl (load_agents (reread_dict (obj [(''a'', source_entry ''agent'' (sample_agent_file [PStr [] ]) ''x'' ''b'')])))"
    "bindE (load_agents (reread_dict (obj [(''a'', source_entry ''agent'' (sample_agent_file [PStr [] ]) ''x'' ''b'')]))) (bind_agents [])
      = Inl (Exc TypeError ''policies entry'')" by code_simp+
  then obtain as where "load_agents (reread_dict (obj [(''a'', source_entry ''agent'' (sample_agent_file [PStr [] ]) ''x'' ''b'')])) = Inr as"
    "bind_agents [] as = Inl (Exc TypeError ''policies entry'')" using not_isl_ex by fastforce
  ultimately show "parse_bundle sample_hash (sample_io (reread_dict ?b)) (sample_settings []) [] (sample_text [PStr [] ]) = Inl (Exc TypeError ''policies entry'')"
    using ok(3) by (simp add: parse_bundle_def sample_io_def object_or_def sample_again sample_reads is_digit_def load_policy_rules_def)
qed

end
