(* ===== verification/Commands.thy ===== *)
theory Commands
  imports Compile PolicyTests
begin

text \<open>
  The other commands of \<^verbatim>\<open>cli.py\<close>: what each of them prints and the status it exits with, around the functions of the
  other theories, and the accessors of \<^verbatim>\<open>policy_checker.py\<close> the commands read. A command ends with a status or with an
  exception nobody catches, which Python turns into status 1. The properties: the status of \<^verbatim>\<open>check\<close> is the decision and
  the audit log holds it, \<^verbatim>\<open>explain\<close> agrees with \<^verbatim>\<open>check\<close>, what passes \<^verbatim>\<open>lint\<close>, and that \<^verbatim>\<open>init\<close> overwrites nothing.
\<close>

section \<open>Endings\<close>

text \<open>
  A printed line, a message on the error stream as the exception it renders, a line with a check or a cross, a list item
  with or without the marker of the request's action, and a line of JSON as the object it holds.
\<close>

datatype printed = Line string | Complaint exn | Signed bool string | Bullet string bool | JsonLine pydict

datatype ending = Ended nat "printed list" | Crashed exn

fun exit_status :: "ending \<Rightarrow> nat" where
  "exit_status (Ended n out) = n" | "exit_status (Crashed e) = 1"

definition EXIT_ALLOWED :: nat where
  "EXIT_ALLOWED = 0"

definition EXIT_DENIED :: nat where
  "EXIT_DENIED = 1"

definition EXIT_ERROR :: nat where
  "EXIT_ERROR = 2"

definition runtime_error :: "exn \<Rightarrow> ending" where
  "runtime_error e = Ended EXIT_ERROR [Complaint e]"

text \<open>\<open>try\<close> with a tuple of classes: a listed exception is handled, another one is a traceback.\<close>

definition handling :: "exc_class set \<Rightarrow> (exn \<Rightarrow> ending) \<Rightarrow> 'a result \<Rightarrow> ('a \<Rightarrow> ending) \<Rightarrow> ending" where
  "handling classes recover r k = (case r of Inl e \<Rightarrow> if exc_of e \<in> classes then recover e else Crashed e | Inr x \<Rightarrow> k x)"

definition input_errors :: "exc_class set" where
  "input_errors = {TypeError} \<union> os_errors \<union> value_errors"

text \<open>A report as indented JSON or as text; findings are status 1.\<close>

definition print_report :: "crypto \<Rightarrow> string \<Rightarrow> pydict \<Rightarrow> string \<Rightarrow> bool \<Rightarrow> ending" where
  "print_report cr fmt d plain found = (case (if fmt = ''json'' then json_indented cr 0 (PDict d) else Some plain) of
       None \<Rightarrow> Crashed (Exc TypeError ''json'')
     | Some t \<Rightarrow> Ended (if found then EXIT_DENIED else EXIT_ALLOWED) [Line t])"

text \<open>\<^verbatim>\<open>str\<close> of a text is the text.\<close>

fun str_of_value :: "shown \<Rightarrow> pyval \<Rightarrow> string" where
  "str_of_value sh (PStr s) = s" | "str_of_value sh v = str_text sh v"

section \<open>Contracts and coverage\<close>

text \<open>
  The Tool Contract is read after the other inputs: when its file cannot be read, their errors still come first.
\<close>

definition reading_tools :: "(pyval \<Rightarrow> 'f + 'r) \<Rightarrow> ('f \<Rightarrow> bool) \<Rightarrow> (exn \<Rightarrow> 'f) \<Rightarrow> source_file \<Rightarrow> 'f + 'r" where
  "reading_tools checked about_tools raised f = (case load_source f of
       Inr v \<Rightarrow> checked v
     | Inl e \<Rightarrow> (case checked PNone of Inl x \<Rightarrow> Inl (if about_tools x then raised e else x) | Inr r \<Rightarrow> Inl (raised e)))"

fun tools_rejected :: "drift_failure \<Rightarrow> bool" where
  "tools_rejected (InvalidTools ps) = True" | "tools_rejected _ = False"

fun drift_exn :: "drift_failure \<Rightarrow> exn" where
  "drift_exn (Raised e) = e"
| "drift_exn (InvalidAgent es) = Exc ValueError ''agent''"
| "drift_exn (InvalidTools ps) = Exc ValueError ''tool contract''"

definition print_contract_drift :: "crypto \<Rightarrow> string \<Rightarrow> drift_report \<Rightarrow> ending" where
  "print_contract_drift cr fmt r = print_report cr fmt (drift_report_dict r) (format_contract_drift_text r) (dr_findings r \<noteq> [])"

definition cmd_contract_check :: "crypto \<Rightarrow> rendering \<Rightarrow> string \<Rightarrow> source_file \<Rightarrow> source_file \<Rightarrow> ending" where
  "cmd_contract_check cr re fmt agent_file tools_file = handling input_errors runtime_error
     (map_sum drift_exn id (reading_tools (check_contract_drift (schema_rules re) agent_file) tools_rejected Raised tools_file))
     (print_contract_drift cr fmt)"

definition load_tools_file :: "rendering \<Rightarrow> source_file \<Rightarrow> drift_failure + pydict" where
  "load_tools_file re = reading_tools (\<lambda>v. map_sum InvalidTools id (load_tool_contract (schema_rules re) v)) tools_rejected Raised"

definition cmd_contract_diff :: "crypto \<Rightarrow> rendering \<Rightarrow> string \<Rightarrow> source_file \<Rightarrow> source_file \<Rightarrow> ending" where
  "cmd_contract_diff cr re fmt expected_file observed_file = handling input_errors runtime_error
     (bindE (map_sum drift_exn id (load_tools_file re expected_file)) (\<lambda>e.
      bindE (map_sum drift_exn id (load_tools_file re observed_file)) (\<lambda>ob.
      case compare_tool_contracts cr (how_shown re) e ob of None \<Rightarrow> Inl (Exc ValueError ''json'') | Some r \<Rightarrow> Inr r)))
     (print_contract_drift cr fmt)"

fun contract_tools_rejected :: "contract_failure \<Rightarrow> bool" where
  "contract_tools_rejected (ContractTools ps) = True" | "contract_tools_rejected _ = False"

fun contract_exn :: "contract_failure \<Rightarrow> exn" where
  "contract_exn (ContractRaised e) = e"
| "contract_exn (ContractInput es) = Exc ValueError ''agent contract''"
| "contract_exn (ContractTools ps) = Exc ValueError ''tool contract''"

definition cmd_agent_contract_check ::
  "crypto \<Rightarrow> rendering \<Rightarrow> string \<Rightarrow> source_file \<Rightarrow> source_file \<Rightarrow> source_file option \<Rightarrow> ending" where
  "cmd_agent_contract_check cr re fmt contract_file agent_file tools_file =
     (let checked = check_agent_contract_files (schema_rules re) (how_shown re) contract_file agent_file in
      handling input_errors runtime_error (map_sum contract_exn id (case tools_file of
          None \<Rightarrow> checked None
        | Some f \<Rightarrow> reading_tools (\<lambda>v. checked (Some v)) contract_tools_rejected ContractRaised f))
      (\<lambda>r. print_report cr fmt (contract_report_dict r) (format_agent_contract_text r) (cr_findings r \<noteq> [])))"

fun coverage_exn :: "coverage_failure \<Rightarrow> exn" where
  "coverage_exn (CoverageRaised e) = e" | "coverage_exn (CoverageInput es) = Exc ValueError ''coverage''"

definition cmd_governance_coverage_check ::
  "crypto \<Rightarrow> rendering \<Rightarrow> string \<Rightarrow> (string \<Rightarrow> source_state) \<Rightarrow> source_file \<Rightarrow> ending" where
  "cmd_governance_coverage_check cr re fmt files f = handling input_errors runtime_error
     (map_sum coverage_exn id (check_governance_coverage_file (how_shown re) files f))
     (\<lambda>r. print_report cr fmt (coverage_report_dict r) (format_governance_coverage_text r) (gr_findings r \<noteq> []))"

section \<open>Validators\<close>

definition validation_commands :: "rendering \<Rightarrow> (string \<times> string \<times> (source_file \<Rightarrow> report)) list" where
  "validation_commands re = (let sh = how_shown re in
     [(''validate-agent'', ''Agent'', on_yaml validate_agent),
      (''validate-agent-contract'', ''Agent Contract'', on_yaml (\<lambda>d. validate_agent_contract_data sh (PDict d))),
      (''validate-governance-coverage'', ''Governance coverage'', on_yaml (\<lambda>d. validate_governance_coverage_data sh (PDict d))),
      (''validate-department'', ''Department'', on_yaml validate_department),
      (''validate-policy'', ''Policy'', on_yaml (validate_policy (explained re))),
      (''validate-skill'', ''Skill'', on_yaml validate_skill),
      (''validate-validator'', ''Validator'', on_yaml validate_validator),
      (''validate-tool-contract'', ''Tool contract'', validate_tool_contract re),
      (''validate-runtime-example'', ''Runtime example'', on_yaml validate_runtime_example),
      (''validate-production-action-boundary-example'', ''Production action boundary example'',
        on_yaml validate_production_action_boundary_example),
      (''validate-lifecycle-map'', ''Lifecycle map'', on_yaml (validate_lifecycle_map sh)),
      (''validate-lifecycle-receipt'', ''Lifecycle receipt'', on_yaml (validate_lifecycle_receipt sh)),
      (''validate-lifecycle-schema'', ''Lifecycle schema'', on_yaml validate_lifecycle_schema),
      (''validate-process-contract'', ''Process Contract'', on_yaml (validate_process_contract sh)),
      (''validate'', ''Registry file'', on_yaml validate_agent),
      (''validate-execution-context'', ''Execution context'', on_yaml validate_execution_context),
      (''validate-action-preflight'', ''Action preflight'', on_yaml validate_action_preflight),
      (''validate-capability'', ''Capability verification'', on_yaml validate_capability_verification),
      (''validate-capability-registration'', ''Capability registration'', on_yaml validate_capability_registration),
      (''validate-protected-resource-boundary'', ''Protected resource boundary'', on_yaml validate_protected_resource_boundary),
      (''validate-evidence-claim'', ''Evidence claim binding'', on_yaml validate_evidence_claim_binding),
      (''validate-circuit-breaker'', ''Failure circuit breaker'', on_yaml validate_failure_circuit_breaker)])"

definition run_validation :: "string \<Rightarrow> (source_file \<Rightarrow> report) \<Rightarrow> source_file \<Rightarrow> ending" where
  "run_validation label validate f =
     (let invalid = (\<lambda>out. Ended 1 (Line (''Invalid '' @ label @ '':'') # out)) in
      handling ({FileNotFoundError, TypeError} \<union> value_errors) (\<lambda>e. invalid [Complaint e]) (validate f)
        (\<lambda>es. if es \<noteq> [] then invalid (map (\<lambda>e. Line (''- '' @ e)) es) else Ended 0 [Line (label @ '' is valid.'')]))"

definition inspect_lines :: "shown \<Rightarrow> string \<Rightarrow> pydict \<Rightarrow> string list result" where
  "inspect_lines sh path d = (let shown_at = (\<lambda>f. str_of_value sh (dget_or d f (PStr ''<missing>''))) in
     if \<forall>kv \<in> set d. text_key (fst kv) then Inr
       [''Path: '' @ path, ''id: '' @ shown_at ''id'', ''name: '' @ shown_at ''name'',
        ''keys: '' @ join '', '' (sort (map (\<lambda>kv. key_text (fst kv)) d))]
     else Inl (Exc TypeError ''keys''))"

definition inspect :: "shown \<Rightarrow> string \<Rightarrow> source_file \<Rightarrow> ending" where
  "inspect sh path f = handling ({FileNotFoundError, TypeError} \<union> value_errors) (\<lambda>e. Ended 1 [Complaint e]) (load_yaml f)
     (\<lambda>d. case inspect_lines sh path d of Inl e \<Rightarrow> Crashed e | Inr ls \<Rightarrow> Ended 0 (map Line ls))"

section \<open>Linting an agent\<close>

text \<open>Warnings fail the command, notes do not; the overlap is the set the message shows.\<close>

datatype lint_warning =
    UnsafePermissive | ListedTwice "string set" | NothingAllowed | DuplicateAllowed | DuplicateBlocked | AllowsEverything

definition lint_warnings :: "shown \<Rightarrow> pydict \<Rightarrow> lint_warning list" where
  "lint_warnings sh d =
     (let allowed = map str_of (entries_of (dget d ''allowed_actions'')); blocked = map str_of (entries_of (dget d ''blocked_actions''));
          mode = dget_or d ''enforcement_mode'' (PStr ''strict''); metadata = dget_or d ''metadata'' (PDict []);
          both = set allowed \<inter> set blocked in
      (if mode = PStr ''permissive'' \<and> is_mapping metadata
          \<and> casefold (str_of_value sh (dget_or (mapping_or_empty metadata) ''environment'' (PStr []))) = ''production''
       then [UnsafePermissive] else [])
      @ (if both \<noteq> {} then [ListedTwice both] else [])
      @ (if mode = PStr ''strict'' \<and> allowed = [] then [NothingAllowed] else [])
      @ (if card (set (map casefold allowed)) \<noteq> length allowed then [DuplicateAllowed] else [])
      @ (if card (set (map casefold blocked)) \<noteq> length blocked then [DuplicateBlocked] else [])
      @ (if ''*'' \<in> set allowed then [AllowsEverything] else []))"

definition lint_notes :: "pydict \<Rightarrow> (string \<times> string) list" where
  "lint_notes d = overlapping_allow_patterns (entries_of (dget d ''allowed_actions'')) (entries_of (dget d ''blocked_actions''))"

definition note_line :: "string \<times> string \<Rightarrow> string" where
  "note_line n = ''  - '' @ quoted (fst n) @ '' also covers '' @ quoted (snd n) @ ''; the wildcard crosses '' @ quoted '':''
     @ '' and only '' @ quoted ''blocked_actions'' @ '' narrows it. Removing the block entry would widen what this agent may do.''"

text \<open>The lines of the notes, and the warnings when there are any.\<close>

datatype lint_ending = Linted nat "string list" "lint_warning list" | NotLinted ending

definition cmd_lint :: "shown \<Rightarrow> string \<Rightarrow> source_file \<Rightarrow> lint_ending" where
  "cmd_lint sh path f =
     (if \<not> present f then NotLinted (Ended 1 [Complaint (Exc FileNotFoundError ''File not found'')])
      else (case load_yaml f of
          Inl e \<Rightarrow> NotLinted (if exc_of e \<in> input_errors then Ended 1 [Complaint e] else Crashed e)
        | Inr d \<Rightarrow> (case on_yaml validate_agent f of
              Inl e \<Rightarrow> NotLinted (Crashed e)
            | Inr es \<Rightarrow> if es \<noteq> [] then NotLinted (Ended 1 (Line (''Error: Invalid agent policy: '' @ path) # map (\<lambda>e. Line (''- '' @ e)) es))
                else (let ws = lint_warnings sh d; ns = lint_notes d in
                  Linted (if ws = [] then 0 else 1)
                    (if ns = [] then [] else (''Notes for '' @ path @ '':'') # map note_line ns) ws))))"

section \<open>A decision from the command line\<close>

text \<open>The options of a bundle: \<open>ta_store\<close> says whether a trust store was given.\<close>

record trust_args =
  ta_bundle :: string
  ta_policy :: string
  ta_issuer :: "string option"
  ta_minimum :: int
  ta_skew :: int
  ta_store :: bool

definition policy_checker_from_args :: "crypto \<Rightarrow> bundle_io \<Rightarrow> trust_args \<Rightarrow> checker result" where
  "policy_checker_from_args cr io ta =
     bindE (make_settings (ta_bundle ta) (ta_policy ta) (ta_issuer ta) (PInt (ta_minimum ta)) (PInt (ta_skew ta)) (ta_store ta) [])
       (\<lambda>s. fst (new_checker cr io s None))"

record decision_args =
  da_trust :: trust_args
  da_agent :: string
  da_action :: string
  da_resource :: "string option"
  da_signals :: "string option"
  da_audit :: bool
  da_format :: string

text \<open>
  What a decision observes: whether the bundle is a file, what loading and what evaluating it reads, the signals file,
  the clock, fresh ids, and whether the audit log can be written.
\<close>

record decision_world =
  dw_present :: bool
  dw_loading :: bundle_io
  dw_deciding :: bundle_io
  dw_signals :: source_file
  dw_clock :: datetime
  dw_decision_id :: string
  dw_request_id :: string
  dw_now :: string
  dw_audit :: check

definition read_signals :: "source_file \<Rightarrow> pydict result" where
  "read_signals f =
     (if \<not> present f then Inl (Exc ValueError ''Signals file not found'')
      else (case parsed f of
          Inl e \<Rightarrow> Inl (if exc_of e \<in> os_errors \<union> value_errors then Exc ValueError ''Unable to read signals file'' else e)
        | Inr (PDict d) \<Rightarrow> Inr d
        | Inr _ \<Rightarrow> Inl (Exc ValueError ''Signals file must contain a JSON object'')))"

definition build_request :: "decision_world \<Rightarrow> decision_args \<Rightarrow> string \<Rightarrow> action_request result" where
  "build_request w args env =
     bindE (if da_signals args = None \<or> da_signals args = Some [] then Inr [] else read_signals (dw_signals w)) (\<lambda>sigs.
       ActionRequest (dw_request_id w) (dw_now w) (obj
         [(''agent_id'', PStr (da_agent args)), (''action'', PStr (da_action args)), (''resource'', opt_str (da_resource args)),
          (''signals'', PDict sigs), (''environment'', PStr env)]))"

text \<open>The part \<^verbatim>\<open>check\<close> and \<^verbatim>\<open>explain\<close> share: an ending, or a decision with the snapshot it was taken on.\<close>

definition reach_decision ::
  "crypto \<Rightarrow> decision_world \<Rightarrow> decision_args \<Rightarrow> ending + (policy_decision \<times> bundle_state)" where
  "reach_decision cr w args =
     (let stop = (\<lambda>classes e. Inl (if exc_of e \<in> classes then runtime_error e else Crashed e)) in
      if \<not> dw_present w then Inl (runtime_error (Exc FileNotFoundError ''Bundle file not found''))
      else (case policy_checker_from_args cr (dw_loading w) (da_trust args) of
          Inl e \<Rightarrow> stop input_errors e
        | Inr ck \<Rightarrow> (case build_request w args (checker_environment ck) of
            Inl e \<Rightarrow> stop ({TypeError} \<union> value_errors) e
          | Inr request \<Rightarrow> (let evaluated = evaluate cr (dw_deciding w) (dw_clock w) (dw_decision_id w) request ck in
              case (fst evaluated, active (snd evaluated)) of
                (Inr d, Some st) \<Rightarrow> Inr (d, st)
              | (Inr d, None) \<Rightarrow> Inl (Crashed (Exc RuntimeError ''no bundle''))
              | (Inl e, _) \<Rightarrow> Inl (Crashed e)))))"

text \<open>How the details of a decision are worded, and the time it was taken at.\<close>

record wording =
  wd_shown :: shown
  wd_detail :: "policy_detail \<Rightarrow> string"
  wd_checked_at :: string

definition signature_text :: "(verified_signature \<Rightarrow> string) \<Rightarrow> policy_decision \<Rightarrow> pyval" where
  "signature_text part d = opt_str (map_option part (dec_signature d))"

definition audit_event :: "wording \<Rightarrow> bundle_state \<Rightarrow> policy_decision \<Rightarrow> pydict" where
  "audit_event wd st d = obj
     [(''schema_version'', PStr ''1.1''), (''event_type'', PStr ''policy_decision''), (''timestamp'', PStr (wd_checked_at wd)),
      (''decision_id'', PStr (decision_id d)), (''request_id'', PStr (dec_request_id d)), (''agent_id'', PStr (dec_agent_id d)),
      (''action'', PStr (dec_action d)), (''result'', PStr (result_text (dec_result d))),
      (''reason_code'', PStr (reason_code_text (dec_reason d))), (''policy_bundle_digest'', PStr (dec_bundle_digest d)),
      (''request_digest'', PStr (dec_request_digest d)), (''matched_pattern'', opt_str (PolicyChecker.matched_pattern d)),
      (''matched_policy_ids'', PList (map PStr (matched_policy_ids d))), (''policy_detail'', PStr (wd_detail wd (dec_detail d))),
      (''enforcement_mode'', PStr (enforcement_mode d)), (''environment'', opt_str (dec_environment d)),
      (''actor_id'', opt_str (dec_actor_id d)), (''bundle_schema_version'', PStr (schema_version st)),
      (''compiler_version'', compiler_version st), (''bundle_revision'', PInt (dec_bundle_revision d)),
      (''policy_revision'', policy_revision st), (''signature_key_id'', signature_text vs_key_id d),
      (''signature_key_fingerprint'', signature_text vs_fingerprint d), (''signature_issuer'', signature_text vs_issuer d),
      (''signature_issued_at'', signature_text vs_issued_at d), (''signature_expires_at'', signature_text vs_expires_at d)]"

text \<open>The log is the list of the values its lines decode to.\<close>

definition append_audit_event :: "decision_world \<Rightarrow> decision_args \<Rightarrow> pydict \<Rightarrow> pyval list \<Rightarrow> check \<times> pyval list" where
  "append_audit_event w args event trail =
     (if \<not> da_audit args then (None, trail) else (case dw_audit w of Some e \<Rightarrow> (Some e, trail) | None \<Rightarrow> (None, trail @ [PDict event])))"

definition decision_status :: "policy_decision \<Rightarrow> nat" where
  "decision_status d = (if dec_result d = ALLOWED then EXIT_ALLOWED else EXIT_DENIED)"

definition text_answer :: "wording \<Rightarrow> decision_args \<Rightarrow> policy_decision \<Rightarrow> printed list" where
  "text_answer wd args d = map Line
     ([(if dec_result d = ALLOWED then ''[ALLOWED] '' else ''[DENIED] '') @ reason_code_text (dec_reason d),
       ''Agent: '' @ da_agent args, ''Action: '' @ da_action args]
      @ (if wd_detail wd (dec_detail d) = [] then [] else [''Policy: '' @ wd_detail wd (dec_detail d)])
      @ [''Decision ID: '' @ decision_id d, ''Timestamp: '' @ wd_checked_at wd])"

text \<open>Printing happens after the event was appended; a log that cannot be written is an error, whatever the decision.\<close>

definition answered :: "check \<Rightarrow> ending \<Rightarrow> ending" where
  "answered logged e = (case logged of
       None \<Rightarrow> e | Some x \<Rightarrow> if exc_of x \<in> os_errors then runtime_error x else Crashed x)"

definition cmd_check ::
  "crypto \<Rightarrow> wording \<Rightarrow> decision_world \<Rightarrow> decision_args \<Rightarrow> pyval list \<Rightarrow> ending \<times> pyval list" where
  "cmd_check cr wd w args trail = (case reach_decision cr w args of
       Inl e \<Rightarrow> (e, trail)
     | Inr (d, st) \<Rightarrow> (let event = audit_event wd st d; logged = append_audit_event w args event trail in
         (answered (fst logged) (Ended (decision_status d)
            (if da_format args = ''jsonl'' then [JsonLine event] else text_answer wd args d)), snd logged)))"

section \<open>Explaining a decision\<close>

definition policies_text :: "policy_decision \<Rightarrow> string" where
  "policies_text d = join '', '' (matched_policy_ids d)"

definition pattern_text :: "wording \<Rightarrow> policy_decision \<Rightarrow> string" where
  "pattern_text wd d = repr_text (wd_shown wd) (opt_str (PolicyChecker.matched_pattern d))"

definition decision_explanation :: "wording \<Rightarrow> policy_decision \<Rightarrow> string \<times> string list" where
  "decision_explanation wd d =
     (let pattern = pattern_text wd d; about = wd_detail wd (dec_detail d); policies = policies_text d;
          by_policy = (\<lambda>what. ''Denied by policy '' @ policies @ '': '' @ what) in
      case dec_reason d of
        ACTION_BLOCKLISTED \<Rightarrow> (''Denied by the block list entry '' @ pattern,
          [''The block list always wins, so no allow entry can override this.'',
           ''To permit it, remove or narrow '' @ pattern @ '' in blocked_actions,'', ''then recompile the bundle.''])
      | ACTION_NOT_ALLOWLISTED \<Rightarrow> (''Denied because no allow pattern matched this action and resource'',
          [''Strict enforcement denies anything not named. Add an entry to'',
           ''allowed_actions covering it -- remember the entry is matched'',
           ''against '' @ quoted ''action:resource'' @ '', so a bare name does not cover a'', ''request that names a resource. Then recompile.''])
      | UNKNOWN_AGENT \<Rightarrow> (''Denied because the bundle contains no agent with this ID'',
          [''Check the spelling, or add the agent'' @ [CHR 0x27] @ ''s file to the manifest'', ''and recompile.''])
      | POLICY_SIGNAL_MISSING \<Rightarrow> (by_policy ''the request carried no such signal'',
          [about, ''The action lists permit this action; a policy requires the'', ''request to supply something and it was absent. Widening'',
           ''allowed_actions will not help and would remove a control.'', ''Supply the signal from the adapter, or via --signals-file.''])
      | APPROVAL_REQUIRED \<Rightarrow> (by_policy ''the approval did not satisfy it'',
          [about, ''An approval arrived but does not meet the policy. Check the'', ''approver role, that granted_for names this request, and that'',
           ''granted_at is inside the freshness window and not in the future.''])
      | EVIDENCE_REQUIRED \<Rightarrow> (by_policy ''the evidence did not satisfy it'',
          [about, ''Check that a claim of each required type is present, names the'',
           ''same resource as the request, and carries a timezone-aware'', ''observed_at inside the window.''])
      | FAILURE_THRESHOLD_REACHED \<Rightarrow> (by_policy ''the reported failure count reached its limit'',
          [about, ''This is the breaker working. Resolve the underlying failures'',
           ''and reset the counter the adapter reports; do not raise the'', ''threshold to get past it.''])
      | ALLOWED_NOT_BLOCKLISTED \<Rightarrow> (''Allowed because permissive enforcement does not require a match'',
          [''Nothing allowed this action explicitly and nothing blocked it.'', ''In strict mode the same request would be denied.''])
      | EXPLICITLY_ALLOWED \<Rightarrow>
          ((case PolicyChecker.matched_pattern d of
              None \<Rightarrow> ''Allowed by the allow list''
            | Some p \<Rightarrow> if p = [] then ''Allowed by the allow list'' else ''Allowed by the allow list entry '' @ pattern),
           (if policies = [] then [] else [''Policies evaluated and satisfied: '' @ policies @ ''.'']))
      | code \<Rightarrow> (''Decision reported '' @ reason_code_text code, if about = [] then [] else [about]))"

text \<open>\<open>get_agent_info\<close> and \<open>get_capability_info\<close> of the active snapshot.\<close>

record agent_info =
  ai_data :: pydict
  ai_mode :: string
  ai_source_path :: pyval
  ai_digest :: pyval
  ai_state :: bundle_state

definition get_agent_info :: "bundle_state \<Rightarrow> string \<Rightarrow> agent_info option" where
  "get_agent_info st aid = (case map_of (agents st) aid of
       None \<Rightarrow> None
     | Some a \<Rightarrow> Some \<lparr>ai_data = ae_config a, ai_mode = ae_mode a, ai_source_path = ae_source_path a, ai_digest = ae_digest a, ai_state = st\<rparr>)"

definition get_capability_info :: "bundle_state \<Rightarrow> string \<Rightarrow> pydict option" where
  "get_capability_info st cid = map_of (capabilities st) cid"

text \<open>\<open>for item in value\<close>: a text yields its characters, a mapping its keys, and \<open>None\<close> raises.\<close>

definition iterated :: "pyval \<Rightarrow> pyval list result" where
  "iterated v = (case v of
       PList vs \<Rightarrow> Inr vs | PTuple vs \<Rightarrow> Inr vs | PStr s \<Rightarrow> Inr (map (\<lambda>c. PStr [c]) s)
     | PDict d \<Rightarrow> Inr (map (\<lambda>kv. case fst kv of KStr k \<Rightarrow> PStr k | KInt n \<Rightarrow> PInt n) d)
     | PBytes b \<Rightarrow> Inr (map (\<lambda>c. PInt (of_char c)) b)
     | _ \<Rightarrow> Inl (Exc TypeError ''not iterable''))"

definition bullets :: "wording \<Rightarrow> (pyval \<Rightarrow> bool) \<Rightarrow> pydict \<Rightarrow> string \<Rightarrow> printed list result" where
  "bullets wd marked config field = bindE (iterated (dget_or config field (PList []))) (\<lambda>vs.
     Inr (map (\<lambda>v. Bullet (str_of_value (wd_shown wd) v) (marked v)) vs))"

definition ruled :: "char \<Rightarrow> printed" where
  "ruled c = Line (replicate 60 c)"

definition explanation_head :: "wording \<Rightarrow> decision_args \<Rightarrow> policy_decision \<Rightarrow> printed list" where
  "explanation_head wd args d =
     [ruled CHR ''='', Line ''GOVERNANCE DECISION EXPLANATION'', ruled CHR ''='', Line [], Line (''Agent:    '' @ da_agent args),
      Line (''Action:   '' @ da_action args),
      Signed (dec_result d = ALLOWED) (''Result:   '' @ (if dec_result d = ALLOWED then ''ALLOWED'' else ''DENIED'')),
      Line (''Reason:   '' @ reason_code_text (dec_reason d)), Line (''Decision ID: '' @ decision_id d),
      Line (''Checked at: '' @ wd_checked_at wd), Line []]"

definition unknown_agent_lines :: "bundle_state \<Rightarrow> decision_args \<Rightarrow> printed list" where
  "unknown_agent_lines st args =
     [Line (''Warning: Agent '' @ quoted (da_agent args) @ '' not found in bundle''), Line ''Available agents:'']
     @ map (\<lambda>a. Line (''  - '' @ fst a)) (agents st) @ [ruled CHR ''='']"

definition agent_lines :: "wording \<Rightarrow> decision_args \<Rightarrow> policy_decision \<Rightarrow> agent_info \<Rightarrow> printed list result" where
  "agent_lines wd args d info =
     (let config = ai_data info; shown_at = (\<lambda>f. str_of_value (wd_shown wd) (dget_or config f (PStr ''N/A'')));
          this_one = (\<lambda>v. v = PStr (da_action args)) in
      bindE (bullets wd (\<lambda>v. this_one v \<and> dec_result d = ALLOWED) config ''allowed_actions'') (\<lambda>allowed.
      bindE (bullets wd (\<lambda>v. this_one v \<and> dec_result d = DENIED) config ''blocked_actions'') (\<lambda>blocked.
      bindE (bullets wd (\<lambda>v. False) config ''policies'') (\<lambda>policies.
        Inr ([ruled CHR ''-'', Line ''AGENT CONFIGURATION'', ruled CHR ''-'', Line (''Name:           '' @ shown_at ''name''),
          Line (''Department:     '' @ shown_at ''department''), Line (''Enforcement:    '' @ ai_mode info),
          Line (''Bundle digest:  '' @ bundle_digest (ai_state info)), Line [], Line ''Allowed actions:''] @ allowed
          @ [Line [], Line ''Blocked actions:''] @ blocked @ [Line [], Line ''Policies:''] @ policies
          @ [Line [], ruled CHR ''-'', Line ''ANALYSIS'', ruled CHR ''-'']))))) "

definition analysis_lines :: "wording \<Rightarrow> policy_decision \<Rightarrow> printed list" where
  "analysis_lines wd d =
     (let e = decision_explanation wd d in
      Signed (dec_result d = ALLOWED) (fst e)
      # (if matched_policy_ids d = [] then [] else [Line (''  Policies evaluated: '' @ policies_text d)])
      @ (if snd e = [] then [] else [Line [], Line ''WHAT THIS MEANS:''] @ map (\<lambda>l. Line (''  '' @ l)) (filter (\<lambda>l. l \<noteq> []) (snd e)))
      @ [ruled CHR ''=''])"

definition explained_ending :: "wording \<Rightarrow> decision_args \<Rightarrow> policy_decision \<Rightarrow> bundle_state \<Rightarrow> ending" where
  "explained_ending wd args d st = (case get_agent_info st (da_agent args) of
       None \<Rightarrow> Ended EXIT_DENIED (explanation_head wd args d @ unknown_agent_lines st args)
     | Some info \<Rightarrow> (case agent_lines wd args d info of
           Inl e \<Rightarrow> Crashed e
         | Inr ls \<Rightarrow> Ended (decision_status d) (explanation_head wd args d @ ls @ analysis_lines wd d)))"

definition cmd_explain ::
  "crypto \<Rightarrow> wording \<Rightarrow> decision_world \<Rightarrow> decision_args \<Rightarrow> pyval list \<Rightarrow> ending \<times> pyval list" where
  "cmd_explain cr wd w args trail = (case reach_decision cr w args of
       Inl e \<Rightarrow> (e, trail)
     | Inr (d, st) \<Rightarrow>
         (let event = dset (audit_event wd st d) ''explanation'' (PStr (fst (decision_explanation wd d)));
              logged = append_audit_event w args event trail in
          (answered (fst logged) (if da_format args = ''jsonl'' then Ended (decision_status d) [JsonLine event]
             else explained_ending wd args d st), snd logged)))"

section \<open>Bundles and policy tests\<close>

definition signature_dict :: "verified_signature option \<Rightarrow> pyval" where
  "signature_dict sig = (case sig of None \<Rightarrow> PNone | Some v \<Rightarrow> PDict (obj
     [(''algorithm'', PStr (vs_algorithm v)), (''key_id'', PStr (vs_key_id v)), (''key_fingerprint'', PStr (vs_fingerprint v)),
      (''issuer'', PStr (vs_issuer v)), (''issued_at'', PStr (vs_issued_at v)), (''expires_at'', PStr (vs_expires_at v))]))"

definition cmd_verify_bundle :: "crypto \<Rightarrow> bool \<Rightarrow> bundle_io \<Rightarrow> trust_args \<Rightarrow> string \<Rightarrow> ending" where
  "cmd_verify_bundle cr is_file io ta fmt =
     (if \<not> is_file then Ended 1 [Complaint (Exc FileNotFoundError ''Bundle file not found'')]
      else handling input_errors (\<lambda>e. Ended 1 [Complaint e]) (policy_checker_from_args cr io ta) (\<lambda>ck. case active ck of
          None \<Rightarrow> Crashed (Exc RuntimeError ''no bundle'')
        | Some st \<Rightarrow> Ended 0 (if fmt = ''json'' then [JsonLine (obj
            [(''bundle'', PStr (ta_bundle ta)), (''bundle_digest'', PStr (bundle_digest st)), (''bundle_revision'', PInt (bundle_revision st)),
             (''policy_revision'', policy_revision st), (''environment'', PStr (bundle_environment st)),
             (''signature'', signature_dict (verified st)), (''verified'', PBool True)])]
            else map Line [''Bundle verified: '' @ ta_bundle ta,
              ''Trust: '' @ (case verified st of None \<Rightarrow> ''unsigned development bundle''
                | Some v \<Rightarrow> ''signed by '' @ vs_key_id v @ '' ('' @ vs_issuer v @ '')''),
              ''Digest: '' @ bundle_digest st, ''Revision: '' @ int_text (bundle_revision st)])))"

definition print_policy_test_report :: "crypto \<Rightarrow> string \<Rightarrow> test_report \<Rightarrow> printed list option" where
  "print_policy_test_report cr fmt rp =
     (if fmt = ''json'' then map_option (\<lambda>t. [Line t]) (json_indented cr 0 (PDict (test_report_dict rp)))
      else Some (concat (map (\<lambda>r. Line ((if tr_passed r then ''[PASS] '' else ''[FAIL] '') @ tr_id r)
          # map (\<lambda>m. Line (''  - '' @ m)) (tr_mismatches r)) (rp_results rp))
        @ [Line (''Policy tests: '' @ int_text (passed_count rp) @ '' passed, '' @ int_text (failed_count rp) @ '' failed, ''
             @ int_text (int (length (rp_results rp))) @ '' total'')]))"

text \<open>
  Every case is evaluated at the time of the suite; \<open>seen i\<close> is what evaluation \<open>i\<close> reads and its fresh id. The tag of
  an exception stands for its message.
\<close>

definition cmd_test_policies ::
  "crypto \<Rightarrow> shown \<Rightarrow> bundle_io \<Rightarrow> (nat \<Rightarrow> bundle_io \<times> string) \<Rightarrow> trust_args \<Rightarrow> string \<Rightarrow> pyval result \<Rightarrow> ending" where
  "cmd_test_policies cr sh io seen ta fmt suite_source =
     handling input_errors (\<lambda>e. if fmt = ''json'' then Ended EXIT_ERROR [JsonLine (obj [(''status'', PStr ''invalid''), (''error'', PStr (code_of e))])] else runtime_error e)
       (bindE (load_policy_test_suite suite_source) (\<lambda>suite.
        bindE (policy_checker_from_args cr io ta) (\<lambda>ck.
        fst (run_policy_tests cr sh (\<lambda>i. (fst (seen i), ts_time suite, snd (seen i))) suite ck))))
       (\<lambda>rp. case print_policy_test_report cr fmt rp of
          None \<Rightarrow> Crashed (Exc TypeError ''json'')
        | Some out \<Rightarrow> Ended (if report_passed rp then EXIT_ALLOWED else EXIT_DENIED) out)"

section \<open>Compiling\<close>

definition entry_count :: "pydict \<Rightarrow> int" where
  "entry_count bundle = int (length (mapping_or_empty (dget bundle ''agents'')) + length (mapping_or_empty (dget bundle ''capabilities''))
     + length (mapping_or_empty (dget bundle ''policies'')))"

definition compile_lines :: "compile_args \<Rightarrow> pydict \<Rightarrow> string list" where
  "compile_lines args bundle =
     [''Successfully compiled '' @ int_text (entry_count bundle) @ '' entries to '' @ ca_output args,
      ''Bundle digest: '' @ str_of (dget bundle ''digest'')]
     @ (case dget bundle ''signature'' of PDict sig \<Rightarrow> [''Signature key: '' @ str_of (dget sig ''key_id'')] | _ \<Rightarrow> [])
     @ policy_binding_report bundle"

definition compile_ending :: "compile_args \<Rightarrow> pydict result \<Rightarrow> ending" where
  "compile_ending args r = (case r of
       Inl e \<Rightarrow> if exc_of e = SystemExit then Ended 1 [Complaint e] else Crashed e
     | Inr bundle \<Rightarrow> Ended 0 (map Line (compile_lines args bundle)))"

section \<open>Starting a registry\<close>

definition text_of_lines :: "string list \<Rightarrow> string" where
  "text_of_lines ls = concat (map (\<lambda>l. l @ [CHR 0x0A]) ls)"

definition manifest_template :: string where
  "manifest_template = text_of_lines
     [''# registry.yaml -- the manifest. Compilation reads exactly these files and'',
      ''# nothing else, so what runs is always a file someone listed on purpose.'',
      ''schema_version: \"1.0\"'',
      ''policies:'',
      ''  - path: \"my_agent.yaml\"'',
      ''  - path: \"refund-needs-approval.yaml\"'',
      ''metadata:'',
      ''  environment: development'',
      ''  bundle_revision: 1'',
      ''  policy_revision: \"local\"'']"

definition agent_template :: string where
  "agent_template = text_of_lines
     [''# my_agent.yaml -- one agent and its action boundary.'',
      ''id: my-agent'',
      ''type: agent'',
      ''name: My First Agent'',
      ''department: engineering'',
      ''description: An example agent for testing governance'',
      [],
      ''# An entry is matched against \"action:resource\". With no wildcard it is an'',
      ''# exact match, so `read_database` permits the action with no resource named'',
      ''# and nothing more. With `*` it scopes the action to what it may touch:'',
      ''# reports are readable, anything else under the database is not.'',
      ''allowed_actions:'',
      ''  - read_database'',
      ''  - read_database:reports/*'',
      ''  - refund_payment:order/*'',
      [],
      ''# Blocked always wins over allowed, and a bare entry here covers every'',
      ''# resource. This agent can never send external email, whatever it is asked.'',
      ''blocked_actions:'',
      ''  - send_external_email'',
      [],
      ''# Enforced: the policy below is compiled into the bundle and evaluated on'',
      ''# every matching request. Try `refund_payment` without an approval and see.'',
      ''policies:'',
      ''  - refund-needs-approval'',
      [],
      ''# Declarative: skills and validators are context for whoever reviews this'',
      ''# file. PolicyChecker does not read them. See \"What is enforced at runtime\"'',
      ''# in the README.'',
      ''skills:'',
      ''  - read_database'',
      ''validators:'',
      ''  - input_sanitization'',
      [],
      ''enforcement_mode: strict'']"

definition policy_template :: string where
  "policy_template = text_of_lines
     [''# refund-needs-approval.yaml -- a typed policy.'',
      ''#'',
      ''# The action lists above answer \"may this agent touch this resource at all\".'',
      ''# A policy answers what must be true of the particular request once it may:'',
      ''# here, that a human approved this specific refund, recently.'',
      ''id: refund-needs-approval'',
      ''type: policy'',
      ''name: Refund Needs Approval'',
      ''description: A refund requires a recent approval naming that order.'',
      ''enforcement: >-'',
      ''  Enforced by PolicyChecker. The caller supplies the approval in'',
      ''  ActionRequest.signals[\"approval\"].'',
      [],
      ''kind: requires_approval'',
      [],
      ''# Matched with the same syntax as the action lists.'',
      ''trigger:'',
      ''  - refund_payment:*'',
      [],
      ''requires:'',
      ''  approver_role: support-lead'',
      ''  # The approval must name what it approved, so one obtained for a small'',
      ''  # refund cannot be replayed onto a larger one.'',
      ''  bind_to_request: true'',
      ''  max_age_seconds: 900'']"

definition init_templates :: "(string \<times> string) list" where
  "init_templates = [(''registry.yaml'', manifest_template), (''my_agent.yaml'', agent_template),
     (''refund-needs-approval.yaml'', policy_template)]"

text \<open>A file that exists is left alone. The second component lists the names that were created.\<close>

fun init_files :: "(string \<times> string) list \<Rightarrow> files \<Rightarrow> printed list \<times> string list \<times> files" where
  "init_files [] fs = ([], [], fs)"
| "init_files ((name, contents) # rest) fs =
     (if fs name \<noteq> None
      then (let r = init_files rest fs in (Line (name @ '' already exists, skipping'') # fst r, snd r))
      else (let r = init_files rest (fs(name \<mapsto> contents)) in (Line (''Created '' @ name) # fst r, name # fst (snd r), snd (snd r))))"

definition cmd_init :: "files \<Rightarrow> ending \<times> files" where
  "cmd_init fs = (let r = init_files init_templates fs in
     (Ended 0 (fst r @ (if fst (snd r) = [] then [] else map Line
        [[], ''Next: compile the manifest, then ask the bundle a question.'',
         ''  hlinor-registry compile --manifest registry.yaml --output bundle.json'',
         ''  hlinor-registry check --bundle bundle.json --agent my-agent --action refund_payment --resource order/1234''])),
      snd (snd r)))"

section \<open>The program\<close>

text \<open>The parsed command line; \<open>Inl\<close> in \<open>parse\<close> is the exit of the argument parser.\<close>

datatype command =
    Lint string | Explain decision_args | Init | Check decision_args | TestPolicies trust_args string | VerifyBundle trust_args string
  | ContractCheck string | ContractDiff string | VerifyAgent string bool | CoverageCheck string | CompileManifest compile_args
  | Validate string | Inspect string

text \<open>Everything a command reads; the state is the disk a command writes and the audit log.\<close>

record program_world =
  pw_crypto :: crypto
  pw_rendering :: rendering
  pw_wording :: wording
  pw_compiler :: string
  pw_deciding :: decision_world
  pw_compiling :: compile_world
  pw_json :: "string \<Rightarrow> pyval option"
  pw_temporary :: string
  pw_event :: write_event
  pw_suite :: "pyval result"
  pw_seen :: "nat \<Rightarrow> bundle_io \<times> string"
  pw_file :: source_file
  pw_second :: source_file
  pw_third :: source_file
  pw_sources :: "string \<Rightarrow> source_state"

fun lint_status :: "lint_ending \<Rightarrow> nat" where
  "lint_status (Linted n notes ws) = n" | "lint_status (NotLinted e) = exit_status e"

definition run_command :: "program_world \<Rightarrow> command \<Rightarrow> files \<times> pyval list \<Rightarrow> nat \<times> files \<times> pyval list" where
  "run_command w c s =
     (let cr = pw_crypto w; re = pw_rendering w; sh = how_shown re; fs = fst s; trail = snd s;
          reads_only = (\<lambda>e. (exit_status e, fs, trail)) in
      case c of
        Lint path \<Rightarrow> (lint_status (cmd_lint sh path (pw_file w)), fs, trail)
      | Explain args \<Rightarrow> (let r = cmd_explain cr (pw_wording w) (pw_deciding w) args trail in (exit_status (fst r), fs, snd r))
      | Init \<Rightarrow> (let r = cmd_init fs in (exit_status (fst r), snd r, trail))
      | Check args \<Rightarrow> (let r = cmd_check cr (pw_wording w) (pw_deciding w) args trail in (exit_status (fst r), fs, snd r))
      | TestPolicies ta fmt \<Rightarrow> reads_only (cmd_test_policies cr sh (dw_loading (pw_deciding w)) (pw_seen w) ta fmt (pw_suite w))
      | VerifyBundle ta fmt \<Rightarrow> reads_only (cmd_verify_bundle cr (dw_present (pw_deciding w)) (dw_loading (pw_deciding w)) ta fmt)
      | ContractCheck fmt \<Rightarrow> reads_only (cmd_contract_check cr re fmt (pw_file w) (pw_second w))
      | ContractDiff fmt \<Rightarrow> reads_only (cmd_contract_diff cr re fmt (pw_file w) (pw_second w))
      | VerifyAgent fmt tools \<Rightarrow> reads_only (cmd_agent_contract_check cr re fmt (pw_file w) (pw_second w)
          (if tools then Some (pw_third w) else None))
      | CoverageCheck fmt \<Rightarrow> reads_only (cmd_governance_coverage_check cr re fmt (pw_sources w) (pw_file w))
      | CompileManifest args \<Rightarrow> (let r = cmd_compile (pw_compiler w) re cr (pw_json w) (pw_compiling w) args (pw_temporary w) (pw_event w) fs in
          (exit_status (compile_ending args (fst r)), snd r, trail))
      | Validate name \<Rightarrow> (case map_of (validation_commands re) name of
          None \<Rightarrow> (1, fs, trail) | Some (label, validate) \<Rightarrow> reads_only (run_validation label validate (pw_file w)))
      | Inspect path \<Rightarrow> reads_only (inspect sh path (pw_file w)))"

definition cli_main ::
  "program_world \<Rightarrow> (string list \<Rightarrow> nat + command) \<Rightarrow> string list \<Rightarrow> files \<times> pyval list \<Rightarrow> nat \<times> files \<times> pyval list" where
  "cli_main w parse argv s =
     (if ''--version'' \<in> set argv \<or> ''--list-validators'' \<in> set argv then (0, s)
      else (case parse argv of Inl n \<Rightarrow> (n, s) | Inr c \<Rightarrow> run_command w c s))"

section \<open>What a decision command establishes\<close>

lemma new_checker_loads:
  assumes "new_checker cr io s None = (Inr ck, c)"
  shows "\<exists>st s' raw. active ck = Some st \<and> parse_bundle cr io s' (trusted_keys ck) raw = Inr st"
proof -
  from assms obtain keys where keys: "load_configured_keys io s = Inr keys" by (auto simp: new_checker_def split: sum.splits)
  let ?l = "load_bundle cr io (fresh_checker s keys) None"
  have "\<not> isl (fst ?l)" "fst (snd ?l) = ck" using assms keys by (auto simp: new_checker_def Let_def split: sum.splits) (cases "fst ?l"; simp)+
  with load_bundle_active [of cr io "fresh_checker s keys"] show ?thesis by (auto simp: good_active_def)
qed

lemma policy_checker_Inr:
  assumes "policy_checker_from_args cr io ta = Inr ck"
  obtains st s keys raw where "active ck = Some st" "parse_bundle cr io s keys raw = Inr st"
proof -
  from assms obtain s where "fst (new_checker cr io s None) = Inr ck" by (auto simp: policy_checker_from_args_def)
  then have "new_checker cr io s None = (Inr ck, snd (new_checker cr io s None))" by (simp add: prod_eq_iff)
  from new_checker_loads [OF this] that show ?thesis by blast
qed

lemma evaluate_Inr:
  assumes "evaluate cr io clock fresh_id request ck = (Inr d, ck')" "active ck = Some st"
  obtains st' v where "active ck' = Some st'" "agents st' = agents st" "decide (agents st) request (instant clock) = Inr v"
    "decision_of cr fresh_id st' request v = Inr d"
proof -
  obtain sig where st': "active (snd (assert_runtime_trust cr io ck)) = Some (st\<lparr>verified := sig\<rparr>)"
    using assert_runtime_trust_active [OF assms(2)] by blast
  with assms(1) that [of "st\<lparr>verified := sig\<rparr>"] show ?thesis by (auto simp: evaluate_def Let_def split: if_splits)
qed

lemma post_init_reads: "post_init kw = Inr r \<Longrightarrow> agent_id r = str_of (dget kw ''agent_id'') \<and> action r = str_of (dget kw ''action'')"
  by (auto simp: post_init_def request_fields_def)

lemma with_default_reads: "j \<noteq> k \<Longrightarrow> dget (with_default k v kw) j = dget kw j"
  by (simp add: with_default_def)

lemma ActionRequest_names:
  assumes "ActionRequest fresh now kw = Inr r"
  shows "agent_id r = str_of (dget kw ''agent_id'')" "action r = str_of (dget kw ''action'')"
proof -
  from assms have "post_init (with_default ''requested_at'' (PStr now) (with_default ''request_id'' (PStr fresh) kw)) = Inr r"
    by (simp add: ActionRequest_def split: if_splits)
  from post_init_reads [OF this] show "agent_id r = str_of (dget kw ''agent_id'')" "action r = str_of (dget kw ''action'')"
    by (simp_all add: with_default_reads)
qed

lemma build_request_reads:
  assumes "build_request w args env = Inr request"
  shows "agent_id request = da_agent args \<and> action request = da_action args"
proof -
  from assms obtain sigs where "ActionRequest (dw_request_id w) (dw_now w) (obj
      [(''agent_id'', PStr (da_agent args)), (''action'', PStr (da_action args)), (''resource'', opt_str (da_resource args)),
       (''signals'', PDict sigs), (''environment'', PStr env)]) = Inr request" unfolding build_request_def bindE_Inr by blast
  from ActionRequest_names [OF this] show ?thesis by (simp add: dget_def dget_or_def)
qed

lemma decision_of_Inr:
  assumes "decision_of cr fresh_id st request v = Inr d"
  shows "dec_result d = v_result v" "dec_agent_id d = agent_id request" "dec_action d = action request"
    "request_digest cr request = Some (dec_request_digest d)"
  using assms by (auto simp: decision_of_def split: option.splits)

text \<open>What stands behind a decision: the loaded bundle, the request, and the evaluation of the one on the other.\<close>

definition decided_on :: "crypto \<Rightarrow> decision_world \<Rightarrow> decision_args \<Rightarrow> bundle_state \<Rightarrow> action_request \<Rightarrow> policy_decision \<Rightarrow> bool" where
  "decided_on cr w args st request d \<longleftrightarrow>
     (\<exists>ck. policy_checker_from_args cr (dw_loading w) (da_trust args) = Inr ck \<and> active ck = Some st) \<and>
     (\<exists>s keys raw. parse_bundle cr (dw_loading w) s keys raw = Inr st) \<and> build_request w args (bundle_environment st) = Inr request \<and>
     (\<exists>v st'. decide (agents st) request (instant (dw_clock w)) = Inr v \<and> agents st' = agents st \<and>
        decision_of cr (dw_decision_id w) st' request v = Inr d)"

lemma reach_decision_Inr:
  assumes "reach_decision cr w args = Inr (d, st')"
  obtains st request where "decided_on cr w args st request d" "agents st' = agents st"
proof -
  from assms obtain ck request ck' where ck: "policy_checker_from_args cr (dw_loading w) (da_trust args) = Inr ck"
    and request: "build_request w args (checker_environment ck) = Inr request"
    and ev: "evaluate cr (dw_deciding w) (dw_clock w) (dw_decision_id w) request ck = (Inr d, ck')" "active ck' = Some st'"
    by (auto simp: reach_decision_def Let_def prod_eq_iff split: if_splits sum.splits option.splits)
  from ck obtain st s keys raw where st: "active ck = Some st" "parse_bundle cr (dw_loading w) s keys raw = Inr st" by (rule policy_checker_Inr)
  from ev(1) st(1) obtain st'' v where v: "active ck' = Some st''" "agents st'' = agents st"
    "decide (agents st) request (instant (dw_clock w)) = Inr v" "decision_of cr (dw_decision_id w) st'' request v = Inr d" by (rule evaluate_Inr)
  have "checker_environment ck = bundle_environment st" by (simp add: checker_environment_def st(1))
  with ck st request v have "decided_on cr w args st request d" unfolding decided_on_def by auto
  moreover have "agents st' = agents st" using v(1,2) ev(2) by simp
  ultimately show ?thesis by (rule that)
qed

lemma decided_authorised:
  assumes "decided_on cr w args st request d" "limits_given st"
  shows "dec_result d = ALLOWED \<longleftrightarrow> authorised st request (instant (dw_clock w))"
proof -
  from assms(1) obtain s keys raw v st' where "parse_bundle cr (dw_loading w) s keys raw = Inr st"
    and v: "decide (agents st) request (instant (dw_clock w)) = Inr v" "decision_of cr (dw_decision_id w) st' request v = Inr d"
    unfolding decided_on_def by blast
  with decide_authorised [OF this(1) assms(2), of request "instant (dw_clock w)"] decision_of_Inr(1) [OF v(2)] show ?thesis by auto
qed

lemma audit_event_reads:
  "dget (audit_event wd st d) ''result'' = PStr (result_text (dec_result d))"
  "dget (audit_event wd st d) ''agent_id'' = PStr (dec_agent_id d)" "dget (audit_event wd st d) ''action'' = PStr (dec_action d)"
  "dget (audit_event wd st d) ''request_digest'' = PStr (dec_request_digest d)"
  by (simp_all add: audit_event_def dget_def dget_or_def)

text \<open>A command that answered: the decision, the line in the log, and the status.\<close>

lemma cmd_check_Ended:
  assumes "cmd_check cr wd w args trail = (Ended n out, trail')" "n \<noteq> EXIT_ERROR"
  obtains st' d where "reach_decision cr w args = Inr (d, st')" "n = decision_status d"
    "trail' = (if da_audit args then trail @ [PDict (audit_event wd st' d)] else trail)" | "reach_decision cr w args = Inl (Ended n out)" "trail' = trail"
proof (cases "reach_decision cr w args")
  case (Inr p)
  obtain d st' where p: "p = (d, st')" by (cases p)
  with assms Inr have "n = decision_status d" "trail' = (if da_audit args then trail @ [PDict (audit_event wd st' d)] else trail)"
    by (auto simp: cmd_check_def Let_def answered_def append_audit_event_def runtime_error_def split: if_splits option.splits)
  with Inr p that(1) show ?thesis by blast
qed (use assms that(2) in \<open>auto simp: cmd_check_def\<close>)

lemma reach_decision_Inl: "reach_decision cr w args = Inl e \<Longrightarrow> (\<exists>x. e = Crashed x) \<or> (\<exists>x. e = runtime_error x)"
  by (auto simp: reach_decision_def Let_def split: if_splits sum.splits option.splits)


section \<open>Explaining and checking\<close>

lemma unknown_agent_denied:
  assumes "reach_decision cr w args = Inr (d, st)" "get_agent_info st (da_agent args) = None"
  shows "decision_status d = EXIT_DENIED"
proof -
  from assms(1) obtain st0 request where on: "decided_on cr w args st0 request d" "agents st = agents st0" by (rule reach_decision_Inr)
  then obtain v st' where v: "decide (agents st) request (instant (dw_clock w)) = Inr v" "decision_of cr (dw_decision_id w) st' request v = Inr d"
    and request: "build_request w args (bundle_environment st0) = Inr request" unfolding decided_on_def by auto
  have "map_of (agents st) (agent_id request) = None"
    using assms(2) build_request_reads [OF request] by (simp add: get_agent_info_def split: option.splits)
  with v decision_of_Inr(1) [OF v(2)] show ?thesis by (auto simp: decide_def denied_def decision_status_def)
qed

text \<open>
  C31. \<^verbatim>\<open>explain\<close> explains what \<^verbatim>\<open>check\<close> answers: whenever it ends with a status, \<^verbatim>\<open>check\<close> with the same arguments and
  observations ends with the same one, and their audit lines differ in the explanation only.
\<close>

theorem explain_agrees_with_check:
  assumes "cmd_explain cr wd w args trail = (Ended n out, trail')"
  shows "\<exists>out' trail''. cmd_check cr wd w args trail = (Ended n out', trail'') \<and>
    (trail' = trail'' \<or> (\<exists>event why. trail'' = trail @ [PDict event] \<and> trail' = trail @ [PDict (dset event ''explanation'' (PStr why))]))"
proof (cases "reach_decision cr w args")
  case (Inl e)
  with assms show ?thesis by (auto simp: cmd_check_def cmd_explain_def)
next
  case (Inr p)
  obtain d st where p: "p = (d, st)" by (cases p)
  define event where "event = audit_event wd st d"
  define why where "why = fst (decision_explanation wd d)"
  have status: "n = decision_status d" if "explained_ending wd args d st = Ended n out"
    using that unknown_agent_denied [of cr w args d st] Inr p
    by (auto simp: explained_ending_def split: option.splits sum.splits)
  let ?a = "append_audit_event w args" and ?e = "dset event ''explanation'' (PStr why)"
  have logs: "fst (?a ?e trail) = fst (?a event trail)"
    "snd (?a ?e trail) = snd (?a event trail) \<or> (snd (?a event trail) = trail @ [PDict event] \<and> snd (?a ?e trail) = trail @ [PDict ?e])"
    by (auto simp: append_audit_event_def split: option.splits)
  have explained: "answered (fst (?a event trail)) (if da_format args = ''jsonl'' then Ended (decision_status d) [JsonLine ?e]
      else explained_ending wd args d st) = Ended n out" "trail' = snd (?a ?e trail)"
    using assms logs(1) unfolding cmd_explain_def Inr p event_def why_def Let_def by simp_all
  then have "\<exists>out'. answered (fst (?a event trail)) (Ended (decision_status d)
      (if da_format args = ''jsonl'' then [JsonLine event] else text_answer wd args d)) = Ended n out'"
    using status by (auto simp: answered_def split: option.splits if_splits)
  with explained(2) logs(2) show ?thesis by (auto simp: cmd_check_def Inr p Let_def event_def why_def)
qed

section \<open>Linting and starting\<close>

lemma accepted_actions:
  assumes "validate_agent d = Inr []" "f \<in> {''allowed_actions'', ''blocked_actions''}" "PStr s \<in> set (entries_of (dget d f))"
  shows "pattern_errors s = []"
proof -
  have "is_list (dget d f)" "action_list_errors d f = []" using accepted_agentD [OF assms(1)] assms(2) by auto
  then show ?thesis using assms(3) by (cases "dget d f") (auto simp: action_list_accepts)
qed

lemma accepted_texts:
  assumes "validate_agent d = Inr []" "f \<in> {''allowed_actions'', ''blocked_actions''}"
  shows "\<forall>v \<in> set (entries_of (dget d f)). \<exists>s. v = PStr s"
proof -
  have "is_list (dget d f)" "action_list_errors d f = []" using accepted_agentD [OF assms(1)] assms(2) by auto
  then obtain vs where "dget d f = PList vs" "\<forall>v \<in> set vs. nonblank_str v" by (cases "dget d f") (auto simp: action_list_accepts)
  then show ?thesis using nonblank_strD by fastforce
qed

lemma lint_warnings_Nil:
  assumes "lint_warnings sh d = []"
  shows "distinct (map casefold (map str_of (entries_of (dget d ''allowed_actions''))))"
    "distinct (map casefold (map str_of (entries_of (dget d ''blocked_actions''))))"
    "set (map str_of (entries_of (dget d ''allowed_actions''))) \<inter> set (map str_of (entries_of (dget d ''blocked_actions''))) = {}"
    "''*'' \<notin> set (map str_of (entries_of (dget d ''allowed_actions'')))"
    "dget_or d ''enforcement_mode'' (PStr ''strict'') = PStr ''strict'' \<longrightarrow> map str_of (entries_of (dget d ''allowed_actions'')) \<noteq> []"
proof -
  have distinct_iff: "card (set (map f xs)) \<noteq> length xs \<longleftrightarrow> \<not> distinct (map f xs)" for f :: "string \<Rightarrow> string" and xs
    using distinct_card [of "map f xs"] card_distinct [of "map f xs"] by auto
  have no: "(if b then [x] else []) = [] \<longleftrightarrow> \<not> b" for b and x :: lint_warning by simp
  note parts = assms [unfolded lint_warnings_def Let_def append_is_Nil_conv no distinct_iff not_not]
  show "distinct (map casefold (map str_of (entries_of (dget d ''allowed_actions''))))"
    "distinct (map casefold (map str_of (entries_of (dget d ''blocked_actions''))))"
    "set (map str_of (entries_of (dget d ''allowed_actions''))) \<inter> set (map str_of (entries_of (dget d ''blocked_actions''))) = {}"
    "''*'' \<notin> set (map str_of (entries_of (dget d ''allowed_actions'')))"
    "dget_or d ''enforcement_mode'' (PStr ''strict'') = PStr ''strict'' \<longrightarrow> map str_of (entries_of (dget d ''allowed_actions'')) \<noteq> []"
    using parts by blast+
qed


lemma init_files_reads:
  "distinct (map fst ts) \<Longrightarrow> snd (snd (init_files ts fs)) name = (case fs name of Some c \<Rightarrow> Some c | None \<Rightarrow> map_of ts name)"
  by (induction ts fs rule: init_files.induct) (auto simp: Let_def split: option.splits)

text \<open>
  \<^verbatim>\<open>init\<close> overwrites nothing: afterwards a path holds what it held before, and the template of that name when there
  was nothing.
\<close>

theorem init_overwrites_nothing:
  "snd (cmd_init fs) name = (case fs name of Some c \<Rightarrow> Some c | None \<Rightarrow> map_of init_templates name)"
  using init_files_reads [of init_templates fs name] by (simp add: cmd_init_def init_templates_def Let_def)

section \<open>Witnesses\<close>

definition sample_trust :: trust_args where
  "sample_trust = \<lparr>ta_bundle = ''/b'', ta_policy = ''auto'', ta_issuer = None, ta_minimum = 0, ta_skew = 60, ta_store = False\<rparr>"

definition sample_decision :: "string option \<Rightarrow> decision_args" where
  "sample_decision signals_file = \<lparr>da_trust = sample_trust, da_agent = ''a1'', da_action = ''read'', da_resource = None,
     da_signals = signals_file, da_audit = True, da_format = ''jsonl''\<rparr>"

definition sample_decision_world :: "pydict \<Rightarrow> decision_world" where
  "sample_decision_world b = \<lparr>dw_present = True, dw_loading = PolicyChecker.sample_io b, dw_deciding = PolicyChecker.sample_io b,
     dw_signals = \<lparr>present = True, parsed = Inr (PDict (obj [(''failure_counts'', PDict (obj [(''c'', PInt 1)]))]))\<rparr>,
     dw_clock = sample_clock, dw_decision_id = ''d'', dw_request_id = ''r'', dw_now = ''t'', dw_audit = None\<rparr>"

definition sample_wording :: wording where
  "sample_wording = \<lparr>wd_shown = sample_shown, wd_detail = (\<lambda>d. []), wd_checked_at = ''t''\<rparr>"

definition answer_crypto :: crypto where
  "answer_crypto = sample_flat\<lparr>sha256_hex := (\<lambda>s. ''h'')\<rparr>"

definition sample_answer_bundle :: pydict where
  "sample_answer_bundle = obj [(''schema_version'', PStr ''1.0''), (''digest'', PStr ''h''), (''bundle_revision'', PInt 1),
     (''agents'', PDict (obj [(''a1'', PDict (obj [(''config'', PDict (obj [(''allowed_actions'', PList [PStr ''read''])]))]))]))]"

definition sample_run :: "ending + (policy_decision \<times> bundle_state)" where
  "sample_run = reach_decision answer_crypto (sample_decision_world sample_answer_bundle) (sample_decision None)"

lemma sample_decided: "\<exists>d st. sample_run = Inr (d, st) \<and> dec_result d = ALLOWED"
proof -
  have "(case sample_run of Inr (d, st) \<Rightarrow> dec_result d = ALLOWED | _ \<Rightarrow> False)" by code_simp
  then show ?thesis by (auto split: sum.splits prod.splits)
qed

lemma sample_check_ends:
  "\<exists>out trail'. cmd_check answer_crypto sample_wording (sample_decision_world sample_answer_bundle) (sample_decision None) [] = (Ended EXIT_ALLOWED out, trail')"
  using sample_decided by (auto simp: cmd_check_def Let_def sample_run_def answered_def append_audit_event_def decision_status_def
      sample_decision_world_def [of sample_answer_bundle])

lemma sample_explain_ends:
  "\<exists>out trail'. cmd_explain answer_crypto sample_wording (sample_decision_world sample_answer_bundle) (sample_decision None) [] = (Ended EXIT_ALLOWED out, trail')"
  using sample_decided by (auto simp: cmd_explain_def Let_def sample_run_def answered_def append_audit_event_def decision_status_def
      sample_decision_def [of None] sample_decision_world_def [of sample_answer_bundle])


theorem explain_agrees_with_check_witness:
  "\<exists>out'. fst (cmd_check answer_crypto sample_wording (sample_decision_world sample_answer_bundle) (sample_decision None) []) = Ended EXIT_ALLOWED out'"
proof -
  obtain out trail' where c: "cmd_explain answer_crypto sample_wording (sample_decision_world sample_answer_bundle) (sample_decision None) []
      = (Ended EXIT_ALLOWED out, trail')" using sample_explain_ends by blast
  from explain_agrees_with_check [OF c] show ?thesis by auto
qed

definition sample_linted :: pydict where
  "sample_linted = obj [(''id'', PStr ''a''), (''name'', PStr ''A''), (''department'', PStr ''d''), (''description'', PStr ''x''),
     (''skills'', PList []), (''validators'', PList []), (''policies'', PList []), (''allowed_actions'', PList [PStr ''send:*'']),
     (''blocked_actions'', PList [PStr ''send:x''])]"


section \<open>What the commands get wrong\<close>

text \<open>
  Only loading is inside the \<open>try\<close> of \<^verbatim>\<open>check\<close>: a failure threshold with a null limit raises while the request is
  evaluated, and the traceback ends with the status of a denial although no decision was reached.
\<close>

definition null_limit_bundle :: pydict where
  "null_limit_bundle =
     obj [(''schema_version'', PStr ''1.0''), (''digest'', PStr ''h''), (''bundle_revision'', PInt 1),
        (''agents'', PDict (obj [(''a1'', PDict (obj [(''config'', PDict (obj
          [(''allowed_actions'', PList [PStr ''read'']), (''policies'', PList [PStr ''p''])]))]))])),
        (''policies'', PDict (obj [(''p'', PDict (obj [(''config'', PDict (obj
          [(''kind'', PStr ''failure_threshold''), (''trigger'', PList [PStr ''*'']),
           (''threshold'', PDict (obj [(''counter'', PStr ''c''), (''max_consecutive_failures'', PNone)]))]))]))]))]"

theorem undecided_check_exits_as_denied:
  "fst (cmd_check answer_crypto sample_wording (sample_decision_world null_limit_bundle) (sample_decision (Some ''s'')) []) = Crashed (Exc TypeError ''>='') \<and>
   exit_status (Crashed (Exc TypeError ''>='')) = EXIT_DENIED"
proof
  show "fst (cmd_check answer_crypto sample_wording (sample_decision_world null_limit_bundle) (sample_decision (Some ''s'')) []) = Crashed (Exc TypeError ''>='')"
    by code_simp
qed (simp add: EXIT_DENIED_def)

text \<open>
  The linter compares the two lists as they are spelled, the checker blocks in every spelling: an entry of the block
  list that narrows an allow entry of another spelling is not noted.
\<close>

theorem lint_overlooks_other_spellings:
  "lint_notes (obj [(''allowed_actions'', PList [PStr ''Send:*'']), (''blocked_actions'', PList [PStr ''send:x''])]) = [] \<and>
   find_match (PList [PStr ''Send:*'']) ''Send:x'' False \<noteq> None \<and> find_block_match (PList [PStr ''send:x'']) ''Send'' ''Send:x'' \<noteq> None"
  by (intro conjI; code_simp)

end
