(* ===== verification/Adapters.thy ===== *)
theory Adapters
  imports Gate ToolExport
begin

text \<open>
  The framework adapters of \<^verbatim>\<open>integrations\<close>: how LangChain, CrewAI, AutoGen and plain Python tools are described for the
  export of a Tool Contract, and the wrappers that ask the gate before they hand a call to the wrapped tool. A tool of a
  framework is the attributes the adapter reads and the answers its methods give; awaiting is running. All wrappers
  keep the contract of one locale: without an allowed decision for the call the wrapped tool sees nothing.
\<close>

section \<open>Descriptors\<close>

text \<open>
  The attributes of a tool: a missing one is \<open>PNone\<close>, \<open>None\<close> for the action name. \<open>at_input_schema\<close> is what calling
  \<^verbatim>\<open>get_input_schema\<close> gives where it is callable.
\<close>

record tool_attributes =
  at_name :: pyval
  at_description :: pyval
  at_action :: "pyval option"
  at_args_schema :: "schema_source option"
  at_input_schema :: "schema_source option result option"
  at_schema :: pyval

definition described :: "tool_attributes \<Rightarrow> schema_source option \<Rightarrow> framework_tool result" where
  "described t source = framework_tool_of \<lparr>fo_name = at_name t, fo_description = at_description t, fo_action = at_action t,
     fo_schema = (case source of None \<Rightarrow> NoSource | Some s \<Rightarrow> s)\<rparr>"

definition langchain_descriptor :: "tool_attributes \<Rightarrow> framework_tool result" where
  "langchain_descriptor t = (case (at_args_schema t, at_input_schema t) of
       (None, Some r) \<Rightarrow> bindE r (described t)
     | (source, _) \<Rightarrow> described t source)"

definition crewai_descriptor :: "tool_attributes \<Rightarrow> framework_tool result" where
  "crewai_descriptor t = described t (at_args_schema t)"

definition autogen_descriptor :: "tool_attributes \<Rightarrow> framework_tool result" where
  "autogen_descriptor t = (case at_schema t of
       PDict schema \<Rightarrow> described t (case dget schema ''parameters'' of PDict d \<Rightarrow> Some (MappingSource d) | _ \<Rightarrow> None)
     | _ \<Rightarrow> Inl (export_error ''schema mapping''))"

text \<open>A plain Python tool: \<open>None\<close> is an object of another class; the name and docstring are those of the callable.\<close>

record custom_tool =
  ct_callable :: bool
  ct_callable_name :: pyval
  ct_doc :: pyval
  ct_schema :: pydict
  ct_name :: pyval
  ct_description :: pyval
  ct_action :: pyval

definition either :: "pyval \<Rightarrow> pyval \<Rightarrow> pyval" where
  "either a b = (if truthy a then a else b)"

definition custom_tool_descriptor :: "custom_tool option \<Rightarrow> framework_tool result" where
  "custom_tool_descriptor tool = (case tool of
       None \<Rightarrow> Inl (export_error ''CustomToolDescriptor'')
     | Some t \<Rightarrow> if \<not> ct_callable t then Inl (export_error ''callable'')
         else bindE (usable_text (either (ct_name t) (ct_callable_name t)) ''name'') (\<lambda>name.
           bindE (usable_text (either (ct_description t) (ct_doc t)) ''description'') (\<lambda>about.
           bindE (usable_text (either (ct_action t) (PStr name)) ''action name'') (\<lambda>act.
             Inr \<lparr>ft_name = name, ft_description = about, ft_schema = MappingSource (ct_schema t), ft_action = act\<rparr>))))"

definition export_langchain_tool_contract ::
  "json_schema \<Rightarrow> export_header \<Rightarrow> governance_map \<Rightarrow> tool_attributes list \<Rightarrow> export_failure + pydict" where
  "export_langchain_tool_contract js h = export_framework_tool_contract langchain_descriptor js (h\<lparr>eh_framework := ''langchain''\<rparr>)"

definition export_crewai_tool_contract ::
  "json_schema \<Rightarrow> export_header \<Rightarrow> governance_map \<Rightarrow> tool_attributes list \<Rightarrow> export_failure + pydict" where
  "export_crewai_tool_contract js h = export_framework_tool_contract crewai_descriptor js (h\<lparr>eh_framework := ''crewai''\<rparr>)"

definition export_autogen_tool_contract ::
  "json_schema \<Rightarrow> export_header \<Rightarrow> governance_map \<Rightarrow> tool_attributes list \<Rightarrow> export_failure + pydict" where
  "export_autogen_tool_contract js h = export_framework_tool_contract autogen_descriptor js (h\<lparr>eh_framework := ''autogen''\<rparr>)"

definition export_custom_tool_contract ::
  "json_schema \<Rightarrow> export_header \<Rightarrow> governance_map \<Rightarrow> custom_tool option list \<Rightarrow> export_failure + pydict" where
  "export_custom_tool_contract js h = export_framework_tool_contract custom_tool_descriptor js (h\<lparr>eh_framework := ''custom-python''\<rparr>)"

section \<open>Handing a call to a tool\<close>

text \<open>
  The ways a tool is entered, and what a wrapped tool is to a wrapper: its attributes, the entries it has, and the
  answer of each. The calls a tool has seen are part of the state.
\<close>

datatype entry = Invoke | Ainvoke | Run | Arun | Call

type_synonym tool_call = "entry \<times> pyval list \<times> pydict"

record wrapped_tool =
  wt_name :: pyval
  wt_description :: pyval
  wt_base :: bool
  wt_run :: bool
  wt_arun :: bool
  wt_callable :: bool
  wt_answer :: "tool_call \<Rightarrow> pyval result"

type_synonym adapter_state = "gate_state \<times> tool_call list"

definition hand_over :: "wrapped_tool \<Rightarrow> tool_call \<Rightarrow> adapter_state \<Rightarrow> pyval result \<times> adapter_state" where
  "hand_over w c = bind_op (update_op (\<lambda>s. (fst s, snd s @ [c]))) (\<lambda>u. raise_or (wt_answer w c))"

definition tool_input :: "pyval list \<Rightarrow> pydict \<Rightarrow> pyval result" where
  "tool_input args kwargs =
     (if kwargs \<noteq> [] \<and> args = [] then Inr (PDict kwargs)
      else if length args = 1 \<and> kwargs = [] \<and> (is_str (hd args) \<or> is_mapping (hd args)) then Inr (hd args)
      else Inl (Exc TypeError ''tool input''))"

definition langchain_deliver :: "wrapped_tool \<Rightarrow> pyval list \<Rightarrow> pydict \<Rightarrow> adapter_state \<Rightarrow> pyval result \<times> adapter_state" where
  "langchain_deliver w args kwargs =
     (if wt_base w then bind_op (raise_or (tool_input args kwargs)) (\<lambda>v. hand_over w (Invoke, [v], []))
      else if wt_run w then hand_over w (Run, args, kwargs)
      else if wt_callable w then hand_over w (Call, args, kwargs)
      else raise_or (Inl (Exc TypeError ''does not support execution'')))"

definition langchain_adeliver :: "wrapped_tool \<Rightarrow> pyval list \<Rightarrow> pydict \<Rightarrow> adapter_state \<Rightarrow> pyval result \<times> adapter_state" where
  "langchain_adeliver w args kwargs =
     (if wt_base w then bind_op (raise_or (tool_input args kwargs)) (\<lambda>v. hand_over w (Ainvoke, [v], []))
      else if wt_arun w then hand_over w (Arun, args, kwargs)
      else if wt_run w then hand_over w (Run, args, kwargs)
      else if wt_callable w then hand_over w (Call, args, kwargs)
      else raise_or (Inl (Exc TypeError ''does not support execution'')))"

text \<open>The executor of a CrewAI tool is another tool of CrewAI or a callable, and is set by the constructor.\<close>

definition crewai_deliver :: "wrapped_tool \<Rightarrow> pyval list \<Rightarrow> pydict \<Rightarrow> adapter_state \<Rightarrow> pyval result \<times> adapter_state" where
  "crewai_deliver w args kwargs = hand_over w (if wt_base w then Run else Call, args, kwargs)"

definition crewai_adeliver :: "wrapped_tool \<Rightarrow> pyval list \<Rightarrow> pydict \<Rightarrow> adapter_state \<Rightarrow> pyval result \<times> adapter_state" where
  "crewai_adeliver w args kwargs = hand_over w (if wt_base w then Arun else Call, args, kwargs)"

definition autogen_deliver :: "wrapped_tool \<Rightarrow> pyval \<Rightarrow> adapter_state \<Rightarrow> pyval result \<times> adapter_state" where
  "autogen_deliver w model = hand_over w (Run, [model], [])"

text \<open>Every wrapper authorizes first.\<close>

definition authorized_call ::
  "crypto \<Rightarrow> gate \<Rightarrow> gate_inputs \<Rightarrow> pyval list \<Rightarrow> pydict \<Rightarrow> (adapter_state \<Rightarrow> pyval result \<times> adapter_state)
   \<Rightarrow> adapter_state \<Rightarrow> pyval result \<times> adapter_state" where
  "authorized_call cr g gi args kwargs deliver =
     bind_op (on_part fst (\<lambda>p s. (p, snd s)) (authorize cr g gi args kwargs None)) (\<lambda>d. deliver)"

section \<open>The wrappers\<close>

text \<open>\<open>candidate if isinstance(candidate, str) and candidate else fallback\<close>.\<close>

definition text_or :: "pyval \<Rightarrow> string \<Rightarrow> string" where
  "text_or v fallback = (if is_str v \<and> v \<noteq> PStr [] then str_of v else fallback)"

record governed_tool =
  gv_name :: string
  gv_description :: string
  gv_gate :: gate
  gv_tool :: wrapped_tool

text \<open>The gate argument holds the options the wrapper passes on; agent, action and tool are set here.\<close>

definition GovernedTool :: "gate \<Rightarrow> string \<Rightarrow> string option \<Rightarrow> wrapped_tool \<Rightarrow> governed_tool result" where
  "GovernedTool options aid action_name w =
     (let act = text_or (case action_name of Some a \<Rightarrow> PStr a | None \<Rightarrow> wt_name w) ''unknown'';
          name = text_or (wt_name w) act in
      bindE (GovernanceGate (options\<lparr>gt_agent := aid, gt_action := act, gt_tool := Some name\<rparr>)) (\<lambda>g.
        Inr \<lparr>gv_name = name, gv_description = text_or (wt_description w) (''Governed tool: '' @ name), gv_gate = g, gv_tool = w\<rparr>))"

definition governed_run ::
  "crypto \<Rightarrow> governed_tool \<Rightarrow> gate_inputs \<Rightarrow> pyval list \<Rightarrow> pydict \<Rightarrow> adapter_state \<Rightarrow> pyval result \<times> adapter_state" where
  "governed_run cr gv gi args kwargs = authorized_call cr (gv_gate gv) gi args kwargs (langchain_deliver (gv_tool gv) args kwargs)"

definition governed_arun ::
  "crypto \<Rightarrow> governed_tool \<Rightarrow> gate_inputs \<Rightarrow> pyval list \<Rightarrow> pydict \<Rightarrow> adapter_state \<Rightarrow> pyval result \<times> adapter_state" where
  "governed_arun cr gv gi args kwargs = authorized_call cr (gv_gate gv) gi args kwargs (langchain_adeliver (gv_tool gv) args kwargs)"

text \<open>A CrewAI wrapper takes its name and description from the executor unless they were given.\<close>

definition GovernedCrewTool ::
  "gate \<Rightarrow> string \<Rightarrow> string \<Rightarrow> string option \<Rightarrow> string option \<Rightarrow> wrapped_tool \<Rightarrow> governed_tool result" where
  "GovernedCrewTool options aid action_name name about w =
     (let field = (\<lambda>given v. case given of Some s \<Rightarrow> PStr s | None \<Rightarrow> if wt_base w then v else PNone);
          name_value = field name (wt_name w); about_value = field about (wt_description w) in
      if \<not> is_str name_value \<or> \<not> is_str about_value then Inl (Exc ValueError ''missing field'')
      else bindE (GovernanceGate (options\<lparr>gt_agent := aid, gt_action := action_name, gt_tool := Some (str_of name_value)\<rparr>)) (\<lambda>g.
        Inr \<lparr>gv_name = str_of name_value, gv_description = str_of about_value, gv_gate = g, gv_tool = w\<rparr>))"

definition crew_run ::
  "crypto \<Rightarrow> governed_tool \<Rightarrow> gate_inputs \<Rightarrow> pyval list \<Rightarrow> pydict \<Rightarrow> adapter_state \<Rightarrow> pyval result \<times> adapter_state" where
  "crew_run cr gv gi args kwargs = authorized_call cr (gv_gate gv) gi args kwargs (crewai_deliver (gv_tool gv) args kwargs)"

definition crew_arun ::
  "crypto \<Rightarrow> governed_tool \<Rightarrow> gate_inputs \<Rightarrow> pyval list \<Rightarrow> pydict \<Rightarrow> adapter_state \<Rightarrow> pyval result \<times> adapter_state" where
  "crew_arun cr gv gi args kwargs = authorized_call cr (gv_gate gv) gi args kwargs (crewai_adeliver (gv_tool gv) args kwargs)"

definition GovernedAutoGenTool :: "gate \<Rightarrow> string \<Rightarrow> string option \<Rightarrow> wrapped_tool \<Rightarrow> governed_tool result" where
  "GovernedAutoGenTool options aid action_name w =
     (let act = (case action_name of Some a \<Rightarrow> PStr a | None \<Rightarrow> wt_name w) in
      if \<not> wt_base w then Inl (export_error ''BaseTool'')
      else if \<not> is_str act \<or> act = PStr [] then Inl (export_error ''name or action_name'')
      else bindE (GovernanceGate (options\<lparr>gt_agent := aid, gt_action := str_of act, gt_tool := str_option (wt_name w)\<rparr>)) (\<lambda>g.
        Inr \<lparr>gv_name = str_of (wt_name w), gv_description = str_of (wt_description w), gv_gate = g, gv_tool = w\<rparr>))"

text \<open>The arguments are a model object and the mapping its dump gives, when it is one.\<close>

definition autogen_run ::
  "crypto \<Rightarrow> governed_tool \<Rightarrow> gate_inputs \<Rightarrow> pyval \<Rightarrow> pydict option \<Rightarrow> adapter_state \<Rightarrow> pyval result \<times> adapter_state" where
  "autogen_run cr gv gi model dumped = (case dumped of
       None \<Rightarrow> raise_or (Inl (Exc TypeError ''Pydantic model''))
     | Some kwargs \<Rightarrow> authorized_call cr (gv_gate gv) gi [] kwargs (autogen_deliver (gv_tool gv) model))"

text \<open>The decorator builds its gate once; without a tool id the qualified name of the function is taken.\<close>

definition governed :: "gate \<Rightarrow> string \<Rightarrow> string \<Rightarrow> string option \<Rightarrow> string \<Rightarrow> gate result" where
  "governed options aid act tid qualified_name =
     GovernanceGate (options\<lparr>gt_agent := aid, gt_action := act, gt_tool := Some (configured tid qualified_name)\<rparr>)"

section \<open>Agents\<close>

text \<open>An executor with its tools and those of its \<open>agent\<close>, where it has one.\<close>

datatype slot = Bare wrapped_tool | Wrapped governed_tool

record executor =
  ex_tools :: "slot list"
  ex_agent :: "slot list option"

text \<open>A wrapped tool is a tool again: its attributes, and a base tool of the framework.\<close>

fun slot_tool :: "(governed_tool \<Rightarrow> tool_call \<Rightarrow> pyval result) \<Rightarrow> slot \<Rightarrow> wrapped_tool" where
  "slot_tool answers (Bare w) = w"
| "slot_tool answers (Wrapped gv) = \<lparr>wt_name = PStr (gv_name gv), wt_description = PStr (gv_description gv), wt_base = True,
     wt_run = True, wt_arun = True, wt_callable = True, wt_answer = answers gv\<rparr>"

definition wrap_slot :: "(governed_tool \<Rightarrow> tool_call \<Rightarrow> pyval result) \<Rightarrow> gate \<Rightarrow> string \<Rightarrow> slot \<Rightarrow> governed_tool result" where
  "wrap_slot answers options aid sl = (let w = slot_tool answers sl in GovernedTool options aid (str_option (wt_name w)) w)"

text \<open>The list that was found is the one that is replaced, and only after every wrapper was built.\<close>

definition wrap_tools ::
  "(governed_tool \<Rightarrow> tool_call \<Rightarrow> pyval result) \<Rightarrow> gate \<Rightarrow> string \<Rightarrow> executor \<Rightarrow> governed_tool list result \<times> executor" where
  "wrap_tools answers options aid ex =
     (let agent_tools = (case ex_agent ex of None \<Rightarrow> [] | Some ts \<Rightarrow> ts);
          own = ex_tools ex \<noteq> []; tools = (if own then ex_tools ex else agent_tools) in
      if tools = [] then (Inl (Exc ValueError ''no tools to govern''), ex)
      else (case each (wrap_slot answers options aid) tools of
          Inl e \<Rightarrow> (Inl e, ex)
        | Inr gvs \<Rightarrow> (Inr gvs, if own then ex\<lparr>ex_tools := map Wrapped gvs\<rparr> else ex\<lparr>ex_agent := Some (map Wrapped gvs)\<rparr>)))"

section \<open>The contract of a wrapper\<close>

text \<open>A request for the target of the gate was evaluated, allowed, and accepted by the sink.\<close>

definition permitted :: "crypto \<Rightarrow> gate \<Rightarrow> gate_inputs \<Rightarrow> bool" where
  "permitted cr g gi \<longleftrightarrow> (\<exists>request ck ck' d. evaluate cr (gi_io gi) (gi_clock gi) (gi_decision_id gi) request ck = (Inr d, ck') \<and>
     dec_result d = ALLOWED \<and> agent_id request = gt_agent g \<and> action request = gt_action g \<and>
     (gt_tool g = None \<or> tool_id request = gt_tool g) \<and> (\<forall>sink. gi_sink gi = Some sink \<longrightarrow> sink d = None))"

lemma authorize_permitted:
  assumes "authorize cr g gi args kwargs cor s = (Inr d, t)"
  shows "permitted cr g gi"
proof -
  have d: "gate_decision cr g gi args kwargs cor s = (Inr d, t)" "dec_result d = ALLOWED" using assms by (simp_all add: authorize_Inr)
  obtain ck ck' request where "governed_request g gi \<lparr>cx_agent = gt_agent g, cx_action = gt_action g, cx_tool = gt_tool g,
       cx_environment = checker_environment ck, cx_args = args, cx_kwargs = kwargs, cx_correlation = cor\<rparr> = Inr request"
    "evaluate cr (gi_io gi) (gi_clock gi) (gi_decision_id gi) request ck = (Inr d, ck')"
    "\<And>sink. gi_sink gi = Some sink \<Longrightarrow> sink d = None" using d(1) by (rule gate_decision_Inr) blast
  with d(2) governed_request_Inr show ?thesis unfolding permitted_def by blast
qed

locale adapter =
  fixes deliver :: "adapter_state \<Rightarrow> pyval result \<times> adapter_state" and answer :: "tool_call \<Rightarrow> pyval result"
  assumes at_most_one: "deliver s = (r, t) \<Longrightarrow> snd t = snd s \<or> (\<exists>c. snd t = snd s @ [c] \<and> r = answer c)"
begin

lemma runs_only_when_permitted:
  assumes "authorized_call cr g gi args kwargs deliver s = (r, t)" "snd t \<noteq> snd s"
  shows "(\<exists>c. snd t = snd s @ [c] \<and> r = answer c) \<and> permitted cr g gi"
proof (cases "authorize cr g gi args kwargs None (fst s)")
  case (Pair x u)
  with assms obtain d where d: "x = Inr d" and deliver: "deliver (u, snd s) = (r, t)"
    by (cases x) (auto simp: authorized_call_def bind_op_def on_part_def Let_def)
  from at_most_one [OF deliver] assms(2) have "\<exists>c. snd t = snd s @ [c] \<and> r = answer c" by simp
  moreover have "permitted cr g gi" using Pair d by (intro authorize_permitted) simp
  ultimately show ?thesis by blast
qed

end

lemma hand_over_adds: "hand_over w c s = (r, t) \<Longrightarrow> snd t = snd s @ [c] \<and> r = wt_answer w c"
  by (auto simp: hand_over_def bind_op_def update_op_def)

lemma hand_over_one: "hand_over w c s = (r, t) \<Longrightarrow> snd t = snd s \<or> (\<exists>c. snd t = snd s @ [c] \<and> r = wt_answer w c)"
  using hand_over_adds by blast

interpretation langchain_sync: adapter "langchain_deliver w args kwargs" "wt_answer w" for w args kwargs
  by unfold_locales
    (auto simp: langchain_deliver_def bind_op_def raise_or_def split: if_splits prod.splits sum.splits dest!: hand_over_one)

interpretation langchain_async: adapter "langchain_adeliver w args kwargs" "wt_answer w" for w args kwargs
  by unfold_locales
    (auto simp: langchain_adeliver_def bind_op_def raise_or_def split: if_splits prod.splits sum.splits dest!: hand_over_one)

interpretation crewai_sync: adapter "crewai_deliver w args kwargs" "wt_answer w" for w args kwargs
  by unfold_locales (auto simp: crewai_deliver_def dest!: hand_over_one split: if_splits)

interpretation crewai_async: adapter "crewai_adeliver w args kwargs" "wt_answer w" for w args kwargs
  by unfold_locales (auto simp: crewai_adeliver_def dest!: hand_over_one split: if_splits)

interpretation autogen: adapter "autogen_deliver w model" "wt_answer w" for w model
  by unfold_locales (auto simp: autogen_deliver_def dest!: hand_over_one)

section \<open>Properties\<close>


text \<open>
  C33. Wrapping an agent replaces the tools it found, all of them or none: after a success the list the tools were read from
  holds exactly one wrapper for each, in order, for the given agent, under the name the tool has or the action
  \<open>unknown\<close>; after a failure every list is as it was.
\<close>

theorem agent_tools_are_wrapped:
  "(\<forall>gvs ex'. wrap_tools answers options aid ex = (Inr gvs, ex') \<longrightarrow> gvs \<noteq> [] \<and>
     (\<exists>bare. bare = (if ex_tools ex \<noteq> [] then ex_tools ex else the (ex_agent ex)) \<and>
       (if ex_tools ex \<noteq> [] then ex' = ex\<lparr>ex_tools := map Wrapped gvs\<rparr> else ex' = ex\<lparr>ex_agent := Some (map Wrapped gvs)\<rparr>) \<and>
       list_all2 (\<lambda>sl gv. gv_tool gv = slot_tool answers sl \<and> gt_agent (gv_gate gv) = aid \<and>
         gt_action (gv_gate gv) = text_or (wt_name (slot_tool answers sl)) ''unknown'' \<and> gt_tool (gv_gate gv) = Some (gv_name gv)) bare gvs)) \<and>
   (\<forall>e ex'. wrap_tools answers options aid ex = (Inl e, ex') \<longrightarrow> ex' = ex)"
proof -
  have one: "gv_tool gv = slot_tool answers sl \<and> gt_agent (gv_gate gv) = aid \<and>
      gt_action (gv_gate gv) = text_or (wt_name (slot_tool answers sl)) ''unknown'' \<and> gt_tool (gv_gate gv) = Some (gv_name gv)"
    if "wrap_slot answers options aid sl = Inr gv" for sl gv
    using that by (cases "wt_name (slot_tool answers sl)")
      (auto simp: wrap_slot_def GovernedTool_def GovernanceGate_def Let_def text_or_def split: if_splits)
  have wrapped: "list_all2 (\<lambda>sl gv. gv_tool gv = slot_tool answers sl \<and> gt_agent (gv_gate gv) = aid \<and>
      gt_action (gv_gate gv) = text_or (wt_name (slot_tool answers sl)) ''unknown'' \<and> gt_tool (gv_gate gv) = Some (gv_name gv)) ts gvs"
    if "each (wrap_slot answers options aid) ts = Inr gvs" for ts gvs
    using that unfolding each_Inr by (rule list_all2_mono) (rule one)
  have some: "gvs \<noteq> []" if "each (wrap_slot answers options aid) ts = Inr gvs" "ts \<noteq> []" for ts gvs
    using that by (cases ts) auto
  show ?thesis
    using wrapped some by (auto simp: wrap_tools_def Let_def split: if_splits sum.splits option.splits)
qed

section \<open>Witnesses\<close>

definition sample_wrapped :: wrapped_tool where
  "sample_wrapped = \<lparr>wt_name = PStr ''read'', wt_description = PNone, wt_base = True, wt_run = True, wt_arun = False, wt_callable = False,
     wt_answer = (\<lambda>c. Inr (PInt 1))\<rparr>"

definition sample_options :: gate where
  "sample_options = \<lparr>gt_agent = [], gt_action = [], gt_tool = None, gt_factory = None, gt_resource = None,
     gt_signals = None, gt_scope = None, gt_require_scope = False\<rparr>"

definition sample_governed_tool :: governed_tool where
  "sample_governed_tool = \<lparr>gv_name = ''read'', gv_description = ''Governed tool: read'',
     gv_gate = sample_options\<lparr>gt_agent := ''a1'', gt_action := ''read'', gt_tool := Some ''read''\<rparr>, gv_tool = sample_wrapped\<rparr>"

definition sample_governed_run :: "pyval result \<times> adapter_state" where
  "sample_governed_run = governed_run sample_crypto sample_governed_tool sample_gate_inputs [PStr ''x''] [] (sample_gate_state, [])"


theorem agent_tools_are_wrapped_witness:
  "wrap_tools (\<lambda>gv c. Inr PNone) sample_options ''a1'' \<lparr>ex_tools = [Bare sample_wrapped], ex_agent = None\<rparr>
     = (Inr [sample_governed_tool], \<lparr>ex_tools = [Wrapped sample_governed_tool], ex_agent = None\<rparr>) \<and> [sample_governed_tool] \<noteq> []"
proof -
  have w: "wrap_tools (\<lambda>gv c. Inr PNone) sample_options ''a1'' \<lparr>ex_tools = [Bare sample_wrapped], ex_agent = None\<rparr>
     = (Inr [sample_governed_tool], \<lparr>ex_tools = [Wrapped sample_governed_tool], ex_agent = None\<rparr>)"
    by (simp add: wrap_tools_def wrap_slot_def GovernedTool_def GovernanceGate_def Let_def text_or_def sample_wrapped_def
        sample_options_def sample_governed_tool_def)
  with agent_tools_are_wrapped [of "\<lambda>gv c. Inr PNone" sample_options "''a1''" "\<lparr>ex_tools = [Bare sample_wrapped], ex_agent = None\<rparr>"]
  show ?thesis by blast
qed

text \<open>
  An executor that shows tools of its own and an agent with tools keeps those of the agent as they are: they stay
  reachable without a gate.
\<close>

theorem agent_list_left_bare:
  "snd (wrap_tools (\<lambda>gv c. Inr PNone) sample_options ''a1'' \<lparr>ex_tools = [Bare sample_wrapped], ex_agent = Some [Bare sample_wrapped]\<rparr>)
     = \<lparr>ex_tools = [Wrapped sample_governed_tool], ex_agent = Some [Bare sample_wrapped]\<rparr>"
  by (simp add: wrap_tools_def wrap_slot_def GovernedTool_def GovernanceGate_def Let_def text_or_def sample_wrapped_def
      sample_options_def sample_governed_tool_def)

end
