(* ===== verification/Spec2Isabelle.thy ===== *)
theory Spec2Isabelle
  imports Dispatch Outcome ReceiptFile Messages ScopedStore RegistryFile PolicyTests McpConformance CompiledLoads Commands Adapters
begin

text \<open>
  The agent registry of \<^verbatim>\<open>hlinor_registry\<close>, modelled from its Python sources, with the theorems that make it correct.

  \<^bold>\<open>What the program does.\<close> Authors write agents, capabilities, policies and Tool Contracts as YAML files. The validators
  accept or reject a file; the compiler turns the files of a manifest into one bundle with a digest and, when asked, an
  Ed25519 signature; the policy checker loads the bundle under a trust policy and decides requests. A gate asks the checker
  before every call of a governed function or framework tool, and the runtime binds a reviewed Tool Contract to callables
  and takes every call through arguments, resource, scope, delegation, approval, policy, circuit breaker and budget before
  the tool sees it, with a receipt of each outcome in a hash-chained log. Around it are signed messages, a scoped store,
  static checks of contracts and of source coverage, and a command line.

  \<^bold>\<open>How it is modelled.\<close> A Python value is a \<open>pyval\<close>, a dictionary an association list in insertion order, a string a list
  of characters U+0000 to U+00FF. A raised exception is the left side of a result: its class and its code or a tag of the
  raising place; message texts are modelled only where a function returns them. A class with fields is a record, a method
  that writes them returns the record updated, and a sequence of guards is a list of checks whose first failure is
  raised. SQLite tables are lists of rows, a transaction is one step that a \<open>fault\<close> may prevent, and a thread lock makes an
  operation one step; histories are lists of such steps, in any interleaving. Time is an integer of microseconds.
  Integers are unbounded in Python, so no width matters. Loops are structural recursion or \<open>function\<close>s with a measure;
  the only fuel is that of \<open>chunks_fuel\<close> (\<open>Matching\<close>), the length of the text, from which every step removes a
  character. Validators of whole files are \<open>report\<close>s, the list of their messages in order.

  \<^bold>\<open>Parameters.\<close> What is not code of the repository is an argument: SHA-256, Ed25519, RFC 8785 and the shortest decimal of
  a float (record \<open>crypto\<close>; \<open>signature_scheme\<close> states that a key verifies what its secret signed), the JSON Schema
  library (\<open>json_schema\<close>), YAML and JSON parsing (a \<open>source_file\<close> is what reading it gives, \<open>io_json\<close> what a text parses
  to), Python's syntax tree of a source, \<^verbatim>\<open>str\<close> and \<^verbatim>\<open>repr\<close> of values (\<open>shown\<close>), clocks, fresh ids, paths, and the answers
  of tools, sinks, factories and databases. A property that needs such an assumption names it and has a witness.

  \<^bold>\<open>Theories and sources\<close> (under \<^verbatim>\<open>hlinor_registry/\<close>), in the order of the imports.

  \<^item> \<open>Prelude\<close> (results, guard chains, Python strings and dictionaries, the collections \<open>guards\<close>, \<open>pystr\<close>, \<open>pydict\<close>),
    \<open>Effects\<close> (operations that keep their state when they raise, \<open>ops\<close>, \<open>keeping\<close>), \<open>Latch\<close> (a locale of stores that
    admit nothing once shut), \<open>PyTime\<close> (ISO 8601 and validity windows), \<open>Json\<close> (\<^verbatim>\<open>json.dumps\<close>, base64, \<open>crypto\<close>),
    \<open>Report\<close> (shared checks, the collection \<open>accept\<close> that turns an empty report into its conditions).
  \<^item> \<open>Matching\<close>: \<^verbatim>\<open>_matching.py\<close>. \<open>ActionRequest\<close>: \<^verbatim>\<open>action_request.py\<close>, \<^verbatim>\<open>execution_scope.py\<close>, \<^verbatim>\<open>enums.py\<close>. \<open>Policies\<close>:
    \<^verbatim>\<open>policies.py\<close>. \<open>Signing\<close>: \<^verbatim>\<open>signing.py\<close>. \<open>PolicyChecker\<close>: \<^verbatim>\<open>policy_checker.py\<close>, \<^verbatim>\<open>bundle_cache.py\<close>, \<^verbatim>\<open>decision.py\<close>.
    \<open>Gate\<close>: \<^verbatim>\<open>integrations/_gate.py\<close> and the decorator. \<open>Adapters\<close>: the adapters of LangChain, CrewAI, AutoGen and plain
    Python.
  \<^item> \<open>SignedObjects\<close>, \<open>ReplayGuard\<close>, \<open>Approvals\<close>, \<open>Receipts\<close>, \<open>ReceiptFile\<close>: \<^verbatim>\<open>execution_receipts.py\<close>. \<open>FanOut\<close>,
    \<open>Delegation\<close>, \<open>DelegationChain\<close>, \<open>DelegationTransport\<close>: \<^verbatim>\<open>delegation.py\<close>. \<open>Messages\<close>: \<^verbatim>\<open>message_transport.py\<close>.
    \<open>ScopedStore\<close>: \<^verbatim>\<open>scoped_store.py\<close>. \<open>Breaker\<close>: \<^verbatim>\<open>circuit_breaker.py\<close>. \<open>RuntimeLimits\<close>: \<^verbatim>\<open>runtime_limits.py\<close>.
    \<open>Outcome\<close>: \<^verbatim>\<open>outcome.py\<close>. \<open>Observability\<close>: \<^verbatim>\<open>observability.py\<close>.
  \<^item> \<open>ToolContract\<close>: \<^verbatim>\<open>tool_contract.py\<close>. \<open>BoundTool\<close> and \<open>Invoke\<close>: \<^verbatim>\<open>runtime_binding.py\<close>, with the lemmas of an invocation
    in \<open>Invocation\<close> and its properties in \<open>Dispatch\<close>.
  \<^item> \<open>Validators\<close>, \<open>Lifecycle\<close>, \<open>RegistryFile\<close>: \<^verbatim>\<open>validator.py\<close>. \<open>AgentContract\<close>: \<^verbatim>\<open>agent_contract.py\<close>. \<open>Drift\<close>:
    \<^verbatim>\<open>contract_drift.py\<close>. \<open>Coverage\<close>: \<^verbatim>\<open>governance_coverage.py\<close>. \<open>PolicyTests\<close>: \<^verbatim>\<open>policy_tests.py\<close>. \<open>McpConformance\<close>:
    \<^verbatim>\<open>mcp_conformance.py\<close>. \<open>ToolExport\<close>: \<^verbatim>\<open>tool_export.py\<close>.
  \<^item> \<open>Compile\<close> and \<open>Commands\<close>: \<^verbatim>\<open>cli.py\<close>. \<open>Reread\<close> says what \<^verbatim>\<open>json.load\<close> gives for what \<^verbatim>\<open>json.dump\<close> wrote, and
    \<open>CompiledLoads\<close> connects the compiler with the loader of the checker.

  \<^bold>\<open>Interfaces.\<close> \<open>latch\<close>: the breaker, the kill switch and revocations refuse for every history until they are reopened.
  \<open>replay_guard\<close>: the in-memory and the SQLite guard, on which single-use approvals, envelopes and messages rest.
  \<open>fan_out_guard\<close>: both fan-out guards. \<open>receipt_sink\<close>: the chain in memory and its file. \<open>untouched_view\<close>: reads of one
  scope of the store. \<open>adapter\<close>: the five ways a framework wrapper hands a call on. Each is interpreted on the code's
  own operations where they are defined.

  \<^bold>\<open>What is shown.\<close>

  \<^item> Enforcement: the decision of the checker is exactly its specification \<open>authorised\<close>, blocked names are blocked in every
    spelling, and no governed function, adapter or bound tool is entered before its checks; refusals leave a receipt and
    no lease; what an invocation returns is the tool's value and is recorded.
  \<^item> Trust: signatures cannot be downgraded, every decision is made under trust that holds then, a failed reload keeps a
    verified bundle; what is signed verifies; approvals, envelopes and messages are accepted once; delegations attenuate
    and are revoked with everything below them.
  \<^item> State: the invariants and bounds of the breaker, the leases, the fan-out and the scoped store through every history;
    receipt chains verify, are fixed by their last hash and survive a restart.
  \<^item> Authoring: what an aligned report, a covered report, an accepted contract and a linted agent mean; a compiled bundle
    comes from accepted files only and loads with the bindings the compiler reported.
  \<^item> Command line: the status of \<^verbatim>\<open>check\<close> is the decision and the log holds it; \<^verbatim>\<open>explain\<close> answers the same.

  \<^bold>\<open>What the model showed.\<close> Some theorems without a number exhibit behaviour that differs from what the code or its documents
  intend, among them: a refused call releases the lease of another call with its id, a budget refusal keeps the
  breaker's only probe, a claim is forgotten while its token is still accepted within the clock skew, \<^verbatim>\<open>compile\<close> writes a
  bundle that no checker loads, an exception during \<^verbatim>\<open>check\<close> ends with the status of a denial, and an agent's second
  tool list stays ungoverned.

  \<^bold>\<open>Not modelled.\<close> The construction of the argument parser (\<^verbatim>\<open>argparse\<close>; a parsed command is the input of \<open>run_command\<close>);
  PEM and file reading of keys; the SQL text and the pragmas of the databases; locks and true concurrency inside one
  operation; the asynchronous scheduling of coroutines; characters beyond U+00FF; rounding of binary floats; logging;
  the validation of fields by the base classes of the frameworks; the size limits of files, which are part of what
  reading a file gives; and the package's re-exports, benchmarks, examples and repository scripts.
\<close>

end
